(* ===== verification/Go_Prelude.thy ===== *)
theory Go_Prelude
  imports Main "HOL-Library.Word" "HOL-Library.Sublist" "HOL-Library.Char_ord"
    "HOL-Library.Monad_Syntax"
begin

text \<open>
  Shared vocabulary of the development: Go's byte strings and the functions of the
  standard packages \<open>strings\<close> and \<open>encoding/binary\<close> that mysqlmock calls.

  A Go string is its list of bytes, a \<^typ>\<open>char list\<close>; a \<open>[]byte\<close> packet
  is a list of \<open>8 word\<close>. Library functions that look at letters or white space
  (\<open>ToUpper\<close>, \<open>ToLower\<close>, \<open>EqualFold\<close>, \<open>TrimSpace\<close>, \<open>Fields\<close>)
  are given by what they do on ASCII bytes and leave bytes above 127 alone: the models
  that use them describe the program on SQL text whose letters and blanks are ASCII.
\<close>

subsection \<open>Collections of the shared proof hints\<close>

named_theorems scan_bounds \<open>bounds on the positions the SQL scanner returns\<close>
named_theorems scan_id \<open>translation passes that leave a text alone\<close>

type_synonym byte = "8 word"
type_synonym bytes = "8 word list"

subsection \<open>Characters the scanner tests for\<close>

abbreviation sq :: char where "sq \<equiv> CHR 0x27"
abbreviation dq :: char where "dq \<equiv> CHR 0x22"
abbreviation bq :: char where "bq \<equiv> CHR 0x60"
abbreviation bslash :: char where "bslash \<equiv> CHR 0x5C"
abbreviation nl :: char where "nl \<equiv> CHR 0x0A"

subsection \<open>Slices\<close>

text \<open>\<open>s[a:b]\<close>. Go panics unless \<open>a \<le> b \<le> len(s)\<close>; every use below is either
  guarded by lemmas on the bounds or tests the condition explicitly.\<close>

definition gslice :: "'a list \<Rightarrow> nat \<Rightarrow> nat \<Rightarrow> 'a list" where
  "gslice s a b = take (b - a) (drop a s)"

lemma gslice_same [simp]: "gslice s a a = []"
  by (simp add: gslice_def)

lemma gslice_all [simp]: "gslice s 0 (length s) = s"
  by (simp add: gslice_def)

lemma length_gslice [simp]: "length (gslice s a b) = min (b - a) (length s - a)"
  by (simp add: gslice_def min.commute)

lemma gslice_drop: "gslice s a (length s) = drop a s"
  by (simp add: gslice_def)

lemma gslice_append_drop: "a \<le> b \<Longrightarrow> gslice s a b @ drop b s = drop a s"
  by (metis gslice_def append_take_drop_id drop_drop le_add_diff_inverse2)

lemma gslice_append_slice: "a \<le> b \<Longrightarrow> b \<le> c \<Longrightarrow> gslice s a b @ gslice s b c = gslice s a c"
proof -
  assume a: "a \<le> b" "b \<le> c"
  then have "c - a = (b - a) + (c - b)" by simp
  then have "gslice s a c = take (b - a) (drop a s) @ take (c - b) (drop (b - a) (drop a s))"
    by (simp only: gslice_def take_add)
  with a show ?thesis by (simp add: gslice_def)
qed

lemma gslice_Suc: "a < length s \<Longrightarrow> gslice s a (Suc a) = [s ! a]"
  by (simp add: gslice_def Cons_nth_drop_Suc [symmetric])

lemma gslice_Cons: "a < b \<Longrightarrow> a < length s \<Longrightarrow> gslice s a b = s ! a # gslice s (Suc a) b"
  using gslice_append_slice [of a "Suc a" b s] by (simp add: gslice_Suc)

lemma nth_append_drop: "i < length s \<Longrightarrow> s ! i # drop (Suc i) s = drop i s"
  by (simp add: Cons_nth_drop_Suc)

lemma nth_gslice: "i < b - a \<Longrightarrow> b \<le> length s \<Longrightarrow> gslice s a b ! i = s ! (a + i)"
  by (simp add: gslice_def)

lemma take_gslice: "take n (drop a s) = gslice s a (a + n)"
  by (simp add: gslice_def)

subsection \<open>Package strings\<close>

definition HasPrefix :: "string \<Rightarrow> string \<Rightarrow> bool" where
  "HasPrefix s p = prefix p s"

definition HasSuffix :: "string \<Rightarrow> string \<Rightarrow> bool" where
  "HasSuffix s p = suffix p s"

definition Contains :: "string \<Rightarrow> string \<Rightarrow> bool" where
  "Contains s p = sublist p s"

definition TrimPrefix :: "string \<Rightarrow> string \<Rightarrow> string" where
  "TrimPrefix s p = (if HasPrefix s p then drop (length p) s else s)"

definition TrimSuffix :: "string \<Rightarrow> string \<Rightarrow> string" where
  "TrimSuffix s p = (if HasSuffix s p then take (length s - length p) s else s)"

text \<open>The letters of either case differ in bit 5.\<close>

definition upper_byte :: "char \<Rightarrow> char" where
  "upper_byte c = (if CHR ''a'' \<le> c \<and> c \<le> CHR ''z''
     then (case c of Char b0 b1 b2 b3 b4 b5 b6 b7 \<Rightarrow> Char b0 b1 b2 b3 b4 False b6 b7) else c)"

definition lower_byte :: "char \<Rightarrow> char" where
  "lower_byte c = (if CHR ''A'' \<le> c \<and> c \<le> CHR ''Z''
     then (case c of Char b0 b1 b2 b3 b4 b5 b6 b7 \<Rightarrow> Char b0 b1 b2 b3 b4 True b6 b7) else c)"

definition ToUpper :: "string \<Rightarrow> string" where
  "ToUpper s = map upper_byte s"

definition ToLower :: "string \<Rightarrow> string" where
  "ToLower s = map lower_byte s"

definition EqualFold :: "string \<Rightarrow> string \<Rightarrow> bool" where
  "EqualFold a b = (ToLower a = ToLower b)"

text \<open>\<open>unicode.IsSpace\<close> on ASCII: tab, newline, vertical tab, form feed, return, space.\<close>

definition isSpace :: "char \<Rightarrow> bool" where
  "isSpace c = (c = CHR '' '' \<or> c = CHR 0x09 \<or> c = CHR 0x0A \<or> c = CHR 0x0B \<or> c = CHR 0x0C \<or> c = CHR 0x0D)"

definition TrimLeftFunc :: "string \<Rightarrow> (char \<Rightarrow> bool) \<Rightarrow> string" where
  "TrimLeftFunc s f = dropWhile f s"

definition TrimRightFunc :: "string \<Rightarrow> (char \<Rightarrow> bool) \<Rightarrow> string" where
  "TrimRightFunc s f = rev (dropWhile f (rev s))"

definition TrimSpace :: "string \<Rightarrow> string" where
  "TrimSpace s = TrimRightFunc (TrimLeftFunc s isSpace) isSpace"

function Fields :: "string \<Rightarrow> string list" where
  "Fields s = (let t = dropWhile isSpace s in
     if t = [] then []
     else takeWhile (\<lambda>c. \<not> isSpace c) t # Fields (dropWhile (\<lambda>c. \<not> isSpace c) t))"
  by pat_completeness auto
termination
proof (relation "measure length", goal_cases)
  case 1 show ?case by simp
next
  case (2 s x)
  have "x = dropWhile isSpace s" using 2(1) by simp
  moreover have "x \<noteq> []" using 2(2) .
  ultimately have hd: "\<not> isSpace (hd x)" using hd_dropWhile by metis
  then have "length (dropWhile (\<lambda>c. \<not> isSpace c) x) < length x"
    using \<open>x \<noteq> []\<close> by (cases x) (auto simp: le_imp_less_Suc length_dropWhile_le)
  also have "\<dots> \<le> length s"
    using \<open>x = dropWhile isSpace s\<close> by (simp add: length_dropWhile_le)
  finally show ?case by simp
qed

declare Fields.simps [simp del]

fun Join :: "string list \<Rightarrow> string \<Rightarrow> string" where
  "Join [] sep = []"
| "Join [x] sep = x"
| "Join (x # y # r) sep = x @ sep @ Join (y # r) sep"

fun IndexByte :: "string \<Rightarrow> char \<Rightarrow> nat option" where
  "IndexByte [] c = None"
| "IndexByte (x # xs) c = (if x = c then Some 0 else map_option Suc (IndexByte xs c))"

text \<open>\<open>strings.ReplaceAll(s, [c], t)\<close> for a single byte \<open>c\<close>.\<close>

definition ReplaceByte :: "string \<Rightarrow> char \<Rightarrow> string \<Rightarrow> string" where
  "ReplaceByte s c t = concat (map (\<lambda>x. if x = c then t else [x]) s)"

definition isDigit :: "char \<Rightarrow> bool" where
  "isDigit c = (CHR ''0'' \<le> c \<and> c \<le> CHR ''9'')"

subsection \<open>Lemmas on the string functions\<close>

lemma TrimSuffix_length: "length (TrimSuffix s p) \<le> length s"
  by (simp add: TrimSuffix_def)

lemma length_ToUpper [simp]: "length (ToUpper s) = length s"
  by (simp add: ToUpper_def)

lemma length_ToLower [simp]: "length (ToLower s) = length s"
  by (simp add: ToLower_def)

lemma EqualFold_refl [simp]: "EqualFold s s"
  by (simp add: EqualFold_def)

lemma EqualFold_sym: "EqualFold a b \<Longrightarrow> EqualFold b a"
  by (simp add: EqualFold_def)

lemma EqualFold_trans: "EqualFold a b \<Longrightarrow> EqualFold b c \<Longrightarrow> EqualFold a c"
  by (simp add: EqualFold_def)

lemma EqualFold_length: "EqualFold a b \<Longrightarrow> length a = length b"
  by (metis EqualFold_def length_ToLower)

lemma lower_byte_idem [simp]: "lower_byte (lower_byte c) = lower_byte c"
  by (cases c) (auto simp: lower_byte_def)

lemma ToLower_idem [simp]: "ToLower (ToLower s) = ToLower s"
  by (simp add: ToLower_def)

lemma Join_Cons: "xs \<noteq> [] \<Longrightarrow> Join (x # xs) sep = x @ sep @ Join xs sep"
  by (cases xs) auto

lemma Join_append_last: "Join (xs @ [x @ y]) sep = Join (xs @ [x]) sep @ y"
  by (induction xs) (auto simp: Join_Cons)

lemma ReplaceByte_Nil [simp]: "ReplaceByte [] c t = []"
  by (simp add: ReplaceByte_def)

lemma ReplaceByte_Cons [simp]:
  "ReplaceByte (x # xs) c t = (if x = c then t else [x]) @ ReplaceByte xs c t"
  by (simp add: ReplaceByte_def)

lemma ReplaceByte_append [simp]: "ReplaceByte (xs @ ys) c t = ReplaceByte xs c t @ ReplaceByte ys c t"
  by (simp add: ReplaceByte_def)

lemma ReplaceByte_notin: "c \<notin> set s \<Longrightarrow> ReplaceByte s c t = s"
  by (induction s) auto

end
