(* ===== verification/Sql_Scanner.thy ===== *)
theory Sql_Scanner
  imports Go_Prelude
begin

text \<open>
  The SQL scanner of \<open>pkg/mysqlmock/sqlscanner.go\<close>: quoted spans, comments,
  identifiers, names, parenthesised spans, and the two top-level splitters. Positions are
  byte offsets (\<^typ>\<open>nat\<close>); a Go result \<open>(..., ok bool)\<close> is an \<open>option\<close>,
  whose \<open>None\<close> is \<open>ok = false\<close> (no caller reads the position returned with
  \<open>false\<close>), and \<open>-1\<close> is \<open>None\<close> as well. A \<open>*pos\<close> argument is
  passed in and returned.

  The lemmas show that every span makes progress and stays inside the text, so that the
  scanning loops end and no gslice the program takes of a span can panic.
\<close>

subsection \<open>Character classes\<close>

definition isSQLIdentifierStart :: "char \<Rightarrow> bool" where
  "isSQLIdentifierStart ch = (ch = CHR ''_'' \<or> (CHR ''A'' \<le> ch \<and> ch \<le> CHR ''Z'')
     \<or> (CHR ''a'' \<le> ch \<and> ch \<le> CHR ''z''))"

definition isSQLIdentifierPart :: "char \<Rightarrow> bool" where
  "isSQLIdentifierPart ch = (isSQLIdentifierStart ch \<or> (CHR ''0'' \<le> ch \<and> ch \<le> CHR ''9'')
     \<or> ch = CHR ''$'')"

definition isSQLSpace :: "char \<Rightarrow> bool" where
  "isSQLSpace ch = (ch = CHR '' '' \<or> ch = CHR 0x09 \<or> ch = CHR 0x0A \<or> ch = CHR 0x0D \<or> ch = CHR 0x0C)"

definition isQuote :: "char \<Rightarrow> bool" where
  "isQuote c = (c = sq \<or> c = dq \<or> c = bq)"

subsection \<open>Spans\<close>

text \<open>The loop of \<open>quotedSQLSpan\<close> after the opening quote.\<close>

function quoted_loop :: "string \<Rightarrow> char \<Rightarrow> nat \<Rightarrow> nat" where
  "quoted_loop sqlText quote i =
     (if i < length sqlText then
        if sqlText ! i = bslash \<and> quote \<noteq> bq \<and> i + 1 < length sqlText
        then quoted_loop sqlText quote (i + 2)
        else if sqlText ! i = quote then
          if quote \<noteq> bq \<and> i + 1 < length sqlText \<and> sqlText ! (i + 1) = quote
          then quoted_loop sqlText quote (i + 2)
          else i + 1
        else quoted_loop sqlText quote (i + 1)
      else length sqlText)"
  by pat_completeness auto
termination by (relation "measure (\<lambda>(s, q, i). length s - i)") auto

declare quoted_loop.simps [simp del]

definition quotedSQLSpan :: "string \<Rightarrow> nat \<Rightarrow> nat option" where
  "quotedSQLSpan sqlText pos =
     (if pos \<ge> length sqlText then None
      else let quote = sqlText ! pos in
        if quote \<noteq> sq \<and> quote \<noteq> dq \<and> quote \<noteq> bq then None
        else Some (quoted_loop sqlText quote (pos + 1)))"

text \<open>\<open>for i < len \<and> s[i] != '\n'\<close> and the step over the newline.\<close>

function line_end :: "string \<Rightarrow> nat \<Rightarrow> nat" where
  "line_end s i = (if i < length s then if s ! i = nl then i + 1 else line_end s (i + 1) else i)"
  by pat_completeness auto
termination by (relation "measure (\<lambda>(s, i). length s - i)") auto

declare line_end.simps [simp del]

function block_end :: "string \<Rightarrow> nat \<Rightarrow> nat" where
  "block_end s i =
     (if i + 1 < length s then
        if s ! i = CHR ''*'' \<and> s ! (i + 1) = CHR ''/'' then i + 2 else block_end s (i + 1)
      else length s)"
  by pat_completeness auto
termination by (relation "measure (\<lambda>(s, i). length s - i)") auto

declare block_end.simps [simp del]

text \<open>Every caller has \<open>pos < len(sqlText)\<close>; Go would panic otherwise.\<close>

definition sqlCommentSpan :: "string \<Rightarrow> nat \<Rightarrow> nat option" where
  "sqlCommentSpan sqlText pos =
     (if pos + 1 < length sqlText \<and> sqlText ! pos = CHR ''-'' \<and> sqlText ! (pos + 1) = CHR ''-''
      then Some (line_end sqlText (pos + 2))
      else if pos < length sqlText \<and> sqlText ! pos = CHR ''#''
      then Some (line_end sqlText (pos + 1))
      else if pos + 1 < length sqlText \<and> sqlText ! pos = CHR ''/'' \<and> sqlText ! (pos + 1) = CHR ''*''
      then Some (block_end sqlText (pos + 2))
      else None)"

text \<open>The first two tests of every scanning loop: skip a quoted span, else a comment.\<close>

definition skipSpan :: "string \<Rightarrow> nat \<Rightarrow> nat option" where
  "skipSpan sqlText i =
     (case quotedSQLSpan sqlText i of Some e \<Rightarrow> Some e | None \<Rightarrow> sqlCommentSpan sqlText i)"

function skipSQLSpaces :: "string \<Rightarrow> nat \<Rightarrow> nat" where
  "skipSQLSpaces sqlText pos =
     (if pos < length sqlText \<and> isSQLSpace (sqlText ! pos)
      then skipSQLSpaces sqlText (pos + 1) else pos)"
  by pat_completeness auto
termination by (relation "measure (\<lambda>(s, i). length s - i)") auto

declare skipSQLSpaces.simps [simp del]

function ident_end :: "string \<Rightarrow> nat \<Rightarrow> nat" where
  "ident_end s pos =
     (if pos < length s \<and> isSQLIdentifierPart (s ! pos) then ident_end s (pos + 1) else pos)"
  by pat_completeness auto
termination by (relation "measure (\<lambda>(s, i). length s - i)") auto

declare ident_end.simps [simp del]

definition readSQLIdentifier :: "string \<Rightarrow> nat \<Rightarrow> (string \<times> nat) option" where
  "readSQLIdentifier sqlText pos =
     (if pos \<ge> length sqlText \<or> \<not> isSQLIdentifierStart (sqlText ! pos) then None
      else let e = ident_end sqlText (pos + 1) in Some (gslice sqlText pos e, e))"

definition consumeKeyword :: "string \<Rightarrow> nat \<Rightarrow> string \<Rightarrow> nat option" where
  "consumeKeyword sqlText pos keyword =
     (case readSQLIdentifier sqlText (skipSQLSpaces sqlText pos) of
        None \<Rightarrow> None
      | Some (word, next) \<Rightarrow> if EqualFold word keyword then Some next else None)"

text \<open>\<open>_ = consumeKeyword(...)\<close>, and the short-circuit \<open>!consume(a) && !consume(b)\<close>.\<close>

definition consumeOptional :: "string \<Rightarrow> nat \<Rightarrow> string \<Rightarrow> nat" where
  "consumeOptional sqlText pos keyword =
     (case consumeKeyword sqlText pos keyword of Some p \<Rightarrow> p | None \<Rightarrow> pos)"

definition consumeEither :: "string \<Rightarrow> nat \<Rightarrow> string \<Rightarrow> string \<Rightarrow> nat option" where
  "consumeEither sqlText pos k1 k2 =
     (case consumeKeyword sqlText pos k1 of Some p \<Rightarrow> Some p | None \<Rightarrow> consumeKeyword sqlText pos k2)"

definition readSQLNameToken :: "string \<Rightarrow> nat \<Rightarrow> (string \<times> nat) option" where
  "readSQLNameToken sqlText pos0 =
     (let pos = skipSQLSpaces sqlText pos0 in
      if pos \<ge> length sqlText then None
      else if sqlText ! pos = bq \<or> sqlText ! pos = dq then
        (case quotedSQLSpan sqlText pos of
           None \<Rightarrow> None
         | Some e \<Rightarrow> Some (gslice sqlText pos e, e))
      else readSQLIdentifier sqlText pos)"

subsection \<open>Bounds of the spans\<close>

lemma quoted_loop_gt [scan_bounds]: "i \<le> length s \<Longrightarrow> i \<le> quoted_loop s q i \<and> quoted_loop s q i \<le> length s"
proof (induction s q i rule: quoted_loop.induct)
  case (1 s q i)
  then show ?case by (subst (1 2) quoted_loop.simps) auto
qed

lemma quotedSQLSpan_bounds [scan_bounds]:
  "quotedSQLSpan s pos = Some e \<Longrightarrow> pos < e \<and> e \<le> length s"
  using quoted_loop_gt [of "pos + 1" s "s ! pos"]
  by (auto simp: quotedSQLSpan_def Let_def split: if_splits)

lemma line_end_bounds [scan_bounds]: "i \<le> length s \<Longrightarrow> i \<le> line_end s i \<and> line_end s i \<le> length s"
proof (induction s i rule: line_end.induct)
  case (1 s i)
  then show ?case by (subst (1 2) line_end.simps) auto
qed

lemma block_end_bounds [scan_bounds]: "i \<le> length s \<Longrightarrow> i \<le> block_end s i \<and> block_end s i \<le> length s"
proof (induction s i rule: block_end.induct)
  case (1 s i)
  then show ?case by (subst (1 2) block_end.simps) auto
qed

lemma sqlCommentSpan_bounds [scan_bounds]:
  "sqlCommentSpan s pos = Some e \<Longrightarrow> pos < e \<and> e \<le> length s"
  using line_end_bounds [of "pos + 2" s] line_end_bounds [of "pos + 1" s] block_end_bounds [of "pos + 2" s]
  by (auto simp: sqlCommentSpan_def split: if_splits)

lemma skipSpan_bounds [scan_bounds]: "skipSpan s i = Some e \<Longrightarrow> i < e \<and> e \<le> length s"
  by (auto simp: skipSpan_def split: option.splits
      dest: quotedSQLSpan_bounds sqlCommentSpan_bounds)

lemma skipSQLSpaces_ge [scan_bounds]: "pos \<le> skipSQLSpaces s pos"
proof (induction s pos rule: skipSQLSpaces.induct)
  case (1 s pos)
  then show ?case by (subst skipSQLSpaces.simps) auto
qed

lemma skipSQLSpaces_le [scan_bounds]: "pos \<le> length s \<Longrightarrow> skipSQLSpaces s pos \<le> length s"
proof (induction s pos rule: skipSQLSpaces.induct)
  case (1 s pos)
  then show ?case by (subst skipSQLSpaces.simps) auto
qed

lemma ident_end_bounds [scan_bounds]: "i \<le> length s \<Longrightarrow> i \<le> ident_end s i \<and> ident_end s i \<le> length s"
proof (induction s i rule: ident_end.induct)
  case (1 s i)
  then show ?case by (subst (1 2) ident_end.simps) auto
qed

lemma readSQLIdentifier_bounds [scan_bounds]:
  "readSQLIdentifier s pos = Some (w, e) \<Longrightarrow> pos < e \<and> e \<le> length s \<and> w = gslice s pos e"
  using ident_end_bounds [of "pos + 1" s]
  by (auto simp: readSQLIdentifier_def Let_def split: if_splits)

lemma skipSQLSpaces_lt [dest]: "skipSQLSpaces s pos < e \<Longrightarrow> pos < e"
  using skipSQLSpaces_ge [of pos s] by simp

lemma consumeKeyword_bounds [scan_bounds]:
  "consumeKeyword s pos k = Some e \<Longrightarrow> pos < e \<and> e \<le> length s"
  by (auto simp: consumeKeyword_def split: option.splits if_splits dest!: readSQLIdentifier_bounds)

lemma readSQLNameToken_bounds [scan_bounds]:
  "readSQLNameToken s pos = Some (w, e) \<Longrightarrow> pos < e \<and> e \<le> length s \<and> w = gslice s (skipSQLSpaces s pos) e"
  by (auto simp: readSQLNameToken_def Let_def split: option.splits if_splits
      dest!: readSQLIdentifier_bounds quotedSQLSpan_bounds)

lemma scan_measure [termination_simp]:
  "skipSpan s i = Some e \<Longrightarrow> i < length s \<Longrightarrow> length s - e < length s - i"
  using skipSpan_bounds by fastforce

lemma ident_measure [termination_simp]:
  "readSQLIdentifier s i = Some (w, e) \<Longrightarrow> length s - e < length s - i"
  using readSQLIdentifier_bounds by fastforce

lemma name_measure [termination_simp]:
  "readSQLNameToken s i = Some (w, e) \<Longrightarrow> length s - e < length s - i"
  using readSQLNameToken_bounds by fastforce

subsection \<open>Loops over the text\<close>

text \<open>\<open>splitSQLTopLevelList\<close>: \<open>start\<close> is where the current item begins.\<close>

function split_loop :: "string \<Rightarrow> nat \<Rightarrow> nat \<Rightarrow> nat \<Rightarrow> string list" where
  "split_loop sqlText start depth i =
     (if i < length sqlText then
        case skipSpan sqlText i of
          Some e \<Rightarrow> split_loop sqlText start depth e
        | None \<Rightarrow>
            if sqlText ! i = CHR ''('' then split_loop sqlText start (depth + 1) (i + 1)
            else if sqlText ! i = CHR '')'' then
              split_loop sqlText start (if depth > 0 then depth - 1 else depth) (i + 1)
            else if sqlText ! i = CHR '','' \<and> depth = 0 then
              gslice sqlText start i # split_loop sqlText (i + 1) depth (i + 1)
            else split_loop sqlText start depth (i + 1)
      else [gslice sqlText start (length sqlText)])"
  by pat_completeness auto
termination by (relation "measure (\<lambda>(s, st, d, i). length s - i)") (auto simp: termination_simp)

declare split_loop.simps [simp del]

definition splitSQLTopLevelList :: "string \<Rightarrow> string list" where
  "splitSQLTopLevelList sqlText = split_loop sqlText 0 0 0"

function find_kw_loop :: "string \<Rightarrow> string \<Rightarrow> nat \<Rightarrow> nat \<Rightarrow> nat option" where
  "find_kw_loop sqlText keyword depth i =
     (if i < length sqlText then
        case skipSpan sqlText i of
          Some e \<Rightarrow> find_kw_loop sqlText keyword depth e
        | None \<Rightarrow>
            if sqlText ! i = CHR ''('' then find_kw_loop sqlText keyword (depth + 1) (i + 1)
            else if sqlText ! i = CHR '')'' then
              find_kw_loop sqlText keyword (if depth > 0 then depth - 1 else depth) (i + 1)
            else (case readSQLIdentifier sqlText i of
                None \<Rightarrow> find_kw_loop sqlText keyword depth (i + 1)
              | Some (word, e) \<Rightarrow>
                  if depth = 0 \<and> EqualFold word keyword then Some i
                  else find_kw_loop sqlText keyword depth e)
      else None)"
  by pat_completeness auto
termination by (relation "measure (\<lambda>(s, k, d, i). length s - i)") (auto simp: termination_simp)

declare find_kw_loop.simps [simp del]

definition findTopLevelSQLKeyword :: "string \<Rightarrow> nat \<Rightarrow> string \<Rightarrow> nat option" where
  "findTopLevelSQLKeyword sqlText pos keyword = find_kw_loop sqlText keyword 0 pos"

function paren_loop :: "string \<Rightarrow> int \<Rightarrow> nat \<Rightarrow> nat option" where
  "paren_loop sqlText depth i =
     (if i < length sqlText then
        case skipSpan sqlText i of
          Some e \<Rightarrow> paren_loop sqlText depth e
        | None \<Rightarrow>
            if sqlText ! i = CHR ''('' then paren_loop sqlText (depth + 1) (i + 1)
            else if sqlText ! i = CHR '')'' then
              if depth - 1 = 0 then Some (i + 1) else paren_loop sqlText (depth - 1) (i + 1)
            else paren_loop sqlText depth (i + 1)
      else None)"
  by pat_completeness auto
termination by (relation "measure (\<lambda>(s, d, i). length s - i)") (auto simp: termination_simp)

declare paren_loop.simps [simp del]

definition parenthesizedSQLSpan :: "string \<Rightarrow> nat \<Rightarrow> nat option" where
  "parenthesizedSQLSpan sqlText pos =
     (if pos \<ge> length sqlText \<or> sqlText ! pos \<noteq> CHR ''('' then None
      else paren_loop sqlText 0 pos)"

definition consumeEmptyCall :: "string \<Rightarrow> nat \<Rightarrow> nat option" where
  "consumeEmptyCall sqlText pos =
     (let i = skipSQLSpaces sqlText pos in
      if i \<ge> length sqlText \<or> sqlText ! i \<noteq> CHR ''('' then None
      else let j = skipSQLSpaces sqlText (i + 1) in
        if j \<ge> length sqlText \<or> sqlText ! j \<noteq> CHR '')'' then None
        else Some (j + 1))"

subsection \<open>Normalisation and unquoting\<close>

definition normalizeSQL :: "string \<Rightarrow> string" where
  "normalizeSQL sqlText = Join (Fields (TrimSuffix (TrimSpace sqlText) '';'')) '' ''"

definition unquoteSQLWord :: "string \<Rightarrow> string" where
  "unquoteSQLWord value0 =
     (let value = TrimSuffix (TrimSpace value0) '';'' in
      if length value \<ge> 2 \<and> isQuote (value ! 0) \<and> value ! (length value - 1) = value ! 0
      then gslice value 1 (length value - 1) else value)"

end
