(* ===== verification/Sql_Tokens.thy ===== *)
theory Sql_Tokens
  imports Sql_Scanner
begin

text \<open>
  A specification of the scanner: a text is read as a list of tokens, each a whole span
  (quoted text or comment) or one byte. The index loops of \<open>sqlscanner.go\<close> are
  shown to compute what simple list functions compute on the tokens, which is where the
  properties about nesting and quoting come from.
\<close>

datatype token = Span string | Byte char

fun token_text :: "token \<Rightarrow> string" where
  "token_text (Span w) = w"
| "token_text (Byte c) = [c]"

function lex_from :: "string \<Rightarrow> nat \<Rightarrow> token list" where
  "lex_from s i =
     (if i < length s then
        case skipSpan s i of
          Some e \<Rightarrow> Span (gslice s i e) # lex_from s e
        | None \<Rightarrow> Byte (s ! i) # lex_from s (i + 1)
      else [])"
  by pat_completeness auto
termination by (relation "measure (\<lambda>(s, i). length s - i)") (auto simp: termination_simp)

declare lex_from.simps [simp del]

text \<open>The three shapes of a step, as rewrite rules that do not loop.\<close>

lemma lex_from_end: "length s \<le> i \<Longrightarrow> lex_from s i = []"
  by (subst lex_from.simps) simp

lemma lex_from_span:
  "i < length s \<Longrightarrow> skipSpan s i = Some e \<Longrightarrow> lex_from s i = Span (gslice s i e) # lex_from s e"
  by (subst lex_from.simps) simp

lemma lex_from_byte:
  "i < length s \<Longrightarrow> skipSpan s i = None \<Longrightarrow> lex_from s i = Byte (s ! i) # lex_from s (Suc i)"
  by (subst lex_from.simps) simp

lemmas lex_steps = lex_from_end lex_from_span lex_from_byte

text \<open>Induction along a scan: the rule every loop over spans shares.\<close>

lemma scan_induct [case_names End Span Byte]:
  assumes "\<And>i. length s \<le> i \<Longrightarrow> P i"
    and "\<And>i e. i < length s \<Longrightarrow> skipSpan s i = Some e \<Longrightarrow> P e \<Longrightarrow> P i"
    and "\<And>i. i < length s \<Longrightarrow> skipSpan s i = None \<Longrightarrow> P (Suc i) \<Longrightarrow> P i"
  shows "P i"
proof (induction "length s - i" arbitrary: i rule: less_induct)
  case less
  show ?case
  proof (cases "i < length s")
    case False
    then show ?thesis by (simp add: assms(1))
  next
    case True
    show ?thesis
    proof (cases "skipSpan s i")
      case None
      have "P (Suc i)" by (rule less) (use True in simp)
      with True None show ?thesis by (rule assms(3))
    next
      case (Some e)
      have "P e" by (rule less) (rule scan_measure [OF Some True])
      with True Some show ?thesis by (rule assms(2))
    qed
  qed
qed

lemma lex_text: "concat (map token_text (lex_from s i)) = drop i s"
proof (induction i rule: scan_induct [of s])
  case (Span i e)
  then show ?case using skipSpan_bounds [OF Span(2)]
    by (simp add: lex_from_span gslice_append_drop)
qed (simp_all add: lex_steps nth_append_drop)

subsection \<open>Splitting at a top-level separator\<close>

fun split_tokens :: "char \<Rightarrow> nat \<Rightarrow> string \<Rightarrow> token list \<Rightarrow> string list" where
  "split_tokens sep d cur [] = [cur]"
| "split_tokens sep d cur (Span w # ts) = split_tokens sep d (cur @ w) ts"
| "split_tokens sep d cur (Byte c # ts) =
     (if c = CHR ''('' then split_tokens sep (Suc d) (cur @ [c]) ts
      else if c = CHR '')'' then split_tokens sep (d - 1) (cur @ [c]) ts
      else if c = sep \<and> d = 0 then cur # split_tokens sep d [] ts
      else split_tokens sep d (cur @ [c]) ts)"

lemma split_loop_tokens:
  "start \<le> i \<Longrightarrow> i \<le> length s \<Longrightarrow>
   split_loop s start d i = split_tokens (CHR '','') d (gslice s start i) (lex_from s i)"
proof (induction i arbitrary: start d rule: scan_induct [of s])
  case (End i)
  then show ?case by (subst split_loop.simps) (auto simp: lex_from_end gslice_def)
next
  case (Span i e)
  from Span(2) have "i < e" "e \<le> length s" using skipSpan_bounds by auto
  then show ?case using Span
    by (subst split_loop.simps) (simp add: lex_from_span gslice_append_slice)
next
  case (Byte i)
  have step: "gslice s start (Suc i) = gslice s start i @ [s ! i]"
    using Byte gslice_append_slice [of start i "Suc i" s] by (simp add: gslice_Suc)
  have "split_loop s start d i =
     (if s ! i = CHR ''('' then split_loop s start (Suc d) (Suc i)
      else if s ! i = CHR '')'' then split_loop s start (d - 1) (Suc i)
      else if s ! i = CHR '','' \<and> d = 0 then gslice s start i # split_loop s (Suc i) d (Suc i)
      else split_loop s start d (Suc i))"
    using Byte(1,2) by (subst split_loop.simps) simp
  also have "\<dots> = split_tokens (CHR '','') d (gslice s start i) (Byte (s ! i) # lex_from s (Suc i))"
    using Byte by (simp add: step)
  finally show ?case using Byte(1,2) by (simp only: lex_from_byte)
qed

lemma Join_split_tokens:
  "Join (split_tokens sep d cur ts) [sep] = cur @ concat (map token_text ts)"
proof (induction sep d cur ts rule: split_tokens.induct)
  case (3 sep d cur c ts)
  have ne: "split_tokens sep d cur ts \<noteq> []" for sep d cur ts
    by (induction sep d cur ts rule: split_tokens.induct) auto
  show ?case using 3 by (simp add: Join_Cons ne)
qed auto

lemma split_tokens_nonempty [simp]: "split_tokens sep d cur ts \<noteq> []"
  by (induction sep d cur ts rule: split_tokens.induct) auto

subsection \<open>Nesting depth\<close>

fun net_depth :: "token list \<Rightarrow> int" where
  "net_depth [] = 0"
| "net_depth (Span w # ts) = net_depth ts"
| "net_depth (Byte c # ts) =
     (if c = CHR ''('' then 1 else if c = CHR '')'' then - 1 else 0) + net_depth ts"

lemma net_depth_append [simp]: "net_depth (xs @ ys) = net_depth xs + net_depth ys"
  by (induction xs rule: net_depth.induct) auto

text \<open>\<open>closes d ts\<close>: read from depth \<open>d\<close>, the tokens come back to depth 0 with
  the last of them, a closing bracket, and not before.\<close>

definition closes :: "int \<Rightarrow> token list \<Rightarrow> bool" where
  "closes d ts \<longleftrightarrow> ts \<noteq> [] \<and> last ts = Byte (CHR '')'') \<and> d + net_depth ts = 0 \<and>
     (\<forall>k. 0 < k \<and> k < length ts \<longrightarrow> d + net_depth (take k ts) > 0)"

lemma closes_Cons:
  assumes "closes (d + net_depth [t]) ts" "d + net_depth [t] > 0"
  shows "closes d (t # ts)"
  unfolding closes_def
proof (intro conjI allI impI)
  show "t # ts \<noteq> []" by simp
  show "last (t # ts) = Byte (CHR '')'')" using assms(1) by (simp add: closes_def)
  have nd: "net_depth (t # xs) = net_depth [t] + net_depth xs" for xs
    using net_depth_append [of "[t]" xs] by simp
  show "d + net_depth (t # ts) = 0" using assms(1) nd [of ts] by (simp add: closes_def)
  fix k assume k: "0 < k \<and> k < length (t # ts)"
  then obtain j where j: "k = Suc j" by (cases k) auto
  show "0 < d + net_depth (take k (t # ts))"
  proof (cases "j = 0")
    case True
    then show ?thesis using assms(2) j by simp
  next
    case False
    then have "d + net_depth [t] + net_depth (take j ts) > 0"
      using assms(1) k j by (simp add: closes_def)
    then show ?thesis using nd [of "take j ts"] j by simp
  qed
qed

lemma closes_single: "closes 1 [Byte (CHR '')'')]"
  by (simp add: closes_def)

text \<open>What \<open>paren_loop\<close> returns once the first bracket has been read.\<close>

lemma paren_loop_closes:
  "paren_loop s d i = Some e \<Longrightarrow> d > 0 \<Longrightarrow>
   \<exists>ts us. lex_from s i = ts @ us \<and> closes d ts \<and> i < e \<and> e \<le> length s \<and>
     concat (map token_text ts) = gslice s i e"
proof (induction i arbitrary: d rule: scan_induct [of s])
  case (End i)
  then show ?case by (subst (asm) paren_loop.simps) simp
next
  case (Span i j)
  have b: "i < j" "j \<le> length s" using skipSpan_bounds [OF Span(2)] by auto
  have "paren_loop s d j = Some e"
    using Span(1,2,4) by (subst (asm) paren_loop.simps) simp
  from Span(3) [OF this Span(5)] obtain ts us where
    IH: "lex_from s j = ts @ us" "closes d ts" "j < e" "e \<le> length s"
      "concat (map token_text ts) = gslice s j e" by blast
  have "closes d (Span (gslice s i j) # ts)" by (rule closes_Cons) (use IH Span(5) in auto)
  then show ?case using IH b Span(1,2)
    by (intro exI [of _ "Span (gslice s i j) # ts"] exI [of _ us])
       (simp add: lex_from_span gslice_append_slice)
next
  case (Byte i)
  let ?c = "s ! i"
  let ?d = "d + net_depth [Byte ?c]"
  show ?case
  proof (cases "?c = CHR '')'' \<and> d = 1")
    case True
    then have "e = Suc i" using Byte(1,2,4) by (subst (asm) paren_loop.simps) simp
    then show ?thesis using Byte(1,2) True closes_single
      by (intro exI [of _ "[Byte ?c]"] exI [of _ "lex_from s (Suc i)"])
         (simp add: lex_from_byte gslice_Suc)
  next
    case False
    have "paren_loop s ?d (Suc i) = Some e"
      using Byte(1,2,4) False by (subst (asm) paren_loop.simps) (auto split: if_splits)
    moreover have pos: "?d > 0" using Byte(5) False by auto
    ultimately obtain ts us where
      IH: "lex_from s (Suc i) = ts @ us" "closes ?d ts" "Suc i < e" "e \<le> length s"
        "concat (map token_text ts) = gslice s (Suc i) e" using Byte(3) by blast
    have "closes d (Byte ?c # ts)" by (rule closes_Cons) (use IH pos in auto)
    then show ?thesis using IH Byte(1,2)
      by (intro exI [of _ "Byte ?c # ts"] exI [of _ us])
         (simp add: lex_from_byte gslice_Cons)
  qed
qed

text \<open>The converse: the loop finds the bracket that closes.\<close>

lemma closes_tail:
  assumes "closes d (t # ts)" "ts \<noteq> []"
  shows "closes (d + net_depth [t]) ts \<and> d + net_depth [t] > 0"
proof -
  have nd: "net_depth (t # xs) = net_depth [t] + net_depth xs" for xs
    using net_depth_append [of "[t]" xs] by simp
  have pos: "\<And>k. 0 < k \<Longrightarrow> k < length (t # ts) \<Longrightarrow> d + net_depth (take k (t # ts)) > 0"
    using assms(1) by (simp add: closes_def)
  have first: "d + net_depth [t] > 0" using pos [of 1] assms(2) by simp
  have "d + net_depth [t] + net_depth (take k ts) > 0" if "0 < k" "k < length ts" for k
    using pos [of "Suc k"] that nd [of "take k ts"] by simp
  moreover have "d + net_depth [t] + net_depth ts = 0"
    using assms(1) nd [of ts] by (simp add: closes_def)
  moreover have "last ts = Byte (CHR '')'')" using assms by (simp add: closes_def)
  ultimately show ?thesis using first assms(2) by (simp add: closes_def)
qed

lemma paren_loop_complete:
  "lex_from s i = ts @ us \<Longrightarrow> closes d ts \<Longrightarrow> d > 0 \<Longrightarrow>
   paren_loop s d i = Some (i + length (concat (map token_text ts)))"
proof (induction i arbitrary: d ts rule: scan_induct [of s])
  case (End i)
  then show ?case by (simp add: lex_from_end closes_def)
next
  case (Span i j)
  have b: "i < j" "j \<le> length s" using skipSpan_bounds [OF Span(2)] by auto
  obtain ts' where ts: "ts = Span (gslice s i j) # ts'" "lex_from s j = ts' @ us"
    using Span(1,2,4,5) by (cases ts) (auto simp: lex_from_span closes_def)
  have ne: "ts' \<noteq> []" using Span(5) ts(1) by (auto simp: closes_def)
  have "closes d ts'" using closes_tail [OF Span(5) [unfolded ts(1)] ne] by simp
  from Span(3) [OF ts(2) this Span(6)] show ?case using Span(1,2) b ts(1)
    by (subst paren_loop.simps) simp
next
  case (Byte i)
  let ?c = "s ! i"
  obtain ts' where ts: "ts = Byte ?c # ts'" "lex_from s (Suc i) = ts' @ us"
    using Byte(1,2,4,5) by (cases ts) (auto simp: lex_from_byte closes_def)
  show ?case
  proof (cases "ts' = []")
    case True
    then have "?c = CHR '')''" "d = 1" using Byte(5) ts(1) by (auto simp: closes_def)
    then show ?thesis using Byte(1,2) ts True by (subst paren_loop.simps) simp
  next
    case False
    from closes_tail [OF Byte(5) [unfolded ts(1)] False]
    have c: "closes (d + net_depth [Byte ?c]) ts'" "d + net_depth [Byte ?c] > 0" by auto
    then have stop: "?c = CHR '')'' \<Longrightarrow> d - 1 \<noteq> 0" by auto
    from Byte(3) [OF ts(2) c] show ?thesis using Byte(1,2) ts(1) stop
      by (subst paren_loop.simps) (auto simp: algebra_simps)
  qed
qed

lemma skipSpan_bracket: "s ! i = CHR ''('' \<Longrightarrow> skipSpan s i = None"
  by (simp add: skipSpan_def quotedSQLSpan_def sqlCommentSpan_def)

lemma closes_start: "closes 0 (Byte (CHR ''('') # ts) \<longleftrightarrow> closes 1 ts"
proof
  assume a: "closes 0 (Byte (CHR ''('') # ts)"
  then have "ts \<noteq> []" by (auto simp: closes_def)
  from closes_tail [OF a this] show "closes 1 ts" by simp
next
  assume "closes 1 ts"
  then show "closes 0 (Byte (CHR ''('') # ts)" by (intro closes_Cons) auto
qed

lemma parenthesizedSQLSpan_open:
  assumes "i < length s" "s ! i = CHR ''(''"
  shows "parenthesizedSQLSpan s i = paren_loop s 1 (Suc i)"
proof -
  have "paren_loop s 0 i = paren_loop s 1 (Suc i)"
    using assms skipSpan_bracket [of s i] by (subst paren_loop.simps) simp
  then show ?thesis using assms by (simp add: parenthesizedSQLSpan_def)
qed

subsection \<open>Scanning does not look back\<close>

lemma nth_shift: "(p @ s) ! (length p + i) = s ! i"
  by (simp add: nth_append)

lemma quoted_loop_shift: "quoted_loop (p @ s) q (length p + i) = length p + quoted_loop s q i"
proof (induction s q i rule: quoted_loop.induct)
  case (1 s q i)
  have s1: "(p @ s) ! Suc (length p + i) = s ! Suc i" using nth_shift [of p s "Suc i"] by simp
  show ?case using 1
    by (subst (1 2) quoted_loop.simps) (simp add: nth_shift s1)
qed

lemma line_end_shift: "line_end (p @ s) (length p + i) = length p + line_end s i"
proof (induction s i rule: line_end.induct)
  case (1 s i)
  then show ?case by (subst (1 2) line_end.simps) (simp add: nth_shift)
qed

lemma block_end_shift: "block_end (p @ s) (length p + i) = length p + block_end s i"
proof (induction s i rule: block_end.induct)
  case (1 s i)
  have s1: "(p @ s) ! Suc (length p + i) = s ! Suc i" using nth_shift [of p s "Suc i"] by simp
  show ?case using 1 by (subst (1 2) block_end.simps) (simp add: nth_shift s1)
qed

lemma quotedSQLSpan_shift:
  "quotedSQLSpan (p @ s) (length p + i) = map_option (\<lambda>e. length p + e) (quotedSQLSpan s i)"
  using quoted_loop_shift [of p s "s ! i" "Suc i"]
  by (simp add: quotedSQLSpan_def nth_shift Let_def)

lemma sqlCommentSpan_shift:
  "sqlCommentSpan (p @ s) (length p + i) = map_option (\<lambda>e. length p + e) (sqlCommentSpan s i)"
proof -
  have s1: "(p @ s) ! Suc (length p + i) = s ! Suc i" using nth_shift [of p s "Suc i"] by simp
  show ?thesis
    using line_end_shift [of p s "Suc i"] line_end_shift [of p s "Suc (Suc i)"]
      block_end_shift [of p s "Suc (Suc i)"]
    by (simp add: sqlCommentSpan_def nth_shift s1)
qed

lemma skipSpan_shift:
  "skipSpan (p @ s) (length p + i) = map_option (\<lambda>e. length p + e) (skipSpan s i)"
  by (simp add: skipSpan_def quotedSQLSpan_shift sqlCommentSpan_shift split: option.splits)

lemma gslice_shift: "gslice (p @ s) (length p + a) (length p + b) = gslice s a b"
  by (simp add: gslice_def)

lemma lex_from_shift: "lex_from (p @ s) (length p + i) = lex_from s i"
proof (induction i rule: scan_induct [of s])
  case (Span i e)
  then have "skipSpan (p @ s) (length p + i) = Some (length p + e)" by (simp add: skipSpan_shift)
  with Span show ?case by (simp add: lex_from_span gslice_shift)
next
  case (Byte i)
  then have "skipSpan (p @ s) (length p + i) = None" by (simp add: skipSpan_shift)
  with Byte show ?case by (simp add: lex_from_byte nth_shift)
qed (simp add: lex_from_end)

subsection \<open>Properties of the scanner\<close>

text \<open>
  C16: \<open>splitSQLTopLevelList\<close> computes the comma split of the text's tokens (a comma counts
  when it is a byte of its own, outside quotes and comments, at bracket depth 0, where a
  surplus closing bracket leaves the depth at 0), it always returns at least one item, and
  it loses nothing: joining the items with commas gives back the text.
\<close>

theorem splitSQLTopLevelList_correct:
  "splitSQLTopLevelList s = split_tokens (CHR '','') 0 [] (lex_from s 0) \<and>
   splitSQLTopLevelList s \<noteq> [] \<and> Join (splitSQLTopLevelList s) '','' = s"
proof -
  have "splitSQLTopLevelList s = split_tokens (CHR '','') 0 [] (lex_from s 0)"
    by (simp add: splitSQLTopLevelList_def split_loop_tokens)
  then show ?thesis using lex_text [of s 0] by (simp add: Join_split_tokens)
qed

text \<open>
  \<open>parenthesizedSQLSpan\<close> returns a position exactly when the text has an opening bracket
  at \<open>pos\<close> whose matching closing bracket exists, brackets inside quotes and comments not
  counted, and the position is the one just after that closing bracket.
\<close>

theorem parenthesizedSQLSpan_iff:
  "parenthesizedSQLSpan s pos = Some e \<longleftrightarrow>
   pos < length s \<and> s ! pos = CHR ''('' \<and>
   (\<exists>ts us. lex_from s pos = ts @ us \<and> closes 0 ts \<and> e = pos + length (concat (map token_text ts)))"
  (is "?l \<longleftrightarrow> ?r")
proof
  assume l: ?l
  then have p: "pos < length s" "s ! pos = CHR ''(''"
    by (auto simp: parenthesizedSQLSpan_def split: if_splits)
  with l have "paren_loop s 1 (Suc pos) = Some e" by (simp add: parenthesizedSQLSpan_open)
  from paren_loop_closes [OF this] obtain ts us where
    IH: "lex_from s (Suc pos) = ts @ us" "closes 1 ts" "Suc pos < e" "e \<le> length s"
      "concat (map token_text ts) = gslice s (Suc pos) e" by auto
  from p IH show ?r
    by (intro conjI exI [of _ "Byte (CHR ''('') # ts"] exI [of _ us])
       (simp_all add: lex_from_byte skipSpan_bracket closes_start)
next
  assume ?r
  then obtain ts us where p: "pos < length s" "s ! pos = CHR ''(''"
    and t: "lex_from s pos = ts @ us" "closes 0 ts" "e = pos + length (concat (map token_text ts))"
    by blast
  from p t(1,2) obtain ts' where ts: "ts = Byte (CHR ''('') # ts'" "lex_from s (Suc pos) = ts' @ us"
    by (cases ts) (auto simp: lex_from_byte skipSpan_bracket closes_def)
  with t(2) have "closes 1 ts'" by (simp add: closes_start)
  from paren_loop_complete [OF ts(2) this] show ?l
    using p t(3) ts(1) by (simp add: parenthesizedSQLSpan_open)
qed

end
