(* ===== verification/Sql_Syntax.thy ===== *)
theory Sql_Syntax
  imports Sql_Tokens
begin

text \<open>
  The syntax passes of \<open>pkg/mysqlmock/mysql_syntax_compat.go\<close>: qualified targets of
  \<open>UPDATE ... SET\<close>, the default escape of \<open>LIKE\<close>, and MySQL string literals.

  A pass that builds its output in a \<open>strings.Builder\<close> is a function that returns
  what the rest of the loop writes. Two passes slice a string literal as
  \<open>sqlText[i+1 : end-1]\<close>; Go panics there when the text ends with a lone quote, so
  their results are of type \<open>'a go\<close>, whose \<open>Panic\<close> is that run-time error.
\<close>

type_synonym 'a go = "'a option"
abbreviation (input) Returns :: "'a \<Rightarrow> 'a go" where "Returns \<equiv> Some"
abbreviation (input) Panic :: "'a go" where "Panic \<equiv> None"

definition goSlice :: "'a list \<Rightarrow> nat \<Rightarrow> nat \<Rightarrow> 'a list go" where
  "goSlice s a b = (if a \<le> b \<and> b \<le> length s then Returns (gslice s a b) else Panic)"

definition sqlStringLiteral :: "string \<Rightarrow> string" where
  "sqlStringLiteral value = [sq] @ ReplaceByte value sq [sq, sq] @ [sq]"

subsection \<open>UPDATE targets\<close>

function top_eq_loop :: "string \<Rightarrow> nat \<Rightarrow> nat \<Rightarrow> nat option" where
  "top_eq_loop sqlText depth i =
     (if i < length sqlText then
        case skipSpan sqlText i of
          Some e \<Rightarrow> top_eq_loop sqlText depth e
        | None \<Rightarrow>
            if sqlText ! i = CHR ''('' then top_eq_loop sqlText (depth + 1) (i + 1)
            else if sqlText ! i = CHR '')'' then
              top_eq_loop sqlText (if depth > 0 then depth - 1 else depth) (i + 1)
            else if sqlText ! i = CHR ''='' \<and> depth = 0 then Some i
            else top_eq_loop sqlText depth (i + 1)
      else None)"
  by pat_completeness auto
termination by (relation "measure (\<lambda>(s, d, i). length s - i)") (auto simp: termination_simp)

declare top_eq_loop.simps [simp del]

definition topLevelEqualIndex :: "string \<Rightarrow> nat option" where
  "topLevelEqualIndex sqlText = top_eq_loop sqlText 0 0"

function update_set_start :: "string \<Rightarrow> nat \<Rightarrow> nat option" where
  "update_set_start sqlText pos =
     (if pos < length sqlText then
        case skipSpan sqlText pos of
          Some e \<Rightarrow> update_set_start sqlText e
        | None \<Rightarrow> (case consumeKeyword sqlText pos ''SET'' of
            Some p \<Rightarrow> Some p
          | None \<Rightarrow> (case readSQLNameToken sqlText pos of
              Some (_, e) \<Rightarrow> update_set_start sqlText e
            | None \<Rightarrow> update_set_start sqlText (pos + 1)))
      else None)"
  by pat_completeness auto
termination by (relation "measure (\<lambda>(s, i). length s - i)") (auto simp: termination_simp)

declare update_set_start.simps [simp del]

definition isMySQLUpdateSetTerminator :: "string \<Rightarrow> bool" where
  "isMySQLUpdateSetTerminator word = (ToUpper word \<in> {''WHERE'', ''ORDER'', ''LIMIT''})"

function update_set_end :: "string \<Rightarrow> nat \<Rightarrow> nat" where
  "update_set_end sqlText i =
     (if i < length sqlText then
        case skipSpan sqlText i of
          Some e \<Rightarrow> update_set_end sqlText e
        | None \<Rightarrow> (case readSQLIdentifier sqlText i of
            Some (word, e) \<Rightarrow>
              if isMySQLUpdateSetTerminator word then i else update_set_end sqlText e
          | None \<Rightarrow> update_set_end sqlText (i + 1))
      else length sqlText)"
  by pat_completeness auto
termination by (relation "measure (\<lambda>(s, i). length s - i)") (auto simp: termination_simp)

declare update_set_end.simps [simp del]

function target_parts :: "string \<Rightarrow> nat \<Rightarrow> string list \<Rightarrow> string list option" where
  "target_parts target pos parts =
     (case readSQLNameToken target pos of
        None \<Rightarrow> None
      | Some (name, next) \<Rightarrow>
          let parts' = parts @ [name]; p = skipSQLSpaces target next in
          if p \<ge> length target then Some parts'
          else if target ! p \<noteq> CHR ''.'' then None
          else target_parts target (skipSQLSpaces target (p + 1)) parts')"
  by pat_completeness auto
termination
proof (relation "measure (\<lambda>(s, i, p). length s - i)", goal_cases)
  case 1 show ?case by simp
next
  case (2 target pos parts x name nxt parts' p)
  from 2(1,2) have "pos < nxt" "nxt \<le> length target" using readSQLNameToken_bounds by auto
  moreover have "nxt \<le> p" "p + 1 \<le> skipSQLSpaces target (p + 1)"
    using 2(4) skipSQLSpaces_ge by auto
  ultimately show ?case by simp
qed

declare target_parts.simps [simp del]

definition unqualifiedSQLAssignmentTarget :: "string \<Rightarrow> string option" where
  "unqualifiedSQLAssignmentTarget target =
     (case target_parts target 0 [] of
        None \<Rightarrow> None
      | Some parts \<Rightarrow> if length parts < 2 then None else Some (parts ! (length parts - 1)))"

text \<open>\<open>None\<close> is the pair \<open>(assignment, false)\<close>.\<close>

definition translateMySQLUpdateAssignmentTarget :: "string \<Rightarrow> string option" where
  "translateMySQLUpdateAssignmentTarget assignment =
     (case topLevelEqualIndex assignment of
        None \<Rightarrow> None
      | Some eq \<Rightarrow>
          (case unqualifiedSQLAssignmentTarget (TrimSpace (gslice assignment 0 eq)) of
             None \<Rightarrow> None
           | Some target \<Rightarrow> Some (target @ '' '' @ TrimSpace (drop eq assignment))))"

definition translateMySQLUpdateSetTargets :: "string \<Rightarrow> string" where
  "translateMySQLUpdateSetTargets sqlText =
     (case consumeKeyword sqlText (skipSQLSpaces sqlText 0) ''UPDATE'' of
        None \<Rightarrow> sqlText
      | Some pos \<Rightarrow>
          (case update_set_start sqlText pos of
             None \<Rightarrow> sqlText
           | Some setStart \<Rightarrow>
               let setEnd = update_set_end sqlText setStart;
                   assignments = splitSQLTopLevelList (gslice sqlText setStart setEnd);
                   translated = map translateMySQLUpdateAssignmentTarget assignments
               in if \<not> (\<exists>t \<in> set translated. t \<noteq> None) then sqlText
                  else let changed = map (\<lambda>(a, t). case t of None \<Rightarrow> a | Some x \<Rightarrow> x) (zip assignments translated);
                           setClause = TrimSpace (Join changed '', '');
                           suffix = drop setEnd sqlText;
                           suffix' = (if suffix \<noteq> [] \<and> setClause \<noteq> [] \<and> \<not> isSQLSpace (suffix ! 0)
                                      then '' '' @ suffix else suffix)
                       in gslice sqlText 0 setStart @ '' '' @ setClause @ suffix'))"

definition hasMySQLQualifiedUpdateSetTarget :: "string \<Rightarrow> bool" where
  "hasMySQLQualifiedUpdateSetTarget sqlText = (translateMySQLUpdateSetTargets sqlText \<noteq> sqlText)"

subsection \<open>LIKE without ESCAPE\<close>

definition canContainMySQLLikePredicate :: "string \<Rightarrow> bool" where
  "canContainMySQLLikePredicate sqlText =
     (let upper = ToUpper (normalizeSQL sqlText) in
      HasPrefix upper ''SELECT '' \<or> HasPrefix upper ''WITH '' \<or> HasPrefix upper ''UPDATE ''
      \<or> HasPrefix upper ''DELETE '' \<or> HasPrefix upper ''INSERT '')"

definition isMySQLLikePredicateTerminator :: "string \<Rightarrow> bool" where
  "isMySQLLikePredicateTerminator upper =
     (upper \<in> {''AND'', ''OR'', ''ORDER'', ''GROUP'', ''HAVING'', ''LIMIT'', ''UNION'', ''EXCEPT'', ''INTERSECT''})"

text \<open>What the closure \<open>insertEscape\<close> writes; it then clears \<open>pending\<close> and \<open>hasEscape\<close>.\<close>

definition insertEscape :: "bool \<Rightarrow> bool \<Rightarrow> string" where
  "insertEscape pending hasEscape = (if pending \<and> \<not> hasEscape then '' ESCAPE char(92)'' else [])"

function like_loop :: "string \<Rightarrow> bool \<Rightarrow> nat \<Rightarrow> bool \<Rightarrow> nat \<Rightarrow> nat \<Rightarrow> string" where
  "like_loop sqlText pending pendingDepth hasEscape depth i =
     (if i < length sqlText then
        case skipSpan sqlText i of
          Some e \<Rightarrow> gslice sqlText i e @ like_loop sqlText pending pendingDepth hasEscape depth e
        | None \<Rightarrow>
            if sqlText ! i = CHR ''('' then
              sqlText ! i # like_loop sqlText pending pendingDepth hasEscape (depth + 1) (i + 1)
            else if sqlText ! i = CHR '')'' then
              (if pending \<and> depth = pendingDepth then
                 insertEscape pending hasEscape @
                 sqlText ! i # like_loop sqlText False pendingDepth False
                   (if depth > 0 then depth - 1 else depth) (i + 1)
               else sqlText ! i # like_loop sqlText pending pendingDepth hasEscape
                   (if depth > 0 then depth - 1 else depth) (i + 1))
            else if pending \<and> depth = pendingDepth \<and> (sqlText ! i = CHR '','' \<or> sqlText ! i = CHR '';'') then
              insertEscape pending hasEscape @
              sqlText ! i # like_loop sqlText False pendingDepth False depth (i + 1)
            else (case readSQLIdentifier sqlText i of
                None \<Rightarrow> sqlText ! i # like_loop sqlText pending pendingDepth hasEscape depth (i + 1)
              | Some (word, e) \<Rightarrow>
                  let upper = ToUpper word;
                      here = (pending \<and> depth = pendingDepth);
                      stop = (here \<and> upper \<noteq> ''ESCAPE'' \<and> isMySQLLikePredicateTerminator upper);
                      hasEscape1 = (if here \<and> upper = ''ESCAPE'' then True else hasEscape)
                  in (if stop then insertEscape pending hasEscape1 else []) @ gslice sqlText i e @
                     (if upper = ''LIKE'' then like_loop sqlText True depth False depth e
                      else if stop then like_loop sqlText False pendingDepth False depth e
                      else like_loop sqlText pending pendingDepth hasEscape1 depth e))
      else insertEscape pending hasEscape)"
  by pat_completeness auto
termination by (relation "measure (\<lambda>(s, p, pd, h, d, i). length s - i)") (auto simp: termination_simp)

declare like_loop.simps [simp del]

definition translateMySQLLikeDefaultEscape :: "string \<Rightarrow> string" where
  "translateMySQLLikeDefaultEscape sqlText =
     (if \<not> canContainMySQLLikePredicate sqlText then sqlText
      else like_loop sqlText False 0 False 0 0)"

subsection \<open>String literals\<close>

definition decodeEscape :: "char \<Rightarrow> string" where
  "decodeEscape d =
     (if d = CHR ''0'' then [CHR 0x00]
      else if d = sq then [sq]
      else if d = dq then [dq]
      else if d = CHR ''b'' then [CHR 0x08]
      else if d = CHR ''n'' then [CHR 0x0A]
      else if d = CHR ''r'' then [CHR 0x0D]
      else if d = CHR ''t'' then [CHR 0x09]
      else if d = CHR ''Z'' then [CHR 0x1A]
      else if d = bslash then [bslash]
      else if d = CHR ''%'' \<or> d = CHR ''_'' then [bslash, d]
      else [d])"

fun decodeMySQLStringLiteral :: "string \<Rightarrow> string" where
  "decodeMySQLStringLiteral [] = []"
| "decodeMySQLStringLiteral [c] = [c]"
| "decodeMySQLStringLiteral (c # d # r) =
     (if c = sq \<and> d = sq then sq # decodeMySQLStringLiteral r
      else if c \<noteq> bslash then c # decodeMySQLStringLiteral (d # r)
      else decodeEscape d @ decodeMySQLStringLiteral r)"

function literals_loop :: "string \<Rightarrow> nat \<Rightarrow> string go" where
  "literals_loop sqlText i =
     (if i < length sqlText then
        case quotedSQLSpan sqlText i of
          Some e \<Rightarrow>
            if sqlText ! i = sq then do {
              inner \<leftarrow> goSlice sqlText (i + 1) (e - 1);
              rest \<leftarrow> literals_loop sqlText e;
              Returns (sqlStringLiteral (decodeMySQLStringLiteral inner) @ rest) }
            else do { rest \<leftarrow> literals_loop sqlText e; Returns (gslice sqlText i e @ rest) }
        | None \<Rightarrow> (case sqlCommentSpan sqlText i of
            Some e \<Rightarrow> do { rest \<leftarrow> literals_loop sqlText e; Returns (gslice sqlText i e @ rest) }
          | None \<Rightarrow> do { rest \<leftarrow> literals_loop sqlText (i + 1); Returns (sqlText ! i # rest) })
      else Returns [])"
  by pat_completeness auto
termination
  by (relation "measure (\<lambda>(s, i). length s - i)")
     (auto simp: termination_simp dest!: quotedSQLSpan_bounds sqlCommentSpan_bounds)

declare literals_loop.simps [simp del]

definition translateMySQLStringLiterals :: "string \<Rightarrow> string go" where
  "translateMySQLStringLiterals sqlText = literals_loop sqlText 0"

function backslash_loop :: "string \<Rightarrow> nat \<Rightarrow> bool go" where
  "backslash_loop sqlText i =
     (if i < length sqlText then
        case quotedSQLSpan sqlText i of
          Some e \<Rightarrow>
            if sqlText ! i = sq then do {
              inner \<leftarrow> goSlice sqlText (i + 1) (e - 1);
              if Contains inner [bslash] then Returns True else backslash_loop sqlText e }
            else backslash_loop sqlText e
        | None \<Rightarrow> (case sqlCommentSpan sqlText i of
            Some e \<Rightarrow> backslash_loop sqlText e
          | None \<Rightarrow> backslash_loop sqlText (i + 1))
      else Returns False)"
  by pat_completeness auto
termination
  by (relation "measure (\<lambda>(s, i). length s - i)")
     (auto simp: termination_simp dest!: quotedSQLSpan_bounds sqlCommentSpan_bounds)

declare backslash_loop.simps [simp del]

definition hasMySQLBackslashEscapedString :: "string \<Rightarrow> bool go" where
  "hasMySQLBackslashEscapedString sqlText = backslash_loop sqlText 0"

function has_ident_loop :: "string \<Rightarrow> string \<Rightarrow> nat \<Rightarrow> bool" where
  "has_ident_loop sqlText want i =
     (if i < length sqlText then
        case skipSpan sqlText i of
          Some e \<Rightarrow> has_ident_loop sqlText want e
        | None \<Rightarrow> (case readSQLIdentifier sqlText i of
            None \<Rightarrow> has_ident_loop sqlText want (i + 1)
          | Some (ident, e) \<Rightarrow>
              if EqualFold ident want then True else has_ident_loop sqlText want e)
      else False)"
  by pat_completeness auto
termination by (relation "measure (\<lambda>(s, w, i). length s - i)") (auto simp: termination_simp)

declare has_ident_loop.simps [simp del]

definition hasSQLIdentifier :: "string \<Rightarrow> string \<Rightarrow> bool" where
  "hasSQLIdentifier sqlText want = has_ident_loop sqlText want 0"

subsection \<open>Literals read back\<close>

text \<open>How SQLite reads a string literal, after its opening quote: the value and the rest.\<close>

fun sqliteLiteral :: "string \<Rightarrow> (string \<times> string) option" where
  "sqliteLiteral [] = None"
| "sqliteLiteral [c] = (if c = sq then Some ([], []) else None)"
| "sqliteLiteral (c # d # r) =
     (if c \<noteq> sq then map_option (apfst (Cons c)) (sqliteLiteral (d # r))
      else if d = sq then map_option (apfst (Cons sq)) (sqliteLiteral r)
      else Some ([], d # r))"

text \<open>How a MySQL client writes a value into a literal (\<open>mysql_real_escape_string\<close>).\<close>

definition escapeByte :: "char \<Rightarrow> string" where
  "escapeByte c =
     (if c = CHR 0x00 then [bslash, CHR ''0''] else if c = CHR 0x0A then [bslash, CHR ''n'']
      else if c = CHR 0x0D then [bslash, CHR ''r''] else if c = CHR 0x1A then [bslash, CHR ''Z'']
      else if c = bslash then [bslash, bslash] else if c = sq then [bslash, sq]
      else if c = dq then [bslash, dq] else [c])"

definition mysqlEscape :: "string \<Rightarrow> string" where
  "mysqlEscape v = concat (map escapeByte v)"

lemma mysqlEscape_simps [simp]:
  "mysqlEscape [] = []" "mysqlEscape (c # v) = escapeByte c @ mysqlEscape v"
  by (simp_all add: mysqlEscape_def)

lemma decode_Cons: "c \<noteq> bslash \<Longrightarrow> c \<noteq> sq \<Longrightarrow> decodeMySQLStringLiteral (c # r) = c # decodeMySQLStringLiteral r"
  by (cases r) auto

lemma decode_mysqlEscape: "decodeMySQLStringLiteral (mysqlEscape v) = v"
proof (induction v)
  case (Cons c v)
  then show ?case by (auto simp: escapeByte_def decodeEscape_def decode_Cons)
qed simp

lemma quoted_loop_Cons:
  "quoted_loop (c # s) q (Suc i) = Suc (quoted_loop s q i)"
  using quoted_loop_shift [of "[c]" s q i] by simp

lemma quoted_loop_esc: "quoted_loop (bslash # d # s) sq 0 = 2 + quoted_loop s sq 0"
  by (subst quoted_loop.simps) (simp add: quoted_loop_Cons numeral_2_eq_2)

lemma quoted_loop_plain: "c \<noteq> bslash \<Longrightarrow> c \<noteq> sq \<Longrightarrow> quoted_loop (c # s) sq 0 = Suc (quoted_loop s sq 0)"
  by (subst quoted_loop.simps) (simp add: quoted_loop_Cons)

lemma quoted_loop_mysqlEscape:
  "(rest = [] \<or> hd rest \<noteq> sq) \<Longrightarrow>
   quoted_loop (mysqlEscape v @ sq # rest) sq 0 = length (mysqlEscape v) + 1"
proof (induction v)
  case Nil
  then show ?case by (subst quoted_loop.simps) (cases rest; simp)
next
  case (Cons c v)
  then show ?case by (auto simp: escapeByte_def quoted_loop_esc quoted_loop_plain)
qed

lemma quotedSQLSpan_mysqlEscape:
  "(rest = [] \<or> hd rest \<noteq> sq) \<Longrightarrow>
   quotedSQLSpan (sq # mysqlEscape v @ sq # rest) 0 = Some (length (mysqlEscape v) + 2)"
  by (simp add: quotedSQLSpan_def Let_def quoted_loop_Cons quoted_loop_mysqlEscape)

lemma literals_loop_shift: "literals_loop (p @ s) (length p + i) = literals_loop s i"
proof (induction s i rule: literals_loop.induct)
  case (1 s i)
  show ?case
  proof (cases "i < length s")
    case False
    then show ?thesis by (subst (1 2) literals_loop.simps) simp
  next
    case True
    show ?thesis
    proof (cases "quotedSQLSpan s i")
      case (Some e)
      have "i < e" using quotedSQLSpan_bounds [OF Some] by simp
      then have "goSlice (p @ s) (Suc (length p + i)) (length p + e - Suc 0) = goSlice s (Suc i) (e - Suc 0)"
        using gslice_shift [of p s "Suc i" "e - Suc 0"] by (auto simp: goSlice_def)
      moreover have "literals_loop (p @ s) (length p + e) = literals_loop s e"
        if "s ! i = sq \<Longrightarrow> goSlice s (i + 1) (e - 1) \<noteq> None"
        using 1 True Some that apply (cases "s ! i = sq") apply (metis add.commute option.exhaust) by (metis)
      ultimately show ?thesis using True Some
        by (subst (1 2) literals_loop.simps)
           (cases "goSlice s (i + 1) (e - 1)"; simp add: quotedSQLSpan_shift nth_shift gslice_shift)
    next
      case None
      show ?thesis
      proof (cases "sqlCommentSpan s i")
        case (Some e)
        then show ?thesis using 1 True None
          by (subst (1 2) literals_loop.simps)
             (simp add: quotedSQLSpan_shift sqlCommentSpan_shift gslice_shift)
      next
        case N: None
        then show ?thesis using 1 True None
          by (subst (1 2) literals_loop.simps)
             (simp add: quotedSQLSpan_shift sqlCommentSpan_shift nth_shift)
      qed
    qed
  qed
qed

subsection \<open>Properties of the literals\<close>

text \<open>
  text the program splices with \<open>sqlStringLiteral\<close> is read by SQLite as exactly the
  value: no value can end the literal early, whatever quotes it holds.
\<close>

theorem sqlStringLiteral_reads_back:
  "rest = [] \<or> hd rest \<noteq> sq \<Longrightarrow> sqliteLiteral (tl (sqlStringLiteral v @ rest)) = Some (v, rest)"
proof -
  assume r: "rest = [] \<or> hd rest \<noteq> sq"
  have plain: "sqliteLiteral (c # r) = map_option (apfst (Cons c)) (sqliteLiteral r)" if "c \<noteq> sq" for c r
    using that by (cases r) auto
  have "sqliteLiteral (ReplaceByte v sq [sq, sq] @ sq # rest) = Some (v, rest)"
  proof (induction v)
    case Nil
    then show ?case using r by (cases rest) auto
  next
    case (Cons c v)
    then show ?case by (auto simp: plain)
  qed
  then show ?thesis by (simp add: sqlStringLiteral_def)
qed

theorem sqlStringLiteral_reads_back_witness:
  "sqliteLiteral (tl (sqlStringLiteral ([sq] @ ''; DROP'') @ '' AND'')) = Some ([sq] @ ''; DROP'', '' AND'')"
  by (rule sqlStringLiteral_reads_back) simp

text \<open>
  C30: a value a MySQL client escapes into a literal passes through the translator unchanged:
  the scanner takes the whole literal as one span, whatever bytes the value has, and
  \<open>translateMySQLStringLiterals\<close> replaces it by the literal SQLite reads as that value and
  goes on with the text behind it.
\<close>

theorem escaped_literal_roundtrip:
  assumes "rest = [] \<or> hd rest \<noteq> sq"
  shows "quotedSQLSpan (sq # mysqlEscape v @ sq # rest) 0 = Some (length (mysqlEscape v) + 2) \<and>
    translateMySQLStringLiterals (sq # mysqlEscape v @ sq # rest) =
      map_option (\<lambda>out. sqlStringLiteral v @ out) (translateMySQLStringLiterals rest)"
proof
  let ?s = "sq # mysqlEscape v @ sq # rest"
  let ?e = "length (mysqlEscape v) + 2"
  show span: "quotedSQLSpan ?s 0 = Some ?e" by (rule quotedSQLSpan_mysqlEscape [OF assms])
  have "goSlice ?s (0 + 1) (?e - 1) = Some (mysqlEscape v)" by (simp add: goSlice_def gslice_def)
  moreover have "literals_loop ?s ?e = literals_loop rest 0"
    using literals_loop_shift [of "sq # mysqlEscape v @ [sq]" rest 0] by simp
  ultimately show "translateMySQLStringLiterals ?s =
      map_option (\<lambda>out. sqlStringLiteral v @ out) (translateMySQLStringLiterals rest)"
    using span unfolding translateMySQLStringLiterals_def
    by (subst literals_loop.simps) (simp add: decode_mysqlEscape map_conv_bind_option comp_def)
qed

theorem escaped_literal_roundtrip_witness:
  "quotedSQLSpan (sq # mysqlEscape [sq, bslash] @ sq # '')'') 0 = Some 6 \<and>
   translateMySQLStringLiterals (sq # mysqlEscape [sq, bslash] @ sq # '')'') =
     map_option (\<lambda>out. sqlStringLiteral [sq, bslash] @ out) (translateMySQLStringLiterals '')'')"
  using escaped_literal_roundtrip [of "'')''" "[sq, bslash]"] by (simp add: escapeByte_def)

end
