(* ===== verification/Sql_Functions.thy ===== *)
theory Sql_Functions
  imports Sql_Syntax
begin

text \<open>
  The expression passes of \<open>pkg/mysqlmock/function_compat.go\<close>: the operator
  \<open><=>\<close> and the calls \<open>CONCAT\<close>, \<open>DATE_FORMAT\<close>, \<open>JSON_EXTRACT\<close>,
  \<open>JSON_UNQUOTE\<close> and \<open>CAST\<close>, which translate their arguments recursively.
\<close>

lemma parenthesizedSQLSpan_bounds [scan_bounds]:
  assumes "parenthesizedSQLSpan s pos = Some e"
  shows "pos < length s \<and> s ! pos = CHR ''('' \<and> pos + 2 \<le> e \<and> e \<le> length s"
proof -
  from assms have p: "pos < length s" "s ! pos = CHR ''(''" and l: "paren_loop s 0 pos = Some e"
    by (auto simp: parenthesizedSQLSpan_def split: if_splits)
  have "skipSpan s pos = None"
    using p by (simp add: skipSpan_def quotedSQLSpan_def sqlCommentSpan_def)
  with l p have "paren_loop s 1 (Suc pos) = Some e"
    by (subst (asm) paren_loop.simps) simp
  from paren_loop_closes [OF this] p show ?thesis by auto
qed

lemma paren_measure [termination_simp]:
  "parenthesizedSQLSpan s (skipSQLSpaces s e) = Some ce \<Longrightarrow> readSQLIdentifier s i = Some (w, e) \<Longrightarrow>
   length s - ce < length s - i"
  using parenthesizedSQLSpan_bounds [of s "skipSQLSpaces s e" ce] readSQLIdentifier_bounds [of s i w e]
    skipSQLSpaces_ge [of e s] by force

lemma paren_inner_shorter [termination_simp]:
  "parenthesizedSQLSpan s p = Some e \<Longrightarrow> length (gslice s (Suc p) (e - Suc 0)) < length s"
  using parenthesizedSQLSpan_bounds [of s p e] by auto

subsection \<open>Null-safe equality\<close>

function operators_loop :: "string \<Rightarrow> nat \<Rightarrow> string" where
  "operators_loop sqlText i =
     (if i < length sqlText then
        case skipSpan sqlText i of
          Some e \<Rightarrow> gslice sqlText i e @ operators_loop sqlText e
        | None \<Rightarrow>
            if HasPrefix (drop i sqlText) ''<=>'' then '' IS '' @ operators_loop sqlText (i + 3)
            else sqlText ! i # operators_loop sqlText (i + 1)
      else [])"
  by pat_completeness auto
termination by (relation "measure (\<lambda>(s, i). length s - i)") (auto simp: termination_simp)

declare operators_loop.simps [simp del]

definition translateMySQLOperators :: "string \<Rightarrow> string" where
  "translateMySQLOperators sqlText = operators_loop sqlText 0"

subsection \<open>Date formats\<close>

text \<open>\<open>strings.ReplaceAll(s, [a, b], r)\<close> for two different bytes.\<close>

fun replacePair :: "char \<Rightarrow> char \<Rightarrow> string \<Rightarrow> string \<Rightarrow> string" where
  "replacePair a b r (x # y # s) =
     (if x = a \<and> y = b then r @ replacePair a b r s else x # replacePair a b r (y # s))"
| "replacePair a b r s = s"

text \<open>The entries of the map \<open>replacements\<close>: the letter after \<open>%\<close> and its
  replacement. Go ranges over a map in any order, so the order is an argument.\<close>

definition dateReplacements :: "(char \<times> string) list" where
  "dateReplacements =
     [(CHR ''D'', ''%d''), (CHR ''f'', ''%f''), (CHR ''h'', ''%I''), (CHR ''i'', ''%M''),
      (CHR ''k'', ''%H''), (CHR ''l'', ''%I''), (CHR ''S'', ''%S''), (CHR ''s'', ''%S''),
      (CHR ''p'', ''%p''), (CHR ''r'', ''%I:%M:%S %p''), (CHR ''T'', ''%H:%M:%S'')]"

definition mysqlDateFormatIn :: "(char \<times> string) list \<Rightarrow> string \<Rightarrow> string" where
  "mysqlDateFormatIn order format = fold (\<lambda>(b, r) f. replacePair (CHR ''%'') b r f) order format"

definition mysqlDateFormatToSQLite :: "string \<Rightarrow> string" where
  "mysqlDateFormatToSQLite format = mysqlDateFormatIn dateReplacements format"

subsection \<open>CAST\<close>

function cast_loop :: "string \<Rightarrow> nat \<Rightarrow> (string \<times> string) option" where
  "cast_loop inner i =
     (if i < length inner then
        case skipSpan inner i of
          Some e \<Rightarrow> cast_loop inner e
        | None \<Rightarrow> (case readSQLIdentifier inner i of
            Some (word, e) \<Rightarrow>
              if EqualFold word ''AS'' then
                let expr = TrimSpace (gslice inner 0 i); typ = TrimSpace (drop e inner)
                in if expr \<noteq> [] \<and> typ \<noteq> [] then Some (expr, typ) else None
              else cast_loop inner e
          | None \<Rightarrow> cast_loop inner (i + 1))
      else None)"
  by pat_completeness auto
termination by (relation "measure (\<lambda>(s, i). length s - i)") (auto simp: termination_simp)

declare cast_loop.simps [simp del]

definition splitMySQLCast :: "string \<Rightarrow> (string \<times> string) option" where
  "splitMySQLCast inner = cast_loop inner 0"

definition sqliteCastType :: "string \<Rightarrow> string" where
  "sqliteCastType mysqlType =
     (let typ = ToUpper (TrimSpace mysqlType) in
      if HasPrefix typ ''SIGNED'' \<or> HasPrefix typ ''UNSIGNED'' \<or> HasPrefix typ ''INTEGER'' \<or> HasPrefix typ ''INT''
      then ''INTEGER''
      else if HasPrefix typ ''DECIMAL'' \<or> HasPrefix typ ''NUMERIC'' \<or> HasPrefix typ ''DOUBLE''
        \<or> HasPrefix typ ''FLOAT'' \<or> HasPrefix typ ''REAL'' then ''REAL''
      else if HasPrefix typ ''BINARY'' \<or> Contains typ ''BLOB'' then ''BLOB''
      else ''TEXT'')"

subsection \<open>Function calls\<close>

text \<open>The part of \<open>trimJSONQuoteExpression\<close> after its argument has been translated.\<close>

definition trimJSONQuote :: "string \<Rightarrow> string" where
  "trimJSONQuote translated =
     (let trimmed = TrimSpace translated in
      if HasPrefix trimmed ''json_quote('' \<and> HasSuffix trimmed '')''
      then TrimSpace (gslice trimmed (length ''json_quote('') (length trimmed - 1))
      else ''json_extract('' @ trimmed @ '', '' @ [sq] @ ''$'' @ [sq] @ '')'')"

lemma length_TrimSpace: "length (TrimSpace s) \<le> length s"
  by (metis TrimSpace_def TrimLeftFunc_def TrimRightFunc_def length_dropWhile_le length_rev le_trans)

lemma split_tokens_length:
  "x \<in> set (split_tokens sep d cur ts) \<Longrightarrow> length x \<le> length cur + length (concat (map token_text ts))"
proof (induction sep d cur ts rule: split_tokens.induct)
  case (3 sep d cur c ts)
  then show ?case by (auto split: if_splits)
qed auto

lemma split_item_length:
  assumes "x \<in> set (splitSQLTopLevelList s)" shows "length x \<le> length s"
proof -
  have "x \<in> set (split_tokens (CHR '','') 0 [] (lex_from s 0))"
    using assms by (simp add: splitSQLTopLevelList_def split_loop_tokens)
  from split_tokens_length [OF this] show ?thesis by (simp add: lex_text)
qed

lemma split_item_trim [termination_simp]:
  "x \<in> set (splitSQLTopLevelList s) \<Longrightarrow> length (TrimSpace x) \<le> length s"
  using split_item_length length_TrimSpace le_trans by blast

lemma split_nth_trim:
  "k < length (splitSQLTopLevelList s) \<Longrightarrow> length (TrimSpace (splitSQLTopLevelList s ! k)) \<le> length s"
  by (rule split_item_trim) simp

lemma cast_loop_length:
  "cast_loop s i = Some (e, t) \<Longrightarrow> length e \<le> length s"
proof (induction s i rule: cast_loop.induct)
  case (1 s i)
  have "length (TrimSpace (gslice s 0 i)) \<le> length s"
    using length_TrimSpace [of "gslice s 0 i"] by simp
  then show ?case using 1
    by (subst (asm) (2) cast_loop.simps)
       (auto split: if_splits option.splits prod.splits simp: Let_def)
qed

lemma splitMySQLCast_length: "splitMySQLCast s = Some (e, t) \<Longrightarrow> length e \<le> length s"
  by (simp add: splitMySQLCast_def cast_loop_length)

text \<open>
  \<open>translateMySQLFunctionCalls\<close> (its loop) and \<open>translateMySQLFunctionCall\<close>
  call each other; the arguments of a call are shorter than the text around it.
\<close>

function (sequential) calls_loop :: "string \<Rightarrow> nat \<Rightarrow> string"
  and translateMySQLFunctionCall :: "string \<Rightarrow> string \<Rightarrow> string option" where
  "calls_loop sqlText i =
     (if i < length sqlText then
        case skipSpan sqlText i of
          Some e \<Rightarrow> gslice sqlText i e @ calls_loop sqlText e
        | None \<Rightarrow> (case readSQLIdentifier sqlText i of
            None \<Rightarrow> sqlText ! i # calls_loop sqlText (i + 1)
          | Some (ident, e) \<Rightarrow>
              (case parenthesizedSQLSpan sqlText (skipSQLSpaces sqlText e) of
                 None \<Rightarrow> gslice sqlText i e @ calls_loop sqlText e
               | Some callEnd \<Rightarrow>
                   (case translateMySQLFunctionCall ident
                           (gslice sqlText (skipSQLSpaces sqlText e + 1) (callEnd - 1)) of
                      Some replacement \<Rightarrow> replacement @ calls_loop sqlText callEnd
                    | None \<Rightarrow> gslice sqlText i e @ calls_loop sqlText e)))
      else [])"
| "translateMySQLFunctionCall name inner =
     (if ToUpper name = ''CONCAT'' then
        if splitSQLTopLevelList inner = [] then Some [sq, sq] else
        Some (Join (map (\<lambda>arg. ''('' @ calls_loop (TrimSpace arg) 0 @ '')'') (splitSQLTopLevelList inner)) '' || '')
      else if ToUpper name = ''DATE_FORMAT'' then
        (if length (splitSQLTopLevelList inner) \<noteq> 2 then None
         else Some (''strftime('' @
           sqlStringLiteral (mysqlDateFormatToSQLite (unquoteSQLWord (TrimSpace (splitSQLTopLevelList inner ! 1))))
           @ '', '' @ calls_loop (TrimSpace (splitSQLTopLevelList inner ! 0)) 0 @ '')''))
      else if ToUpper name = ''JSON_EXTRACT'' then
        (if length (splitSQLTopLevelList inner) < 2 then None
         else let expr = ''json_extract('' @
                Join (map (\<lambda>arg. calls_loop (TrimSpace arg) 0) (splitSQLTopLevelList inner)) '', '' @ '')''
              in Some (if length (splitSQLTopLevelList inner) = 2 then ''json_quote('' @ expr @ '')'' else expr))
      else if ToUpper name = ''JSON_UNQUOTE'' then
        (if length (splitSQLTopLevelList inner) \<noteq> 1 then None
         else Some (trimJSONQuote (calls_loop (TrimSpace (splitSQLTopLevelList inner ! 0)) 0)))
      else if ToUpper name = ''CAST'' then
        (case splitMySQLCast inner of
           None \<Rightarrow> None
         | Some (expr, typ) \<Rightarrow> Some (''CAST('' @ calls_loop expr 0 @ '' AS '' @ sqliteCastType typ @ '')''))
      else None)"
  by pat_completeness auto
termination
  apply (relation "measures
    [\<lambda>x. case x of Inl (s, i) \<Rightarrow> length s | Inr (n, s) \<Rightarrow> length s,
     \<lambda>x. case x of Inl (s, i) \<Rightarrow> 0 | Inr (n, s) \<Rightarrow> 1,
     \<lambda>x. case x of Inl (s, i) \<Rightarrow> length s - i | Inr (n, s) \<Rightarrow> 0]")
  apply (auto simp: termination_simp le_less [symmetric] simp del: length_gslice
      intro: split_nth_trim splitMySQLCast_length)
  done

declare calls_loop.simps [simp del] translateMySQLFunctionCall.simps [simp del]

definition translateMySQLFunctionCalls :: "string \<Rightarrow> string" where
  "translateMySQLFunctionCalls sqlText = calls_loop sqlText 0"

definition trimJSONQuoteExpression :: "string \<Rightarrow> string" where
  "trimJSONQuoteExpression expr = trimJSONQuote (translateMySQLFunctionCalls expr)"

end
