(* ===== verification/Sql_Translate.thy ===== *)
theory Sql_Translate
  imports Sql_Functions
begin

text \<open>
  The statement translator: \<open>translateSQL\<close> of \<open>pkg/mysqlmock/protocol.go\<close> with
  the option parsers it uses, the locking-clause, index-column and TiDB-comment helpers of
  \<open>sql_compat.go\<close>, and the SQLite index names of \<open>index_metadata.go\<close>.
\<close>

subsection \<open>Quoting and index names\<close>

definition quoteIdent :: "string \<Rightarrow> string" where
  "quoteIdent ident = [dq] @ ReplaceByte ident dq [dq, dq] @ [dq]"

definition joinQuoted :: "string list \<Rightarrow> string" where
  "joinQuoted cols = Join (map quoteIdent cols) '', ''"

definition sanitizeByte :: "char \<Rightarrow> char" where
  "sanitizeByte ch = (if (CHR ''a'' \<le> ch \<and> ch \<le> CHR ''z'') \<or> (CHR ''A'' \<le> ch \<and> ch \<le> CHR ''Z'')
     \<or> (CHR ''0'' \<le> ch \<and> ch \<le> CHR ''9'') then ch else CHR ''_'')"

definition sanitizeSQLName :: "string \<Rightarrow> string" where
  "sanitizeSQLName value =
     (let out = map sanitizeByte (unquoteSQLWord value);
          result = TrimRightFunc (TrimLeftFunc out (\<lambda>c. c = CHR ''_'')) (\<lambda>c. c = CHR ''_'')
      in if result = [] then ''index'' else result)"

text \<open>\<open>hash/fnv\<close>: 32-bit FNV-1a, one byte at a time.\<close>

definition fnv32a :: "string \<Rightarrow> 32 word" where
  "fnv32a s = foldl (\<lambda>h c. (Bit_Operations.xor h (of_char c)) * 16777619) 2166136261 s"

definition hexDigit :: "nat \<Rightarrow> char" where
  "hexDigit n = ''0123456789abcdef'' ! n"

definition hex08 :: "32 word \<Rightarrow> string" where
  "hex08 w = map (\<lambda>k. hexDigit (unat (and (drop_bit (4 * k) w) 15))) [7, 6, 5, 4, 3, 2, 1, 0]"

definition sqliteIndexName :: "string \<Rightarrow> string \<Rightarrow> string" where
  "sqliteIndexName tableName0 indexName0 =
     (let tableName = unquoteSQLWord tableName0; indexName = unquoteSQLWord indexName0
      in ''__mysqlmock_idx_'' @ sanitizeSQLName tableName @ ''_'' @ sanitizeSQLName indexName @ ''_'' @
         hex08 (fnv32a (ToLower tableName @ [CHR 0x00] @ ToLower indexName)))"

subsection \<open>Option values\<close>

function digits_end :: "string \<Rightarrow> nat \<Rightarrow> nat" where
  "digits_end s i = (if i < length s \<and> isDigit (s ! i) then digits_end s (i + 1) else i)"
  by pat_completeness auto
termination by (relation "measure (\<lambda>(s, i). length s - i)") auto

declare digits_end.simps [simp del]

function number_end :: "string \<Rightarrow> nat \<Rightarrow> nat" where
  "number_end s i =
     (if i < length s \<and> (isDigit (s ! i) \<or> s ! i = CHR ''.'') then number_end s (i + 1) else i)"
  by pat_completeness auto
termination by (relation "measure (\<lambda>(s, i). length s - i)") auto

declare number_end.simps [simp del]

definition consumeOptionalNumericCall :: "string \<Rightarrow> nat \<Rightarrow> nat option" where
  "consumeOptionalNumericCall sqlText pos =
     (let i = skipSQLSpaces sqlText pos in
      if i \<ge> length sqlText \<or> sqlText ! i \<noteq> CHR ''('' then None
      else let start = skipSQLSpaces sqlText (i + 1); j = digits_end sqlText start in
        if j = start then None
        else let k = skipSQLSpaces sqlText j in
          if k \<ge> length sqlText \<or> sqlText ! k \<noteq> CHR '')'' then None else Some (k + 1))"

definition consumeCurrentTimestampCall :: "string \<Rightarrow> nat \<Rightarrow> nat option" where
  "consumeCurrentTimestampCall sqlText pos =
     (case consumeEmptyCall sqlText pos of
        Some n \<Rightarrow> Some n
      | None \<Rightarrow> consumeOptionalNumericCall sqlText pos)"

definition consumeSQLValue :: "string \<Rightarrow> nat \<Rightarrow> nat option" where
  "consumeSQLValue sqlText pos =
     (let i = skipSQLSpaces sqlText pos in
      case quotedSQLSpan sqlText i of
        Some copyEnd \<Rightarrow> Some copyEnd
      | None \<Rightarrow> (case readSQLIdentifier sqlText i of
          Some (_, e) \<Rightarrow>
            (case consumeEmptyCall sqlText e of
               Some callEnd \<Rightarrow> Some callEnd
             | None \<Rightarrow> (case consumeOptionalNumericCall sqlText e of
                 Some callEnd \<Rightarrow> Some callEnd
               | None \<Rightarrow> Some e))
        | None \<Rightarrow>
            if i < length sqlText \<and> isDigit (sqlText ! i) then Some (number_end sqlText (i + 1))
            else None))"

definition consumeMySQLOptionValue :: "string \<Rightarrow> nat \<Rightarrow> nat option" where
  "consumeMySQLOptionValue sqlText pos =
     (let i = skipSQLSpaces sqlText pos;
          j = (if i < length sqlText \<and> sqlText ! i = CHR ''='' then skipSQLSpaces sqlText (i + 1) else i)
      in consumeSQLValue sqlText j)"

definition consumeMySQLAssignedOptionValue :: "string \<Rightarrow> nat \<Rightarrow> nat option" where
  "consumeMySQLAssignedOptionValue sqlText pos =
     (let i = skipSQLSpaces sqlText pos in
      if i \<ge> length sqlText \<or> sqlText ! i \<noteq> CHR ''='' then None
      else consumeSQLValue sqlText (i + 1))"

definition consumeCharacterSetOption :: "string \<Rightarrow> nat \<Rightarrow> nat option" where
  "consumeCharacterSetOption sqlText pos =
     (case readSQLIdentifier sqlText (skipSQLSpaces sqlText pos) of
        None \<Rightarrow> None
      | Some (word, nxt) \<Rightarrow>
          if \<not> EqualFold word ''SET'' then None else consumeMySQLOptionValue sqlText nxt)"

definition consumeDefaultCharsetOption :: "string \<Rightarrow> nat \<Rightarrow> nat option" where
  "consumeDefaultCharsetOption sqlText pos =
     (case readSQLIdentifier sqlText (skipSQLSpaces sqlText pos) of
        None \<Rightarrow> None
      | Some (word, nxt) \<Rightarrow>
          if ToUpper word = ''CHARSET'' then consumeMySQLOptionValue sqlText nxt
          else if ToUpper word = ''CHARACTER'' then consumeCharacterSetOption sqlText nxt
          else None)"

definition consumeSQLNamedOption :: "string \<Rightarrow> nat \<Rightarrow> string \<Rightarrow> nat option" where
  "consumeSQLNamedOption sqlText pos name =
     (case readSQLIdentifier sqlText (skipSQLSpaces sqlText pos) of
        None \<Rightarrow> None
      | Some (word, nxt) \<Rightarrow>
          if \<not> EqualFold word name then None else consumeMySQLOptionValue sqlText nxt)"

text \<open>\<open>if next, ok := consumeSQLNamedOption(...); ok { pos = next }\<close>\<close>

definition skipNamedOption :: "string \<Rightarrow> nat \<Rightarrow> string \<Rightarrow> nat" where
  "skipNamedOption sqlText pos name =
     (case consumeSQLNamedOption sqlText pos name of Some n \<Rightarrow> n | None \<Rightarrow> pos)"

definition consumeOnUpdateOption :: "string \<Rightarrow> nat \<Rightarrow> nat option" where
  "consumeOnUpdateOption sqlText pos =
     (case readSQLIdentifier sqlText (skipSQLSpaces sqlText pos) of
        None \<Rightarrow> None
      | Some (word, nxt) \<Rightarrow>
          if \<not> EqualFold word ''UPDATE'' then None else consumeSQLValue sqlText nxt)"

definition consumeOptionalParenthesizedCall :: "string \<Rightarrow> nat \<Rightarrow> nat option" where
  "consumeOptionalParenthesizedCall sqlText pos =
     (let i = skipSQLSpaces sqlText pos in
      if i \<ge> length sqlText \<or> sqlText ! i \<noteq> CHR ''('' then None
      else parenthesizedSQLSpan sqlText i)"

subsection \<open>Bounds\<close>

lemma digits_end_ge [scan_bounds]: "i \<le> digits_end s i"
proof (induction s i rule: digits_end.induct)
  case (1 s i)
  then show ?case by (subst digits_end.simps) auto
qed

lemma number_end_ge [scan_bounds]: "i \<le> number_end s i"
proof (induction s i rule: number_end.induct)
  case (1 s i)
  then show ?case by (subst number_end.simps) auto
qed

lemma number_end_le [scan_bounds]: "i \<le> length s \<Longrightarrow> number_end s i \<le> length s"
proof (induction s i rule: number_end.induct)
  case (1 s i)
  then show ?case by (subst number_end.simps) auto
qed

lemma consumeEmptyCall_bounds [scan_bounds]:
  "consumeEmptyCall s pos = Some e \<Longrightarrow> pos < e \<and> e \<le> length s"
  using skipSQLSpaces_ge [of pos s] skipSQLSpaces_ge [of "skipSQLSpaces s pos + 1" s]
  by (auto simp: consumeEmptyCall_def Let_def split: if_splits)

lemma consumeOptionalNumericCall_bounds [scan_bounds]:
  "consumeOptionalNumericCall s pos = Some e \<Longrightarrow> pos < e \<and> e \<le> length s"
  using skipSQLSpaces_ge [of pos s] skipSQLSpaces_ge [of "skipSQLSpaces s pos + 1" s]
    digits_end_ge [of "skipSQLSpaces s (skipSQLSpaces s pos + 1)" s]
    skipSQLSpaces_ge [of "digits_end s (skipSQLSpaces s (skipSQLSpaces s pos + 1))" s]
  by (auto simp: consumeOptionalNumericCall_def Let_def split: if_splits)

lemma consumeCurrentTimestampCall_bounds [scan_bounds]:
  "consumeCurrentTimestampCall s pos = Some e \<Longrightarrow> pos < e \<and> e \<le> length s"
  by (auto simp: consumeCurrentTimestampCall_def split: option.splits
      dest: consumeEmptyCall_bounds consumeOptionalNumericCall_bounds)

lemma consumeSQLValue_bounds [scan_bounds]:
  assumes "consumeSQLValue s pos = Some e" shows "pos < e \<and> e \<le> length s"
proof -
  let ?i = "skipSQLSpaces s pos"
  have "?i < e \<and> e \<le> length s"
    using assms number_end_ge [of "?i + 1" s] number_end_le [of "?i + 1" s]
    by (auto simp: consumeSQLValue_def Let_def split: option.splits if_splits
        dest!: quotedSQLSpan_bounds readSQLIdentifier_bounds consumeEmptyCall_bounds
          consumeOptionalNumericCall_bounds)
  then show ?thesis using skipSQLSpaces_ge [of pos s] by simp
qed

lemma consumeMySQLOptionValue_bounds [scan_bounds]:
  "consumeMySQLOptionValue s pos = Some e \<Longrightarrow> pos < e \<and> e \<le> length s"
  using skipSQLSpaces_ge [of pos s] skipSQLSpaces_ge [of "skipSQLSpaces s pos + 1" s]
  by (fastforce simp: consumeMySQLOptionValue_def Let_def split: if_splits dest!: consumeSQLValue_bounds)

lemma consumeMySQLAssignedOptionValue_bounds [scan_bounds]:
  "consumeMySQLAssignedOptionValue s pos = Some e \<Longrightarrow> pos < e \<and> e \<le> length s"
  using skipSQLSpaces_ge [of pos s]
  by (fastforce simp: consumeMySQLAssignedOptionValue_def Let_def split: if_splits dest!: consumeSQLValue_bounds)

lemma read_skip_bounds:
  "readSQLIdentifier s (skipSQLSpaces s pos) = Some (w, e) \<Longrightarrow> pos < e \<and> e \<le> length s"
  using skipSQLSpaces_ge [of pos s] readSQLIdentifier_bounds [of s "skipSQLSpaces s pos" w e] by auto

lemma consumeCharacterSetOption_bounds [scan_bounds]:
  "consumeCharacterSetOption s pos = Some e \<Longrightarrow> pos < e \<and> e \<le> length s"
  by (fastforce simp: consumeCharacterSetOption_def split: option.splits if_splits
      dest!: read_skip_bounds consumeMySQLOptionValue_bounds)

lemma consumeDefaultCharsetOption_bounds [scan_bounds]:
  "consumeDefaultCharsetOption s pos = Some e \<Longrightarrow> pos < e \<and> e \<le> length s"
  by (fastforce simp: consumeDefaultCharsetOption_def split: option.splits if_splits
      dest!: read_skip_bounds consumeMySQLOptionValue_bounds consumeCharacterSetOption_bounds)

lemma consumeSQLNamedOption_bounds [scan_bounds]:
  "consumeSQLNamedOption s pos k = Some e \<Longrightarrow> pos < e \<and> e \<le> length s"
  by (fastforce simp: consumeSQLNamedOption_def split: option.splits if_splits
      dest!: read_skip_bounds consumeMySQLOptionValue_bounds)

lemma consumeOnUpdateOption_bounds [scan_bounds]:
  "consumeOnUpdateOption s pos = Some e \<Longrightarrow> pos < e \<and> e \<le> length s"
  by (fastforce simp: consumeOnUpdateOption_def split: option.splits if_splits
      dest!: read_skip_bounds consumeSQLValue_bounds)

lemma consumeOptionalParenthesizedCall_bounds [scan_bounds]:
  "consumeOptionalParenthesizedCall s pos = Some e \<Longrightarrow> pos < e \<and> e \<le> length s"
  using skipSQLSpaces_ge [of pos s]
  by (fastforce simp: consumeOptionalParenthesizedCall_def Let_def split: if_splits
      dest!: parenthesizedSQLSpan_bounds)

lemmas consume_bounds = consumeKeyword_bounds consumeSQLNamedOption_bounds consumeEmptyCall_bounds
  consumeCurrentTimestampCall_bounds consumeOptionalNumericCall_bounds consumeSQLValue_bounds
  consumeMySQLOptionValue_bounds consumeMySQLAssignedOptionValue_bounds consumeOnUpdateOption_bounds
  consumeCharacterSetOption_bounds consumeDefaultCharsetOption_bounds
  consumeOptionalParenthesizedCall_bounds

end
