(* ===== verification/Sql_Statement.thy ===== *)
theory Sql_Statement
  imports Sql_Translate
begin

text \<open>
  \<open>translateSQL\<close> itself: the test \<open>needsSQLTranslation\<close> that lets most texts
  pass untouched, the clause passes in the order the code runs them, the two index
  statements, and the main token loop with its table-option cases.
\<close>

subsection \<open>Locking clauses\<close>

definition trimSQLClauseSuffix :: "string \<Rightarrow> nat \<Rightarrow> string" where
  "trimSQLClauseSuffix sqlText start =
     (let tail = TrimRightFunc (drop start sqlText) isSQLSpace;
          semicolon = (if tail \<noteq> [] \<and> last tail = CHR '';'' then '';'' else [])
      in TrimRightFunc (gslice sqlText 0 start) isSQLSpace @ semicolon)"

function locking_loop :: "string \<Rightarrow> nat \<Rightarrow> string option" where
  "locking_loop sqlText i =
     (if i < length sqlText then
        case skipSpan sqlText i of
          Some e \<Rightarrow> locking_loop sqlText e
        | None \<Rightarrow>
            (case (if sqlText ! i = CHR ''('' then parenthesizedSQLSpan sqlText i else None) of
               Some e \<Rightarrow> locking_loop sqlText e
             | None \<Rightarrow> (case readSQLIdentifier sqlText i of
                 None \<Rightarrow> locking_loop sqlText (i + 1)
               | Some (word, e) \<Rightarrow>
                   if EqualFold word ''FOR'' \<and>
                      (case readSQLIdentifier sqlText (skipSQLSpaces sqlText e) of
                         None \<Rightarrow> False
                       | Some (nextWord, _) \<Rightarrow> EqualFold nextWord ''UPDATE'' \<or> EqualFold nextWord ''SHARE'')
                   then Some (trimSQLClauseSuffix sqlText i)
                   else if EqualFold word ''LOCK'' \<and>
                      (do { p1 \<leftarrow> consumeKeyword sqlText e ''IN'';
                            p2 \<leftarrow> consumeKeyword sqlText p1 ''SHARE'';
                            consumeKeyword sqlText p2 ''MODE'' }) \<noteq> None
                   then Some (trimSQLClauseSuffix sqlText i)
                   else locking_loop sqlText e))
      else None)"
  by pat_completeness auto
termination
  by (relation "measure (\<lambda>(s, i). length s - i)")
     (auto simp: termination_simp split: if_splits dest!: parenthesizedSQLSpan_bounds)

declare locking_loop.simps [simp del]

text \<open>\<open>None\<close> is the pair \<open>(sqlText, false)\<close>.\<close>

definition stripMySQLLockingClause :: "string \<Rightarrow> string option" where
  "stripMySQLLockingClause sqlText = locking_loop sqlText 0"

subsection \<open>Index columns\<close>

definition isNumericParenthesized :: "string \<Rightarrow> bool" where
  "isNumericParenthesized value =
     (if length value < 2 \<or> value ! 0 \<noteq> CHR ''('' \<or> value ! (length value - 1) \<noteq> CHR '')'' then False
      else let inner = TrimSpace (gslice value 1 (length value - 1)) in
        inner \<noteq> [] \<and> list_all isDigit inner)"

definition stripMySQLIndexPrefixLength :: "string \<Rightarrow> string" where
  "stripMySQLIndexPrefixLength item =
     (case readSQLNameToken item 0 of
        None \<Rightarrow> item
      | Some (name, pos) \<Rightarrow>
          let nxt = skipSQLSpaces item pos in
          (case parenthesizedSQLSpan item nxt of
             None \<Rightarrow> item
           | Some e \<Rightarrow> if \<not> isNumericParenthesized (gslice item nxt e) then item else name @ drop e item))"

definition translateMySQLIndexColumns :: "string \<Rightarrow> string" where
  "translateMySQLIndexColumns columns =
     (if length columns < 2 then columns
      else let items = splitSQLTopLevelList (gslice columns 1 (length columns - 1))
           in ''('' @ Join (map (\<lambda>item. TrimSpace (stripMySQLIndexPrefixLength item)) items) '', '' @ '')'')"

lemma skip_measure: "pos < p \<Longrightarrow> p \<le> length s \<Longrightarrow> length s - skipSQLSpaces s p < length s - pos"
  using skipSQLSpaces_ge [of p s] by simp

text \<open>The loop over \<open>VISIBLE\<close>, \<open>INVISIBLE\<close> and \<open>USING\<close> after the columns.\<close>

function index_options :: "string \<Rightarrow> nat \<Rightarrow> nat" where
  "index_options sqlText pos =
     (case consumeEither sqlText pos ''VISIBLE'' ''INVISIBLE'' of
        Some p \<Rightarrow> index_options sqlText (skipSQLSpaces sqlText p)
      | None \<Rightarrow> (case consumeSQLNamedOption sqlText pos ''USING'' of
          Some p \<Rightarrow> index_options sqlText p
        | None \<Rightarrow> pos))"
  by pat_completeness auto
termination
  by (relation "measure (\<lambda>(s, i). length s - i)")
     (auto simp: consumeEither_def split: option.splits
       dest!: consumeKeyword_bounds consumeSQLNamedOption_bounds intro!: skip_measure)

declare index_options.simps [simp del]

text \<open>Trailing options, spaces and one semicolon; nothing else may follow.\<close>

definition indexStatementEnds :: "string \<Rightarrow> nat \<Rightarrow> bool" where
  "indexStatementEnds sqlText pos0 =
     (let pos1 = skipSQLSpaces sqlText (index_options sqlText pos0);
          pos2 = (if pos1 < length sqlText \<and> sqlText ! pos1 = CHR '';''
                  then skipSQLSpaces sqlText (pos1 + 1) else pos1)
      in pos2 = length sqlText)"

definition createIndexText :: "bool \<Rightarrow> string \<Rightarrow> string \<Rightarrow> string \<Rightarrow> string" where
  "createIndexText unique tableName visibleIndexName columns =
     ''CREATE '' @ (if unique then ''UNIQUE '' else []) @ ''INDEX '' @
     quoteIdent (sqliteIndexName tableName visibleIndexName) @ '' ON '' @ tableName @ '' '' @
     translateMySQLIndexColumns columns"

definition translateMySQLAlterTableAddIndex :: "string \<Rightarrow> string option" where
  "translateMySQLAlterTableAddIndex sqlText = do {
     p1 \<leftarrow> consumeKeyword sqlText (skipSQLSpaces sqlText 0) ''ALTER'';
     p2 \<leftarrow> consumeKeyword sqlText p1 ''TABLE'';
     (tableName, p3) \<leftarrow> readSQLNameToken sqlText p2;
     p4 \<leftarrow> consumeKeyword sqlText p3 ''ADD'';
     let unique = (consumeKeyword sqlText p4 ''UNIQUE'' \<noteq> None);
     let p5 = consumeOptional sqlText p4 ''UNIQUE'';
     p6 \<leftarrow> consumeEither sqlText p5 ''INDEX'' ''KEY'';
     let p7 = skipNamedOption sqlText p6 ''USING'';
     (indexName, p8) \<leftarrow> readSQLNameToken sqlText p7;
     let p9 = skipNamedOption sqlText p8 ''USING'';
     let columnsStart = skipSQLSpaces sqlText p9;
     columnsEnd \<leftarrow> parenthesizedSQLSpan sqlText columnsStart;
     if \<not> indexStatementEnds sqlText columnsEnd then None
     else Some (createIndexText unique tableName (unquoteSQLWord indexName)
                  (gslice sqlText columnsStart columnsEnd)) }"

text \<open>\<open>readSQLQualifiedName\<close> of \<open>active_record_compat.go\<close>: the last part of a dotted name.\<close>

function qualified_loop :: "string \<Rightarrow> string \<Rightarrow> nat \<Rightarrow> (string \<times> nat) option" where
  "qualified_loop sqlText name pos =
     (let nxt = skipSQLSpaces sqlText pos in
      if nxt \<ge> length sqlText \<or> sqlText ! nxt \<noteq> CHR ''.'' then Some (unquoteSQLWord name, pos)
      else (case readSQLNameToken sqlText (nxt + 1) of
              None \<Rightarrow> None
            | Some (part, partEnd) \<Rightarrow> qualified_loop sqlText part partEnd))"
  by pat_completeness auto
termination
proof (relation "measure (\<lambda>(s, n, i). length s - i)", goal_cases)
  case 1 show ?case by simp
next
  case (2 s name pos nxt x part partEnd)
  then have "nxt + 1 < partEnd" "partEnd \<le> length s" using readSQLNameToken_bounds by auto
  moreover have "pos \<le> nxt" using 2(1) skipSQLSpaces_ge by simp
  ultimately show ?case by simp
qed

declare qualified_loop.simps [simp del]

definition readSQLQualifiedName :: "string \<Rightarrow> nat \<Rightarrow> (string \<times> nat) option" where
  "readSQLQualifiedName sqlText pos =
     (case readSQLNameToken sqlText pos of
        None \<Rightarrow> None
      | Some (name, p) \<Rightarrow> qualified_loop sqlText name p)"

lemma qualified_loop_bounds:
  "qualified_loop s n i = Some (w, e) \<Longrightarrow> i \<le> length s \<Longrightarrow> i \<le> e \<and> e \<le> length s"
proof (induction s n i rule: qualified_loop.induct)
  case (1 s n i)
  show ?case
  proof (cases "skipSQLSpaces s i \<ge> length s \<or> s ! skipSQLSpaces s i \<noteq> CHR ''.''")
    case True
    then show ?thesis using 1(2,3) by (subst (asm) qualified_loop.simps) (simp add: Let_def)
  next
    case False
    then obtain part pe where pp: "readSQLNameToken s (skipSQLSpaces s i + 1) = Some (part, pe)"
      "qualified_loop s part pe = Some (w, e)"
      using 1(2) by (subst (asm) qualified_loop.simps) (auto simp: Let_def split: option.splits)
    have b: "skipSQLSpaces s i + 1 < pe" "pe \<le> length s" using readSQLNameToken_bounds [OF pp(1)] by auto
    have "pe \<le> e \<and> e \<le> length s" using 1(1) False pp b by auto
    then show ?thesis using b skipSQLSpaces_ge [of i s] by simp
  qed
qed

lemma readSQLQualifiedName_bounds [scan_bounds]:
  "readSQLQualifiedName s pos = Some (w, e) \<Longrightarrow> pos < e \<and> e \<le> length s"
  by (fastforce simp: readSQLQualifiedName_def split: option.splits
      dest!: readSQLNameToken_bounds qualified_loop_bounds)

definition translateMySQLCreateIndex :: "string \<Rightarrow> string option" where
  "translateMySQLCreateIndex sqlText = do {
     p1 \<leftarrow> consumeKeyword sqlText (skipSQLSpaces sqlText 0) ''CREATE'';
     let unique = (consumeKeyword sqlText p1 ''UNIQUE'' \<noteq> None);
     let p2 = consumeOptional sqlText p1 ''UNIQUE'';
     p3 \<leftarrow> consumeKeyword sqlText p2 ''INDEX'';
     (indexName, p4) \<leftarrow> readSQLNameToken sqlText p3;
     let p5 = skipNamedOption sqlText p4 ''USING'';
     p6 \<leftarrow> consumeKeyword sqlText p5 ''ON'';
     (tableName, p7) \<leftarrow> readSQLQualifiedName sqlText p6;
     let columnsStart = skipSQLSpaces sqlText p7;
     columnsEnd \<leftarrow> parenthesizedSQLSpan sqlText columnsStart;
     if \<not> indexStatementEnds sqlText (skipSQLSpaces sqlText columnsEnd) then None
     else Some (createIndexText unique tableName (unquoteSQLWord indexName)
                  (gslice sqlText columnsStart columnsEnd)) }"

subsection \<open>The token loop\<close>

definition translateTiDBDDLComment :: "string \<Rightarrow> string option" where
  "translateTiDBDDLComment comment =
     (let trimmed = TrimSpace comment in
      if \<not> HasPrefix trimmed ''/*T!['' \<or> \<not> HasSuffix trimmed ''*/'' then None
      else (case IndexByte trimmed (CHR '']'') of
          None \<Rightarrow> None
        | Some closeTag \<Rightarrow>
            let tag = ToLower (TrimSpace (gslice trimmed (length ''/*T!['') closeTag));
                body = TrimSpace (gslice trimmed (closeTag + 1) (length trimmed - length ''*/''))
            in if tag = ''auto_rand'' then
                 Some ('' '' @ (if body = [] then ''AUTO_RANDOM'' else body) @ '' '')
               else if tag = ''clustered_index'' then Some []
               else None))"

definition stripsMySQLDDLOptions :: "string \<Rightarrow> bool" where
  "stripsMySQLDDLOptions sqlText =
     (let upper = ToUpper (TrimSpace sqlText) in
      HasPrefix upper ''CREATE TABLE '' \<or> HasPrefix upper ''CREATE TEMPORARY TABLE ''
      \<or> HasPrefix upper ''CREATE TEMP TABLE '' \<or> HasPrefix upper ''ALTER TABLE ''
      \<or> HasPrefix upper ''CREATE INDEX '' \<or> HasPrefix upper ''CREATE UNIQUE INDEX '')"

definition tableOptionWords :: "string list" where
  "tableOptionWords =
     [''ENGINE'', ''CHARSET'', ''COLLATE'', ''COMMENT'', ''USING'',
      ''AVG_ROW_LENGTH'', ''CHECKSUM'', ''DELAY_KEY_WRITE'', ''INSERT_METHOD'',
      ''KEY_BLOCK_SIZE'', ''MAX_ROWS'', ''MIN_ROWS'', ''PACK_KEYS'',
      ''ROW_FORMAT'', ''STATS_AUTO_RECALC'', ''STATS_PERSISTENT'']"

text \<open>\<open>if next := f; stripDDLMode && next >= 0 { i = next } else { write(other) }\<close>\<close>

definition dropOption :: "bool \<Rightarrow> nat option \<Rightarrow> string \<Rightarrow> nat \<Rightarrow> string \<times> nat" where
  "dropOption stripDDLMode opt other i =
     (case opt of Some n \<Rightarrow> if stripDDLMode then ([], n) else (other, i) | None \<Rightarrow> (other, i))"

text \<open>The \<open>switch upper\<close>: what is written for the identifier that ends at \<open>i\<close>, and
  where the loop goes on.\<close>

definition translateIdent :: "string \<Rightarrow> bool \<Rightarrow> string \<Rightarrow> nat \<Rightarrow> string \<times> nat" where
  "translateIdent sqlText stripDDLMode ident i =
     (let upper = ToUpper ident in
      if upper = ''TRUE'' then (''1'', i)
      else if upper = ''FALSE'' then (''0'', i)
      else if upper = ''AUTO_INCREMENT'' then
        dropOption stripDDLMode (consumeMySQLAssignedOptionValue sqlText i) ''AUTOINCREMENT'' i
      else if upper = ''AUTO_RANDOM'' then
        (if stripDDLMode then
           (''AUTOINCREMENT'', case consumeOptionalParenthesizedCall sqlText i of Some n \<Rightarrow> n | None \<Rightarrow> i)
         else (ident, i))
      else if upper \<in> {''UNSIGNED'', ''ZEROFILL'', ''CLUSTERED'', ''NONCLUSTERED''} then
        (if \<not> stripDDLMode then (ident, i) else ([], i))
      else if upper = ''AUTO_RANDOM_BASE'' then
        dropOption stripDDLMode (consumeMySQLAssignedOptionValue sqlText i) ident i
      else if upper \<in> set tableOptionWords then
        dropOption stripDDLMode (consumeMySQLOptionValue sqlText i) ident i
      else if upper = ''ON'' then dropOption stripDDLMode (consumeOnUpdateOption sqlText i) ident i
      else if upper \<in> {''VISIBLE'', ''INVISIBLE''} then
        (if \<not> stripDDLMode then (ident, i) else ([], i))
      else if upper = ''CHARACTER'' then
        dropOption stripDDLMode (consumeCharacterSetOption sqlText i) ident i
      else if upper = ''DEFAULT'' then
        dropOption stripDDLMode (consumeDefaultCharsetOption sqlText i) ident i
      else if upper \<in> {''NOW'', ''CURRENT_TIMESTAMP''} then
        (case consumeCurrentTimestampCall sqlText i of
           Some n \<Rightarrow> (''CURRENT_TIMESTAMP'', n)
         | None \<Rightarrow> (ident, i))
      else (ident, i))"

lemma dropOption_ge: "(\<And>n. opt = Some n \<Longrightarrow> i < n) \<Longrightarrow> i \<le> snd (dropOption m opt other i)"
  by (auto simp: dropOption_def split: option.splits intro: less_imp_le)

lemma translateIdent_ge: "i \<le> snd (translateIdent s m ident i)"
  by (auto simp: translateIdent_def Let_def split: option.splits
      intro!: dropOption_ge dest!: consume_bounds)

lemma translate_measure:
  assumes "i < length s"
  shows "length s - snd (translateIdent s m w (ident_end s (Suc i))) < length s - i"
proof -
  have "Suc i \<le> ident_end s (Suc i)" using assms ident_end_bounds [of "Suc i" s] by simp
  with translateIdent_ge [of "ident_end s (Suc i)" s m w] have "i < snd (translateIdent s m w (ident_end s (Suc i)))"
    by simp
  with assms show ?thesis by simp
qed

function translate_loop :: "string \<Rightarrow> bool \<Rightarrow> nat \<Rightarrow> string" where
  "translate_loop sqlText stripDDLMode i =
     (if i < length sqlText then
        case quotedSQLSpan sqlText i of
          Some copyEnd \<Rightarrow> gslice sqlText i copyEnd @ translate_loop sqlText stripDDLMode copyEnd
        | None \<Rightarrow> (case sqlCommentSpan sqlText i of
            Some copyEnd \<Rightarrow>
              (case translateTiDBDDLComment (gslice sqlText i copyEnd) of
                 Some replacement \<Rightarrow> if stripDDLMode then replacement else gslice sqlText i copyEnd
               | None \<Rightarrow> gslice sqlText i copyEnd) @ translate_loop sqlText stripDDLMode copyEnd
          | None \<Rightarrow>
              if isSQLIdentifierStart (sqlText ! i) then
                let e = ident_end sqlText (i + 1);
                    r = translateIdent sqlText stripDDLMode (gslice sqlText i e) e
                in fst r @ translate_loop sqlText stripDDLMode (snd r)
              else sqlText ! i # translate_loop sqlText stripDDLMode (i + 1))
      else [])"
  by pat_completeness auto
termination
  by (relation "measure (\<lambda>(s, m, i). length s - i)")
     (auto simp: translate_measure dest!: quotedSQLSpan_bounds sqlCommentSpan_bounds)

declare translate_loop.simps [simp del]

subsection \<open>translateSQL\<close>

definition translationWords :: "string list" where
  "translationWords =
     [''TRUE'', ''FALSE'', ''NOW'', ''CURRENT_TIMESTAMP'',
      ''CONCAT'', ''DATE_FORMAT'', ''JSON_EXTRACT'', ''JSON_UNQUOTE'', ''CAST'',
      ''AUTO_INCREMENT'', ''AUTO_RANDOM'', ''FOR'', ''LOCK'']"

function needs_loop :: "string \<Rightarrow> nat \<Rightarrow> bool" where
  "needs_loop sqlText i =
     (if i < length sqlText then
        case skipSpan sqlText i of
          Some e \<Rightarrow> needs_loop sqlText e
        | None \<Rightarrow> (case readSQLIdentifier sqlText i of
            None \<Rightarrow> needs_loop sqlText (i + 1)
          | Some (ident, e) \<Rightarrow>
              if ToUpper ident \<in> set translationWords then True else needs_loop sqlText e)
      else False)"
  by pat_completeness auto
termination by (relation "measure (\<lambda>(s, i). length s - i)") (auto simp: termination_simp)

declare needs_loop.simps [simp del]

definition needsSQLTranslation :: "string \<Rightarrow> bool go" where
  "needsSQLTranslation sqlText =
     (if Contains sqlText ''<=>'' then Returns True
      else do {
        escaped \<leftarrow> hasMySQLBackslashEscapedString sqlText;
        if escaped then Returns True
        else if canContainMySQLLikePredicate sqlText \<and> hasSQLIdentifier sqlText ''LIKE'' then Returns True
        else if hasMySQLQualifiedUpdateSetTarget sqlText then Returns True
        else if stripsMySQLDDLOptions sqlText then Returns True
        else Returns (needs_loop sqlText 0) })"

text \<open>The passes, without the test in front of them.\<close>

definition translatePasses :: "string \<Rightarrow> string go" where
  "translatePasses sqlText0 =
     (let sqlText1 = (case stripMySQLLockingClause sqlText0 of Some t \<Rightarrow> t | None \<Rightarrow> sqlText0);
          sqlText2 = translateMySQLUpdateSetTargets sqlText1;
          sqlText3 = translateMySQLLikeDefaultEscape sqlText2;
          sqlText4 = translateMySQLOperators sqlText3;
          sqlText = translateMySQLFunctionCalls sqlText4
      in case translateMySQLAlterTableAddIndex sqlText of
           Some translated \<Rightarrow> Returns translated
         | None \<Rightarrow> (case translateMySQLCreateIndex sqlText of
             Some translated \<Rightarrow> Returns translated
           | None \<Rightarrow> translateMySQLStringLiterals
               (translate_loop sqlText (stripsMySQLDDLOptions sqlText) 0)))"

definition translateSQL :: "string \<Rightarrow> string go" where
  "translateSQL sqlText = do {
     needs \<leftarrow> needsSQLTranslation sqlText;
     if \<not> needs then Returns sqlText else translatePasses sqlText }"

end
