(* ===== verification/Sql_Ddl.thy ===== *)
theory Sql_Ddl
  imports Sql_Statement
begin

text \<open>
  Data definition: the translation of \<open>CREATE TABLE\<close> into a table and its index
  statements, schema dumps, and the statement splitter, all of
  \<open>pkg/mysqlmock/sql_compat.go\<close>. A function that may call \<open>translateSQL\<close>
  inherits its possible panic.
\<close>

definition containsSQLIdentifier :: "string \<Rightarrow> string \<Rightarrow> bool" where
  "containsSQLIdentifier sqlText name = has_ident_loop sqlText name 0"

subsection \<open>Splitting statements\<close>

text \<open>A statement is kept when something is left of it after trimming.\<close>

definition addStatement :: "string \<Rightarrow> string list \<Rightarrow> string list" where
  "addStatement stmt rest = (if TrimSpace stmt \<noteq> [] then TrimSpace stmt # rest else rest)"

function statements_loop :: "string \<Rightarrow> nat \<Rightarrow> nat \<Rightarrow> nat \<Rightarrow> string list" where
  "statements_loop sqlText start depth i =
     (if i < length sqlText then
        case skipSpan sqlText i of
          Some e \<Rightarrow> statements_loop sqlText start depth e
        | None \<Rightarrow>
            if sqlText ! i = CHR ''('' then statements_loop sqlText start (depth + 1) (i + 1)
            else if sqlText ! i = CHR '')'' then
              statements_loop sqlText start (if depth > 0 then depth - 1 else depth) (i + 1)
            else if sqlText ! i = CHR '';'' \<and> depth = 0 then
              addStatement (gslice sqlText start i) (statements_loop sqlText (i + 1) depth (i + 1))
            else statements_loop sqlText start depth (i + 1)
      else addStatement (gslice sqlText start (length sqlText)) [])"
  by pat_completeness auto
termination by (relation "measure (\<lambda>(s, st, d, i). length s - i)") (auto simp: termination_simp)

declare statements_loop.simps [simp del]

definition splitSQLStatements :: "string \<Rightarrow> string list" where
  "splitSQLStatements sqlText = statements_loop sqlText 0 0 0"

fun SplitByte :: "string \<Rightarrow> char \<Rightarrow> string list" where
  "SplitByte [] c = [[]]"
| "SplitByte (x # xs) c =
     (if x = c then [] # SplitByte xs c
      else case SplitByte xs c of [] \<Rightarrow> [[x]] | y # ys \<Rightarrow> (x # y) # ys)"

definition removeSQLDumpDelimiterLines :: "string \<Rightarrow> string" where
  "removeSQLDumpDelimiterLines sqlText =
     Join (filter (\<lambda>line. \<not> HasPrefix (ToUpper (TrimSpace line)) ''DELIMITER '') (SplitByte sqlText nl)) [nl]"

definition isSchemaDumpStatement :: "string \<Rightarrow> bool" where
  "isSchemaDumpStatement stmt =
     (let normalized = ToUpper (normalizeSQL stmt) in
      HasPrefix normalized ''CREATE TABLE '' \<or> HasPrefix normalized ''CREATE TEMPORARY TABLE ''
      \<or> HasPrefix normalized ''CREATE TEMP TABLE '' \<or> HasPrefix normalized ''CREATE INDEX ''
      \<or> HasPrefix normalized ''CREATE UNIQUE INDEX '' \<or> HasPrefix normalized ''ALTER TABLE ''
      \<or> HasPrefix normalized ''RENAME TABLE '' \<or> HasPrefix normalized ''DROP TABLE ''
      \<or> HasPrefix normalized ''DROP INDEX '')"

definition schemaStatementsFromDump :: "string \<Rightarrow> string list" where
  "schemaStatementsFromDump sqlText =
     filter isSchemaDumpStatement (splitSQLStatements (removeSQLDumpDelimiterLines sqlText))"

subsection \<open>Items of a CREATE TABLE body\<close>

text \<open>\<open>CONSTRAINT name\<close>: the prefix written, and where the item goes on; the name must be there.\<close>

definition constraintPrefix :: "string \<Rightarrow> nat \<Rightarrow> (string option \<times> nat) option" where
  "constraintPrefix item pos =
     (case consumeKeyword item pos ''CONSTRAINT'' of
        None \<Rightarrow> Some (None, pos)
      | Some p \<Rightarrow> (case readSQLNameToken item p of
          Some (name, nxt) \<Rightarrow> Some (Some name, nxt)
        | None \<Rightarrow> None))"

definition isTableConstraintItem :: "string \<Rightarrow> bool" where
  "isTableConstraintItem item =
     (case constraintPrefix item (skipSQLSpaces item 0) of
        None \<Rightarrow> False
      | Some (_, pos) \<Rightarrow>
          list_ex (\<lambda>keyword. consumeKeyword item pos keyword \<noteq> None)
            [''PRIMARY'', ''UNIQUE'', ''KEY'', ''INDEX'', ''FOREIGN'', ''CHECK''])"

definition createTableColumnName :: "string \<Rightarrow> string" where
  "createTableColumnName item0 =
     (let item = TrimSpace item0 in
      if item = [] then []
      else if isTableConstraintItem item then []
      else (case readSQLNameToken item 0 of None \<Rightarrow> [] | Some (name, _) \<Rightarrow> unquoteSQLWord name))"

definition isPrimaryKeyTableConstraintForColumn :: "string \<Rightarrow> string \<Rightarrow> bool" where
  "isPrimaryKeyTableConstraintForColumn item columnName =
     (case do {
        (_, p1) \<leftarrow> constraintPrefix item (skipSQLSpaces item 0);
        p2 \<leftarrow> consumeKeyword item p1 ''PRIMARY'';
        p3 \<leftarrow> consumeKeyword item p2 ''KEY'';
        let columnsStart = skipSQLSpaces item (skipNamedOption item p3 ''USING'');
        columnsEnd \<leftarrow> parenthesizedSQLSpan item columnsStart;
        Some (splitSQLTopLevelList (gslice item (columnsStart + 1) (columnsEnd - 1))) } of
       Some [column] \<Rightarrow>
         (case readSQLNameToken (TrimSpace column) 0 of
            None \<Rightarrow> False
          | Some (name, _) \<Rightarrow> EqualFold (unquoteSQLWord name) columnName)
     | _ \<Rightarrow> False)"

text \<open>The first loop of \<open>autoIncrementPrimaryKeyColumn\<close>; \<open>None\<close> is the early
  \<open>return ""\<close> at a second column.\<close>

fun auto_column_loop :: "string list \<Rightarrow> string \<Rightarrow> string option" where
  "auto_column_loop [] column = Some column"
| "auto_column_loop (item0 # items) column =
     (let item = TrimSpace item0; name = createTableColumnName item in
      if \<not> containsSQLIdentifier item ''AUTO_INCREMENT'' then auto_column_loop items column
      else if name = [] then auto_column_loop items column
      else if column \<noteq> [] then None
      else auto_column_loop items name)"

definition autoIncrementPrimaryKeyColumn :: "string list \<Rightarrow> string" where
  "autoIncrementPrimaryKeyColumn items =
     (case auto_column_loop items [] of
        None \<Rightarrow> []
      | Some column \<Rightarrow>
          if column = [] then []
          else if list_ex (\<lambda>item. isPrimaryKeyTableConstraintForColumn item column) items then column
          else [])"

function default_loop :: "string \<Rightarrow> nat \<Rightarrow> string option" where
  "default_loop sqlText i =
     (if i < length sqlText then
        case skipSpan sqlText i of
          Some e \<Rightarrow> default_loop sqlText e
        | None \<Rightarrow> (case readSQLIdentifier sqlText i of
            None \<Rightarrow> default_loop sqlText (i + 1)
          | Some (word, e) \<Rightarrow>
              if \<not> EqualFold word ''DEFAULT'' then default_loop sqlText e
              else let valueStart = skipSQLSpaces sqlText e in
                (case consumeSQLValue sqlText valueStart of
                   None \<Rightarrow> None
                 | Some valueEnd \<Rightarrow>
                     if valueEnd \<le> valueStart then None
                     else Some (TrimSpace (gslice sqlText valueStart valueEnd))))
      else None)"
  by pat_completeness auto
termination by (relation "measure (\<lambda>(s, i). length s - i)") (auto simp: termination_simp)

declare default_loop.simps [simp del]

definition extractColumnDefault :: "string \<Rightarrow> string option" where
  "extractColumnDefault sqlText = default_loop sqlText 0"

definition translateAutoIncrementPrimaryKeyColumn :: "string \<Rightarrow> string" where
  "translateAutoIncrementPrimaryKeyColumn item =
     (case readSQLNameToken item 0 of
        None \<Rightarrow> item
      | Some (name, pos) \<Rightarrow>
          Join ([name, ''INTEGER'', ''PRIMARY KEY'', ''AUTOINCREMENT''] @
            (case extractColumnDefault (drop pos item) of
               Some defaultValue \<Rightarrow> [''DEFAULT '' @ defaultValue]
             | None \<Rightarrow> [])) '' '')"

function inline_pk_loop :: "string \<Rightarrow> nat \<Rightarrow> bool" where
  "inline_pk_loop item i =
     (if i < length item then
        case skipSpan item i of
          Some e \<Rightarrow> inline_pk_loop item e
        | None \<Rightarrow> (case readSQLIdentifier item i of
            None \<Rightarrow> inline_pk_loop item (i + 1)
          | Some (word, e) \<Rightarrow>
              if EqualFold word ''PRIMARY'' \<and> consumeKeyword item e ''KEY'' \<noteq> None then True
              else inline_pk_loop item e)
      else False)"
  by pat_completeness auto
termination by (relation "measure (\<lambda>(s, i). length s - i)") (auto simp: termination_simp)

declare inline_pk_loop.simps [simp del]

definition isInlinePrimaryKeyColumnItem :: "string \<Rightarrow> bool" where
  "isInlinePrimaryKeyColumnItem item =
     (case readSQLNameToken item 0 of None \<Rightarrow> False | Some (_, pos) \<Rightarrow> inline_pk_loop item pos)"

definition translatePrimaryKeyTableConstraint :: "string \<Rightarrow> string option go" where
  "translatePrimaryKeyTableConstraint item =
     (case do {
        (name, p1) \<leftarrow> constraintPrefix item (skipSQLSpaces item 0);
        p2 \<leftarrow> consumeKeyword item p1 ''PRIMARY'';
        p3 \<leftarrow> consumeKeyword item p2 ''KEY'';
        let columnsStart = skipSQLSpaces item (skipNamedOption item p3 ''USING'');
        columnsEnd \<leftarrow> parenthesizedSQLSpan item columnsStart;
        Some ((case name of Some n \<Rightarrow> ''CONSTRAINT '' @ n @ '' '' | None \<Rightarrow> []) @ ''PRIMARY KEY '' @
              translateMySQLIndexColumns (gslice item columnsStart columnsEnd)) } of
       None \<Rightarrow> Returns None
     | Some constraint \<Rightarrow> do { t \<leftarrow> translateSQL constraint; Returns (Some t) })"

definition generatedIndexName :: "string \<Rightarrow> string \<Rightarrow> bool \<Rightarrow> string" where
  "generatedIndexName tableName columns unique =
     (let paren = (\<lambda>c. c = CHR ''('' \<or> c = CHR '')'');
          items = splitSQLTopLevelList (TrimRightFunc (TrimLeftFunc columns paren) paren)
      in Join ([''idx'', sanitizeSQLName tableName] @ (if unique then [''uniq''] else []) @
           concat (map (\<lambda>item. case readSQLNameToken (TrimSpace item) 0 of
               None \<Rightarrow> [] | Some (name, _) \<Rightarrow> [sanitizeSQLName name]) items)) ''_'')"

definition translateCreateTableIndex :: "string \<Rightarrow> string \<Rightarrow> string option" where
  "translateCreateTableIndex item tableName = do {
     (constraintName, p1) \<leftarrow> constraintPrefix item (skipSQLSpaces item 0);
     let unique = (consumeKeyword item p1 ''UNIQUE'' \<noteq> None);
     let p2 = consumeOptional item p1 ''UNIQUE'';
     p3 \<leftarrow> consumeEither item p2 ''KEY'' ''INDEX'';
     let p4 = skipNamedOption item p3 ''USING'';
     let start0 = skipSQLSpaces item p4;
     (indexName0, columnsStart) \<leftarrow>
       (if start0 \<ge> length item \<or> item ! start0 \<noteq> CHR ''('' then do {
          (name, nxt) \<leftarrow> readSQLNameToken item p4;
          Some (unquoteSQLWord name, skipSQLSpaces item (skipNamedOption item nxt ''USING'')) }
        else Some (unquoteSQLWord (case constraintName of Some n \<Rightarrow> n | None \<Rightarrow> []), start0));
     columnsEnd \<leftarrow> parenthesizedSQLSpan item columnsStart;
     let columns = gslice item columnsStart columnsEnd;
     let indexName = (if indexName0 = [] then generatedIndexName tableName columns unique else indexName0);
     Some (createIndexText unique tableName indexName columns) }"

subsection \<open>Column rewrites\<close>

function tidb_loop :: "string \<Rightarrow> nat \<Rightarrow> string" where
  "tidb_loop sqlText i =
     (if i < length sqlText then
        case sqlCommentSpan sqlText i of
          Some e \<Rightarrow>
            (case translateTiDBDDLComment (gslice sqlText i e) of
               Some replacement \<Rightarrow> replacement | None \<Rightarrow> gslice sqlText i e) @ tidb_loop sqlText e
        | None \<Rightarrow> sqlText ! i # tidb_loop sqlText (i + 1)
      else [])"
  by pat_completeness auto
termination by (relation "measure (\<lambda>(s, i). length s - i)") (auto dest!: sqlCommentSpan_bounds)

declare tidb_loop.simps [simp del]

definition expandTiDBDDLComments :: "string \<Rightarrow> string" where
  "expandTiDBDDLComments sqlText = tidb_loop sqlText 0"

lemma call_measure [termination_simp]:
  "consumeOptionalParenthesizedCall s e = Some ce \<Longrightarrow> readSQLIdentifier s i = Some (w, e) \<Longrightarrow>
   length s - ce < length s - i"
  using consumeOptionalParenthesizedCall_bounds [of s e ce] readSQLIdentifier_bounds [of s i w e] by auto

function remove_loop :: "string \<Rightarrow> string \<Rightarrow> nat \<Rightarrow> string" where
  "remove_loop sqlText name i =
     (if i < length sqlText then
        case skipSpan sqlText i of
          Some e \<Rightarrow> gslice sqlText i e @ remove_loop sqlText name e
        | None \<Rightarrow> (case readSQLIdentifier sqlText i of
            Some (ident, e) \<Rightarrow>
              if EqualFold ident name then
                (case consumeOptionalParenthesizedCall sqlText e of
                   Some callEnd \<Rightarrow> remove_loop sqlText name callEnd
                 | None \<Rightarrow> remove_loop sqlText name e)
              else gslice sqlText i e @ remove_loop sqlText name e
          | None \<Rightarrow> sqlText ! i # remove_loop sqlText name (i + 1))
      else [])"
  by pat_completeness auto
termination by (relation "measure (\<lambda>(s, n, i). length s - i)") (auto simp: termination_simp)

declare remove_loop.simps [simp del]

definition removeSQLIdentifierCall :: "string \<Rightarrow> string \<Rightarrow> string" where
  "removeSQLIdentifierCall sqlText name = remove_loop sqlText name 0"

definition isMySQLIntegerType :: "string \<Rightarrow> bool" where
  "isMySQLIntegerType columnType = Contains (ToUpper (TrimSpace columnType)) ''INT''"

definition replaceIntegerColumnType :: "string \<Rightarrow> string" where
  "replaceIntegerColumnType item =
     (case readSQLNameToken item 0 of
        None \<Rightarrow> item
      | Some (_, pos) \<Rightarrow>
          let typeStart = skipSQLSpaces item pos in
          (case readSQLIdentifier item typeStart of
             None \<Rightarrow> item
           | Some (typeName, typeEnd) \<Rightarrow>
               if \<not> isMySQLIntegerType typeName then item
               else gslice item 0 typeStart @ ''INTEGER'' @ drop typeEnd item))"

function autoincrement_loop :: "string \<Rightarrow> nat \<Rightarrow> string" where
  "autoincrement_loop item i =
     (if i < length item then
        case skipSpan item i of
          Some e \<Rightarrow> autoincrement_loop item e
        | None \<Rightarrow> (case readSQLIdentifier item i of
            None \<Rightarrow> autoincrement_loop item (i + 1)
          | Some (word, e) \<Rightarrow>
              if \<not> EqualFold word ''PRIMARY'' then autoincrement_loop item e
              else (case readSQLIdentifier item (skipSQLSpaces item e) of
                  Some (key, keyEnd) \<Rightarrow>
                    if EqualFold key ''KEY'' then gslice item 0 keyEnd @ '' AUTOINCREMENT'' @ drop keyEnd item
                    else autoincrement_loop item e
                | None \<Rightarrow> autoincrement_loop item e))
      else item)"
  by pat_completeness auto
termination by (relation "measure (\<lambda>(s, i). length s - i)") (auto simp: termination_simp)

declare autoincrement_loop.simps [simp del]

definition ensurePrimaryKeyAutoincrement :: "string \<Rightarrow> string" where
  "ensurePrimaryKeyAutoincrement item =
     (if containsSQLIdentifier item ''AUTOINCREMENT'' then item else autoincrement_loop item 0)"

definition translateCreateTableColumnItem :: "string \<Rightarrow> string go" where
  "translateCreateTableColumnItem item0 =
     (let item1 = expandTiDBDDLComments item0;
          item2 = (if containsSQLIdentifier item1 ''AUTO_INCREMENT'' \<and> isInlinePrimaryKeyColumnItem item1
                   then replaceIntegerColumnType item1 else item1);
          item3 = (if containsSQLIdentifier item2 ''AUTO_RANDOM''
                   then ensurePrimaryKeyAutoincrement (replaceIntegerColumnType
                          (removeSQLIdentifierCall item2 ''AUTO_RANDOM''))
                   else item2)
      in translateSQL item3)"

subsection \<open>CREATE TABLE\<close>

function partition_loop :: "string \<Rightarrow> nat \<Rightarrow> nat \<Rightarrow> string" where
  "partition_loop sqlText depth i =
     (if i < length sqlText then
        case skipSpan sqlText i of
          Some e \<Rightarrow> partition_loop sqlText depth e
        | None \<Rightarrow>
            if sqlText ! i = CHR ''('' then partition_loop sqlText (depth + 1) (i + 1)
            else if sqlText ! i = CHR '')'' then
              partition_loop sqlText (if depth > 0 then depth - 1 else depth) (i + 1)
            else (case readSQLIdentifier sqlText i of
                None \<Rightarrow> partition_loop sqlText depth (i + 1)
              | Some (word, e) \<Rightarrow>
                  if depth = 0 \<and> EqualFold word ''PARTITION'' \<and> consumeKeyword sqlText e ''BY'' \<noteq> None then
                    let pre = TrimRightFunc (gslice sqlText 0 i) isSQLSpace in
                    if HasSuffix (TrimSpace sqlText) '';'' \<and> \<not> HasSuffix pre '';'' then pre @ '';'' else pre
                  else partition_loop sqlText depth e)
      else sqlText)"
  by pat_completeness auto
termination by (relation "measure (\<lambda>(s, d, i). length s - i)") (auto simp: termination_simp)

declare partition_loop.simps [simp del]

definition stripMySQLPartitionClause :: "string \<Rightarrow> string" where
  "stripMySQLPartitionClause sqlText = partition_loop sqlText 0 0"

text \<open>The loop over the items: the rewritten items, and the index statements split off.\<close>

fun create_items :: "string \<Rightarrow> string \<Rightarrow> string list \<Rightarrow> (string list \<times> string list) go" where
  "create_items tableName autoColumn [] = Returns ([], [])"
| "create_items tableName autoColumn (item0 # items) =
     (let item = TrimSpace item0 in
      if item = [] then create_items tableName autoColumn items
      else if autoColumn \<noteq> [] \<and> isPrimaryKeyTableConstraintForColumn item autoColumn
      then create_items tableName autoColumn items
      else do {
        primary \<leftarrow> translatePrimaryKeyTableConstraint item;
        (case primary of
           Some p \<Rightarrow> do {
             (ts, ix) \<leftarrow> create_items tableName autoColumn items;
             Returns (p # ts, ix) }
         | None \<Rightarrow> (case translateCreateTableIndex item tableName of
             Some indexStmt \<Rightarrow> do {
               (ts, ix) \<leftarrow> create_items tableName autoColumn items;
               Returns (ts, if indexStmt \<noteq> [] then indexStmt # ix else ix) }
           | None \<Rightarrow> do {
               t \<leftarrow> translateCreateTableColumnItem
                 (if autoColumn \<noteq> [] \<and> createTableColumnName item = autoColumn
                  then translateAutoIncrementPrimaryKeyColumn item
                  else if containsSQLIdentifier item ''AUTO_INCREMENT'' \<and> \<not> isInlinePrimaryKeyColumnItem item
                  then removeSQLIdentifierCall item ''AUTO_INCREMENT'' else item);
               (ts, ix) \<leftarrow> create_items tableName autoColumn items;
               Returns (t # ts, ix) })) })"

text \<open>The header of \<open>CREATE [TEMPORARY | TEMP] TABLE [IF NOT EXISTS]\<close>, up to the table name.\<close>

definition createTableHeader :: "string \<Rightarrow> nat option" where
  "createTableHeader sqlText = do {
     p1 \<leftarrow> consumeKeyword sqlText (skipSQLSpaces sqlText 0) ''CREATE'';
     let p2 = (case consumeKeyword sqlText p1 ''TEMPORARY'' of
                 Some p \<Rightarrow> p | None \<Rightarrow> consumeOptional sqlText p1 ''TEMP'');
     p3 \<leftarrow> consumeKeyword sqlText p2 ''TABLE'';
     (case consumeKeyword sqlText p3 ''IF'' of
        None \<Rightarrow> Some p3
      | Some p4 \<Rightarrow> do { p5 \<leftarrow> consumeKeyword sqlText p4 ''NOT''; consumeKeyword sqlText p5 ''EXISTS'' }) }"

definition translateCreateTableStatements :: "string \<Rightarrow> string list option go" where
  "translateCreateTableStatements sqlText =
     (case do {
        p1 \<leftarrow> createTableHeader sqlText;
        (tableName, p2) \<leftarrow> readSQLNameToken sqlText p1;
        let bodyStart = skipSQLSpaces sqlText p2;
        bodyEnd \<leftarrow> parenthesizedSQLSpan sqlText bodyStart;
        Some (tableName, bodyStart, bodyEnd) } of
       None \<Rightarrow> Returns None
     | Some (tableName, bodyStart, bodyEnd) \<Rightarrow>
         let items = splitSQLTopLevelList (gslice sqlText (bodyStart + 1) (bodyEnd - 1)) in
         do {
           (translatedItems, indexStatements) \<leftarrow>
             create_items tableName (autoIncrementPrimaryKeyColumn items) items;
           let rebuilt = gslice sqlText 0 (bodyStart + 1) @ Join translatedItems ('','' @ [nl])
                         @ drop (bodyEnd - 1) sqlText;
           t \<leftarrow> translateSQL (stripMySQLPartitionClause rebuilt);
           Returns (Some (t # indexStatements)) })"

definition translateSQLStatements :: "string \<Rightarrow> string list go" where
  "translateSQLStatements sqlText = do {
     translated \<leftarrow> translateCreateTableStatements sqlText;
     (case translated of
        Some ts \<Rightarrow> Returns ts
      | None \<Rightarrow> do { t \<leftarrow> translateSQL sqlText; Returns [t] }) }"

subsection \<open>Properties of the statement splitter\<close>

lemma statements_loop_tokens:
  "start \<le> i \<Longrightarrow> i \<le> length s \<Longrightarrow>
   statements_loop s start d i =
     filter (\<lambda>t. t \<noteq> []) (map TrimSpace (split_tokens (CHR '';'') d (gslice s start i) (lex_from s i)))"
proof (induction i arbitrary: start d rule: scan_induct [of s])
  case (End i)
  then show ?case by (subst statements_loop.simps) (auto simp: lex_from_end gslice_def addStatement_def)
next
  case (Span i e)
  from Span(2) have "i < e" "e \<le> length s" using skipSpan_bounds by auto
  then show ?case using Span
    by (subst statements_loop.simps) (simp add: lex_from_span gslice_append_slice)
next
  case (Byte i)
  have step: "gslice s start (Suc i) = gslice s start i @ [s ! i]"
    using Byte gslice_append_slice [of start i "Suc i" s] by (simp add: gslice_Suc)
  have "statements_loop s start d i =
     (if s ! i = CHR ''('' then statements_loop s start (Suc d) (Suc i)
      else if s ! i = CHR '')'' then statements_loop s start (d - 1) (Suc i)
      else if s ! i = CHR '';'' \<and> d = 0 then
        addStatement (gslice s start i) (statements_loop s (Suc i) d (Suc i))
      else statements_loop s start d (Suc i))"
    using Byte(1,2) by (subst statements_loop.simps) simp
  also have "\<dots> = filter (\<lambda>t. t \<noteq> []) (map TrimSpace
      (split_tokens (CHR '';'') d (gslice s start i) (Byte (s ! i) # lex_from s (Suc i))))"
    using Byte by (simp add: step addStatement_def)
  finally show ?case using Byte(1,2) by (simp only: lex_from_byte)
qed

text \<open>
  \<open>splitSQLStatements\<close> cuts the text at the semicolons that stand outside quotes,
  comments and brackets, trims the pieces and drops the empty ones; the pieces, before
  trimming, are the whole text.
\<close>

theorem splitSQLStatements_correct:
  "splitSQLStatements s =
     filter (\<lambda>t. t \<noteq> []) (map TrimSpace (split_tokens (CHR '';'') 0 [] (lex_from s 0))) \<and>
   Join (split_tokens (CHR '';'') 0 [] (lex_from s 0)) '';'' = s"
  using lex_text [of s 0]
  by (simp add: splitSQLStatements_def statements_loop_tokens Join_split_tokens)

end
