(* ===== verification/Ddl_Compat.thy ===== *)
theory Ddl_Compat
  imports Sql_Ddl
begin

text \<open>
  The recognisers of \<open>pkg/mysqlmock/ddl_compat.go\<close>: which \<open>CREATE DATABASE\<close>,
  \<open>DROP DATABASE\<close> and \<open>DROP TABLE\<close> statements are accepted as no-ops.
\<close>

function skipSQLSpacesAndComments :: "string \<Rightarrow> nat \<Rightarrow> nat" where
  "skipSQLSpacesAndComments sqlText pos0 =
     (let pos = skipSQLSpaces sqlText pos0 in
      if pos \<ge> length sqlText then pos
      else (case sqlCommentSpan sqlText pos of
              None \<Rightarrow> pos
            | Some e \<Rightarrow> skipSQLSpacesAndComments sqlText e))"
  by pat_completeness auto
termination
  by (relation "measure (\<lambda>(s, i). length s - i)")
     (auto simp: Let_def dest!: sqlCommentSpan_bounds dest: skipSQLSpaces_lt intro!: diff_less_mono2
       intro: less_le_trans)

declare skipSQLSpacesAndComments.simps [simp del]

lemma skipSQLSpacesAndComments_ge [scan_bounds]: "pos \<le> skipSQLSpacesAndComments s pos"
proof (induction s pos rule: skipSQLSpacesAndComments.induct)
  case (1 s pos)
  show ?case
  proof (cases "sqlCommentSpan s (skipSQLSpaces s pos)")
    case None
    then show ?thesis by (subst skipSQLSpacesAndComments.simps) (simp add: Let_def skipSQLSpaces_ge)
  next
    case (Some e)
    then have "pos < e" using sqlCommentSpan_bounds by blast
    with 1 [OF refl _ Some] have "\<not> length s \<le> skipSQLSpaces s pos \<Longrightarrow> pos \<le> skipSQLSpacesAndComments s e"
      using skipSQLSpaces_ge [of pos s] by simp
    then show ?thesis using Some
      by (subst skipSQLSpacesAndComments.simps) (simp add: Let_def skipSQLSpaces_ge)
  qed
qed

definition consumeCreateDatabaseKeyword :: "string \<Rightarrow> nat \<Rightarrow> string \<Rightarrow> nat option" where
  "consumeCreateDatabaseKeyword sqlText pos keyword =
     (case readSQLIdentifier sqlText (skipSQLSpacesAndComments sqlText pos) of
        None \<Rightarrow> None
      | Some (word, nxt) \<Rightarrow> if \<not> EqualFold word keyword then None else Some nxt)"

definition consumeCreateDatabaseOptionValue :: "string \<Rightarrow> nat \<Rightarrow> nat option" where
  "consumeCreateDatabaseOptionValue sqlText pos0 =
     (let pos = skipSQLSpacesAndComments sqlText pos0 in
      if pos \<ge> length sqlText then None
      else (case quotedSQLSpan sqlText pos of
              Some e \<Rightarrow> Some e
            | None \<Rightarrow> map_option snd (readSQLIdentifier sqlText pos)))"

text \<open>One of the options \<open>CHARACTER SET\<close>, \<open>CHARSET\<close>, \<open>COLLATE\<close>, \<open>ENCRYPTION\<close>.\<close>

definition createDatabaseOptionName :: "string \<Rightarrow> nat \<Rightarrow> nat option" where
  "createDatabaseOptionName sqlText pos =
     (case consumeCreateDatabaseKeyword sqlText pos ''CHARACTER'' of
        Some p \<Rightarrow> consumeCreateDatabaseKeyword sqlText p ''SET''
      | None \<Rightarrow> (case consumeCreateDatabaseKeyword sqlText pos ''CHARSET'' of
          Some p \<Rightarrow> Some p
        | None \<Rightarrow> (case consumeCreateDatabaseKeyword sqlText pos ''COLLATE'' of
            Some p \<Rightarrow> Some p
          | None \<Rightarrow> consumeCreateDatabaseKeyword sqlText pos ''ENCRYPTION'')))"

text \<open>One round of the option loop after the end test: \<open>[DEFAULT] name [=] value\<close>.\<close>

definition createDatabaseOption :: "string \<Rightarrow> nat \<Rightarrow> nat option" where
  "createDatabaseOption sqlText pos = do {
     let p1 = (case consumeCreateDatabaseKeyword sqlText pos ''DEFAULT'' of Some p \<Rightarrow> p | None \<Rightarrow> pos);
     p2 \<leftarrow> createDatabaseOptionName sqlText p1;
     let p3 = skipSQLSpacesAndComments sqlText p2;
     consumeCreateDatabaseOptionValue sqlText
       (if p3 < length sqlText \<and> sqlText ! p3 = CHR ''='' then p3 + 1 else p3) }"

lemma consumeCreateDatabaseKeyword_bounds [scan_bounds]:
  "consumeCreateDatabaseKeyword s pos k = Some e \<Longrightarrow> pos < e \<and> e \<le> length s"
  using skipSQLSpacesAndComments_ge [of pos s]
  by (fastforce simp: consumeCreateDatabaseKeyword_def split: option.splits if_splits
      dest!: readSQLIdentifier_bounds)

lemma consumeCreateDatabaseOptionValue_bounds [scan_bounds]:
  "consumeCreateDatabaseOptionValue s pos = Some e \<Longrightarrow> pos < e \<and> e \<le> length s"
  using skipSQLSpacesAndComments_ge [of pos s]
  by (fastforce simp: consumeCreateDatabaseOptionValue_def Let_def split: option.splits if_splits
      dest!: readSQLIdentifier_bounds quotedSQLSpan_bounds)

lemma createDatabaseOptionName_bounds [scan_bounds]:
  "createDatabaseOptionName s pos = Some e \<Longrightarrow> pos < e \<and> e \<le> length s"
  by (fastforce simp: createDatabaseOptionName_def split: option.splits
      dest!: consumeCreateDatabaseKeyword_bounds)

lemma createDatabaseOption_bounds [scan_bounds]:
  assumes "createDatabaseOption s pos = Some e" shows "pos < e \<and> e \<le> length s"
proof -
  let ?p1 = "case consumeCreateDatabaseKeyword s pos ''DEFAULT'' of Some p \<Rightarrow> p | None \<Rightarrow> pos"
  have le: "pos \<le> ?p1"
    by (auto split: option.splits dest!: consumeCreateDatabaseKeyword_bounds)
  from assms obtain p2 q where p2: "createDatabaseOptionName s ?p1 = Some p2"
    and q: "consumeCreateDatabaseOptionValue s q = Some e" "skipSQLSpacesAndComments s p2 \<le> q"
    by (auto simp: createDatabaseOption_def Let_def bind_eq_Some_conv split: if_splits)
  from createDatabaseOptionName_bounds [OF p2] skipSQLSpacesAndComments_ge [of p2 s]
    consumeCreateDatabaseOptionValue_bounds [OF q(1)] q(2) le
  show ?thesis by linarith
qed

function consumeCreateDatabaseOptions :: "string \<Rightarrow> nat \<Rightarrow> bool" where
  "consumeCreateDatabaseOptions sqlText pos0 =
     (let pos = skipSQLSpacesAndComments sqlText pos0 in
      if pos \<ge> length sqlText then True
      else (case createDatabaseOption sqlText pos of
              None \<Rightarrow> False
            | Some nxt \<Rightarrow> consumeCreateDatabaseOptions sqlText nxt))"
  by pat_completeness auto
termination
proof (relation "measure (\<lambda>(s, i). length s - i)", goal_cases)
  case 1 show ?case by simp
next
  case (2 s pos0 pos nxt)
  then show ?case
    using createDatabaseOption_bounds [of s pos nxt] skipSQLSpacesAndComments_ge [of pos0 s] by auto
qed

declare consumeCreateDatabaseOptions.simps [simp del]

definition isCreateDatabaseStatement :: "string \<Rightarrow> bool" where
  "isCreateDatabaseStatement sqlText0 =
     (case splitSQLStatements sqlText0 of
        [sqlText] \<Rightarrow>
          (case do {
             p1 \<leftarrow> consumeCreateDatabaseKeyword sqlText 0 ''CREATE'';
             p2 \<leftarrow> (case consumeCreateDatabaseKeyword sqlText p1 ''DATABASE'' of
                      Some p \<Rightarrow> Some p | None \<Rightarrow> consumeCreateDatabaseKeyword sqlText p1 ''SCHEMA'');
             p3 \<leftarrow> (case consumeCreateDatabaseKeyword sqlText p2 ''IF'' of
                      None \<Rightarrow> Some p2
                    | Some p \<Rightarrow> do { q \<leftarrow> consumeCreateDatabaseKeyword sqlText p ''NOT'';
                                    consumeCreateDatabaseKeyword sqlText q ''EXISTS'' });
             readSQLNameToken sqlText (skipSQLSpacesAndComments sqlText p3) } of
            None \<Rightarrow> False
          | Some (_, nxt) \<Rightarrow> consumeCreateDatabaseOptions sqlText nxt)
      | _ \<Rightarrow> False)"

definition isDropDatabaseStatement :: "string \<Rightarrow> bool" where
  "isDropDatabaseStatement sqlText =
     (case do {
        p1 \<leftarrow> consumeKeyword sqlText 0 ''DROP'';
        p2 \<leftarrow> consumeEither sqlText p1 ''DATABASE'' ''SCHEMA'';
        p3 \<leftarrow> (case consumeKeyword sqlText p2 ''IF'' of
                 None \<Rightarrow> Some p2 | Some p \<Rightarrow> consumeKeyword sqlText p ''EXISTS'');
        readSQLNameToken sqlText p3 } of
       None \<Rightarrow> False
     | Some (_, nxt) \<Rightarrow>
         let pos = skipSQLSpaces sqlText nxt;
             pos' = (if pos < length sqlText \<and> sqlText ! pos = CHR '';''
                     then skipSQLSpaces sqlText (pos + 1) else pos)
         in pos' = length sqlText)"

text \<open>The comma-separated names of \<open>DROP TABLE\<close>: where the list ends.\<close>

function drop_names :: "string \<Rightarrow> nat \<Rightarrow> nat option" where
  "drop_names sqlText pos =
     (case readSQLQualifiedName sqlText pos of
        None \<Rightarrow> None
      | Some (_, nxt) \<Rightarrow>
          let p = skipSQLSpaces sqlText nxt in
          if p \<ge> length sqlText \<or> sqlText ! p \<noteq> CHR '','' then Some p
          else drop_names sqlText (p + 1))"
  by pat_completeness auto
termination
proof (relation "measure (\<lambda>(s, i). length s - i)", goal_cases)
  case 1 show ?case by simp
next
  case (2 s pos x a nxt p)
  have "pos < nxt" "nxt \<le> length s" using 2(1,2) readSQLQualifiedName_bounds by auto
  moreover have "nxt \<le> p" using 2(3) skipSQLSpaces_ge by simp
  ultimately show ?case using 2(4) by auto
qed

declare drop_names.simps [simp del]

definition isDropTableStatement :: "string \<Rightarrow> bool" where
  "isDropTableStatement sqlText0 =
     (case splitSQLStatements sqlText0 of
        [sqlText] \<Rightarrow>
          (case do {
             p1 \<leftarrow> consumeKeyword sqlText 0 ''DROP'';
             let p2 = consumeOptional sqlText p1 ''TEMPORARY'';
             p3 \<leftarrow> consumeKeyword sqlText p2 ''TABLE'';
             p4 \<leftarrow> (case consumeKeyword sqlText p3 ''IF'' of
                      None \<Rightarrow> Some p3 | Some p \<Rightarrow> consumeKeyword sqlText p ''EXISTS'');
             drop_names sqlText p4 } of
            None \<Rightarrow> False
          | Some pos \<Rightarrow>
              let p = (case consumeEither sqlText pos ''CASCADE'' ''RESTRICT'' of Some q \<Rightarrow> q | None \<Rightarrow> pos)
              in skipSQLSpaces sqlText p = length sqlText)
      | _ \<Rightarrow> False)"

definition execMySQLDDLCompatibility :: "string \<Rightarrow> bool" where
  "execMySQLDDLCompatibility sqlText = (isDropDatabaseStatement sqlText \<or> isDropTableStatement sqlText)"

end
