(* ===== verification/Sql_Properties.thy ===== *)
theory Sql_Properties
  imports Ddl_Compat "HOL-Library.Multiset"
begin

text \<open>
  Properties of the translator as a whole: when \<open>translateSQL\<close> panics, when it leaves a
  text alone, and that its map-ordered replacements do not depend on the order.
\<close>

subsection \<open>Texts that end in a lone quote\<close>

lemma quoted_loop_progress: "i < length s \<Longrightarrow> i < quoted_loop s q i"
  using quoted_loop_gt [of "i + 1" s q] quoted_loop_gt [of "i + 2" s q]
  by (subst quoted_loop.simps) auto

text \<open>A quoted span ends with its quote, unless it runs to the end of the text.\<close>

lemma quoted_loop_last:
  "i \<le> length s \<Longrightarrow> quoted_loop s q i < length s \<Longrightarrow> s ! (quoted_loop s q i - 1) = q"
proof (induction s q i rule: quoted_loop.induct)
  case (1 s q i)
  have l: "quoted_loop s q i < length s" using 1 by blast
  have "i < length s" using 1(4,5) quoted_loop.simps [of s q i] by (auto split: if_splits)
  then show ?case using 1 l
    by (subst (asm) (2) quoted_loop.simps, subst quoted_loop.simps) (auto split: if_splits)
qed

lemma quotedSQLSpan_lone:
  "quotedSQLSpan s i = Some (Suc i) \<longleftrightarrow> Suc i = length s \<and> isQuote (s ! i)"
proof
  assume a: "quotedSQLSpan s i = Some (Suc i)"
  then have q: "i < length s" "isQuote (s ! i)" "quoted_loop s (s ! i) (Suc i) = Suc i"
    by (auto simp: quotedSQLSpan_def isQuote_def Let_def split: if_splits)
  then show "Suc i = length s \<and> isQuote (s ! i)"
    using quoted_loop_progress [of "Suc i" s "s ! i"] by (cases "Suc i < length s") auto
next
  assume "Suc i = length s \<and> isQuote (s ! i)"
  then show "quotedSQLSpan s i = Some (Suc i)"
    by (subst quotedSQLSpan_def) (auto simp: quoted_loop.simps isQuote_def Let_def)
qed

lemma quotedSQLSpan_sq: "i < length s \<Longrightarrow> s ! i = sq \<Longrightarrow> \<exists>e. quotedSQLSpan s i = Some e"
  by (simp add: quotedSQLSpan_def Let_def)

lemma comment_not_sq: "s ! i = sq \<Longrightarrow> sqlCommentSpan s i = None"
  by (simp add: sqlCommentSpan_def)

definition endsInLoneQuote :: "token list \<Rightarrow> bool" where
  "endsInLoneQuote ts = (ts \<noteq> [] \<and> last ts = Span [sq])"

lemma endsInLoneQuote_Cons:
  "endsInLoneQuote (t # ts) = (if ts = [] then t = Span [sq] else endsInLoneQuote ts)"
  by (simp add: endsInLoneQuote_def)

lemma goSlice_inner:
  "i < e \<Longrightarrow> e \<le> length s \<Longrightarrow>
   goSlice s (Suc i) (e - Suc 0) = (if e = Suc i then Panic else Returns (gslice s (Suc i) (e - Suc 0)))"
  by (auto simp: goSlice_def)

lemma lex_from_nonempty: "i < length s \<Longrightarrow> lex_from s i \<noteq> []"
  by (cases "skipSpan s i") (simp_all add: lex_from_span lex_from_byte)

lemma lone_span:
  assumes "i < length s" "skipSpan s i = Some e" "gslice s i e = [sq]"
  shows "e = Suc i \<and> s ! i = sq"
proof -
  have b: "i < e" "e \<le> length s" using skipSpan_bounds [OF assms(2)] by auto
  have "length (gslice s i e) = 1" using assms(3) by simp
  with b have "e = Suc i" by simp
  then show ?thesis using assms(1,3) by (simp add: gslice_Suc)
qed

lemma literals_loop_panics: "literals_loop s i = Panic \<longleftrightarrow> endsInLoneQuote (lex_from s i)"
proof (induction i rule: scan_induct [of s])
  case (End i)
  then show ?case by (subst literals_loop.simps) (simp add: lex_from_end endsInLoneQuote_def)
next
  case (Byte i)
  then show ?case
    by (subst literals_loop.simps)
       (auto simp: lex_from_byte endsInLoneQuote_Cons skipSpan_def endsInLoneQuote_def bind_eq_None_conv
          split: option.splits)
next
  case (Span i e)
  have b: "i < e" "e \<le> length s" using skipSpan_bounds [OF Span(2)] by auto
  show ?case
  proof (cases "s ! i = sq \<and> e = Suc i")
    case True
    then have q: "quotedSQLSpan s i = Some e"
      using Span(1,2) quotedSQLSpan_sq [of i s] by (auto simp: skipSpan_def)
    then have "e = length s" using quotedSQLSpan_lone [of s i] True by simp
    moreover have "gslice s i e = [sq]" using True Span(1) by (simp add: gslice_Suc)
    ultimately show ?thesis using Span(1,2) True q
      by (subst literals_loop.simps)
         (auto simp: lex_from_span lex_from_end endsInLoneQuote_Cons gslice_Suc goSlice_def)
  next
    case False
    have nl: "gslice s i e \<noteq> [sq]" using lone_span [OF Span(1,2)] False by auto
    have "literals_loop s i = None \<longleftrightarrow> literals_loop s e = None"
      using Span(1,2) b False
      by (subst literals_loop.simps)
         (auto simp: skipSpan_def goSlice_inner bind_eq_None_conv split: option.splits)
    also have "\<dots> \<longleftrightarrow> endsInLoneQuote (lex_from s i)"
      using Span nl by (simp add: lex_from_span endsInLoneQuote_Cons endsInLoneQuote_def)
    finally show ?thesis .
  qed
qed


text \<open>No backslash inside a single-quoted literal.\<close>

fun noEscape :: "token \<Rightarrow> bool" where
  "noEscape (Span w) = (hd w = sq \<longrightarrow> bslash \<notin> set w)"
| "noEscape (Byte c) = True"

definition loneQuoteReached :: "token list \<Rightarrow> bool" where
  "loneQuoteReached ts = (endsInLoneQuote ts \<and> list_all noEscape ts)"

lemma loneQuoteReached_Cons:
  "loneQuoteReached (t # ts) =
     (noEscape t \<and> (if ts = [] then t = Span [sq] else loneQuoteReached ts))"
  by (auto simp: loneQuoteReached_def endsInLoneQuote_Cons)

lemma span_chars:
  assumes "quotedSQLSpan s i = Some e" "s ! i = sq" "e < length s"
  shows "bslash \<in> set (gslice s i e) \<longleftrightarrow> bslash \<in> set (gslice s (Suc i) (e - Suc 0))"
proof -
  have i: "i < length s" "e = quoted_loop s sq (Suc i)"
    using assms by (auto simp: quotedSQLSpan_def Let_def split: if_splits)
  have b: "i < e" using quotedSQLSpan_bounds [OF assms(1)] by simp
  have "e \<noteq> Suc i" using assms quotedSQLSpan_lone [of s i] by auto
  with b have b2: "Suc i \<le> e - Suc 0" "e - Suc 0 < length s" "Suc (e - Suc 0) = e" using assms(3) by auto
  have "s ! (e - Suc 0) = sq" using quoted_loop_last [of "Suc i" s sq] i assms(3) by simp
  then have "gslice s (e - Suc 0) e = [sq]" using gslice_Suc [of "e - Suc 0" s] b2 by simp
  then have "gslice s i e = sq # gslice s (Suc i) (e - Suc 0) @ [sq]"
    using gslice_Cons [OF b i(1)] gslice_append_slice [of "Suc i" "e - Suc 0" e s] b2 assms(2) by simp
  then show ?thesis by simp
qed

lemma hd_gslice: "i < e \<Longrightarrow> i < length s \<Longrightarrow> hd (gslice s i e) = s ! i"
  by (simp add: gslice_Cons)

lemma Contains_byte: "Contains s [c] \<longleftrightarrow> c \<in> set s"
  by (simp add: Contains_def sublist_def in_set_conv_decomp)

lemma noEscape_span:
  "i < e \<Longrightarrow> i < length s \<Longrightarrow> noEscape (Span (gslice s i e)) = (s ! i = sq \<longrightarrow> bslash \<notin> set (gslice s i e))"
  by (simp add: hd_gslice)

lemma backslash_loop_panics: "backslash_loop s i = Panic \<longleftrightarrow> loneQuoteReached (lex_from s i)"
proof (induction i rule: scan_induct [of s])
  case (End i)
  then show ?case
    by (subst backslash_loop.simps) (simp add: lex_from_end loneQuoteReached_def endsInLoneQuote_def)
next
  case (Byte i)
  then show ?case
    by (subst backslash_loop.simps)
       (auto simp: lex_from_byte loneQuoteReached_Cons skipSpan_def loneQuoteReached_def
          endsInLoneQuote_def split: option.splits)
next
  case (Span i e)
  have b: "i < e" "e \<le> length s" using skipSpan_bounds [OF Span(2)] by auto
  have ne: "lex_from s e \<noteq> [] \<longleftrightarrow> e < length s"
    using lex_from_nonempty [of e s] lex_from_end [of s e] by (meson leI)
  have tok: "loneQuoteReached (lex_from s i) \<longleftrightarrow>
      (s ! i = sq \<longrightarrow> bslash \<notin> set (gslice s i e)) \<and>
      (if e < length s then loneQuoteReached (lex_from s e) else gslice s i e = [sq])"
    using Span(1,2) ne noEscape_span [OF b(1) Span(1)]
    by (cases "e < length s") (auto simp: lex_from_span loneQuoteReached_Cons simp del: noEscape.simps)
  have e_end: "backslash_loop s (length s) \<noteq> Panic" by (subst backslash_loop.simps) simp
  show ?case
  proof (cases "s ! i = sq")
    case False
    then have "backslash_loop s i = backslash_loop s e"
      using Span(1,2) by (subst backslash_loop.simps) (auto simp: skipSpan_def split: option.splits)
    moreover have "gslice s i e \<noteq> [sq]" using lone_span [OF Span(1,2)] False by auto
    ultimately show ?thesis using Span(3) tok False e_end b(2) by (cases "e = length s") auto
  next
    case True
    have q: "quotedSQLSpan s i = Some e"
      using Span(1,2) True quotedSQLSpan_sq [of i s] by (auto simp: skipSpan_def)
    have step: "backslash_loop s i =
        (if e = Suc i then Panic else if bslash \<in> set (gslice s (Suc i) (e - Suc 0)) then Returns True
         else backslash_loop s e)"
      using Span(1) True q b goSlice_inner [OF b]
      by (subst backslash_loop.simps) (simp add: Contains_byte)
    show ?thesis
    proof (cases "e = Suc i")
      case e: True
      then have "e = length s" using q quotedSQLSpan_lone [of s i] by simp
      moreover have "gslice s i e = [sq]" using e True Span(1) by (simp add: gslice_Suc)
      ultimately show ?thesis using step tok e by simp
    next
      case ne: False
      then have "gslice s i e \<noteq> [sq]" using lone_span [OF Span(1,2)] by auto
      then show ?thesis using step tok ne Span(3) e_end b(2) True span_chars [OF q True]
        by (cases "e = length s") auto
    qed
  qed
qed


text \<open>
  exactly when the statement test panics: the text does not mention the null-safe equality
  operator, its last token is a single quote with nothing behind it, and no literal before it
  holds a backslash. On such a text \<open>translateSQL\<close> panics as a whole, because
  \<open>hasMySQLBackslashEscapedString\<close> slices \<open>sqlText[i+1 : end-1]\<close> with \<open>end = i+1\<close>.
\<close>

theorem needsSQLTranslation_panics_iff:
  "needsSQLTranslation s = Panic \<longleftrightarrow> \<not> Contains s ''<=>'' \<and> loneQuoteReached (lex_from s 0)"
  by (auto simp: needsSQLTranslation_def hasMySQLBackslashEscapedString_def bind_eq_None_conv
      backslash_loop_panics [symmetric] split: if_splits)

text \<open>
  C34: the client text \<open>t'\<close>, for any \<open>t\<close> free of quotes, comment openers, backslashes and
  \<open><\<close>, makes \<open>translateSQL\<close> panic.
\<close>

theorem translateSQL_lone_quote_panics:
  assumes "set t \<inter> {sq, dq, bq, bslash, CHR ''#'', CHR ''-'', CHR ''/'', CHR ''<''} = {}"
  shows "translateSQL (t @ [sq]) = Panic"
proof -
  let ?s = "t @ [sq]"
  have nth: "\<And>i. i < length t \<Longrightarrow> ?s ! i \<notin> {sq, dq, bq, bslash, CHR ''#'', CHR ''-'', CHR ''/'', CHR ''<''}"
    using assms nth_mem by (fastforce simp: nth_append)
  have "skipSpan [sq] 0 = Some (Suc 0)"
    using quotedSQLSpan_lone [of "[sq]" 0] by (simp add: skipSpan_def isQuote_def)
  then have "lex_from [sq] 0 = [Span [sq]]"
    using lex_from_span [of 0 "[sq]" "Suc 0"] lex_from_end [of "[sq]" "Suc 0"] by (simp add: gslice_def)
  then have last: "lex_from ?s (length t) = [Span [sq]]"
    using lex_from_shift [of t "[sq]" 0] by simp
  have "i \<le> length t \<Longrightarrow> loneQuoteReached (lex_from ?s i)" for i
  proof (induction rule: inc_induct)
    case base
    show ?case by (simp add: last loneQuoteReached_def endsInLoneQuote_def)
  next
    case (step n)
    have "skipSpan ?s n = None"
      using nth [OF step(2)] by (simp add: skipSpan_def quotedSQLSpan_def sqlCommentSpan_def)
    then have "lex_from ?s n = Byte (?s ! n) # lex_from ?s (Suc n)"
      using step(2) by (simp add: lex_from_byte)
    then show ?case using step(3) by (auto simp: loneQuoteReached_Cons loneQuoteReached_def endsInLoneQuote_def)
  qed
  from this [of 0] have "loneQuoteReached (lex_from ?s 0)" by simp
  moreover have "CHR ''<'' \<notin> set ?s" using assms by auto
  then have "\<not> Contains ?s ''<=>''" unfolding Contains_def using set_mono_sublist by fastforce
  ultimately have "needsSQLTranslation ?s = Panic"
    by (simp add: needsSQLTranslation_def hasMySQLBackslashEscapedString_def
        backslash_loop_panics [THEN iffD2])
  then show ?thesis by (simp add: translateSQL_def)
qed

theorem translateSQL_lone_quote_panics_witness: "translateSQL (''SELECT '' @ [sq]) = Panic"
  by (rule translateSQL_lone_quote_panics) simp

subsection \<open>The fast path\<close>

text \<open>Induction along a scan that takes identifiers whole.\<close>

lemma word_induct [case_names End Span Word Byte]:
  assumes "\<And>i. length s \<le> i \<Longrightarrow> P i"
    and "\<And>i e. i < length s \<Longrightarrow> skipSpan s i = Some e \<Longrightarrow> P e \<Longrightarrow> P i"
    and "\<And>i w e. i < length s \<Longrightarrow> skipSpan s i = None \<Longrightarrow> readSQLIdentifier s i = Some (w, e) \<Longrightarrow> P e \<Longrightarrow> P i"
    and "\<And>i. i < length s \<Longrightarrow> skipSpan s i = None \<Longrightarrow> readSQLIdentifier s i = None \<Longrightarrow> P (Suc i) \<Longrightarrow> P i"
  shows "P i"
proof (induction "length s - i" arbitrary: i rule: less_induct)
  case less
  consider "length s \<le> i" | e where "i < length s" "skipSpan s i = Some e"
    | w e where "i < length s" "skipSpan s i = None" "readSQLIdentifier s i = Some (w, e)"
    | "i < length s" "skipSpan s i = None" "readSQLIdentifier s i = None"
    by (cases "skipSpan s i"; cases "readSQLIdentifier s i") force+
  then show ?case
  proof cases
    case 1
    then show ?thesis by (rule assms(1))
  next
    case 2
    have "P e" by (rule less) (rule scan_measure [OF 2(2,1)])
    with 2 show ?thesis by (rule assms(2))
  next
    case 3
    have "P e" by (rule less) (rule ident_measure [OF 3(3)])
    with 3 show ?thesis by (rule assms(3))
  next
    case 4
    have "P (Suc i)" by (rule less) (use 4 in simp)
    with 4 show ?thesis by (rule assms(4))
  qed
qed

lemma needs_loop_span: "i < length s \<Longrightarrow> skipSpan s i = Some e \<Longrightarrow> needs_loop s i = needs_loop s e"
  by (subst needs_loop.simps) simp

lemma needs_loop_word:
  "i < length s \<Longrightarrow> skipSpan s i = None \<Longrightarrow> readSQLIdentifier s i = Some (w, e) \<Longrightarrow>
   needs_loop s i = (ToUpper w \<in> set translationWords \<or> needs_loop s e)"
  by (subst needs_loop.simps) simp

lemma needs_loop_byte:
  "i < length s \<Longrightarrow> skipSpan s i = None \<Longrightarrow> readSQLIdentifier s i = None \<Longrightarrow>
   needs_loop s i = needs_loop s (Suc i)"
  by (subst needs_loop.simps) simp

lemmas needs_steps = needs_loop_span needs_loop_word needs_loop_byte

lemma ident_part_plain:
  assumes "isSQLIdentifierPart c"
  shows "c \<notin> {sq, dq, bq, CHR ''#'', CHR ''-'', CHR ''/'', CHR ''('', CHR '')'', CHR '','', CHR '';'', CHR ''='', CHR ''<''}"
  using assms by (auto simp: isSQLIdentifierPart_def isSQLIdentifierStart_def)

lemma ident_part_skip: "isSQLIdentifierPart (s ! i) \<Longrightarrow> skipSpan s i = None"
  using ident_part_plain [of "s ! i"]
  by (simp add: skipSpan_def quotedSQLSpan_def sqlCommentSpan_def)

lemma paren_loop_ident: "paren_loop s d i = paren_loop s d (ident_end s i)"
proof (induction s i rule: ident_end.induct)
  case (1 s i)
  show ?case
  proof (cases "i < length s \<and> isSQLIdentifierPart (s ! i)")
    case True
    then have "paren_loop s d i = paren_loop s d (Suc i)"
      using ident_part_plain [of "s ! i"] ident_part_skip [of s i]
      by (subst paren_loop.simps) simp
    then show ?thesis using 1 True by (subst ident_end.simps) simp
  next
    case False
    then show ?thesis by (subst ident_end.simps) auto
  qed
qed

lemma read_ident: "readSQLIdentifier s i = Some (w, e) \<Longrightarrow>
  i < length s \<and> isSQLIdentifierStart (s ! i) \<and> e = ident_end s (Suc i) \<and> w = gslice s i e"
  by (auto simp: readSQLIdentifier_def Let_def split: if_splits)

lemma paren_loop_word:
  assumes "readSQLIdentifier s i = Some (w, e)" shows "paren_loop s d i = paren_loop s d e"
proof -
  have p: "i < length s" "isSQLIdentifierPart (s ! i)" "e = ident_end s (Suc i)"
    using read_ident [OF assms] by (auto simp: isSQLIdentifierPart_def)
  then have "ident_end s i = e" by (subst ident_end.simps) simp
  then show ?thesis using paren_loop_ident [of s d i] by simp
qed

lemma needs_paren:
  "paren_loop s d i = Some e \<Longrightarrow> \<not> needs_loop s i \<Longrightarrow> \<not> needs_loop s e"
proof (induction i arbitrary: d rule: word_induct [of s])
  case (End i)
  then show ?case by (subst (asm) paren_loop.simps) simp
next
  case (Span i j)
  then show ?case by (subst (asm) paren_loop.simps) (simp add: needs_loop_span)
next
  case (Word i w j)
  then show ?case using paren_loop_word [OF Word(3)] by (simp add: needs_loop_word)
next
  case (Byte i)
  then show ?case
    by (subst (asm) paren_loop.simps) (auto simp: needs_loop_byte split: if_splits)
qed

lemma ToUpper_ToLower: "ToUpper (ToLower x) = ToUpper x"
  and ToLower_ToUpper: "ToLower (ToUpper x) = ToLower x"
proof -
  have u: "upper_byte (lower_byte c) = upper_byte c" for c
    by (cases c) (auto simp: lower_byte_def upper_byte_def)
  have l: "lower_byte (upper_byte c) = lower_byte c" for c
    by (cases c) (auto simp: lower_byte_def upper_byte_def)
  show "ToUpper (ToLower x) = ToUpper x" by (simp add: ToUpper_def ToLower_def u)
  show "ToLower (ToUpper x) = ToLower x" by (simp add: ToUpper_def ToLower_def l)
qed

lemma EqualFold_upper: "EqualFold a b \<longleftrightarrow> ToUpper a = ToUpper b"
  by (metis EqualFold_def ToUpper_ToLower ToLower_ToUpper)

lemma not_translated:
  "ToUpper w \<notin> set translationWords \<Longrightarrow> k \<in> set translationWords \<Longrightarrow> \<not> EqualFold w k"
proof -
  have "\<forall>k \<in> set translationWords. ToUpper k = k" by code_simp
  moreover assume "ToUpper w \<notin> set translationWords" "k \<in> set translationWords"
  ultimately show ?thesis by (metis EqualFold_upper)
qed

lemma locking_loop_id: "\<not> needs_loop s i \<Longrightarrow> locking_loop s i = None"
proof (induction "length s - i" arbitrary: i rule: less_induct)
  case less
  have IH: "\<And>j. i < j \<Longrightarrow> i < length s \<Longrightarrow> \<not> needs_loop s j \<Longrightarrow> locking_loop s j = None"
    by (rule less(1)) auto
  show ?case
  proof (cases "i < length s")
    case False
    then show ?thesis by (subst locking_loop.simps) simp
  next
    case True
    show ?thesis
    proof (cases "skipSpan s i")
      case (Some e)
      then show ?thesis using True less(2) IH [of e] skipSpan_bounds [OF Some]
        by (subst locking_loop.simps) (simp add: needs_loop_span)
    next
      case None
      show ?thesis
      proof (cases "if s ! i = CHR ''('' then parenthesizedSQLSpan s i else None")
        case (Some e)
        then have q: "parenthesizedSQLSpan s i = Some e" by (metis option.distinct(1))
        then have p: "paren_loop s 0 i = Some e"
          by (simp add: parenthesizedSQLSpan_def split: if_splits)
        have b: "i < e" using parenthesizedSQLSpan_bounds [OF q] by simp
        show ?thesis using True None Some IH [OF b True needs_paren [OF p less(2)]]
          by (subst locking_loop.simps) simp
      next
        case nopar: None
        show ?thesis
        proof (cases "readSQLIdentifier s i")
          case rd: None
          have "\<not> needs_loop s (Suc i)" using less(2) True None rd by (simp add: needs_loop_byte)
          then show ?thesis using True None nopar rd IH [of "Suc i"]
            by (subst locking_loop.simps) simp
        next
          case (Some we)
          obtain w e where we: "we = (w, e)" by (cases we)
          then have n: "ToUpper w \<notin> set translationWords" "\<not> needs_loop s e"
            using less(2) True None Some by (auto simp: needs_loop_word)
          moreover have "i < e" using readSQLIdentifier_bounds Some we by blast
          moreover have "\<not> EqualFold w ''FOR''" "\<not> EqualFold w ''LOCK''"
            using not_translated [OF n(1)] by (auto simp: translationWords_def)
          ultimately show ?thesis using True None nopar Some we IH [of e]
            by (subst locking_loop.simps) simp
        qed
      qed
    qed
  qed
qed

lemma has_ident_steps:
  "i < length s \<Longrightarrow> skipSpan s i = Some e \<Longrightarrow> has_ident_loop s k i = has_ident_loop s k e"
  "i < length s \<Longrightarrow> skipSpan s i = None \<Longrightarrow> readSQLIdentifier s i = Some (w, e) \<Longrightarrow>
     has_ident_loop s k i = (EqualFold w k \<or> has_ident_loop s k e)"
  "i < length s \<Longrightarrow> skipSpan s i = None \<Longrightarrow> readSQLIdentifier s i = None \<Longrightarrow>
     has_ident_loop s k i = has_ident_loop s k (Suc i)"
  by (subst has_ident_loop.simps, simp)+

lemma copy_span: "skipSpan s i = Some e \<Longrightarrow> gslice s i e @ drop e s = drop i s"
  using skipSpan_bounds by (metis gslice_append_drop less_imp_le)

lemma copy_word: "readSQLIdentifier s i = Some (w, e) \<Longrightarrow> gslice s i e @ drop e s = drop i s"
  using readSQLIdentifier_bounds by (metis gslice_append_drop less_imp_le)

lemma like_loop_id: "\<not> has_ident_loop s ''LIKE'' i \<Longrightarrow> like_loop s False pd False d i = drop i s"
proof (induction i arbitrary: d rule: word_induct [of s])
  case (End i)
  then show ?case by (subst like_loop.simps) (simp add: insertEscape_def)
next
  case (Span i e)
  then show ?case by (subst like_loop.simps) (simp add: has_ident_steps copy_span)
next
  case (Word i w e)
  then have "ToUpper w \<noteq> ''LIKE''"
    by (auto simp: has_ident_steps EqualFold_upper) (simp add: ToUpper_def upper_byte_def)
  moreover have "s ! i \<noteq> CHR ''(''" "s ! i \<noteq> CHR '')''"
    using read_ident [OF Word(3)] ident_part_plain [of "s ! i"] by (auto simp: isSQLIdentifierPart_def)
  ultimately show ?case using Word
    by (subst like_loop.simps) (simp add: has_ident_steps copy_word Let_def)
next
  case (Byte i)
  have c: "s ! i # drop (Suc i) s = drop i s" using Byte(1) by (rule nth_append_drop)
  have "like_loop s False pd False d i = s ! i # drop (Suc i) s" using Byte
    by (subst like_loop.simps) (simp add: has_ident_steps)
  with c show ?case by simp
qed

lemma operators_loop_id: "\<not> Contains s ''<=>'' \<Longrightarrow> operators_loop s i = drop i s"
proof (induction i rule: scan_induct [of s])
  case (Byte i)
  have "\<not> HasPrefix (drop i s) ''<=>''"
    using Byte(4) unfolding HasPrefix_def Contains_def
    by (meson prefix_imp_sublist sublist_order.order.trans sublist_drop)
  then show ?case using Byte by (subst operators_loop.simps) (simp add: nth_append_drop)
qed (subst operators_loop.simps, simp add: copy_span)+

lemma translateMySQLFunctionCall_id:
  "ToUpper w \<notin> set translationWords \<Longrightarrow> translateMySQLFunctionCall w inner = None"
  by (subst translateMySQLFunctionCall.simps) (auto simp: translationWords_def)

lemma calls_loop_id: "\<not> needs_loop s i \<Longrightarrow> calls_loop s i = drop i s"
proof (induction i rule: word_induct [of s])
  case (Word i w e)
  then have "\<And>inner. translateMySQLFunctionCall w inner = None"
    by (intro translateMySQLFunctionCall_id) (simp add: needs_loop_word)
  then show ?case using Word
    by (subst calls_loop.simps) (simp add: needs_loop_word copy_word split: option.splits)
qed (subst calls_loop.simps, simp add: copy_span needs_steps nth_append_drop)+

lemma translateIdent_id:
  "ToUpper w \<notin> set translationWords \<Longrightarrow> translateIdent s False w i = (w, i)"
  by (auto simp: translateIdent_def translationWords_def Let_def dropOption_def split: option.splits)

lemma translate_loop_id: "\<not> needs_loop s i \<Longrightarrow> translate_loop s False i = drop i s"
proof (induction i rule: word_induct [of s])
  case (End i)
  then show ?case by (subst translate_loop.simps) simp
next
  case (Span i e)
  then show ?case using copy_span [OF Span(2)]
    by (subst translate_loop.simps)
       (auto simp: skipSpan_def needs_loop_span split: option.splits)
next
  case (Word i w e)
  from read_ident [OF Word(3)] have r: "isSQLIdentifierStart (s ! i)" "e = ident_end s (Suc i)" "w = gslice s i e"
    by auto
  have n: "ToUpper w \<notin> set translationWords" using Word by (simp add: needs_loop_word)
  have "translate_loop s False i = w @ translate_loop s False e"
    using Word(1,2) r translateIdent_id [OF n, of s e]
    by (subst translate_loop.simps) (simp add: skipSpan_def Let_def split: option.splits)
  then show ?case using Word copy_word [OF Word(3)] r(3) by (simp add: needs_loop_word)
next
  case (Byte i)
  have "\<not> isSQLIdentifierStart (s ! i)"
    using Byte(1,3) by (auto simp: readSQLIdentifier_def Let_def)
  then show ?case using Byte
    by (subst translate_loop.simps)
       (simp add: skipSpan_def needs_loop_byte nth_append_drop split: option.splits)
qed


lemma sqliteLiteral_Some:
  "sqliteLiteral r = Some (v, []) \<Longrightarrow> r = ReplaceByte v sq [sq, sq] @ [sq]"
proof (induction r arbitrary: v rule: sqliteLiteral.induct)
  case (3 c d r)
  then show ?case by (auto split: if_splits)
qed (auto split: if_splits)

lemma decode_doubled: "bslash \<notin> set v \<Longrightarrow> decodeMySQLStringLiteral (ReplaceByte v sq [sq, sq]) = v"
proof (induction v)
  case (Cons c v)
  then show ?case by (auto simp: decode_Cons)
qed simp

text \<open>A literal that is complete and has no backslash is written back as it was.\<close>

lemma literal_unchanged:
  assumes "sqliteLiteral r = Some (v, [])" "bslash \<notin> set r"
  shows "sqlStringLiteral (decodeMySQLStringLiteral (butlast r)) = sq # r"
proof -
  have r: "r = ReplaceByte v sq [sq, sq] @ [sq]" using sqliteLiteral_Some [OF assms(1)] .
  have "set v \<subseteq> set (ReplaceByte v sq [sq, sq])" by (induction v) auto
  then have "bslash \<notin> set v" using assms(2) r by auto
  then show ?thesis using r decode_doubled by (simp add: sqlStringLiteral_def)
qed

definition closedLiterals :: "token list \<Rightarrow> bool" where
  "closedLiterals ts = (\<forall>w. Span w \<in> set ts \<and> hd w = sq \<longrightarrow> (\<exists>v. sqliteLiteral (tl w) = Some (v, [])))"

lemma closedLiterals_tl: "closedLiterals (t # ts) \<Longrightarrow> closedLiterals ts"
  by (simp add: closedLiterals_def)

lemma closedLiterals_hd:
  "closedLiterals (Span w # ts) \<Longrightarrow> hd w = sq \<Longrightarrow> \<exists>v. sqliteLiteral (tl w) = Some (v, [])"
  by (simp add: closedLiterals_def)

lemma butlast_gslice: "b \<le> length s \<Longrightarrow> butlast (gslice s a b) = gslice s a (b - Suc 0)"
  by (simp add: gslice_def butlast_take diff_le_mono)

lemma backslash_steps:
  "i < length s \<Longrightarrow> skipSpan s i = None \<Longrightarrow> backslash_loop s i = backslash_loop s (Suc i)"
  "i < length s \<Longrightarrow> skipSpan s i = Some e \<Longrightarrow> s ! i \<noteq> sq \<Longrightarrow> backslash_loop s i = backslash_loop s e"
  "i < length s \<Longrightarrow> quotedSQLSpan s i = Some e \<Longrightarrow> s ! i = sq \<Longrightarrow> goSlice s (Suc i) (e - Suc 0) = Returns w \<Longrightarrow>
     backslash_loop s i = (if bslash \<in> set w then Returns True else backslash_loop s e)"
  by (subst backslash_loop.simps, simp add: skipSpan_def Contains_byte split: option.splits)+

lemma literals_steps:
  "i < length s \<Longrightarrow> skipSpan s i = None \<Longrightarrow>
     literals_loop s i = map_option (Cons (s ! i)) (literals_loop s (Suc i))"
  "i < length s \<Longrightarrow> skipSpan s i = Some e \<Longrightarrow> s ! i \<noteq> sq \<Longrightarrow>
     literals_loop s i = map_option (append (gslice s i e)) (literals_loop s e)"
  "i < length s \<Longrightarrow> quotedSQLSpan s i = Some e \<Longrightarrow> s ! i = sq \<Longrightarrow> goSlice s (Suc i) (e - Suc 0) = Returns w \<Longrightarrow>
     literals_loop s i =
       map_option (append (sqlStringLiteral (decodeMySQLStringLiteral w))) (literals_loop s e)"
  subgoal
    by (subst literals_loop.simps)
       (cases "literals_loop s (Suc i)"; auto simp: skipSpan_def split: option.splits)
  subgoal
    by (subst literals_loop.simps)
       (cases "literals_loop s e"; auto simp: skipSpan_def split: option.splits)
  subgoal
    by (subst literals_loop.simps) (cases "literals_loop s e"; simp)
  done

lemma literals_loop_id:
  "backslash_loop s i = Returns False \<Longrightarrow> closedLiterals (lex_from s i) \<Longrightarrow>
   literals_loop s i = Returns (drop i s)"
proof (induction i rule: scan_induct [of s])
  case (End i)
  then show ?case by (subst literals_loop.simps) simp
next
  case (Byte i)
  have "closedLiterals (lex_from s (Suc i))"
    using Byte(1,2,5) closedLiterals_tl by (simp add: lex_from_byte)
  moreover have "backslash_loop s (Suc i) = Returns False" using Byte(1,2,4) by (simp add: backslash_steps)
  ultimately show ?case using Byte(1-3) by (simp add: literals_steps nth_append_drop)
next
  case (Span i e)
  have b: "i < e" "e \<le> length s" using skipSpan_bounds [OF Span(2)] by auto
  have c: "closedLiterals (Span (gslice s i e) # lex_from s e)"
    using Span(1,2,5) by (simp add: lex_from_span)
  note cl = closedLiterals_tl [OF c]
  show ?case
  proof (cases "s ! i = sq")
    case False
    then have "backslash_loop s e = Returns False" using Span(1,2,4) by (simp add: backslash_steps)
    then show ?thesis using Span(1-3) False cl copy_span [OF Span(2)] by (simp add: literals_steps)
  next
    case True
    have q: "quotedSQLSpan s i = Some e"
      using Span(1,2) True quotedSQLSpan_sq [of i s] by (auto simp: skipSpan_def)
    let ?r = "gslice s (Suc i) e"
    have w: "gslice s i e = sq # ?r" using gslice_Cons [OF b(1) Span(1)] True by simp
    then obtain v where v: "sqliteLiteral ?r = Some (v, [])" using closedLiterals_hd [OF c] by auto
    then have r: "?r \<noteq> []" "last ?r = sq" using sqliteLiteral_Some [OF v] by auto
    then have ne: "e \<noteq> Suc i" by auto
    have inner: "goSlice s (Suc i) (e - Suc 0) = Returns (butlast ?r)"
      using goSlice_inner [OF b] ne butlast_gslice [OF b(2)] by simp
    have nb: "bslash \<notin> set (butlast ?r)" "backslash_loop s e = Returns False"
      using Span(4) backslash_steps(3) [OF Span(1) q True inner] by (auto split: if_splits)
    have "?r = butlast ?r @ [sq]" using r append_butlast_last_id [of ?r] by simp
    then have "set ?r = insert sq (set (butlast ?r))" by (metis Un_insert_right list.simps(15) set_append sup_bot_right empty_set)
    then have "bslash \<notin> set ?r" using nb(1) by auto
    from literal_unchanged [OF v this] show ?thesis
      using literals_steps(3) [OF Span(1) q True inner] Span(3) nb(2) cl w copy_span [OF Span(2)]
      by simp
  qed
qed

text \<open>
  C29: the fast path is sound. Where \<open>needsSQLTranslation\<close> says no, running all the passes of
  \<open>translateSQL\<close> would give the text back byte for byte, provided its string literals are
  closed and it does not parse as one of the two index statements (which the test recognises
  only by a literal prefix with single spaces).
\<close>

theorem fast_path_sound:
  assumes "needsSQLTranslation s = Returns False"
    and "closedLiterals (lex_from s 0)"
    and "translateMySQLAlterTableAddIndex s = None" "translateMySQLCreateIndex s = None"
  shows "translatePasses s = Returns s"
proof -
  have c: "\<not> Contains s ''<=>''" using assms(1) by (auto simp: needsSQLTranslation_def)
  have h: "hasMySQLBackslashEscapedString s = Returns False"
    using assms(1) c unfolding needsSQLTranslation_def
    by (cases "hasMySQLBackslashEscapedString s") (simp_all split: if_splits)
  have n: "\<not> (canContainMySQLLikePredicate s \<and> hasSQLIdentifier s ''LIKE'')"
    "\<not> hasMySQLQualifiedUpdateSetTarget s" "\<not> stripsMySQLDDLOptions s" "\<not> needs_loop s 0"
    using assms(1) c h unfolding needsSQLTranslation_def by (simp_all split: if_splits)
  have "stripMySQLLockingClause s = None" using n by (simp add: stripMySQLLockingClause_def locking_loop_id)
  moreover have "translateMySQLUpdateSetTargets s = s" using n by (simp add: hasMySQLQualifiedUpdateSetTarget_def)
  moreover have "translateMySQLLikeDefaultEscape s = s"
    using n(1) by (auto simp: translateMySQLLikeDefaultEscape_def hasSQLIdentifier_def like_loop_id)
  moreover have "translateMySQLOperators s = s" using c by (simp add: translateMySQLOperators_def operators_loop_id)
  moreover have "translateMySQLFunctionCalls s = s" using n by (simp add: translateMySQLFunctionCalls_def calls_loop_id)
  moreover have "translate_loop s (stripsMySQLDDLOptions s) 0 = s" using n by (simp add: translate_loop_id)
  moreover have "translateMySQLStringLiterals s = Returns s"
    using h assms(2) literals_loop_id [of s 0]
    by (simp add: translateMySQLStringLiterals_def hasMySQLBackslashEscapedString_def)
  ultimately show ?thesis using assms(3,4) by (simp add: translatePasses_def Let_def)
qed

theorem fast_path_sound_witness: "translatePasses (''A '' @ [sq, sq]) = Returns (''A '' @ [sq, sq])"
proof (rule fast_path_sound)
  have "lex_from (''A '' @ [sq, sq]) 0 = [Byte (CHR ''A''), Byte (CHR '' ''), Span [sq, sq]]"
    by code_simp
  then show "closedLiterals (lex_from (''A '' @ [sq, sq]) 0)"
    by (simp add: closedLiterals_def)
qed code_simp+

subsection \<open>Date formats\<close>

abbreviation pct :: char where "pct \<equiv> CHR ''%''"

text \<open>\<open>r\<close> can be followed by any text without a pair \<open>%b\<close> starting inside it.\<close>

fun inert :: "char \<Rightarrow> string \<Rightarrow> bool" where
  "inert b [] = True"
| "inert b [x] = (x \<noteq> pct)"
| "inert b (x # y # r) = (\<not> (x = pct \<and> y = b) \<and> inert b (y # r))"

lemma replacePair_Cons:
  "\<not> (x = pct \<and> s \<noteq> [] \<and> hd s = b) \<Longrightarrow> replacePair pct b r (x # s) = x # replacePair pct b r s"
  by (cases s) auto

lemma replacePair_inert: "inert b r \<Longrightarrow> replacePair pct b r' (r @ s) = r @ replacePair pct b r' s"
  by (induction b r rule: inert.induct) (auto simp: replacePair_Cons)

lemma replacePair_hd: "replacePair pct b (pct # r) (y # s) \<noteq> [] \<and> hd (replacePair pct b (pct # r) (y # s)) = y"
  by (cases s) auto

lemma replacePair_self: "replacePair pct b [pct, b] s = s"
  by (induction pct b "[pct, b]" s rule: replacePair.induct) auto

lemma replacePair_commute:
  assumes "a \<noteq> b" "a \<noteq> pct" "b \<noteq> pct" "inert b (pct # r)" "inert a (pct # r')"
  shows "replacePair pct a (pct # r) (replacePair pct b (pct # r') s) =
         replacePair pct b (pct # r') (replacePair pct a (pct # r) s)"
proof (induction s rule: length_induct)
  case (1 s)
  show ?case
  proof (cases "\<exists>x y t. s = x # y # t")
    case False
    then show ?thesis by (cases s; cases "tl s") auto
  next
    case True
    then obtain x y t where s: "s = x # y # t" by blast
    have IH: "replacePair pct a (pct # r) (replacePair pct b (pct # r') t) =
         replacePair pct b (pct # r') (replacePair pct a (pct # r) t)" using 1 s by simp
    have IH': "replacePair pct a (pct # r) (replacePair pct b (pct # r') (y # t)) =
         replacePair pct b (pct # r') (replacePair pct a (pct # r) (y # t))" using 1 s by simp
    consider "x = pct" "y = a" | "x = pct" "y = b" | "\<not> (x = pct \<and> y = a)" "\<not> (x = pct \<and> y = b)" by blast
    then show ?thesis
    proof cases
      case 1
      then show ?thesis using s assms IH replacePair_inert [OF assms(4)]
        by (simp add: replacePair_Cons)
    next
      case 2
      then show ?thesis using s assms IH replacePair_inert [OF assms(5)]
        by (simp add: replacePair_Cons)
    next
      case 3
      then show ?thesis using s IH' replacePair_hd [of a r y t] replacePair_hd [of b r' y t]
        by (auto simp: replacePair_Cons)
    qed
  qed
qed

fun commuting :: "char \<times> string \<Rightarrow> char \<times> string \<Rightarrow> bool" where
  "commuting (a, r) (b, r') =
     ((a, r) = (b, r') \<or> r = [pct, a] \<or> r' = [pct, b] \<or>
      (a \<noteq> b \<and> a \<noteq> pct \<and> b \<noteq> pct \<and> r \<noteq> [] \<and> r' \<noteq> [] \<and> hd r = pct \<and> hd r' = pct \<and> inert b r \<and> inert a r'))"

lemma commuting_commute:
  "commuting x y \<Longrightarrow> (\<lambda>(b, r). replacePair pct b r) x \<circ> (\<lambda>(b, r). replacePair pct b r) y =
     (\<lambda>(b, r). replacePair pct b r) y \<circ> (\<lambda>(b, r). replacePair pct b r) x"
proof (rule ext, cases x, cases y)
  fix a r b r' s
  assume c: "commuting x y" and xy: "x = (a, r)" "y = (b, r')"
  show "((\<lambda>(b, r). replacePair pct b r) x \<circ> (\<lambda>(b, r). replacePair pct b r) y) s =
     ((\<lambda>(b, r). replacePair pct b r) y \<circ> (\<lambda>(b, r). replacePair pct b r) x) s"
    using c xy replacePair_commute [of a b "tl r" "tl r'" s]
    by (cases r; cases r') (auto simp: replacePair_self)
qed

text \<open>
  the translation of a \<open>DATE_FORMAT\<close> format does not depend on the order in which Go
  ranges over the map of replacements: every permutation of its entries gives the same result.
\<close>

theorem date_format_order_independent:
  assumes "mset order = mset dateReplacements"
  shows "mysqlDateFormatIn order format = mysqlDateFormatToSQLite format"
proof -
  have "list_all (\<lambda>x. list_all (commuting x) dateReplacements) dateReplacements" by code_simp
  then have "commuting x y" if "x \<in> set dateReplacements" "y \<in> set dateReplacements" for x y
    using that by (simp add: list_all_iff)
  moreover have "set order = set dateReplacements" using assms by (rule mset_eq_setD)
  ultimately have "fold (\<lambda>(b, r). replacePair pct b r) order = fold (\<lambda>(b, r). replacePair pct b r) dateReplacements"
    by (intro fold_multiset_equiv [OF _ assms] commuting_commute) simp
  then show ?thesis by (simp add: mysqlDateFormatIn_def mysqlDateFormatToSQLite_def)
qed

theorem date_format_order_independent_witness:
  "mysqlDateFormatIn (rev dateReplacements) ''%D %T'' = mysqlDateFormatToSQLite ''%D %T''"
  by (rule date_format_order_independent) simp

subsection \<open>Literals inside CREATE TABLE\<close>


end
