(* ===== verification/Wire_Bytes.thy ===== *)
theory Wire_Bytes
  imports Go_Prelude
begin
text \<open>
  The bytes of the MySQL wire protocol (\<open>pkg/mysqlmock/protocol_codec.go\<close> and the readers in
  \<open>prepared.go\<close>): little-endian integers, length-encoded integers and strings, and packets.
  A \<open>[]byte\<close> is a list of \<open>8 word\<close>, the network stream a client has sent is the list of
  its bytes, and a Go error is a \<open>codec_error\<close> on the left of a sum.
\<close>

unbundle bit_operations_syntax

subsection \<open>Little-endian integers (encoding/binary)\<close>

definition appendUint16 :: "bytes \<Rightarrow> 16 word \<Rightarrow> bytes" where
  "appendUint16 buf n = buf @ [ucast n, ucast (drop_bit 8 n)]"

definition appendUint32 :: "bytes \<Rightarrow> 32 word \<Rightarrow> bytes" where
  "appendUint32 buf n =
     buf @ [ucast n, ucast (drop_bit 8 n), ucast (drop_bit 16 n), ucast (drop_bit 24 n)]"

definition appendUint64 :: "bytes \<Rightarrow> 64 word \<Rightarrow> bytes" where
  "appendUint64 buf n = buf @ map (\<lambda>i. ucast (drop_bit (8 * i) n)) [0..<8]"

definition leUint16 :: "bytes \<Rightarrow> 16 word" where
  "leUint16 b = ucast (b ! 0) OR push_bit 8 (ucast (b ! 1))"

definition leUint32 :: "bytes \<Rightarrow> 32 word" where
  "leUint32 b = ucast (b ! 0) OR push_bit 8 (ucast (b ! 1)) OR push_bit 16 (ucast (b ! 2))
     OR push_bit 24 (ucast (b ! 3))"

definition leUint64 :: "bytes \<Rightarrow> 64 word" where
  "leUint64 b = fold (\<lambda>i n. n OR push_bit (8 * i) (ucast (b ! i))) [0..<8] 0"

text \<open>A word is its lowest byte and the rest, eight bits up.\<close>

lemma byte_split:
  "drop_bit k n = ucast (ucast (drop_bit k n) :: byte) OR push_bit 8 (drop_bit (k + 8) (n :: 'a::len word))"
proof (rule bit_word_eqI)
  fix m assume "m < LENGTH('a)"
  then show "bit (drop_bit k n) m =
      bit (ucast (ucast (drop_bit k n) :: byte) OR push_bit 8 (drop_bit (k + 8) n)) m"
    by (cases "m < 8") (auto simp: bit_simps ac_simps)
qed

lemma leUint16_append: "leUint16 (appendUint16 [] n @ rest) = n"
proof -
  have "drop_bit 16 n = 0" by (rule bit_word_eqI) (auto simp: bit_simps dest: bit_imp_le_length)
  then show ?thesis using byte_split [of 0 n] byte_split [of 8 n]
    by (simp add: leUint16_def appendUint16_def)
qed

lemma leUint32_append: "leUint32 (appendUint32 [] n @ rest) = n"
proof -
  let ?b = "\<lambda>k. ucast (ucast (drop_bit k n) :: byte) :: 32 word"
  have z: "drop_bit 32 n = 0" by (rule bit_word_eqI) (auto simp: bit_simps dest: bit_imp_le_length)
  have "n = ?b 0 OR push_bit 8 (?b 8 OR push_bit 8 (?b 16 OR push_bit 8 (?b 24)))"
    using byte_split [of 0 n] byte_split [of 8 n] byte_split [of 16 n] byte_split [of 24 n] z
    by simp
  then show ?thesis by (simp add: leUint32_def appendUint32_def push_bit_or ac_simps)
qed

lemma leUint64_append: "leUint64 (appendUint64 [] n @ rest) = n"
proof -
  let ?b = "\<lambda>k. ucast (ucast (drop_bit k n) :: byte) :: 64 word"
  have z: "drop_bit 64 n = 0" by (rule bit_word_eqI) (auto simp: bit_simps dest: bit_imp_le_length)
  have "n = ?b 0 OR push_bit 8 (?b 8 OR push_bit 8 (?b 16 OR push_bit 8 (?b 24 OR push_bit 8
      (?b 32 OR push_bit 8 (?b 40 OR push_bit 8 (?b 48 OR push_bit 8 (?b 56)))))))"
    using byte_split [of 0 n] byte_split [of 8 n] byte_split [of 16 n] byte_split [of 24 n]
      byte_split [of 32 n] byte_split [of 40 n] byte_split [of 48 n] byte_split [of 56 n] z
    by simp
  then show ?thesis
    by (simp add: leUint64_def appendUint64_def push_bit_or upt_rec nth_append or.assoc)
qed

subsection \<open>Length-encoded integers and strings\<close>

datatype codec_error =
    ShortBuffer
  | InvalidMarker byte
  | EOF
  | UnexpectedEOF
  | PacketTooLarge
  | InvalidDateTimeLength nat
  | InvalidTimeLength nat
  | UnsupportedParamType byte
  | MalformedParamHeader
  | MalformedParamTypes
  | OmittedParamTypes
  | MalformedParamValues
  | DecodeParameter nat codec_error
  | ValueCountMismatch nat nat
  | EncodeColumn bytes codec_error
  | IntegerOverflow "64 word"
  | CannotConvertInt
  | CannotConvertFloat
  | CannotConvertTime
  | BadSyntax bytes
  | BadRange bytes

definition appendLenEncInt :: "bytes \<Rightarrow> 64 word \<Rightarrow> bytes" where
  "appendLenEncInt buf n =
     (if n < 251 then buf @ [ucast n]
      else if n \<le> 0xFFFF then appendUint16 (buf @ [0xfc]) (ucast n)
      else if n \<le> 0x00FFFFFF then buf @ [0xfd, ucast n, ucast (drop_bit 8 n), ucast (drop_bit 16 n)]
      else appendUint64 (buf @ [0xfe]) n)"

definition appendLenEncBytes :: "bytes \<Rightarrow> bytes \<Rightarrow> bytes" where
  "appendLenEncBytes buf value = appendLenEncInt buf (of_nat (length value)) @ value"

definition appendLenEncString :: "bytes \<Rightarrow> bytes \<Rightarrow> bytes" where
  "appendLenEncString buf s = appendLenEncInt buf (of_nat (length s)) @ s"

text \<open>The value, the bytes used, and whether the marker was that of NULL.\<close>

definition readLenEncInt :: "bytes \<Rightarrow> codec_error + (64 word \<times> nat \<times> bool)" where
  "readLenEncInt data =
     (if length data = 0 then Inl ShortBuffer
      else if data ! 0 = 0xfb then Inr (0, 1, True)
      else if data ! 0 = 0xfc then
        (if length data < 3 then Inl ShortBuffer
         else Inr (ucast (leUint16 (gslice data 1 3)), 3, False))
      else if data ! 0 = 0xfd then
        (if length data < 4 then Inl ShortBuffer
         else Inr (ucast (data ! 1) OR push_bit 8 (ucast (data ! 2)) OR push_bit 16 (ucast (data ! 3)), 4, False))
      else if data ! 0 = 0xfe then
        (if length data < 9 then Inl ShortBuffer
         else Inr (leUint64 (gslice data 1 9), 9, False))
      else if data ! 0 < 0xfb then Inr (ucast (data ! 0), 1, False)
      else Inl (InvalidMarker (data ! 0)))"

text \<open>\<open>None\<close> is Go's nil slice, which the NULL marker gives.\<close>

definition readLenEncBytes :: "bytes \<Rightarrow> codec_error + (bytes option \<times> nat)" where
  "readLenEncBytes data =
     (case readLenEncInt data of
        Inl e \<Rightarrow> Inl e
      | Inr (n, pos, isNull) \<Rightarrow>
          if isNull then Inr (None, pos)
          else if n > of_nat (length data - pos) then Inl ShortBuffer
          else let e = pos + unat n in Inr (Some (gslice data pos e), e))"

lemma le_lengths [simp]:
  "length (appendUint16 b n) = length b + 2"
  "length (appendUint32 b m) = length b + 4"
  "length (appendUint64 b k) = length b + 8"
  by (simp_all add: appendUint16_def appendUint32_def appendUint64_def)

lemma le_append:
  "appendUint16 b n = b @ appendUint16 [] n"
  "appendUint32 b m = b @ appendUint32 [] m"
  "appendUint64 b k = b @ appendUint64 [] k"
  by (simp_all add: appendUint16_def appendUint32_def appendUint64_def)

lemma appendLenEncInt_append: "appendLenEncInt buf n = buf @ appendLenEncInt [] n"
  by (simp add: appendLenEncInt_def appendUint16_def appendUint64_def)

lemma ucast_ucast_small:
  "(n :: 64 word) \<le> 0xFFFF \<Longrightarrow> ucast (ucast n :: 16 word) = n"
  "(n :: 64 word) < 251 \<Longrightarrow> ucast (ucast n :: byte) = n"
  by (simp_all add: word_unat_eq_iff unsigned_ucast_eq word_le_nat_alt word_less_nat_alt take_bit_eq_mod unat_mod_distrib)

lemma three_bytes:
  assumes "(n :: 64 word) \<le> 0xFFFFFF"
  shows "ucast (ucast n :: byte) OR push_bit 8 (ucast (ucast (drop_bit 8 n) :: byte))
     OR push_bit 16 (ucast (ucast (drop_bit 16 n) :: byte)) = n"
proof -
  have "drop_bit 24 n = 0"
    using assms by (simp add: word_le_nat_alt word_unat_eq_iff unat_drop_bit_eq drop_bit_eq_div unat_div_distrib)
  then have "n = ucast (ucast n :: byte) OR push_bit 8 (ucast (ucast (drop_bit 8 n) :: byte)
      OR push_bit 8 (ucast (ucast (drop_bit 16 n) :: byte)))"
    using byte_split [of 0 n] byte_split [of 8 n] byte_split [of 16 n] by simp
  then show ?thesis by (simp add: push_bit_or)
qed

lemma readLenEncInt_append:
  "readLenEncInt (appendLenEncInt [] n @ rest) = Inr (n, length (appendLenEncInt [] n), False)"
proof -
  consider "n < 251" | "\<not> n < 251" "n \<le> 0xFFFF" | "\<not> n < 251" "\<not> n \<le> 0xFFFF" "n \<le> 0xFFFFFF"
    | "\<not> n < 251" "\<not> n \<le> 0xFFFF" "\<not> n \<le> 0xFFFFFF" by blast
  then show ?thesis
  proof cases
    case 1
    then have "ucast n < (0xfb :: byte)"
      by (simp add: word_less_nat_alt unsigned_ucast_eq take_bit_eq_mod unat_mod_distrib)
    then have "ucast n \<notin> {0xfb, 0xfc, 0xfd, 0xfe :: byte}" by auto
    then show ?thesis using 1 \<open>ucast n < (0xfb :: byte)\<close>
      by (simp add: readLenEncInt_def appendLenEncInt_def ucast_ucast_small)
  next
    case 2
    then show ?thesis using leUint16_append [of "ucast n" "[]"]
      by (simp add: readLenEncInt_def appendLenEncInt_def appendUint16_def gslice_def ucast_ucast_small)
  next
    case 3
    then show ?thesis using three_bytes [of n]
      by (simp add: readLenEncInt_def appendLenEncInt_def numeral_2_eq_2 numeral_3_eq_3)
  next
    case 4
    then show ?thesis using leUint64_append [of n "[]"]
      by (simp add: readLenEncInt_def appendLenEncInt_def le_append(3) [of "[_]"] gslice_def)
  qed
qed

text \<open>Go slices are shorter than \<open>2^63\<close>, the largest \<open>int\<close>.\<close>

lemma readLenEncBytes_append:
  assumes "length v + length rest < 2 ^ 63"
  shows "readLenEncBytes (appendLenEncBytes [] v @ rest) = Inr (Some v, length (appendLenEncBytes [] v))"
proof -
  let ?n = "of_nat (length v) :: 64 word"
  have u: "unat ?n = length v" using assms by (simp add: unat_of_nat)
  have "\<not> of_nat (length v + length rest) < ?n"
    using assms by (simp add: word_less_nat_alt unat_of_nat del: of_nat_add)
  then show ?thesis
    using readLenEncInt_append [of ?n "v @ rest"] u
    by (simp add: readLenEncBytes_def appendLenEncBytes_def gslice_def)
qed

subsection \<open>Packets\<close>

definition readFull :: "bytes \<Rightarrow> nat \<Rightarrow> codec_error + (bytes \<times> bytes)" where
  "readFull stream n =
     (if n \<le> length stream then Inr (take n stream, drop n stream)
      else if stream = [] then Inl EOF else Inl UnexpectedEOF)"

text \<open>\<open>readPacket\<close> on what the client has sent: the payload, its sequence number, the rest.\<close>

definition readPacket :: "bytes \<Rightarrow> codec_error + (bytes \<times> byte \<times> bytes)" where
  "readPacket stream =
     (case readFull stream 4 of
        Inl e \<Rightarrow> Inl e
      | Inr (header, r) \<Rightarrow>
          let len = unat (header ! 0) OR push_bit 8 (unat (header ! 1)) OR push_bit 16 (unat (header ! 2));
              seq = header ! 3
          in if len = 0 then Inr ([], seq, r)
             else (case readFull r len of
                     Inl e \<Rightarrow> Inl e
                   | Inr (payload, r') \<Rightarrow> Inr (payload, seq, r')))"

text \<open>The connection keeps one buffer: \<open>packetBuf\<close> here is its whole backing array, whatever
  is left in it from earlier packets.\<close>

definition packetBuffer :: "bytes \<Rightarrow> nat \<Rightarrow> bytes" where
  "packetBuffer packetBuf sz =
     (if length packetBuf < sz then replicate sz 0 else take sz packetBuf)"

definition releasePacketBuffer :: "bytes \<Rightarrow> bytes \<Rightarrow> bytes" where
  "releasePacketBuffer packetBuf packet =
     (let backing = (if length packetBuf < length packet then packet
                     else packet @ drop (length packet) packetBuf)
      in if length backing > push_bit 10 64 then [] else backing)"

text \<open>The bytes sent and the buffer kept.\<close>

definition writePacket :: "bytes \<Rightarrow> byte \<Rightarrow> bytes \<Rightarrow> codec_error + (bytes \<times> bytes)" where
  "writePacket packetBuf seq payload =
     (if length payload \<ge> 2 ^ 24 then Inl PacketTooLarge
      else let packetLen = 4 + length payload;
               p0 = packetBuffer packetBuf packetLen;
               p1 = p0[0 := of_nat (length payload), 1 := of_nat (drop_bit 8 (length payload)),
                       2 := of_nat (drop_bit 16 (length payload)), 3 := seq];
               packet = take 4 p1 @ payload @ drop (4 + length payload) p1
           in Inr (packet, releasePacketBuffer packetBuf packet))"

definition packetHeader :: "byte \<Rightarrow> nat \<Rightarrow> bytes" where
  "packetHeader seq n = [of_nat n, of_nat (drop_bit 8 n), of_nat (drop_bit 16 n), seq]"

lemma length_packetBuffer [simp]: "length (packetBuffer b n) = n"
  by (simp add: packetBuffer_def)

lemma four_Cons: "length p = 4 + n \<Longrightarrow> \<exists>a b c d r. p = a # b # c # d # r \<and> length r = n"
  by (auto simp: length_Suc_conv numeral_eq_Suc)

lemma writePacket_sent:
  assumes "length payload < 2 ^ 24"
  shows "\<exists>buf. writePacket packetBuf seq payload = Inr (packetHeader seq (length payload) @ payload, buf)"
proof -
  let ?p = "packetBuffer packetBuf (4 + length payload)"
  have "length ?p = 4 + length payload" by simp
  from four_Cons [OF this] obtain a b c d r where "?p = a # b # c # d # r" "length r = length payload"
    by blast
  then show ?thesis using assms by (simp add: writePacket_def packetHeader_def Let_def)
qed

lemma three_byte_length:
  assumes "n < 2 ^ 24"
  shows "unat (of_nat n :: byte) OR push_bit 8 (unat (of_nat (drop_bit 8 n) :: byte))
     OR push_bit 16 (unat (of_nat (drop_bit 16 n) :: byte)) = n"
proof (rule bit_eqI)
  fix m
  have hi: "bit n m \<Longrightarrow> m < 24" using assms
    by (metis bit_take_bit_iff take_bit_nat_eq_self)
  consider "m < 8" | "8 \<le> m" "m < 16" | "16 \<le> m" by linarith
  then show "bit (unat (of_nat n :: byte) OR push_bit 8 (unat (of_nat (drop_bit 8 n) :: byte))
     OR push_bit 16 (unat (of_nat (drop_bit 16 n) :: byte))) m = bit n m"
    using hi
    by cases (auto simp: unat_of_nat take_bit_eq_mod [of 8, simplified, symmetric] bit_simps)
qed

lemma readPacket_packet:
  assumes "length payload < 2 ^ 24"
  shows "readPacket ((packetHeader seq (length payload) @ payload) @ rest) = Inr (payload, seq, rest)"
  using three_byte_length [OF assms] unfolding packetHeader_def
  by (simp add: readPacket_def readFull_def Let_def numeral_2_eq_2 numeral_3_eq_3)

text \<open>
  packets survive the wire. A payload shorter than 16 MB written with sequence number
  \<open>seq\<close> is read back as the same payload and number with nothing of the following bytes
  consumed, and what is sent does not depend on the bytes an earlier, longer packet left in the
  connection's reused buffer.
\<close>

theorem packet_roundtrip:
  assumes "length payload < 2 ^ 24"
  shows "\<exists>packet buf. writePacket packetBuf seq payload = Inr (packet, buf) \<and>
    readPacket (packet @ rest) = Inr (payload, seq, rest) \<and>
    (\<forall>packetBuf'. \<exists>buf'. writePacket packetBuf' seq payload = Inr (packet, buf'))"
  using writePacket_sent [OF assms] readPacket_packet [OF assms, of seq rest] by blast

theorem packet_roundtrip_witness:
  "\<exists>packet buf. writePacket (replicate 9 7) 3 [1, 2] = Inr (packet, buf) \<and>
    readPacket (packet @ [9]) = Inr ([1, 2], 3, [9]) \<and>
    (\<forall>packetBuf'. \<exists>buf'. writePacket packetBuf' 3 [1, 2] = Inr (packet, buf'))"
  by (rule packet_roundtrip) simp

text \<open>
  every 64-bit value \<open>appendLenEncInt\<close> writes is read back by \<open>readLenEncInt\<close> with exactly
  the bytes written consumed, whatever follows, and is never mistaken for the NULL marker.
\<close>

theorem lenenc_int_roundtrip:
  "appendLenEncInt buf n = buf @ appendLenEncInt [] n \<and>
   readLenEncInt (appendLenEncInt [] n @ rest) = Inr (n, length (appendLenEncInt [] n), False)"
  using readLenEncInt_append appendLenEncInt_append by blast

end
