(* ===== verification/Row_Codec.thy ===== *)
theory Row_Codec
  imports Wire_Bytes
begin
unbundle bit_operations_syntax

text \<open>
  Rows and vals on the wire: Go vals, their text and binary encodings
  (\<open>pkg/mysqlmock/protocol_codec.go\<close>, \<open>prepared.go\<close>), column definitions and the reply packets.

  What the code takes from the Go runtime for floating point numbers and calendar dates is a
  record \<open>goStd\<close> of functions, an argument of the definitions that need it.
\<close>

subsection \<open>Values\<close>

record goTime =
  t_year :: int
  t_month :: nat
  t_day :: nat
  t_hour :: nat
  t_minute :: nat
  t_second :: nat
  t_nano :: nat

datatype goFloat = F32 "32 word" | F64 "64 word"

text \<open>The dynamic types an \<open>any\<close> holds in this program; floats by their IEEE bits.\<close>

datatype goValue =
    GoNil
  | GoBytes bytes
  | GoString bytes
  | GoBool bool
  | GoInt "64 word" | GoInt8 "8 word" | GoInt16 "16 word" | GoInt32 "32 word" | GoInt64 "64 word"
  | GoUint "64 word" | GoUint8 "8 word" | GoUint16 "16 word" | GoUint32 "32 word" | GoUint64 "64 word"
  | GoFloat goFloat
  | GoTime goTime

record goStd =
  fmtFloat :: "goFloat \<Rightarrow> bytes"
  f32to64 :: "32 word \<Rightarrow> 64 word"
  f64to32 :: "64 word \<Rightarrow> 32 word"
  i64toFloat :: "64 word \<Rightarrow> 64 word"
  parseFloat :: "bytes \<Rightarrow> (64 word) option"
  timeDate :: "goTime \<Rightarrow> goTime"
  parseLayout :: "bytes \<Rightarrow> bytes \<Rightarrow> goTime option"

text \<open>One such record, for closed examples: no float or date conversion is defined by it.\<close>

definition exampleStd :: goStd where
  "exampleStd = \<lparr> fmtFloat = (\<lambda>_. []), f32to64 = (\<lambda>_. 0), f64to32 = (\<lambda>_. 0), i64toFloat = (\<lambda>_. 0),
     parseFloat = (\<lambda>_. None), timeDate = (\<lambda>t. t), parseLayout = (\<lambda>_ _. None) \<rparr>"

definition ascii :: "string \<Rightarrow> bytes" where
  "ascii s = map of_char s"

record resultColumn =
  Name :: bytes
  Type :: byte
  ZeroFillWidth :: int

definition zeroColumn :: resultColumn where
  "zeroColumn = \<lparr> Name = [], Type = 0, ZeroFillWidth = 0 \<rparr>"

subsection \<open>Decimal numbers (strconv)\<close>

fun formatNat :: "nat \<Rightarrow> bytes" where
  "formatNat n = (if n < 10 then [of_nat (48 + n)] else formatNat (n div 10) @ [of_nat (48 + n mod 10)])"

declare formatNat.simps [simp del]

definition formatUint :: "64 word \<Rightarrow> bytes" where
  "formatUint n = formatNat (unat n)"

definition formatInt :: "64 word \<Rightarrow> bytes" where
  "formatInt n = (if sint n < 0 then 45 # formatNat (nat (- sint n)) else formatNat (nat (sint n)))"

definition isDigitByte :: "byte \<Rightarrow> bool" where
  "isDigitByte b = (48 \<le> b \<and> b \<le> 57)"

fun digitsValue :: "nat \<Rightarrow> bytes \<Rightarrow> nat" where
  "digitsValue acc [] = acc"
| "digitsValue acc (b # r) = digitsValue (10 * acc + unat (b - 48)) r"

text \<open>\<open>strconv.ParseInt(s, 10, 64)\<close>\<close>

definition parseInt :: "bytes \<Rightarrow> codec_error + 64 word" where
  "parseInt s =
     (let neg = (s \<noteq> [] \<and> hd s = 45);
          ds = (if s \<noteq> [] \<and> (hd s = 45 \<or> hd s = 43) then tl s else s)
      in if ds = [] \<or> \<not> list_all isDigitByte ds then Inl (BadSyntax s)
         else let v = (if neg then - int (digitsValue 0 ds) else int (digitsValue 0 ds))
              in if v < - (2 ^ 63) \<or> v \<ge> 2 ^ 63 then Inl (BadRange s) else Inr (word_of_int v))"

text \<open>\<open>%0wd\<close> of a number that is not negative\<close>

definition padded :: "nat \<Rightarrow> nat \<Rightarrow> bytes" where
  "padded w n = replicate (w - length (formatNat n)) 48 @ formatNat n"

text \<open>\<open>Format("2006-01-02 15:04:05.999999")\<close>: trailing zeros of the fraction, and an empty
  fraction with its point, are dropped.\<close>

definition formatTime :: "goTime \<Rightarrow> bytes" where
  "formatTime t =
     (let frac = rev (dropWhile (\<lambda>b. b = 48) (rev (padded 6 (t_nano t div 1000))))
      in (if t_year t < 0 then 45 # padded 4 (nat (- t_year t)) else padded 4 (nat (t_year t))) @
         [45] @ padded 2 (t_month t) @ [45] @ padded 2 (t_day t) @ [32] @
         padded 2 (t_hour t) @ [58] @ padded 2 (t_minute t) @ [58] @ padded 2 (t_second t) @
         (if frac = [] then [] else 46 # frac))"

subsection \<open>Text rows\<close>

definition appendLenEncSigned :: "bytes \<Rightarrow> 64 word \<Rightarrow> bytes" where
  "appendLenEncSigned buf value = appendLenEncBytes buf (formatInt value)"

definition appendLenEncUnsigned :: "bytes \<Rightarrow> 64 word \<Rightarrow> bytes" where
  "appendLenEncUnsigned buf value = appendLenEncBytes buf (formatUint value)"

definition appendLenEncFloat :: "goStd \<Rightarrow> bytes \<Rightarrow> goFloat \<Rightarrow> bytes" where
  "appendLenEncFloat std buf value = appendLenEncBytes buf (fmtFloat std value)"

definition textValue :: "goStd \<Rightarrow> goValue \<Rightarrow> bytes" where
  "textValue std value =
     (case value of
        GoNil \<Rightarrow> []
      | GoBytes v \<Rightarrow> v
      | GoString v \<Rightarrow> v
      | GoTime t \<Rightarrow> formatTime t
      | GoBool v \<Rightarrow> if v then ascii ''1'' else ascii ''0''
      | GoInt v \<Rightarrow> formatInt v
      | GoInt8 v \<Rightarrow> formatInt (scast v)
      | GoInt16 v \<Rightarrow> formatInt (scast v)
      | GoInt32 v \<Rightarrow> formatInt (scast v)
      | GoInt64 v \<Rightarrow> formatInt v
      | GoUint v \<Rightarrow> formatUint v
      | GoUint8 v \<Rightarrow> formatUint (ucast v)
      | GoUint16 v \<Rightarrow> formatUint (ucast v)
      | GoUint32 v \<Rightarrow> formatUint (ucast v)
      | GoUint64 v \<Rightarrow> formatUint v
      | GoFloat f \<Rightarrow> fmtFloat std f)"

definition textValueForColumn :: "goStd \<Rightarrow> goValue \<Rightarrow> resultColumn \<Rightarrow> bytes" where
  "textValueForColumn std value column =
     (let text = textValue std value in
      if ZeroFillWidth column \<le> 0 then text
      else if int (length text) \<ge> ZeroFillWidth column \<or> (text \<noteq> [] \<and> hd text = 45) then text
      else if list_ex (\<lambda>b. b < 48 \<or> b > 57) text then text
      else replicate (nat (ZeroFillWidth column) - length text) 48 @ text)"

definition appendTextValueForColumn :: "goStd \<Rightarrow> bytes \<Rightarrow> goValue \<Rightarrow> resultColumn \<Rightarrow> bytes" where
  "appendTextValueForColumn std buf value column =
     (if ZeroFillWidth column > 0 then appendLenEncString buf (textValueForColumn std value column)
      else (case value of
        GoNil \<Rightarrow> appendLenEncString buf (ascii ''<nil>'')
      | GoBytes v \<Rightarrow> appendLenEncBytes buf v
      | GoString v \<Rightarrow> appendLenEncString buf v
      | GoTime t \<Rightarrow> appendLenEncString buf (formatTime t)
      | GoBool v \<Rightarrow> if v then appendLenEncString buf (ascii ''1'') else appendLenEncString buf (ascii ''0'')
      | GoInt v \<Rightarrow> appendLenEncSigned buf v
      | GoInt8 v \<Rightarrow> appendLenEncSigned buf (scast v)
      | GoInt16 v \<Rightarrow> appendLenEncSigned buf (scast v)
      | GoInt32 v \<Rightarrow> appendLenEncSigned buf (scast v)
      | GoInt64 v \<Rightarrow> appendLenEncSigned buf v
      | GoUint v \<Rightarrow> appendLenEncUnsigned buf v
      | GoUint8 v \<Rightarrow> appendLenEncUnsigned buf (ucast v)
      | GoUint16 v \<Rightarrow> appendLenEncUnsigned buf (ucast v)
      | GoUint32 v \<Rightarrow> appendLenEncUnsigned buf (ucast v)
      | GoUint64 v \<Rightarrow> appendLenEncUnsigned buf v
      | GoFloat f \<Rightarrow> appendLenEncFloat std buf f))"

text \<open>The loop of \<open>textRow\<close>, from value \<open>i\<close> on.\<close>

fun text_loop :: "goStd \<Rightarrow> resultColumn list \<Rightarrow> nat \<Rightarrow> goValue list \<Rightarrow> bytes \<Rightarrow> bytes" where
  "text_loop std columns i [] payload = payload"
| "text_loop std columns i (value # vals) payload =
     (if value = GoNil then text_loop std columns (i + 1) vals (payload @ [0xfb])
      else text_loop std columns (i + 1) vals
             (appendTextValueForColumn std payload value
               (if i < length columns then columns ! i else zeroColumn)))"

definition textRow :: "goStd \<Rightarrow> resultColumn list \<Rightarrow> goValue list \<Rightarrow> bytes" where
  "textRow std columns vals = text_loop std columns 0 vals []"

subsection \<open>Text rows read back\<close>

text \<open>How a client reads the \<open>n\<close> vals of a text row; \<open>None\<close> is NULL.\<close>

fun readTextRow :: "nat \<Rightarrow> bytes \<Rightarrow> codec_error + (bytes option list \<times> bytes)" where
  "readTextRow 0 data = Inr ([], data)"
| "readTextRow (Suc n) data =
     (case readLenEncBytes data of
        Inl e \<Rightarrow> Inl e
      | Inr (v, used) \<Rightarrow>
          (case readTextRow n (drop used data) of
             Inl e \<Rightarrow> Inl e
           | Inr (vs, rest) \<Rightarrow> Inr (v # vs, rest)))"

definition columnAt :: "resultColumn list \<Rightarrow> nat \<Rightarrow> resultColumn" where
  "columnAt columns i = (if i < length columns then columns ! i else zeroColumn)"

text \<open>The text a client sees for value \<open>i\<close>.\<close>

definition clientText :: "goStd \<Rightarrow> resultColumn list \<Rightarrow> nat \<Rightarrow> goValue \<Rightarrow> bytes option" where
  "clientText std columns i value =
     (if value = GoNil then None else Some (textValueForColumn std value (columnAt columns i)))"

lemma appendLenEncBytes_append: "appendLenEncBytes buf v = buf @ appendLenEncBytes [] v"
  by (simp add: appendLenEncBytes_def appendLenEncInt_append [of buf])

lemma appendLenEncString_Bytes: "appendLenEncString buf v = appendLenEncBytes buf v"
  by (simp add: appendLenEncString_def appendLenEncBytes_def)

lemma textValueForColumn_plain: "ZeroFillWidth c \<le> 0 \<Longrightarrow> textValueForColumn std v c = textValue std v"
  by (simp add: textValueForColumn_def)

text \<open>The fast path of the encoder and the general formatter agree.\<close>

lemma appendTextValueForColumn_text:
  assumes "v \<noteq> GoNil"
  shows "appendTextValueForColumn std buf v c = appendLenEncBytes buf (textValueForColumn std v c)"
proof (cases "ZeroFillWidth c > 0")
  case True
  then show ?thesis by (simp add: appendTextValueForColumn_def appendLenEncString_Bytes)
next
  case False
  then show ?thesis using assms
    by (cases v) (auto simp: appendTextValueForColumn_def appendLenEncString_Bytes
        textValueForColumn_plain textValue_def appendLenEncSigned_def appendLenEncUnsigned_def
        appendLenEncFloat_def)
qed

lemma text_loop_append: "text_loop std columns i vals payload = payload @ text_loop std columns i vals []"
proof (induction vals arbitrary: i payload)
  case (Cons v vs)
  show ?case
  proof (cases "v = GoNil")
    case True
    then show ?thesis
      using Cons.IH [of "Suc i" "payload @ [0xfb]"] Cons.IH [of "Suc i" "[0xfb]"] by simp
  next
    case False
    let ?c = "if i < length columns then columns ! i else zeroColumn"
    have a: "appendTextValueForColumn std payload v ?c = payload @ appendTextValueForColumn std [] v ?c"
      using appendLenEncBytes_append [of payload] by (simp add: appendTextValueForColumn_text [OF False])
    show ?thesis using False a
      Cons.IH [of "Suc i" "payload @ appendTextValueForColumn std [] v ?c"]
      Cons.IH [of "Suc i" "appendTextValueForColumn std [] v ?c"] by simp
  qed
qed simp

lemma readLenEncBytes_null: "readLenEncBytes (0xfb # rest) = Inr (None, 1)"
  by (simp add: readLenEncBytes_def readLenEncInt_def)

lemma readTextRow_text_loop:
  "length (text_loop std columns i vals [] @ rest) < 2 ^ 63 \<Longrightarrow>
   readTextRow (length vals) (text_loop std columns i vals [] @ rest) =
     Inr (map (\<lambda>k. clientText std columns (i + k) (vals ! k)) [0..<length vals], rest)"
proof (induction vals arbitrary: i)
  case Nil
  then show ?case by simp
next
  case (Cons v vs)
  have map_eq: "map (\<lambda>k. clientText std columns (i + k) ((v # vs) ! k)) [0..<length (v # vs)] =
      clientText std columns i v # map (\<lambda>k. clientText std columns (Suc i + k) (vs ! k)) [0..<length vs]"
    by (simp add: upt_rec [of 0] map_Suc_upt [symmetric] del: upt_Suc)
  show ?case
  proof (cases "v = GoNil")
    case True
    then have t: "text_loop std columns i (v # vs) [] = 0xfb # text_loop std columns (Suc i) vs []"
      using text_loop_append [of std columns "Suc i" vs "[0xfb]"] by simp
    have "readTextRow (length vs) (text_loop std columns (Suc i) vs [] @ rest) =
        Inr (map (\<lambda>k. clientText std columns (Suc i + k) (vs ! k)) [0..<length vs], rest)"
      by (rule Cons.IH) (use Cons.prems t in simp)
    then show ?thesis using True unfolding map_eq t by (simp add: readLenEncBytes_null clientText_def)
  next
    case False
    let ?c = "columnAt columns i"
    let ?w = "textValueForColumn std v ?c"
    have t: "text_loop std columns i (v # vs) [] = appendLenEncBytes [] ?w @ text_loop std columns (Suc i) vs []"
      using False text_loop_append [of std columns "Suc i" vs "appendLenEncBytes [] ?w"]
      by (simp add: appendTextValueForColumn_text columnAt_def)
    have "readTextRow (length vs) (text_loop std columns (Suc i) vs [] @ rest) =
        Inr (map (\<lambda>k. clientText std columns (Suc i + k) (vs ! k)) [0..<length vs], rest)"
      by (rule Cons.IH) (use Cons.prems t in simp)
    moreover have "readLenEncBytes (appendLenEncBytes [] ?w @ text_loop std columns (Suc i) vs [] @ rest) =
        Inr (Some ?w, length (appendLenEncBytes [] ?w))"
      by (rule readLenEncBytes_append) (use Cons.prems t in \<open>simp add: appendLenEncBytes_def\<close>)
    ultimately show ?thesis using False unfolding map_eq t by (simp add: clientText_def)
  qed
qed

text \<open>
  C31: a client that reads a text row gets, for each value, NULL exactly when the value is nil and
  otherwise the text of the value for its column (zero-filled where the column says so), and
  nothing of the row is left: the fast paths of the encoder agree with \<open>textValueForColumn\<close>, and
  no value is mistaken for NULL.
\<close>

theorem textRow_reads_back:
  assumes "length (textRow std columns vals) < 2 ^ 63"
  shows "readTextRow (length vals) (textRow std columns vals) =
    Inr (map (\<lambda>i. clientText std columns i (vals ! i)) [0..<length vals], [])"
  using readTextRow_text_loop [of std columns 0 vals "[]"] assms by (simp add: textRow_def)

theorem textRow_reads_back_witness:
  "readTextRow (length [GoNil, GoBool True, GoString [65]]) (textRow exampleStd [zeroColumn] [GoNil, GoBool True, GoString [65]]) =
    Inr (map (\<lambda>i. clientText exampleStd [zeroColumn] i ([GoNil, GoBool True, GoString [65]] ! i))
          [0..<length [GoNil, GoBool True, GoString [65]]], [])"
  by (rule textRow_reads_back)
     (simp add: textRow_def zeroColumn_def appendTextValueForColumn_def appendLenEncString_def
       appendLenEncInt_def ascii_def)

end
