(* ===== verification/Reply_Packets.thy ===== *)
theory Reply_Packets
  imports Row_Codec
begin
unbundle bit_operations_syntax

text \<open>
  The packets the server answers with (\<open>pkg/mysqlmock/protocol_codec.go\<close>): OK, EOF and ERR
  packets, column definitions, and whole result sets with their sequence numbers. A writer is
  the list of packets it hands to \<open>writePacket\<close>, each with its sequence number.
\<close>

type_synonym packet = "byte \<times> bytes"

definition clientDeprecateEOF :: "32 word" where "clientDeprecateEOF = 0x01000000"

definition fieldTypeBlob :: byte where "fieldTypeBlob = 0xfc"
definition fieldTypeVarString :: byte where "fieldTypeVarString = 0xfd"
definition fieldTypeLongLong :: byte where "fieldTypeLongLong = 0x08"
definition fieldTypeDouble :: byte where "fieldTypeDouble = 0x05"
definition fieldTypeDecimal :: byte where "fieldTypeDecimal = 0x00"
definition fieldTypeDateTime :: byte where "fieldTypeDateTime = 0x0c"

subsection \<open>Errors\<close>

record mysqlError =
  Code :: "16 word"
  SQLState :: string
  Message :: string

definition fixedSQLState :: "string \<Rightarrow> string" where
  "fixedSQLState state =
     (if length state = 5 then state
      else if state = [] then ''HY000''
      else if length state > 5 then gslice state 0 5
      else state @ replicate (5 - length state) (CHR ''0''))"

definition errPacket :: "16 word \<Rightarrow> string \<Rightarrow> string \<Rightarrow> mysqlError" where
  "errPacket code state message = \<lparr> Code = code, SQLState = fixedSQLState state, Message = message \<rparr>"

definition mapSQLiteMessage :: "string \<Rightarrow> string \<Rightarrow> mysqlError" where
  "mapSQLiteMessage sqlText msg =
     (let lower = ToLower msg in
      if Contains lower ''unique constraint'' then errPacket 1062 ''23000'' ''Duplicate entry''
      else if Contains lower ''not null constraint'' then errPacket 1048 ''23000'' ''Column cannot be null''
      else if Contains lower ''foreign key constraint'' then errPacket 1452 ''23000'' ''Cannot add or update child row''
      else if Contains lower ''constraint failed'' then errPacket 3819 ''HY000'' ''Check constraint failed''
      else if Contains lower ''datatype mismatch'' then errPacket 1366 ''HY000'' msg
      else if Contains lower ''no such table'' then errPacket 1146 ''42S02'' msg
      else if Contains lower ''syntax error'' then errPacket 1105 ''HY000'' (''Unsupported query: '' @ sqlText)
      else errPacket 1105 ''HY000'' msg)"

text \<open>The method of the connection: write validation can be switched off.\<close>

definition connMapSQLiteError :: "string \<Rightarrow> string \<Rightarrow> string \<Rightarrow> mysqlError" where
  "connMapSQLiteError writeValidation sqlText msg =
     (if writeValidation = ''off'' then errPacket 1105 ''HY000'' msg else mapSQLiteMessage sqlText msg)"

definition isSQLiteSyntaxError :: "string \<Rightarrow> bool" where
  "isSQLiteSyntaxError msg = Contains (ToLower msg) ''syntax error''"

definition errPayload :: "mysqlError \<Rightarrow> bytes" where
  "errPayload err =
     appendUint16 [0xff] (Code err) @ ascii ''#'' @ ascii (fixedSQLState (SQLState err)) @ ascii (Message err)"

subsection \<open>OK and EOF\<close>

record okResult =
  AffectedRows :: "64 word"
  LastInsertID :: "64 word"
  Warnings :: "16 word"

definition okPayload :: "16 word \<Rightarrow> okResult \<Rightarrow> bytes" where
  "okPayload statusFlags ok =
     (let payload1 = appendLenEncInt [0x00] (AffectedRows ok);
          payload2 = appendLenEncInt payload1 (LastInsertID ok);
          payload3 = appendUint16 payload2 statusFlags
      in appendUint16 payload3 (Warnings ok))"

definition eofPayload :: "16 word \<Rightarrow> bytes" where
  "eofPayload statusFlags = appendUint16 (appendUint16 [0xfe] 0) statusFlags"

definition eofAsOKPayload :: "16 word \<Rightarrow> bytes" where
  "eofAsOKPayload statusFlags =
     appendUint16 (appendUint16 (appendLenEncInt (appendLenEncInt [0xfe] 0) 0) statusFlags) 0"

subsection \<open>Columns\<close>

definition columnDefinition :: "bytes \<Rightarrow> resultColumn \<Rightarrow> bytes" where
  "columnDefinition schema col =
     (let p1 = appendLenEncString [] (ascii ''def'');
          p2 = appendLenEncString p1 schema;
          p3 = appendLenEncString p2 [];
          p4 = appendLenEncString p3 [];
          p5 = appendLenEncString p4 (Name col);
          p6 = appendLenEncString p5 (Name col);
          p7 = p6 @ [0x0c];
          charset = (if Type col \<noteq> fieldTypeVarString \<and> Type col \<noteq> fieldTypeBlob then 63 else 45);
          p8 = appendUint16 p7 charset;
          p9 = appendUint32 p8 1024;
          p10 = p9 @ [Type col];
          p11 = appendUint16 p10 0
      in p11 @ [0] @ [0x00, 0x00])"

definition mysqlFieldType :: "string \<Rightarrow> byte" where
  "mysqlFieldType databaseTypeName =
     (let dbType = ToUpper databaseTypeName in
      if Contains dbType ''INT'' then fieldTypeLongLong
      else if dbType = ''REAL'' \<or> dbType = ''DOUBLE'' \<or> dbType = ''FLOAT'' then fieldTypeDouble
      else if dbType = ''NUMERIC'' \<or> dbType = ''DECIMAL'' then fieldTypeDecimal
      else if Contains dbType ''BLOB'' then fieldTypeBlob
      else if Contains dbType ''DATE'' \<or> Contains dbType ''TIME'' then fieldTypeDateTime
      else fieldTypeVarString)"

definition fieldTypeFromValue :: "goValue \<Rightarrow> byte" where
  "fieldTypeFromValue value =
     (case value of
        GoInt _ \<Rightarrow> fieldTypeLongLong | GoInt8 _ \<Rightarrow> fieldTypeLongLong | GoInt16 _ \<Rightarrow> fieldTypeLongLong
      | GoInt32 _ \<Rightarrow> fieldTypeLongLong | GoInt64 _ \<Rightarrow> fieldTypeLongLong
      | GoUint _ \<Rightarrow> fieldTypeLongLong | GoUint8 _ \<Rightarrow> fieldTypeLongLong | GoUint16 _ \<Rightarrow> fieldTypeLongLong
      | GoUint32 _ \<Rightarrow> fieldTypeLongLong | GoUint64 _ \<Rightarrow> fieldTypeLongLong
      | GoFloat _ \<Rightarrow> fieldTypeDouble
      | GoBytes _ \<Rightarrow> fieldTypeBlob
      | GoTime _ \<Rightarrow> fieldTypeDateTime
      | _ \<Rightarrow> fieldTypeVarString)"

text \<open>\<open>sscan\<close> is \<open>parseInt64String\<close>, which is \<open>fmt.Sscan\<close> into an \<open>int64\<close>.\<close>

definition mysqlZeroFillWidth :: "(string \<Rightarrow> int option) \<Rightarrow> string \<Rightarrow> int" where
  "mysqlZeroFillWidth sscan databaseTypeName =
     (let upper = ToUpper (TrimSpace databaseTypeName) in
      if \<not> Contains upper ''ZEROFILL'' then 0
      else (case IndexByte upper (CHR ''('') of
          None \<Rightarrow> 0
        | Some open \<Rightarrow>
            (case IndexByte (drop (open + 1) upper) (CHR '')'') of
               None \<Rightarrow> 0
             | Some close \<Rightarrow>
                 (case sscan (gslice upper (open + 1) (open + 1 + close)) of
                    None \<Rightarrow> 0
                  | Some width \<Rightarrow> if width \<le> 0 then 0 else width))))"

subsection \<open>Result sets\<close>

text \<open>A loop that writes packets and counts \<open>seq\<close> up, modulo 256.\<close>

fun numbered :: "byte \<Rightarrow> bytes list \<Rightarrow> packet list" where
  "numbered seq [] = []"
| "numbered seq (p # ps) = (seq, p) # numbered (seq + 1) ps"

definition columnDefinitionTerminator :: "32 word \<Rightarrow> 16 word \<Rightarrow> byte \<Rightarrow> packet list \<times> byte" where
  "columnDefinitionTerminator clientCaps statusFlags seq =
     (if clientCaps AND clientDeprecateEOF \<noteq> 0 then ([], seq)
      else ([(seq, eofPayload statusFlags)], seq + 1))"

definition resultSetTerminator :: "32 word \<Rightarrow> 16 word \<Rightarrow> byte \<Rightarrow> packet" where
  "resultSetTerminator clientCaps statusFlags seq =
     (if clientCaps AND clientDeprecateEOF \<noteq> 0 then (seq, eofAsOKPayload statusFlags)
      else (seq, eofPayload statusFlags))"

text \<open>What the three result-set writers have in common: the column count, the columns, the rows.\<close>

definition resultSetHead :: "32 word \<Rightarrow> 16 word \<Rightarrow> bytes \<Rightarrow> byte \<Rightarrow> resultColumn list \<Rightarrow> packet list \<times> byte" where
  "resultSetHead clientCaps statusFlags currentDB seq columns =
     (let (term, seq') = columnDefinitionTerminator clientCaps statusFlags (seq + 1 + of_nat (length columns))
      in ((seq, appendLenEncInt [] (of_nat (length columns))) #
          numbered (seq + 1) (map (columnDefinition currentDB) columns) @ term, seq'))"

definition resultSetPackets ::
    "32 word \<Rightarrow> 16 word \<Rightarrow> bytes \<Rightarrow> byte \<Rightarrow> resultColumn list \<Rightarrow> bytes list \<Rightarrow> packet list" where
  "resultSetPackets clientCaps statusFlags currentDB seq columns rows =
     (let (head, seq') = resultSetHead clientCaps statusFlags currentDB seq columns
      in head @ numbered seq' rows @
         [resultSetTerminator clientCaps statusFlags (seq' + of_nat (length rows))])"

definition writeResultSet ::
    "goStd \<Rightarrow> 32 word \<Rightarrow> 16 word \<Rightarrow> bytes \<Rightarrow> byte \<Rightarrow> resultColumn list \<Rightarrow> goValue list list \<Rightarrow> packet list" where
  "writeResultSet std clientCaps statusFlags currentDB seq columns rows =
     resultSetPackets clientCaps statusFlags currentDB seq columns (map (textRow std columns) rows)"

text \<open>\<open>writeSQLiteTextResultSet\<close> streams: \<open>rows\<close> are the rows SQLite gives before it ends or
  fails; after a failure nothing more is written.\<close>

definition writeSQLiteTextResultSet ::
    "goStd \<Rightarrow> 32 word \<Rightarrow> 16 word \<Rightarrow> bytes \<Rightarrow> byte \<Rightarrow> resultColumn list \<Rightarrow> goValue list list \<Rightarrow> string option
     \<Rightarrow> packet list \<times> string option" where
  "writeSQLiteTextResultSet std clientCaps statusFlags currentDB seq columns rows failure =
     (let (head, seq') = resultSetHead clientCaps statusFlags currentDB seq columns;
          body = head @ numbered seq' (map (textRow std columns) rows)
      in (case failure of
            Some err \<Rightarrow> (body, Some err)
          | None \<Rightarrow> (body @ [resultSetTerminator clientCaps statusFlags (seq' + of_nat (length rows))], None)))"

text \<open>Packets on the wire: what is sent, the buffer kept, and the error that stopped it.\<close>

fun sendPackets :: "bytes \<Rightarrow> packet list \<Rightarrow> bytes \<times> bytes \<times> codec_error option" where
  "sendPackets buf [] = ([], buf, None)"
| "sendPackets buf ((seq, payload) # ps) =
     (case writePacket buf seq payload of
        Inl e \<Rightarrow> ([], buf, Some e)
      | Inr (packet, buf') \<Rightarrow> (let (out, buf'', e) = sendPackets buf' ps in (packet @ out, buf'', e)))"

subsection \<open>Sequence numbers and the stream\<close>

lemma fst_numbered: "map fst (numbered seq ps) = map (\<lambda>k. seq + of_nat k) [0..<length ps]"
proof (induction ps arbitrary: seq)
  case (Cons p ps)
  have "map (\<lambda>k. seq + of_nat k) [0..<length (p # ps)] = seq # map (\<lambda>k. seq + 1 + of_nat k) [0..<length ps]"
    by (simp add: upt_rec [of 0] map_Suc_upt [symmetric] ac_simps del: upt_Suc)
  then show ?case by (simp add: Cons)
qed simp

lemma length_numbered [simp]: "length (numbered seq ps) = length ps"
  by (induction seq ps rule: numbered.induct) auto

lemma snd_numbered [simp]: "map snd (numbered seq ps) = ps"
  by (induction seq ps rule: numbered.induct) auto

lemma numbered_append: "numbered seq (ps @ qs) = numbered seq ps @ numbered (seq + of_nat (length ps)) qs"
  by (induction seq ps rule: numbered.induct) (auto simp: ac_simps)

definition resultSetPayloads ::
    "32 word \<Rightarrow> 16 word \<Rightarrow> bytes \<Rightarrow> resultColumn list \<Rightarrow> bytes list \<Rightarrow> bytes list" where
  "resultSetPayloads clientCaps statusFlags currentDB columns rows =
     (let deprecated = (clientCaps AND clientDeprecateEOF \<noteq> 0) in
      [appendLenEncInt [] (of_nat (length columns))] @ map (columnDefinition currentDB) columns @
      (if deprecated then [] else [eofPayload statusFlags]) @ rows @
      [if deprecated then eofAsOKPayload statusFlags else eofPayload statusFlags])"

lemma resultSetPackets_numbered:
  "resultSetPackets caps flags db seq columns rows =
   numbered seq (resultSetPayloads caps flags db columns rows)"
  by (simp add: resultSetPackets_def resultSetHead_def columnDefinitionTerminator_def
      resultSetTerminator_def resultSetPayloads_def numbered_append Let_def ac_simps)

text \<open>How a client reads packets off the stream.\<close>

fun readPackets :: "nat \<Rightarrow> bytes \<Rightarrow> codec_error + (packet list \<times> bytes)" where
  "readPackets 0 stream = Inr ([], stream)"
| "readPackets (Suc n) stream =
     (case readPacket stream of
        Inl e \<Rightarrow> Inl e
      | Inr (payload, seq, rest) \<Rightarrow>
          (case readPackets n rest of
             Inl e \<Rightarrow> Inl e
           | Inr (ps, rest') \<Rightarrow> Inr ((seq, payload) # ps, rest')))"

lemma sendPackets_readPackets:
  "list_all (\<lambda>(seq, p). length p < 2 ^ 24) ps \<Longrightarrow>
   \<exists>out buf'. sendPackets buf ps = (out, buf', None) \<and> readPackets (length ps) (out @ rest) = Inr (ps, rest)"
proof (induction buf ps rule: sendPackets.induct)
  case (2 buf seq payload ps)
  from 2(2) have "length payload < 2 ^ 24" and l: "list_all (\<lambda>(seq, p). length p < 2 ^ 24) ps" by auto
  from this(1) obtain packet b where w: "writePacket buf seq payload = Inr (packet, b)"
    and r: "\<And>rest. readPacket (packet @ rest) = Inr (payload, seq, rest)"
    using writePacket_sent [of payload buf seq] readPacket_packet [of payload seq] by blast
  from 2(1) [OF w refl l] obtain out buf' where "sendPackets b ps = (out, buf', None)"
    "readPackets (length ps) (out @ rest) = Inr (ps, rest)" by blast
  then show ?case using w r by simp
qed simp

text \<open>
  C21: a text result set arrives as it was written. If no payload reaches 16 MB, the bytes sent
  are read back as one packet for the column count, one for each column, the EOF packet unless
  the client deprecated it, one for each row and the terminator, with sequence numbers that count
  up by one from \<open>seq\<close> modulo 256, and nothing of what follows is consumed.
\<close>

theorem writeResultSet_stream:
  fixes columns rows
  defines "payloads caps flags db std \<equiv> resultSetPayloads caps flags db columns (map (textRow std columns) rows)"
  assumes "\<forall>p \<in> set (payloads caps flags db std). length p < 2 ^ 24"
  shows "\<exists>out buf'. sendPackets buf (writeResultSet std caps flags db seq columns rows) = (out, buf', None) \<and>
    readPackets (length columns + length rows + (if caps AND clientDeprecateEOF \<noteq> 0 then 2 else 3)) (out @ rest) =
      Inr (zip (map (\<lambda>k. seq + of_nat k) [0..<length (payloads caps flags db std)]) (payloads caps flags db std), rest)"
proof -
  let ?ps = "numbered seq (payloads caps flags db std)"
  have w: "writeResultSet std caps flags db seq columns rows = ?ps"
    by (simp add: writeResultSet_def resultSetPackets_numbered assms(1))
  have n: "length ?ps = length columns + length rows + (if caps AND clientDeprecateEOF \<noteq> 0 then 2 else 3)"
    by (simp add: assms(1) resultSetPayloads_def Let_def)
  have z: "?ps = zip (map (\<lambda>k. seq + of_nat k) [0..<length (payloads caps flags db std)]) (payloads caps flags db std)"
    using zip_map_fst_snd [of ?ps] by (simp add: fst_numbered)
  have "snd ` set ?ps = set (payloads caps flags db std)"
    using snd_numbered [of seq "payloads caps flags db std"] by (metis list.set_map)
  then have "list_all (\<lambda>(sq, p). length p < 2 ^ 24) ?ps"
    using assms(2) by (force simp: list_all_iff)
  from sendPackets_readPackets [OF this, of buf rest] show ?thesis using w n z by metis
qed

theorem writeResultSet_stream_witness:
  "\<exists>out buf'. sendPackets [] (writeResultSet exampleStd 0 2 [] 1 [zeroColumn] [[GoNil], [GoBool True]]) = (out, buf', None) \<and>
    readPackets (length [zeroColumn] + length [[GoNil], [GoBool True]] +
        (if 0 AND clientDeprecateEOF \<noteq> 0 then 2 else 3)) (out @ [7]) =
      Inr (zip (map (\<lambda>k. 1 + of_nat k)
          [0..<length (resultSetPayloads 0 2 [] [zeroColumn] (map (textRow exampleStd [zeroColumn]) [[GoNil], [GoBool True]]))])
        (resultSetPayloads 0 2 [] [zeroColumn] (map (textRow exampleStd [zeroColumn]) [[GoNil], [GoBool True]])), [7])"
  by (rule writeResultSet_stream)
     (simp add: resultSetPayloads_def textRow_def columnDefinition_def eofPayload_def zeroColumn_def
       appendLenEncInt_def appendLenEncString_def appendLenEncBytes_def appendTextValueForColumn_def ascii_def Let_def)

text \<open>How a client reads an OK packet.\<close>

definition readOK :: "bytes \<Rightarrow> codec_error + (64 word \<times> 64 word \<times> 16 word \<times> 16 word)" where
  "readOK payload =
     (case readLenEncInt (tl payload) of
        Inl e \<Rightarrow> Inl e
      | Inr (affected, n, _) \<Rightarrow>
          (case readLenEncInt (drop n (tl payload)) of
             Inl e \<Rightarrow> Inl e
           | Inr (lastId, m, _) \<Rightarrow>
               let r = drop m (drop n (tl payload))
               in Inr (affected, lastId, leUint16 r, leUint16 (drop 2 r))))"

text \<open>
  the header of the replies. An OK packet starts with 0 and is read back as the affected
  rows, the last insert id, the status flags and the warnings it was written with; an ERR packet
  is 0xff, the two bytes of the code, a hash, a state of exactly five bytes (the error's own
  state when it has five) and the message.
\<close>

theorem reply_packets_read_back:
  "hd (okPayload flags ok) = 0 \<and>
   readOK (okPayload flags ok) = Inr (AffectedRows ok, LastInsertID ok, flags, Warnings ok) \<and>
   (\<exists>st. length st = 5 \<and> (length (SQLState err) = 5 \<longrightarrow> st = SQLState err) \<and>
      errPayload err = 0xff # appendUint16 [] (Code err) @ 0x23 # ascii st @ ascii (Message err))"
proof (intro conjI)
  let ?a = "appendLenEncInt [] (AffectedRows ok)" and ?l = "appendLenEncInt [] (LastInsertID ok)"
  have p: "okPayload flags ok = 0 # ?a @ ?l @ appendUint16 [] flags @ appendUint16 [] (Warnings ok)"
    using appendLenEncInt_append [of "[0]"] appendLenEncInt_append [of "0 # ?a"]
      le_append(1) [of "0 # ?a @ ?l"] le_append(1) [of "0 # ?a @ ?l @ appendUint16 [] flags"]
    by (simp add: okPayload_def)
  then show "hd (okPayload flags ok) = 0" by simp
  show "readOK (okPayload flags ok) = Inr (AffectedRows ok, LastInsertID ok, flags, Warnings ok)"
    using leUint16_append [of flags] leUint16_append [of "Warnings ok" "[]"]
    by (simp add: readOK_def p readLenEncInt_append Let_def)
  have "length (fixedSQLState s) = 5" for s by (simp add: fixedSQLState_def)
  then show "\<exists>st. length st = 5 \<and> (length (SQLState err) = 5 \<longrightarrow> st = SQLState err) \<and>
      errPayload err = 0xff # appendUint16 [] (Code err) @ 0x23 # ascii st @ ascii (Message err)"
    by (intro exI [of _ "fixedSQLState (SQLState err)"])
       (simp add: errPayload_def fixedSQLState_def ascii_def le_append(1) [of "[_]"])
qed

theorem reply_packets_read_back_witness:
  "\<exists>st. length st = 5 \<and> st = ''23000'' \<and>
     errPayload (errPacket 1062 ''23000'' ''x'') = 0xff # appendUint16 [] 1062 @ 0x23 # ascii st @ ascii ''x''"
  using reply_packets_read_back [of 2 "\<lparr> AffectedRows = 300, LastInsertID = 7, Warnings = 0 \<rparr>"
      "errPacket 1062 ''23000'' ''x''"] by (auto simp: errPacket_def fixedSQLState_def)

end
