(* ===== verification/Binary_Codec.thy ===== *)
theory Binary_Codec
  imports Reply_Packets
begin
unbundle bit_operations_syntax

text \<open>
  The binary protocol of prepared statements (\<open>pkg/mysqlmock/prepared.go\<close>): the values of
  result rows with their null bitmap, and the parameters a client binds.
\<close>

subsection \<open>Conversions\<close>

definition maxInt64 :: "64 word" where "maxInt64 = 0x7FFFFFFFFFFFFFFF"

definition toInt64 :: "goValue \<Rightarrow> codec_error + 64 word" where
  "toInt64 value =
     (case value of
        GoInt v \<Rightarrow> Inr v
      | GoInt8 v \<Rightarrow> Inr (scast v)
      | GoInt16 v \<Rightarrow> Inr (scast v)
      | GoInt32 v \<Rightarrow> Inr (scast v)
      | GoInt64 v \<Rightarrow> Inr v
      | GoUint v \<Rightarrow> if v > maxInt64 then Inl (IntegerOverflow v) else Inr v
      | GoUint8 v \<Rightarrow> Inr (ucast v)
      | GoUint16 v \<Rightarrow> Inr (ucast v)
      | GoUint32 v \<Rightarrow> Inr (ucast v)
      | GoUint64 v \<Rightarrow> if v > maxInt64 then Inl (IntegerOverflow v) else Inr v
      | GoBool v \<Rightarrow> Inr (if v then 1 else 0)
      | GoBytes v \<Rightarrow> parseInt v
      | GoString v \<Rightarrow> parseInt v
      | _ \<Rightarrow> Inl CannotConvertInt)"

definition toFloat64 :: "goStd \<Rightarrow> goValue \<Rightarrow> codec_error + 64 word" where
  "toFloat64 std value =
     (case value of
        GoFloat (F32 v) \<Rightarrow> Inr (f32to64 std v)
      | GoFloat (F64 v) \<Rightarrow> Inr v
      | GoInt64 v \<Rightarrow> Inr (i64toFloat std v)
      | GoBytes v \<Rightarrow> (case parseFloat std v of Some f \<Rightarrow> Inr f | None \<Rightarrow> Inl (BadSyntax v))
      | GoString v \<Rightarrow> (case parseFloat std v of Some f \<Rightarrow> Inr f | None \<Rightarrow> Inl (BadSyntax v))
      | _ \<Rightarrow> Inl CannotConvertFloat)"

definition zeroTime :: goTime where
  "zeroTime = \<lparr> t_year = 1, t_month = 1, t_day = 1, t_hour = 0, t_minute = 0, t_second = 0, t_nano = 0 \<rparr>"

text \<open>White space of \<open>strings.TrimSpace\<close> on bytes.\<close>

definition isSpaceByte :: "byte \<Rightarrow> bool" where
  "isSpaceByte b = (b = 32 \<or> (9 \<le> b \<and> b \<le> 13))"

definition trimBytes :: "bytes \<Rightarrow> bytes" where
  "trimBytes s = rev (dropWhile isSpaceByte (rev (dropWhile isSpaceByte s)))"

definition dateLayouts :: "bytes list" where
  "dateLayouts =
     [ascii ''2006-01-02T15:04:05.999999999Z07:00'', ascii ''2006-01-02 15:04:05.999999999'',
      ascii ''2006-01-02 15:04:05.999999'', ascii ''2006-01-02 15:04:05'', ascii ''2006-01-02'']"

text \<open>The first layout that parses; \<open>parseLayout\<close> is \<open>time.ParseInLocation\<close> in the local zone.\<close>

fun firstLayout :: "goStd \<Rightarrow> bytes list \<Rightarrow> bytes \<Rightarrow> goTime option" where
  "firstLayout std [] v = None"
| "firstLayout std (l # ls) v =
     (case parseLayout std l v of Some t \<Rightarrow> Some t | None \<Rightarrow> firstLayout std ls v)"

definition parseDateTimeString :: "goStd \<Rightarrow> bytes \<Rightarrow> codec_error + goTime" where
  "parseDateTimeString std value0 =
     (let value = trimBytes value0 in
      if value = [] \<or> value = ascii ''0000-00-00'' \<or> prefix (ascii ''0000-00-00 '') value then Inr zeroTime
      else (case firstLayout std dateLayouts value of Some t \<Rightarrow> Inr t | None \<Rightarrow> Inl (BadSyntax value)))"

definition asTime :: "goStd \<Rightarrow> goValue \<Rightarrow> codec_error + goTime" where
  "asTime std value =
     (case value of
        GoTime t \<Rightarrow> Inr t
      | GoString v \<Rightarrow> parseDateTimeString std v
      | GoBytes v \<Rightarrow> parseDateTimeString std v
      | _ \<Rightarrow> Inl CannotConvertTime)"

subsection \<open>Values of a binary row\<close>

text \<open>The local zone is UTC here, so \<open>IsZero\<close> is equality with year 1, January 1, 00:00:00.\<close>

definition appendBinaryDateTime :: "goStd \<Rightarrow> bytes \<Rightarrow> goValue \<Rightarrow> codec_error + bytes" where
  "appendBinaryDateTime std buf value =
     (case asTime std value of
        Inl e \<Rightarrow> Inl e
      | Inr t \<Rightarrow>
          if t = zeroTime then Inr (buf @ [0x00])
          else let micro = t_nano t div 1000;
                   fields = [of_nat (t_month t), of_nat (t_day t), of_nat (t_hour t), of_nat (t_minute t), of_nat (t_second t)]
               in if micro > 0
                  then Inr (appendUint32 (appendUint16 (buf @ [0x0b]) (word_of_int (t_year t)) @ fields) (of_nat micro))
                  else Inr (appendUint16 (buf @ [0x07]) (word_of_int (t_year t)) @ fields))"

definition appendBinaryValue :: "goStd \<Rightarrow> bytes \<Rightarrow> byte \<Rightarrow> goValue \<Rightarrow> codec_error + bytes" where
  "appendBinaryValue std buf typ value =
     (if typ = 0x01 then map_sum id (\<lambda>n. buf @ [ucast n]) (toInt64 value)
      else if typ \<in> {0x02, 0x0d} then map_sum id (\<lambda>n. appendUint16 buf (ucast n)) (toInt64 value)
      else if typ \<in> {0x03, 0x09} then map_sum id (\<lambda>n. appendUint32 buf (ucast n)) (toInt64 value)
      else if typ = 0x08 then map_sum id (\<lambda>n. appendUint64 buf n) (toInt64 value)
      else if typ = 0x04 then map_sum id (\<lambda>n. appendUint32 buf (f64to32 std n)) (toFloat64 std value)
      else if typ = 0x05 then map_sum id (\<lambda>n. appendUint64 buf n) (toFloat64 std value)
      else if typ \<in> {0x0a, 0x0e, 0x0c, 0x07} then appendBinaryDateTime std buf value
      else Inr (appendLenEncBytes buf (textValue std value)))"

text \<open>The loop of \<open>binaryRow\<close> over the values; \<open>i\<close> counts them.\<close>

fun binary_loop :: "goStd \<Rightarrow> resultColumn list \<Rightarrow> nat \<Rightarrow> goValue list \<Rightarrow> bytes \<Rightarrow> codec_error + bytes" where
  "binary_loop std columns i [] payload = Inr payload"
| "binary_loop std columns i (v # vs) payload =
     (if v = GoNil
      then binary_loop std columns (i + 1) vs
             (payload[1 + (i + 2) div 8 := payload ! (1 + (i + 2) div 8) OR push_bit ((i + 2) mod 8) 1])
      else (case appendBinaryValue std payload (Type (columns ! i)) v of
              Inl e \<Rightarrow> Inl (EncodeColumn (Name (columns ! i)) e)
            | Inr payload' \<Rightarrow> binary_loop std columns (i + 1) vs payload'))"

definition binaryRow :: "goStd \<Rightarrow> resultColumn list \<Rightarrow> goValue list \<Rightarrow> codec_error + bytes" where
  "binaryRow std columns vals =
     (if length vals \<noteq> length columns then Inl (ValueCountMismatch (length vals) (length columns))
      else let nullLen = (length columns + 7 + 2) div 8
           in binary_loop std columns 0 vals (replicate (1 + nullLen) 0))"

text \<open>All rows are encoded before anything is written.\<close>

fun binaryRows :: "goStd \<Rightarrow> resultColumn list \<Rightarrow> goValue list list \<Rightarrow> codec_error + bytes list" where
  "binaryRows std columns [] = Inr []"
| "binaryRows std columns (row # rows) =
     (case binaryRow std columns row of
        Inl e \<Rightarrow> Inl e
      | Inr p \<Rightarrow> map_sum id (Cons p) (binaryRows std columns rows))"

definition writeBinaryResultSet ::
    "goStd \<Rightarrow> 32 word \<Rightarrow> 16 word \<Rightarrow> bytes \<Rightarrow> byte \<Rightarrow> resultColumn list \<Rightarrow> goValue list list
     \<Rightarrow> codec_error + packet list" where
  "writeBinaryResultSet std clientCaps statusFlags currentDB seq columns rows =
     map_sum id (resultSetPackets clientCaps statusFlags currentDB seq columns) (binaryRows std columns rows)"

subsection \<open>Lemmas on binary rows\<close>

lemma appendLenEncBytes_shift: "appendLenEncBytes (a @ b) v = a @ appendLenEncBytes b v"
  using appendLenEncBytes_append [of "a @ b" v] appendLenEncBytes_append [of b v] by simp

lemma appendBinaryValue_append:
  "appendBinaryValue std (a @ b) typ v = map_sum id (\<lambda>r. a @ r) (appendBinaryValue std b typ v)"
  by (cases "toInt64 v"; cases "toFloat64 std v"; cases "asTime std v")
     (auto simp: appendBinaryValue_def appendBinaryDateTime_def appendUint16_def appendUint32_def
       appendUint64_def Let_def appendLenEncBytes_shift)

text \<open>The bitmap as a list of bytes: bit \<open>i + 2\<close> belongs to value \<open>i\<close>.\<close>

definition nullBit :: "bytes \<Rightarrow> nat \<Rightarrow> bool" where
  "nullBit payload i = bit (payload ! (1 + (i + 2) div 8)) ((i + 2) mod 8)"

text \<open>Setting the bit of one value leaves the bits of the others.\<close>

lemma nullBit_set:
  assumes "1 + (i + 2) div 8 < length p" "1 + (j + 2) div 8 < length p"
  shows "nullBit (p[1 + (i + 2) div 8 := p ! (1 + (i + 2) div 8) OR push_bit ((i + 2) mod 8) 1]) j
     = (nullBit p j \<or> i = j)"
proof (cases "(i + 2) div 8 = (j + 2) div 8")
  case False
  then have "i \<noteq> j" by auto
  with False show ?thesis using assms by (simp add: nullBit_def)
next
  case True
  have eq: "(i + 2) mod 8 = (j + 2) mod 8 \<longleftrightarrow> i = j"
    using True by (metis add_right_imp_eq div_mult_mod_eq)
  have lt: "(i + 2) mod 8 < 8" "(j + 2) mod 8 < 8" by simp_all
  have "bit (push_bit ((i + 2) mod 8) 1 :: byte) ((j + 2) mod 8) \<longleftrightarrow> i = j"
    using eq lt by (auto simp: bit_simps)
  then show ?thesis using True assms(2) by (simp add: nullBit_def bit_or_iff)
qed

text \<open>The bytes of the values that are not nil, one after the other.\<close>

fun rowValues :: "goStd \<Rightarrow> resultColumn list \<Rightarrow> nat \<Rightarrow> goValue list \<Rightarrow> bytes" where
  "rowValues std columns i [] = []"
| "rowValues std columns i (v # vs) =
     (if v = GoNil then []
      else case appendBinaryValue std [] (Type (columns ! i)) v of Inr b \<Rightarrow> b | Inl _ \<Rightarrow> []) @
     rowValues std columns (i + 1) vs"

lemma appendBinaryValue_Inr:
  "appendBinaryValue std payload typ v = Inr p \<Longrightarrow>
   \<exists>b. appendBinaryValue std [] typ v = Inr b \<and> p = payload @ b"
  using appendBinaryValue_append [of std payload "[]" "typ" v]
  by (cases "appendBinaryValue std [] typ v") auto

lemma binary_loop_row:
  assumes "binary_loop std columns i vs (h @ d) = Inr p" "length h = 1 + (i + length vs + 9) div 8"
  shows "\<exists>h'. p = h' @ d @ rowValues std columns i vs \<and> length h' = length h \<and> h' ! 0 = h ! 0 \<and>
    (\<forall>j < i + length vs. nullBit h' j = (nullBit h j \<or> (i \<le> j \<and> vs ! (j - i) = GoNil)))"
  using assms
proof (induction vs arbitrary: i h d)
  case Nil
  then show ?case by auto
next
  case (Cons v vs)
  have len: "length h = 1 + (i + 1 + length vs + 9) div 8" using Cons.prems(2) by simp
  have pos: "\<And>j. j < i + 1 + length vs \<Longrightarrow> 1 + (j + 2) div 8 < length h" using len by simp
  show ?case
  proof (cases "v = GoNil")
    case True
    let ?k = "1 + (i + 2) div 8"
    let ?h = "h[?k := h ! ?k OR push_bit ((i + 2) mod 8) 1]"
    have k: "?k < length h" by (rule pos) simp
    have upd: "(h @ d)[?k := (h @ d) ! ?k OR push_bit ((i + 2) mod 8) 1] = ?h @ d"
      using k by (simp add: list_update_append nth_append)
    have "binary_loop std columns (i + 1) vs (?h @ d) = Inr p"
      using Cons.prems(1) True upd by simp
    from Cons.IH [OF this] len obtain h' where h': "p = h' @ d @ rowValues std columns (i + 1) vs"
      "length h' = length h" "h' ! 0 = h ! 0"
      "\<And>j. j < i + 1 + length vs \<Longrightarrow> nullBit h' j = (nullBit ?h j \<or> (i + 1 \<le> j \<and> vs ! (j - (i + 1)) = GoNil))"
      by auto
    have bits: "nullBit h' j = (nullBit h j \<or> (i \<le> j \<and> (v # vs) ! (j - i) = GoNil))"
      if j: "j < i + length (v # vs)" for j
      using h'(4) [of j] nullBit_set [OF k pos [of j]] j True
      by (cases "i = j"; cases "i < j") (auto simp: Suc_diff_Suc nth_Cons')
    have "p = h' @ d @ rowValues std columns i (v # vs)" using h'(1) True by simp
    then show ?thesis using h'(2,3) bits by blast
  next
    case False
    then obtain q where q: "appendBinaryValue std (h @ d) (Type (columns ! i)) v = Inr q"
      "binary_loop std columns (i + 1) vs q = Inr p"
      using Cons.prems(1) by (auto split: sum.splits)
    from appendBinaryValue_Inr [OF q(1)] obtain b where b: "appendBinaryValue std [] (Type (columns ! i)) v = Inr b"
      "q = h @ (d @ b)" by auto
    from Cons.IH [of "i + 1" h "d @ b"] q(2) b(2) len obtain h' where
      h': "p = h' @ (d @ b) @ rowValues std columns (i + 1) vs" "length h' = length h" "h' ! 0 = h ! 0"
      "\<And>j. j < i + 1 + length vs \<Longrightarrow> nullBit h' j = (nullBit h j \<or> (i + 1 \<le> j \<and> vs ! (j - (i + 1)) = GoNil))"
      by auto
    have bits: "nullBit h' j = (nullBit h j \<or> (i \<le> j \<and> (v # vs) ! (j - i) = GoNil))"
      if j: "j < i + length (v # vs)" for j
      using h'(4) [of j] j False
      by (cases "i = j"; cases "i < j") (auto simp: Suc_diff_Suc nth_Cons')
    have "p = h' @ d @ rowValues std columns i (v # vs)" using h'(1) False b(1) by simp
    then show ?thesis using h'(2,3) bits by blast
  qed
qed

text \<open>
  C33: a binary row is a zero byte, the null bitmap and the encoded values. When \<open>binaryRow\<close>
  succeeds there is one value for each column, the bit of a value is set exactly when the value
  is nil, and behind the bitmap stand the encodings of the other values and nothing else.
\<close>

theorem binaryRow_layout:
  assumes "binaryRow std columns vals = Inr p"
  shows "length vals = length columns \<and> p ! 0 = 0 \<and>
    (\<forall>i < length vals. nullBit p i \<longleftrightarrow> vals ! i = GoNil) \<and>
    drop (1 + (length columns + 9) div 8) p = rowValues std columns 0 vals"
proof -
  let ?h = "replicate (1 + (length columns + 9) div 8) (0 :: byte)"
  have len: "length vals = length columns" using assms by (auto simp: binaryRow_def split: if_splits)
  have "binary_loop std columns 0 vals (?h @ []) = Inr p"
    using assms len by (simp add: binaryRow_def add.commute [of _ 9])
  from binary_loop_row [OF this] len obtain h' where
    h': "p = h' @ rowValues std columns 0 vals" "length h' = length ?h" "h' ! 0 = ?h ! 0"
    "\<And>j. j < length vals \<Longrightarrow> nullBit h' j = (nullBit ?h j \<or> vals ! j = GoNil)"
    by auto
  have pos: "\<And>j. j < length vals \<Longrightarrow> 1 + (j + 2) div 8 < length h'" using h'(2) len by simp
  have "nullBit p j = (vals ! j = GoNil)" if "j < length vals" for j
  proof -
    have "nullBit p j = nullBit h' j" using pos [OF that] h'(1) by (simp add: nullBit_def nth_append)
    moreover have "\<not> nullBit ?h j"
      using pos [OF that] h'(2) by (simp add: nullBit_def del: replicate.simps)
    ultimately show ?thesis using h'(4) [OF that] by simp
  qed
  then show ?thesis using len h' by (simp add: nth_append)
qed

theorem binaryRow_layout_witness:
  "nullBit [0, 8, 1, 1, 0x31] 1 \<longleftrightarrow> [GoBool True, GoNil, GoString [0x31]] ! 1 = GoNil"
  using binaryRow_layout [of exampleStd "[zeroColumn\<lparr>Type := 1\<rparr>, zeroColumn, zeroColumn\<lparr>Type := 0xfd\<rparr>]"
      "[GoBool True, GoNil, GoString [0x31]]" "[0, 8, 1, 1, 0x31]"]
  by (simp add: binaryRow_def appendBinaryValue_def toInt64_def textValue_def appendLenEncBytes_def
      appendLenEncInt_def zeroColumn_def)

end
