(* ===== verification/Prepared.thy ===== *)
theory Prepared
  imports Binary_Codec Sql_Tokens
begin
unbundle bit_operations_syntax

text \<open>
  Prepared statements (\<open>pkg/mysqlmock/prepared.go\<close>): decoding the parameters a client binds,
  counting the placeholders of a text, and the state machine of a connection's statements.
\<close>

subsection \<open>Decoding one parameter\<close>

record preparedParamType =
  FieldType :: byte
  Unsigned :: bool

definition decodeBinaryDateTime :: "goStd \<Rightarrow> bytes \<Rightarrow> codec_error + (goTime \<times> nat)" where
  "decodeBinaryDateTime std data =
     (if length data < 1 then Inl ShortBuffer
      else let len = unat (data ! 0) in
        if length data < 1 + len then Inl ShortBuffer
        else if len = 0 then Inr (zeroTime, 1)
        else if len \<noteq> 4 \<and> len \<noteq> 7 \<and> len \<noteq> 11 then Inl (InvalidDateTimeLength len)
        else let year = uint (leUint16 (gslice data 1 3));
                 month = unat (data ! 3);
                 day = unat (data ! 4);
                 (hour, minute, second) =
                   (if len \<ge> 7 then (unat (data ! 5), unat (data ! 6), unat (data ! 7)) else (0, 0, 0));
                 micro = (if len = 11 then unat (leUint32 (gslice data 8 12)) else 0)
             in Inr (timeDate std \<lparr> t_year = year, t_month = month, t_day = day, t_hour = hour,
                       t_minute = minute, t_second = second, t_nano = micro * 1000 \<rparr>, 1 + len))"

definition decodeBinaryTime :: "bytes \<Rightarrow> codec_error + (bytes \<times> nat)" where
  "decodeBinaryTime data =
     (if length data < 1 then Inl ShortBuffer
      else let len = unat (data ! 0) in
        if length data < 1 + len then Inl ShortBuffer
        else if len = 0 then Inr (ascii ''00:00:00'', 1)
        else if len \<noteq> 8 \<and> len \<noteq> 12 then Inl (InvalidTimeLength len)
        else let sign = (if data ! 1 = 1 then [45] else []);
                 days = leUint32 (gslice data 2 6);
                 hours = ucast (data ! 6) + days * 24;
                 text = sign @ padded 2 (unat hours) @ [58] @ padded 2 (unat (data ! 7)) @ [58] @
                        padded 2 (unat (data ! 8))
             in if len = 12
                then Inr (text @ [46] @ padded 6 (unat (leUint32 (gslice data 9 13))), 13)
                else Inr (text, 9))"

text \<open>A fixed-width integer at the front of the data, once there are enough bytes.\<close>

definition needBytes :: "nat \<Rightarrow> bytes \<Rightarrow> goValue \<Rightarrow> codec_error + (goValue \<times> nat)" where
  "needBytes n data v = (if length data < n then Inl ShortBuffer else Inr (v, n))"

definition decodePreparedValue :: "goStd \<Rightarrow> bytes \<Rightarrow> preparedParamType \<Rightarrow> codec_error + (goValue \<times> nat)" where
  "decodePreparedValue std data ty =
     (let f = FieldType ty; u = Unsigned ty in
      if f = 0x06 then Inr (GoNil, 0)
      else if f = 0x01 then
        needBytes 1 data (GoInt64 (if u then ucast (data ! 0) else scast (data ! 0)))
      else if f \<in> {0x02, 0x0d} then
        needBytes 2 data (let n = leUint16 (gslice data 0 2) in GoInt64 (if u then ucast n else scast n))
      else if f \<in> {0x03, 0x09} then
        needBytes 4 data (let n = leUint32 (gslice data 0 4) in GoInt64 (if u then ucast n else scast n))
      else if f = 0x08 then
        needBytes 8 data (let n = leUint64 (gslice data 0 8) in
          if u then (if n \<le> maxInt64 then GoInt64 n else GoString (formatUint n)) else GoInt64 n)
      else if f = 0x04 then needBytes 4 data (GoFloat (F64 (f32to64 std (leUint32 (gslice data 0 4)))))
      else if f = 0x05 then needBytes 8 data (GoFloat (F64 (leUint64 (gslice data 0 8))))
      else if f \<in> {0x00, 0xf6, 0x0f, 0xfd, 0xfe, 0xf7, 0xf8} then
        map_sum id (\<lambda>(v, n). (GoString (case v of Some b \<Rightarrow> b | None \<Rightarrow> []), n)) (readLenEncBytes data)
      else if f \<in> {0xfc, 0xf9, 0xfa, 0xfb, 0x10, 0xf5, 0xff} then
        map_sum id (\<lambda>(v, n). (GoBytes (case v of Some b \<Rightarrow> b | None \<Rightarrow> []), n)) (readLenEncBytes data)
      else if f \<in> {0x0a, 0x0e, 0x0c, 0x07} then
        map_sum id (\<lambda>(t, n). (GoTime t, n)) (decodeBinaryDateTime std data)
      else if f = 0x0b then map_sum id (\<lambda>(t, n). (GoString t, n)) (decodeBinaryTime data)
      else Inl (UnsupportedParamType f))"

subsection \<open>Decoding the parameters of an execution\<close>

record preparedStatement =
  ID :: "32 word"
  SQL :: string
  ParamCount :: nat
  ParamTypes :: "preparedParamType list"
  LongData :: "nat \<Rightarrow> bytes option"

text \<open>The argument loop: the parameters left, and the position in \<open>vals\<close>.\<close>

fun args_loop :: "goStd \<Rightarrow> preparedStatement \<Rightarrow> bytes \<Rightarrow> bytes \<Rightarrow> nat list \<Rightarrow> nat \<Rightarrow> codec_error + (goValue list \<times> nat)" where
  "args_loop std stmt nullBitmap vals [] pos = Inr ([], pos)"
| "args_loop std stmt nullBitmap vals (i # rest) pos =
     (if nullBitmap ! (i div 8) AND push_bit (i mod 8) 1 \<noteq> 0
      then map_sum id (apfst (Cons GoNil)) (args_loop std stmt nullBitmap vals rest pos)
      else (case LongData stmt i of
          Some data \<Rightarrow> map_sum id (apfst (Cons (GoBytes data))) (args_loop std stmt nullBitmap vals rest pos)
        | None \<Rightarrow>
            (case decodePreparedValue std (drop pos vals) (ParamTypes stmt ! i) of
               Inl e \<Rightarrow> Inl (DecodeParameter (i + 1) e)
             | Inr (v, n) \<Rightarrow>
                 map_sum id (apfst (Cons v)) (args_loop std stmt nullBitmap vals rest (pos + n)))))"

definition paramTypesAt :: "bytes \<Rightarrow> nat \<Rightarrow> nat \<Rightarrow> preparedParamType list" where
  "paramTypesAt payload pos n =
     map (\<lambda>i. \<lparr> FieldType = payload ! (pos + i * 2), Unsigned = (payload ! (pos + i * 2 + 1) AND 0x80 \<noteq> 0) \<rparr>) [0..<n]"

text \<open>The statement comes back too: the types it was bound with are kept.\<close>

definition decodeExecuteArgs ::
    "goStd \<Rightarrow> preparedStatement \<Rightarrow> bytes \<Rightarrow> preparedStatement \<times> (codec_error + goValue list)" where
  "decodeExecuteArgs std stmt payload =
     (if ParamCount stmt = 0 then (stmt, Inr [])
      else let nullLen = (ParamCount stmt + 7) div 8 in
        if length payload < 9 + nullLen + 1 then (stmt, Inl MalformedParamHeader)
        else let nullBitmap = gslice payload 9 (9 + nullLen);
                 newParamsBound = payload ! (9 + nullLen);
                 pos = 9 + nullLen + 1;
                 decodeValues = (\<lambda>stmt' pos'.
                   let vals = drop pos' payload in
                   (stmt', case args_loop std stmt' nullBitmap vals [0..<ParamCount stmt'] 0 of
                      Inl e \<Rightarrow> Inl e
                    | Inr (args, valuePos) \<Rightarrow>
                        if valuePos \<noteq> length vals then Inl MalformedParamValues else Inr args))
             in if newParamsBound = 1 then
                  (if length payload < pos + ParamCount stmt * 2 then (stmt, Inl MalformedParamTypes)
                   else decodeValues (stmt\<lparr> ParamTypes := paramTypesAt payload pos (ParamCount stmt) \<rparr>)
                          (pos + ParamCount stmt * 2))
                else if length (ParamTypes stmt) \<noteq> ParamCount stmt then (stmt, Inl OmittedParamTypes)
                else decodeValues stmt pos)"

subsection \<open>Counting placeholders\<close>

text \<open>The six flags of \<open>countPlaceholders\<close>; at most one of the first five is set.\<close>

record scanFlags =
  inSingle :: bool
  inDouble :: bool
  inBacktick :: bool
  lineComment :: bool
  blockComment :: bool
  escaped :: bool

definition noFlags :: scanFlags where
  "noFlags = \<lparr> inSingle = False, inDouble = False, inBacktick = False, lineComment = False,
     blockComment = False, escaped = False \<rparr>"

text \<open>One round of the loop at \<open>ch\<close> with the byte behind it: the flags, the bytes to move on
  (two when the code does \<open>i++\<close> itself) and the placeholders counted.\<close>

definition placeholderStep :: "scanFlags \<Rightarrow> char \<Rightarrow> char \<Rightarrow> scanFlags \<times> nat \<times> nat" where
  "placeholderStep f ch nxt =
     (if lineComment f then
        (if ch = nl \<or> ch = CHR 0x0D then f\<lparr>lineComment := False\<rparr> else f, 1, 0)
      else if blockComment f then
        (if ch = CHR ''*'' \<and> nxt = CHR ''/'' then (f\<lparr>blockComment := False\<rparr>, 2, 0) else (f, 1, 0))
      else if inSingle f then
        (if escaped f then (f\<lparr>escaped := False\<rparr>, 1, 0)
         else if ch = bslash then (f\<lparr>escaped := True\<rparr>, 1, 0)
         else if ch = sq then (f\<lparr>inSingle := False\<rparr>, 1, 0) else (f, 1, 0))
      else if inDouble f then
        (if escaped f then (f\<lparr>escaped := False\<rparr>, 1, 0)
         else if ch = bslash then (f\<lparr>escaped := True\<rparr>, 1, 0)
         else if ch = dq then (f\<lparr>inDouble := False\<rparr>, 1, 0) else (f, 1, 0))
      else if inBacktick f then
        (if ch = bq then (f\<lparr>inBacktick := False\<rparr>, 1, 0) else (f, 1, 0))
      else if ch = CHR ''-'' \<and> nxt = CHR ''-'' then (f\<lparr>lineComment := True\<rparr>, 2, 0)
      else if ch = CHR ''#'' then (f\<lparr>lineComment := True\<rparr>, 1, 0)
      else if ch = CHR ''/'' \<and> nxt = CHR ''*'' then (f\<lparr>blockComment := True\<rparr>, 2, 0)
      else if ch = sq then (f\<lparr>inSingle := True\<rparr>, 1, 0)
      else if ch = dq then (f\<lparr>inDouble := True\<rparr>, 1, 0)
      else if ch = bq then (f\<lparr>inBacktick := True\<rparr>, 1, 0)
      else if ch = CHR ''?'' then (f, 1, 1)
      else (f, 1, 0))"

lemma placeholderStep_moves: "0 < fst (snd (placeholderStep f c d))"
  by (simp add: placeholderStep_def)

function placeholder_loop :: "string \<Rightarrow> scanFlags \<Rightarrow> nat \<Rightarrow> nat" where
  "placeholder_loop sqlText f i =
     (if i < length sqlText then
        let r = placeholderStep f (sqlText ! i)
                  (if i + 1 < length sqlText then sqlText ! (i + 1) else CHR 0x00)
        in snd (snd r) + placeholder_loop sqlText (fst r) (i + fst (snd r))
      else 0)"
  by pat_completeness auto
termination
  by (relation "measure (\<lambda>(s, f, i). length s - i)") (auto intro!: diff_less_mono2 simp: placeholderStep_moves)

declare placeholder_loop.simps [simp del]

definition countPlaceholders :: "string \<Rightarrow> nat" where
  "countPlaceholders sqlText = placeholder_loop sqlText noFlags 0"

subsection \<open>Placeholders and tokens\<close>

definition quoteFlags :: "char \<Rightarrow> scanFlags" where
  "quoteFlags q = (if q = sq then noFlags\<lparr>inSingle := True\<rparr>
     else if q = dq then noFlags\<lparr>inDouble := True\<rparr> else noFlags\<lparr>inBacktick := True\<rparr>)"

lemma placeholder_end: "length s \<le> i \<Longrightarrow> placeholder_loop s f i = 0"
  by (subst placeholder_loop.simps) simp

lemma placeholder_step:
  "i < length s \<Longrightarrow> placeholderStep f (s ! i) (if i + 1 < length s then s ! (i + 1) else CHR 0x00) = (f', n, k) \<Longrightarrow>
   placeholder_loop s f i = k + placeholder_loop s f' (i + n)"
  by (subst placeholder_loop.simps) (simp add: Let_def)

lemma quote_escape:
  assumes "q = sq \<or> q = dq" "i < length s" "s ! i = bslash"
  shows "placeholder_loop s (quoteFlags q) i = placeholder_loop s (quoteFlags q) (i + 2)"
proof -
  have "placeholder_loop s (quoteFlags q) i = 0 + placeholder_loop s ((quoteFlags q)\<lparr>escaped := True\<rparr>) (i + 1)"
    by (rule placeholder_step) (use assms in \<open>auto simp: placeholderStep_def quoteFlags_def noFlags_def\<close>)
  moreover have "placeholder_loop s ((quoteFlags q)\<lparr>escaped := True\<rparr>) (i + 1) = placeholder_loop s (quoteFlags q) (i + 2)"
  proof (cases "i + 1 < length s")
    case True
    then have "placeholder_loop s ((quoteFlags q)\<lparr>escaped := True\<rparr>) (i + 1) = 0 + placeholder_loop s (quoteFlags q) (i + 1 + 1)"
      by (intro placeholder_step) (use assms in \<open>auto simp: placeholderStep_def quoteFlags_def noFlags_def\<close>)
    then show ?thesis by simp
  qed (simp add: placeholder_end)
  ultimately show ?thesis by simp
qed

lemma quote_other:
  assumes "isQuote q" "i < length s" "s ! i \<noteq> q" "s ! i \<noteq> bslash \<or> q = bq"
  shows "placeholder_loop s (quoteFlags q) i = placeholder_loop s (quoteFlags q) (i + 1)"
proof -
  have "placeholder_loop s (quoteFlags q) i = 0 + placeholder_loop s (quoteFlags q) (i + 1)"
    by (rule placeholder_step) (use assms in \<open>auto simp: placeholderStep_def quoteFlags_def noFlags_def isQuote_def\<close>)
  then show ?thesis by simp
qed

lemma quote_close:
  assumes "isQuote q" "i < length s" "s ! i = q"
  shows "placeholder_loop s (quoteFlags q) i = placeholder_loop s noFlags (i + 1)"
proof -
  have "placeholder_loop s (quoteFlags q) i = 0 + placeholder_loop s noFlags (i + 1)"
    by (rule placeholder_step) (use assms in \<open>auto simp: placeholderStep_def quoteFlags_def noFlags_def isQuote_def\<close>)
  then show ?thesis by simp
qed

lemma quote_open:
  assumes "i < length s" "isQuote (s ! i)"
  shows "placeholder_loop s noFlags i = placeholder_loop s (quoteFlags (s ! i)) (i + 1)"
proof -
  have "placeholder_loop s noFlags i = 0 + placeholder_loop s (quoteFlags (s ! i)) (i + 1)"
    by (rule placeholder_step) (use assms in \<open>auto simp: placeholderStep_def quoteFlags_def noFlags_def isQuote_def\<close>)
  then show ?thesis by simp
qed

lemma placeholder_quote:
  "isQuote q \<Longrightarrow> i \<le> length s \<Longrightarrow>
   placeholder_loop s (quoteFlags q) i = placeholder_loop s noFlags (quoted_loop s q i)"
proof (induction s q i rule: quoted_loop.induct)
  case (1 s q i)
  consider "i \<ge> length s" | "i < length s" "s ! i = bslash" "q \<noteq> bq" "i + 1 < length s"
    | "i < length s" "s ! i = bslash" "q \<noteq> bq" "\<not> i + 1 < length s"
    | "i < length s" "s ! i \<noteq> bslash \<or> q = bq" "s ! i = q"
    | "i < length s" "s ! i \<noteq> bslash \<or> q = bq" "s ! i \<noteq> q" by linarith
  then show ?case
  proof cases
    case 1
    then show ?thesis by (subst quoted_loop.simps) (simp add: placeholder_end)
  next
    case 2
    then have "placeholder_loop s (quoteFlags q) i = placeholder_loop s (quoteFlags q) (i + 2)"
      using "1.prems" by (intro quote_escape) (auto simp: isQuote_def)
    then show ?thesis using "1.IH"(1) 2 "1.prems" by (subst quoted_loop.simps) simp
  next
    case 3
    then have d: "q = sq \<or> q = dq" using "1.prems" by (simp add: isQuote_def)
    note q = quote_escape [OF d 3(1,2)]
    have nb: "q \<noteq> bslash" using d by auto
    have "quoted_loop s q i = length s" using 3 nb by (subst quoted_loop.simps) (simp add: quoted_loop.simps)
    then show ?thesis using q 3 by (simp add: placeholder_end)
  next
    case 4
    have ne: "s ! i \<noteq> bslash" using 4 "1.prems" by (auto simp: isQuote_def)
    have c: "placeholder_loop s (quoteFlags q) i = placeholder_loop s noFlags (i + 1)"
      using 4 "1.prems" by (intro quote_close) auto
    show ?thesis
    proof (cases "q \<noteq> bq \<and> i + 1 < length s \<and> s ! (i + 1) = q")
      case True
      then have "placeholder_loop s noFlags (i + 1) = placeholder_loop s (quoteFlags q) (i + 1 + 1)"
        using quote_open [of "i + 1" s] "1.prems" by simp
      then show ?thesis using "1.IH"(2) 4 ne True c "1.prems" by (subst quoted_loop.simps) simp
    next
      case False
      then have "quoted_loop s q i = i + 1" using 4 ne by (subst quoted_loop.simps) auto
      then show ?thesis using c by simp
    qed
  next
    case 5
    then have "placeholder_loop s (quoteFlags q) i = placeholder_loop s (quoteFlags q) (i + 1)"
      using "1.prems" by (intro quote_other) auto
    moreover have "quoted_loop s q i = quoted_loop s q (i + 1)" using 5 by (subst quoted_loop.simps) auto
    ultimately show ?thesis using "1.IH"(3) 5 "1.prems" by auto
  qed
qed

lemma placeholder_line:
  "CHR 0x0D \<notin> set s \<Longrightarrow>
   placeholder_loop s (noFlags\<lparr>lineComment := True\<rparr>) i = placeholder_loop s noFlags (line_end s i)"
proof (induction s i rule: line_end.induct)
  case (1 s i)
  show ?case
  proof (cases "i < length s")
    case False
    then show ?thesis by (subst line_end.simps) (simp add: placeholder_end)
  next
    case True
    then have "s ! i \<noteq> CHR 0x0D" using 1(2) nth_mem by metis
    then have "placeholder_loop s (noFlags\<lparr>lineComment := True\<rparr>) i =
        0 + placeholder_loop s (if s ! i = nl then noFlags else noFlags\<lparr>lineComment := True\<rparr>) (i + 1)"
      by (intro placeholder_step True) (simp add: placeholderStep_def noFlags_def)
    then show ?thesis using 1 True by (subst line_end.simps) simp
  qed
qed

lemma placeholder_block:
  "placeholder_loop s (noFlags\<lparr>blockComment := True\<rparr>) i = placeholder_loop s noFlags (block_end s i)"
proof (induction s i rule: block_end.induct)
  case (1 s i)
  show ?case
  proof (cases "i + 1 < length s")
    case False
    have "placeholder_loop s (noFlags\<lparr>blockComment := True\<rparr>) i = 0"
    proof (cases "i < length s")
      case True
      then have "placeholder_loop s (noFlags\<lparr>blockComment := True\<rparr>) i =
          0 + placeholder_loop s (noFlags\<lparr>blockComment := True\<rparr>) (i + 1)"
        using False by (intro placeholder_step) (simp_all add: placeholderStep_def noFlags_def)
      then show ?thesis using False by (simp add: placeholder_end)
    qed (simp add: placeholder_end)
    then show ?thesis using False by (subst block_end.simps) (simp add: placeholder_end)
  next
    case True
    let ?stop = "s ! i = CHR ''*'' \<and> s ! (i + 1) = CHR ''/''"
    have "placeholder_loop s (noFlags\<lparr>blockComment := True\<rparr>) i =
        0 + placeholder_loop s (if ?stop then noFlags else noFlags\<lparr>blockComment := True\<rparr>) (i + (if ?stop then 2 else 1))"
      using True by (intro placeholder_step) (simp_all add: placeholderStep_def noFlags_def)
    then show ?thesis using 1 True by (subst block_end.simps) auto
  qed
qed

lemma placeholder_tokens:
  assumes cr: "CHR 0x0D \<notin> set s"
  shows "placeholder_loop s noFlags i = length (filter (\<lambda>t. t = Byte (CHR ''?'')) (lex_from s i))"
proof (induction i rule: scan_induct [of s])
  case (End i)
  then show ?case by (simp add: placeholder_end lex_from_end)
next
  case (Byte i)
  let ?n = "if i + 1 < length s then s ! (i + 1) else CHR 0x00"
  have "s ! i \<noteq> sq" "s ! i \<noteq> dq" "s ! i \<noteq> bq" "s ! i \<noteq> CHR ''#''"
    "\<not> (s ! i = CHR ''-'' \<and> ?n = CHR ''-'')" "\<not> (s ! i = CHR ''/'' \<and> ?n = CHR ''*'')"
    using Byte(1,2) by (auto simp: skipSpan_def quotedSQLSpan_def sqlCommentSpan_def Let_def split: option.splits if_splits)
  then have "placeholder_loop s noFlags i = (if s ! i = CHR ''?'' then 1 else 0) + placeholder_loop s noFlags (i + 1)"
    by (intro placeholder_step Byte(1)) (auto simp: placeholderStep_def noFlags_def)
  then show ?case using Byte by (simp add: lex_from_byte)
next
  case (Span i e)
  have "placeholder_loop s noFlags i = placeholder_loop s noFlags e"
  proof (cases "quotedSQLSpan s i")
    case (Some e')
    then have q: "isQuote (s ! i)" "e = quoted_loop s (s ! i) (i + 1)"
      using Span(2) by (auto simp: skipSpan_def quotedSQLSpan_def isQuote_def Let_def split: if_splits)
    then show ?thesis using quote_open [OF Span(1) q(1)] placeholder_quote [OF q(1), of "i + 1" s] Span(1) by simp
  next
    case None
    then have c: "sqlCommentSpan s i = Some e" using Span(2) by (simp add: skipSpan_def)
    then consider "i + 1 < length s" "s ! i = CHR ''-''" "s ! (i + 1) = CHR ''-''" "e = line_end s (i + 2)"
      | "s ! i = CHR ''#''" "e = line_end s (i + 1)"
      | "i + 1 < length s" "s ! i = CHR ''/''" "s ! (i + 1) = CHR ''*''" "e = block_end s (i + 2)"
      by (auto simp: sqlCommentSpan_def split: if_splits)
    then show ?thesis
    proof cases
      case 1
      then have "placeholder_loop s noFlags i = 0 + placeholder_loop s (noFlags\<lparr>lineComment := True\<rparr>) (i + 2)"
        by (intro placeholder_step Span(1)) (simp add: placeholderStep_def noFlags_def)
      then show ?thesis using placeholder_line [OF cr] 1 by simp
    next
      case 2
      then have "placeholder_loop s noFlags i = 0 + placeholder_loop s (noFlags\<lparr>lineComment := True\<rparr>) (i + 1)"
        by (intro placeholder_step Span(1)) (simp add: placeholderStep_def noFlags_def)
      then show ?thesis using placeholder_line [OF cr] 2 by simp
    next
      case 3
      then have "placeholder_loop s noFlags i = 0 + placeholder_loop s (noFlags\<lparr>blockComment := True\<rparr>) (i + 2)"
        by (intro placeholder_step Span(1)) (simp add: placeholderStep_def noFlags_def)
      then show ?thesis using placeholder_block 3 by simp
    qed
  qed
  then show ?case using Span by (simp add: lex_from_span)
qed

text \<open>
  C19: the byte-by-byte state machine \<open>countPlaceholders\<close> and the scanner agree: on a text
  without carriage returns the number it returns is the number of question marks outside the
  quoted spans and comments of the scanner. (With carriage returns they differ: here a return
  ends a line comment, in \<open>sqlCommentSpan\<close> only a newline does.)
\<close>

theorem countPlaceholders_tokens:
  assumes "CHR 0x0D \<notin> set s"
  shows "countPlaceholders s = length (filter (\<lambda>t. t = Byte (CHR ''?'')) (lex_from s 0))"
  using placeholder_tokens [OF assms] by (simp add: countPlaceholders_def)

theorem countPlaceholders_tokens_witness:
  "countPlaceholders ([sq] @ ''?'' @ [sq] @ ''=? --?'') =
     length (filter (\<lambda>t. t = Byte (CHR ''?'')) (lex_from ([sq] @ ''?'' @ [sq] @ ''=? --?'') 0))"
  by (rule countPlaceholders_tokens) simp

subsection \<open>Parameters read back\<close>

lemma readLenEncInt_bounds: "readLenEncInt data = Inr (n, pos, isNull) \<Longrightarrow> 0 < pos \<and> pos \<le> length data"
  by (cases data) (auto simp: readLenEncInt_def split: if_splits)

lemma readLenEncBytes_bounds:
  assumes "readLenEncBytes data = Inr (v, n)" shows "n \<le> length data"
proof -
  obtain k pos isNull where r: "readLenEncInt data = Inr (k, pos, isNull)"
    using assms by (auto simp: readLenEncBytes_def split: sum.splits)
  note b = readLenEncInt_bounds [OF r]
  show ?thesis
  proof (cases isNull)
    case True
    then show ?thesis using assms r b by (simp add: readLenEncBytes_def)
  next
    case False
    then have "k \<le> of_nat (length data - pos)" "n = pos + unat k"
      using assms r by (auto simp: readLenEncBytes_def not_less Let_def split: if_splits)
    then have "unat k \<le> unat (of_nat (length data - pos) :: 64 word)" by (simp add: word_le_nat_alt)
    also have "\<dots> \<le> length data - pos" by (simp add: unat_of_nat)
    finally show ?thesis using b \<open>n = pos + unat k\<close> by (simp add: le_diff_conv2 add.commute)
  qed
qed

lemma decodeBinaryDateTime_bounds: "decodeBinaryDateTime std data = Inr (t, n) \<Longrightarrow> n \<le> length data"
  by (cases data) (auto simp: decodeBinaryDateTime_def Let_def split: if_splits prod.splits)

lemma decodeBinaryTime_bounds: "decodeBinaryTime data = Inr (t, n) \<Longrightarrow> n \<le> length data"
  by (cases data) (auto simp: decodeBinaryTime_def Let_def split: if_splits)

lemma decodePreparedValue_bounds:
  assumes "decodePreparedValue std data ty = Inr (v, n)" shows "n \<le> length data"
proof -
  have m: "map_sum id (\<lambda>(x, n). (g x, n)) r = Inr (v, n) \<Longrightarrow> \<exists>x. r = Inr (x, n)" for g :: "'x \<Rightarrow> goValue" and r
    by (cases r) auto
  have nb: "needBytes k data w = Inr (v, n) \<Longrightarrow> n \<le> length data" for k w
    by (auto simp: needBytes_def split: if_splits)
  show ?thesis using assms
    by (auto simp: decodePreparedValue_def Let_def split: if_splits
        dest!: nb m readLenEncBytes_bounds decodeBinaryDateTime_bounds decodeBinaryTime_bounds)
qed

lemma and_bit: "(w :: 8 word) AND push_bit m 1 \<noteq> 0 \<longleftrightarrow> bit w m"
  by (simp add: and_exp_eq_0_iff_not_bit)

text \<open>What a client sends for each parameter: nothing for NULL, else the bytes of a value.\<close>

definition encodes :: "goStd \<Rightarrow> preparedParamType \<Rightarrow> bytes \<Rightarrow> goValue \<Rightarrow> bool" where
  "encodes std ty e v = (\<forall>rest. length e + length rest < 2 ^ 63 \<longrightarrow> decodePreparedValue std (e @ rest) ty = Inr (v, length e))"

definition paramBytes :: "(bytes \<times> goValue) option \<Rightarrow> bytes" where
  "paramBytes p = (case p of None \<Rightarrow> [] | Some (e, v) \<Rightarrow> e)"

definition paramValue :: "(bytes \<times> goValue) option \<Rightarrow> goValue" where
  "paramValue p = (case p of None \<Rightarrow> GoNil | Some (e, v) \<Rightarrow> v)"

definition typeBytes :: "preparedParamType list \<Rightarrow> bytes" where
  "typeBytes ts = concat (map (\<lambda>t. [FieldType t, if Unsigned t then 0x80 else 0]) ts)"

lemma length_typeBytes [simp]: "length (typeBytes ts) = 2 * length ts"
  by (induction ts) (auto simp: typeBytes_def)

lemma typeBytes_nth:
  "i < length ts \<Longrightarrow> typeBytes ts ! (2 * i) = FieldType (ts ! i) \<and>
     typeBytes ts ! Suc (2 * i) = (if Unsigned (ts ! i) then 0x80 else 0)"
proof (induction ts arbitrary: i)
  case (Cons t ts)
  then show ?case by (cases i) (auto simp: typeBytes_def)
qed simp

lemma paramTypesAt_typeBytes:
  assumes "length pre = pos"
  shows "paramTypesAt (pre @ typeBytes ts @ rest) pos (length ts) = ts"
proof (rule nth_equalityI)
  show "length (paramTypesAt (pre @ typeBytes ts @ rest) pos (length ts)) = length ts"
    by (simp add: paramTypesAt_def)
  fix i assume "i < length (paramTypesAt (pre @ typeBytes ts @ rest) pos (length ts))"
  then have i: "i < length ts" by (simp add: paramTypesAt_def)
  then show "paramTypesAt (pre @ typeBytes ts @ rest) pos (length ts) ! i = ts ! i"
    using assms typeBytes_nth [OF i]
    by (simp add: paramTypesAt_def nth_append mult.commute)
qed

lemma args_loop_params:
  assumes long: "LongData stmt = Map.empty"
    and n: "length params = n"
    and null: "\<And>i. i < n \<Longrightarrow> bit (bm ! (i div 8)) (i mod 8) \<longleftrightarrow> params ! i = None"
    and enc: "\<And>i e v. i < n \<Longrightarrow> params ! i = Some (e, v) \<Longrightarrow> encodes std (ParamTypes stmt ! i) e v"
    and short: "length vals < 2 ^ 63"
  shows "k \<le> n \<Longrightarrow> drop pos vals = concat (map paramBytes (drop k params)) \<Longrightarrow> pos \<le> length vals \<Longrightarrow>
    args_loop std stmt bm vals [k..<n] pos = Inr (map paramValue (drop k params), length vals)"
proof (induction "n - k" arbitrary: k pos)
  case 0
  then show ?case using n by simp
next
  case (Suc d)
  then have k: "k < n" by simp
  then have upt: "[k..<n] = k # [Suc k..<n]" by (simp add: upt_rec)
  have dr: "drop k params = params ! k # drop (Suc k) params" using k n by (simp add: Cons_nth_drop_Suc)
  have IH: "drop pos' vals = concat (map paramBytes (drop (Suc k) params)) \<Longrightarrow> pos' \<le> length vals \<Longrightarrow>
      args_loop std stmt bm vals [Suc k..<n] pos' = Inr (map paramValue (drop (Suc k) params), length vals)" for pos'
    using Suc k by simp
  show ?case
  proof (cases "params ! k")
    case None
    then have "bm ! (k div 8) AND push_bit (k mod 8) 1 \<noteq> 0" using null [OF k] None and_bit [of "bm ! (k div 8)" "k mod 8"] by simp
    then show ?thesis using IH [of pos] Suc.prems None dr upt by (simp add: paramBytes_def paramValue_def)
  next
    case (Some ev)
    obtain e v where ev: "ev = (e, v)" by (cases ev)
    have "\<not> bm ! (k div 8) AND push_bit (k mod 8) 1 \<noteq> 0" using null [OF k] Some and_bit [of "bm ! (k div 8)" "k mod 8"] by simp
    moreover have d: "drop pos vals = e @ concat (map paramBytes (drop (Suc k) params))"
      using Suc.prems(2) dr Some ev by (simp add: paramBytes_def)
    moreover have "decodePreparedValue std (e @ concat (map paramBytes (drop (Suc k) params))) (ParamTypes stmt ! k) = Inr (v, length e)"
    proof -
      have "length e + length (concat (map paramBytes (drop (Suc k) params))) = length (drop pos vals)"
        using d by simp
      also have "\<dots> < 2 ^ 63" using short by simp
      finally show ?thesis using enc [OF k] Some ev by (simp add: encodes_def)
    qed
    moreover have "drop (pos + length e) vals = concat (map paramBytes (drop (Suc k) params))"
      using d by (metis add.commute append_eq_conv_conj drop_drop)
    moreover have "pos + length e \<le> length vals"
      using d Suc.prems(3) by (metis length_append length_drop le_add1 le_diff_conv2 add.commute)
    ultimately show ?thesis using IH [of "pos + length e"] long upt dr Some ev
      by (simp add: paramValue_def)
  qed
qed


text \<open>
  C20: bound parameters arrive. For any nine header bytes, a null bitmap whose bit \<open>i\<close> says
  whether parameter \<open>i\<close> is NULL, the marker 1, the types and the values, each encoded so that the
  decoder of its type reads it, \<open>decodeExecuteArgs\<close> returns exactly the client's values in order
  and keeps the types with the statement.
\<close>

theorem executeArgs_roundtrip:
  assumes "length header = 9" "ParamCount stmt = n" "0 < n" "length ts = n" "length params = n"
    and "LongData stmt = Map.empty"
    and "length bm = (n + 7) div 8"
    and "\<And>i. i < n \<Longrightarrow> bit (bm ! (i div 8)) (i mod 8) \<longleftrightarrow> params ! i = None"
    and "\<And>i e v. i < n \<Longrightarrow> params ! i = Some (e, v) \<Longrightarrow> encodes std (ts ! i) e v"
    and "length (concat (map paramBytes params)) < 2 ^ 63"
  shows "decodeExecuteArgs std stmt (header @ bm @ [1] @ typeBytes ts @ concat (map paramBytes params)) =
    (stmt\<lparr> ParamTypes := ts \<rparr>, Inr (map paramValue params))"
proof -
  let ?vals = "concat (map paramBytes params)"
  let ?p = "header @ bm @ [1] @ typeBytes ts @ ?vals"
  let ?stmt = "stmt\<lparr> ParamTypes := ts \<rparr>"
  have nl: "length ?p = 9 + (n + 7) div 8 + 1 + n * 2 + length ?vals" using assms by simp
  have bmp: "gslice ?p 9 (9 + (n + 7) div 8) = bm" using assms by (simp add: gslice_def)
  have mark: "?p ! (9 + (n + 7) div 8) = 1" using assms by (simp add: nth_append)
  have tys: "paramTypesAt ?p (9 + (n + 7) div 8 + 1) n = ts"
    using paramTypesAt_typeBytes [of "header @ bm @ [1]" "9 + (n + 7) div 8 + 1" ts ?vals] assms by simp
  have vals: "drop (9 + (n + 7) div 8 + 1 + n * 2) ?p = ?vals" using assms by simp
  have "args_loop std ?stmt bm ?vals [0..<n] 0 = Inr (map paramValue (drop 0 params), length ?vals)"
    by (rule args_loop_params [where n = n]) (use assms in simp_all)
  then show ?thesis using assms(2,3) nl bmp mark tys vals
    by (simp add: decodeExecuteArgs_def Let_def)
qed

lemma encodes_tiny: "encodes std \<lparr> FieldType = 0x01, Unsigned = u \<rparr> [b] (GoInt64 (if u then ucast b else scast b))"
  by (simp add: encodes_def decodePreparedValue_def needBytes_def)

lemma encodes_string:
  "encodes std \<lparr> FieldType = 0xfd, Unsigned = u \<rparr> (appendLenEncBytes [] s) (GoString s)"
  using readLenEncBytes_append by (simp add: encodes_def decodePreparedValue_def appendLenEncBytes_def)

theorem executeArgs_roundtrip_witness:
  defines "stmt \<equiv> \<lparr> ID = 1, SQL = ''SELECT ?, ?, ?'', ParamCount = 3, ParamTypes = [], LongData = Map.empty \<rparr>"
    and "ts \<equiv> [\<lparr> FieldType = 0x01, Unsigned = False \<rparr>, \<lparr> FieldType = 0x06, Unsigned = False \<rparr>,
                \<lparr> FieldType = 0xfd, Unsigned = False \<rparr>]"
    and "params \<equiv> [Some ([0xff], GoInt64 (- 1)), None, Some (appendLenEncBytes [] [65], GoString [65])]"
  shows "decodeExecuteArgs exampleStd stmt
      ([1, 0, 0, 0, 0, 1, 0, 0, 0] @ [2] @ [1] @ typeBytes ts @ concat (map paramBytes params)) =
    (stmt\<lparr> ParamTypes := ts \<rparr>, Inr (map paramValue params))"
proof (rule executeArgs_roundtrip)
  have three: "(i::nat) < 3 \<longleftrightarrow> i = 0 \<or> i = 1 \<or> i = 2" for i by auto
  fix i :: nat
  assume i: "i < 3"
  show "bit ([2 :: byte] ! (i div 8)) (i mod 8) = (params ! i = None)"
    using i by (auto simp: params_def three)
  fix e v assume "params ! i = Some (e, v)"
  then show "encodes exampleStd (ts ! i) e v"
    using i encodes_tiny [of exampleStd False "0xff"] encodes_string [of exampleStd False "[65]"]
    by (auto simp: params_def ts_def three)
qed (simp_all add: stmt_def ts_def params_def paramBytes_def appendLenEncBytes_def appendLenEncInt_def)

subsection \<open>Integers of every width\<close>

text \<open>The integer field types with their widths.\<close>

definition intWidth :: "byte \<Rightarrow> nat option" where
  "intWidth f = (if f = 0x01 then Some 8 else if f = 0x02 \<or> f = 0x0d then Some 16
     else if f = 0x03 \<or> f = 0x09 then Some 32 else if f = 0x08 then Some 64 else None)"

definition inRange :: "bool \<Rightarrow> nat \<Rightarrow> 64 word \<Rightarrow> bool" where
  "inRange u w n = (if u then 0 \<le> sint n \<and> sint n < 2 ^ w else - (2 ^ (w - 1)) \<le> sint n \<and> sint n < 2 ^ (w - 1))"

lemma scast_ucast_id:
  assumes "- (2 ^ (LENGTH('a) - 1)) \<le> sint n" "sint n < 2 ^ (LENGTH('a) - 1)" "LENGTH('a) \<le> 64"
  shows "scast (ucast n :: 'a::len word) = (n :: 64 word)"
proof -
  have "sint (ucast n :: 'a word) = signed_take_bit (LENGTH('a) - 1) (uint n)"
    by (simp add: signed_ucast_eq)
  also have "\<dots> = signed_take_bit (LENGTH('a) - 1) (sint n)"
  proof -
    have "min (LENGTH('a) - Suc 0) 63 = LENGTH('a) - Suc 0" using assms(3) by simp
    then show ?thesis by (simp add: sint_uint signed_take_bit_signed_take_bit)
  qed
  also have "\<dots> = sint n" using assms(1,2) by (intro signed_take_bit_int_eq_self) simp_all
  finally show ?thesis by (simp add: scast_eq)
qed

lemma ucast_ucast_id:
  assumes "0 \<le> sint n" "sint n < 2 ^ LENGTH('a)" "LENGTH('a) \<le> 64"
  shows "ucast (ucast n :: 'a::len word) = (n :: 64 word)"
proof -
  have "(2::int) ^ LENGTH('a) \<le> 2 ^ 64" using assms(3) by (intro power_increasing) auto
  then have "take_bit 64 (sint n) = sint n" using assms by (intro take_bit_int_eq_self) auto
  then have u: "uint n = sint n" using uint_sint [of n] by simp
  have "uint (ucast n :: 'a word) = take_bit LENGTH('a) (uint n)" by (simp add: unsigned_ucast_eq)
  also have "\<dots> = uint n" using assms u by (intro take_bit_int_eq_self) simp_all
  finally show ?thesis by (metis ucast_eq word_of_int_uint)
qed

lemma maxInt64_le: "0 \<le> sint n \<Longrightarrow> n \<le> maxInt64"
proof -
  assume n: "0 \<le> sint n"
  have "sint n < 2 ^ 63" using sint_lt [of n] by simp
  then have "uint n < 2 ^ 63" using n ucast_ucast_id [of n, where 'a = 64] uint_sint [of n]
    by (simp add: take_bit_int_eq_self)
  then show ?thesis by (simp add: maxInt64_def word_le_def)
qed

text \<open>
  the binary protocol is exact on integers. For each integer field type and either
  signedness, an \<open>int64\<close> in the type's range encodes to bytes that decode to the same \<open>int64\<close>,
  with just those bytes consumed whatever follows them.
\<close>

theorem binary_int_roundtrip:
  assumes "intWidth f = Some w" "inRange u w n"
  shows "\<exists>b. appendBinaryValue std [] f (GoInt64 n) = Inr b \<and>
    decodePreparedValue std (b @ rest) \<lparr> FieldType = f, Unsigned = u \<rparr> = Inr (GoInt64 n, length b)"
proof -
  consider "f = 0x01" "w = 8" | "f = 0x02 \<or> f = 0x0d" "w = 16" | "f = 0x03 \<or> f = 0x09" "w = 32" | "f = 0x08" "w = 64"
    using assms(1) by (auto simp: intWidth_def split: if_splits)
  then show ?thesis
  proof cases
    case 1
    then have "(if u then ucast (ucast n :: 8 word) else scast (ucast n :: 8 word)) = n"
      using assms(2) by (auto simp: inRange_def intro!: ucast_ucast_id scast_ucast_id)
    then show ?thesis using 1
      by (auto simp: appendBinaryValue_def toInt64_def decodePreparedValue_def needBytes_def)
  next
    case 2
    then have "(if u then ucast (ucast n :: 16 word) else scast (ucast n :: 16 word)) = n"
      using assms(2) by (auto simp: inRange_def intro!: ucast_ucast_id scast_ucast_id)
    moreover have "gslice (appendUint16 [] m @ rest) 0 2 = appendUint16 [] m" for m by (simp add: gslice_def)
    moreover have "leUint16 (appendUint16 [] m) = m" for m using leUint16_append [of m "[]"] by simp
    ultimately show ?thesis using 2
      by (auto simp: appendBinaryValue_def toInt64_def decodePreparedValue_def needBytes_def Let_def)
  next
    case 3
    then have "(if u then ucast (ucast n :: 32 word) else scast (ucast n :: 32 word)) = n"
      using assms(2) by (auto simp: inRange_def intro!: ucast_ucast_id scast_ucast_id)
    moreover have "gslice (appendUint32 [] m @ rest) 0 4 = appendUint32 [] m" for m by (simp add: gslice_def)
    moreover have "leUint32 (appendUint32 [] m) = m" for m using leUint32_append [of m "[]"] by simp
    ultimately show ?thesis using 3
      by (auto simp: appendBinaryValue_def toInt64_def decodePreparedValue_def needBytes_def Let_def)
  next
    case 4
    have "u \<Longrightarrow> n \<le> maxInt64" using assms(2) 4 by (intro maxInt64_le) (simp add: inRange_def)
    moreover have "gslice (appendUint64 [] m @ rest) 0 8 = appendUint64 [] m" for m by (simp add: gslice_def)
    moreover have "leUint64 (appendUint64 [] m) = m" for m using leUint64_append [of m "[]"] by simp
    ultimately show ?thesis using 4
      by (auto simp: appendBinaryValue_def toInt64_def decodePreparedValue_def needBytes_def Let_def)
  qed
qed

theorem binary_int_roundtrip_witness:
  "\<exists>b. appendBinaryValue exampleStd [] 0x02 (GoInt64 (- 300)) = Inr b \<and>
    decodePreparedValue exampleStd (b @ [7]) \<lparr> FieldType = 0x02, Unsigned = False \<rparr> = Inr (GoInt64 (- 300), length b)"
  by (rule binary_int_roundtrip [where w = 16]) (simp_all add: intWidth_def inRange_def)

end
