(* ===== verification/Stmt_Machine.thy ===== *)
theory Stmt_Machine
  imports Prepared
begin
unbundle bit_operations_syntax

text \<open>
  The prepared statements of one connection as a state machine (\<open>handleStmtPrepare\<close>,
  \<open>handleStmtExecute\<close>, \<open>handleStmtSendLongData\<close>, \<open>handleStmtClose\<close>, \<open>handleStmtReset\<close> of
  \<open>pkg/mysqlmock/prepared.go\<close>), with the invariant of every reachable state.
\<close>

subsection \<open>The statements of a connection\<close>

record stmtConn =
  nextStatementID :: "32 word"
  statements :: "32 word \<Rightarrow> preparedStatement option"

definition unknownStatement :: "32 word \<Rightarrow> mysqlError" where
  "unknownStatement stmtID =
     errPacket 1105 ''HY000'' (''Unknown prepared statement id: '' @ map (\<lambda>b. char_of (unat b)) (formatNat (unat stmtID)))"

definition paramColumn :: "nat \<Rightarrow> resultColumn" where
  "paramColumn i = \<lparr> Name = ascii ''param'' @ formatNat (i + 1), Type = fieldTypeVarString, ZeroFillWidth = 0 \<rparr>"

text \<open>\<open>COM_STMT_PREPARE\<close>: the new state and the packets written.\<close>

definition handleStmtPrepare ::
    "32 word \<Rightarrow> 16 word \<Rightarrow> bytes \<Rightarrow> string \<Rightarrow> stmtConn \<Rightarrow> stmtConn \<times> packet list" where
  "handleStmtPrepare clientCaps statusFlags currentDB sqlText c =
     (let paramCount = countPlaceholders sqlText in
      if paramCount > 0xFFFF then
        (c, [(1, errPayload (errPacket 1105 ''HY000'' ''Prepared statement has too many parameters''))])
      else
        let stmtID = nextStatementID c;
            stmt = \<lparr> ID = stmtID, SQL = sqlText, ParamCount = paramCount, ParamTypes = [], LongData = Map.empty \<rparr>;
            c' = c\<lparr> nextStatementID := stmtID + 1, statements := (statements c)(stmtID \<mapsto> stmt) \<rparr>;
            payload = appendUint16 (appendUint16 (appendUint16 (appendUint32 [0x00] stmtID) 0)
                        (of_nat paramCount) @ [0x00]) 0;
            columns = map (\<lambda>i. columnDefinition currentDB (paramColumn i)) [0..<paramCount]
        in (c', (1, payload) # numbered 2 columns @
              (if paramCount > 0
               then fst (columnDefinitionTerminator clientCaps statusFlags (2 + of_nat paramCount)) else [])))"

text \<open>\<open>COM_STMT_EXECUTE\<close> up to the query: an error packet, or the text and arguments to run.\<close>

datatype execStep = ExecMalformed | ExecUnknown "32 word" | ExecArgs codec_error | ExecRun string "goValue list"

definition handleStmtExecute :: "goStd \<Rightarrow> bytes \<Rightarrow> stmtConn \<Rightarrow> stmtConn \<times> execStep" where
  "handleStmtExecute std payload c =
     (if length payload < 9 then (c, ExecMalformed)
      else let stmtID = leUint32 (gslice payload 0 4) in
        case statements c stmtID of
          None \<Rightarrow> (c, ExecUnknown stmtID)
        | Some stmt \<Rightarrow>
            (let (stmt', args) = decodeExecuteArgs std stmt payload;
                 c' = c\<lparr> statements := (statements c)(stmtID \<mapsto> stmt'\<lparr> LongData := Map.empty \<rparr>) \<rparr>
             in (c', case args of Inl e \<Rightarrow> ExecArgs e | Inr vs \<Rightarrow> ExecRun (SQL stmt) vs)))"

text \<open>\<open>COM_STMT_SEND_LONG_DATA\<close> has no reply; \<open>False\<close> is the error that ends the connection.\<close>

definition handleStmtSendLongData :: "bytes \<Rightarrow> stmtConn \<Rightarrow> stmtConn \<times> bool" where
  "handleStmtSendLongData payload c =
     (if length payload < 6 then (c, False)
      else let stmtID = leUint32 (gslice payload 0 4);
               paramID = unat (leUint16 (gslice payload 4 6)) in
        case statements c stmtID of
          None \<Rightarrow> (c, True)
        | Some stmt \<Rightarrow>
            let old = (case LongData stmt paramID of Some d \<Rightarrow> d | None \<Rightarrow> []);
                stmt' = stmt\<lparr> LongData := (LongData stmt)(paramID \<mapsto> old @ drop 6 payload) \<rparr>
            in (c\<lparr> statements := (statements c)(stmtID \<mapsto> stmt') \<rparr>, True))"

definition handleStmtClose :: "bytes \<Rightarrow> stmtConn \<Rightarrow> stmtConn" where
  "handleStmtClose payload c =
     (if length payload < 4 then c
      else c\<lparr> statements := (statements c)(leUint32 (gslice payload 0 4) := None) \<rparr>)"

definition handleStmtReset :: "16 word \<Rightarrow> bytes \<Rightarrow> stmtConn \<Rightarrow> stmtConn \<times> packet list" where
  "handleStmtReset statusFlags payload c =
     (if length payload < 4 then
        (c, [(1, errPayload (errPacket 1105 ''HY000'' ''Malformed COM_STMT_RESET packet''))])
      else let stmtID = leUint32 (gslice payload 0 4) in
        case statements c stmtID of
          None \<Rightarrow> (c, [(1, errPayload (unknownStatement stmtID))])
        | Some stmt \<Rightarrow>
            (c\<lparr> statements := (statements c)(stmtID \<mapsto> stmt\<lparr> LongData := Map.empty \<rparr>) \<rparr>,
             [(1, okPayload statusFlags \<lparr> AffectedRows = 0, LastInsertID = 0, Warnings = 0 \<rparr>)]))"

subsection \<open>The state machine and its invariant\<close>

text \<open>A command of the client, any payload; the reply is left out.\<close>

inductive stmt_step :: "goStd \<Rightarrow> stmtConn \<Rightarrow> stmtConn \<Rightarrow> bool" for std where
  prepare: "stmt_step std c (fst (handleStmtPrepare caps flags db sqlText c))"
| execute: "stmt_step std c (fst (handleStmtExecute std payload c))"
| sendLong: "stmt_step std c (fst (handleStmtSendLongData payload c))"
| close: "stmt_step std c (handleStmtClose payload c)"
| reset: "stmt_step std c (fst (handleStmtReset flags payload c))"

inductive_cases stmt_stepE: "stmt_step std c c'"

definition stmtInit :: stmtConn where
  "stmtInit = \<lparr> nextStatementID = 1, statements = Map.empty \<rparr>"

inductive stmt_reachable :: "goStd \<Rightarrow> stmtConn \<Rightarrow> bool" for std where
  start: "stmt_reachable std stmtInit"
| step: "stmt_reachable std c \<Longrightarrow> stmt_step std c c' \<Longrightarrow> stmt_reachable std c'"

text \<open>A statement stands under its own number, has the parameters its text has, and carries
  either no types yet or one for each parameter.\<close>

definition stmtOK :: "32 word \<Rightarrow> preparedStatement \<Rightarrow> bool" where
  "stmtOK i stmt = (ID stmt = i \<and> ParamCount stmt = countPlaceholders (SQL stmt) \<and> ParamCount stmt \<le> 0xFFFF \<and>
     (ParamTypes stmt = [] \<or> length (ParamTypes stmt) = ParamCount stmt))"

definition stmtsOK :: "stmtConn \<Rightarrow> bool" where
  "stmtsOK c = (\<forall>i stmt. statements c i = Some stmt \<longrightarrow> stmtOK i stmt)"

lemma decodeExecuteArgs_stmt:
  "decodeExecuteArgs std stmt payload = (stmt', r) \<Longrightarrow>
   \<exists>ts. stmt' = stmt\<lparr> ParamTypes := ts \<rparr> \<and> (ts = ParamTypes stmt \<or> length ts = ParamCount stmt)"
  by (force simp: decodeExecuteArgs_def Let_def paramTypesAt_def split: if_splits)

lemma stmtsOK_update: "stmtsOK c \<Longrightarrow> stmtOK i s \<Longrightarrow> stmtsOK (c\<lparr> statements := (statements c)(i \<mapsto> s) \<rparr>)"
  by (simp add: stmtsOK_def)

lemma stmtsOK_get: "stmtsOK c \<Longrightarrow> statements c i = Some s \<Longrightarrow> stmtOK i s"
  by (simp add: stmtsOK_def)

lemma prepare_stmtsOK: "stmtsOK c \<Longrightarrow> stmtsOK (fst (handleStmtPrepare caps flags db sqlText c))"
  by (simp add: handleStmtPrepare_def Let_def stmtsOK_def) (simp add: stmtOK_def)

lemma stmtOK_LongData [simp]: "stmtOK i (s\<lparr> LongData := d \<rparr>) = stmtOK i s"
  by (simp add: stmtOK_def)

lemma execute_stmtsOK:
  assumes "stmtsOK c" shows "stmtsOK (fst (handleStmtExecute std payload c))"
proof (cases "statements c (leUint32 (gslice payload 0 4))")
  case None
  then show ?thesis using assms by (simp add: handleStmtExecute_def Let_def)
next
  case (Some stmt)
  obtain stmt' r where d: "decodeExecuteArgs std stmt payload = (stmt', r)" by fastforce
  then have "stmtOK (leUint32 (gslice payload 0 4)) (stmt'\<lparr> LongData := Map.empty \<rparr>)"
    using decodeExecuteArgs_stmt [OF d] stmtsOK_get [OF assms Some] by (auto simp: stmtOK_def)
  then show ?thesis using assms Some d stmtsOK_update
    by (simp add: handleStmtExecute_def Let_def)
qed

lemma sendLong_stmtsOK: "stmtsOK c \<Longrightarrow> stmtsOK (fst (handleStmtSendLongData payload c))"
  by (auto simp: handleStmtSendLongData_def Let_def split: option.splits
      intro!: stmtsOK_update elim: stmtsOK_get)

lemma close_stmtsOK: "stmtsOK c \<Longrightarrow> stmtsOK (handleStmtClose payload c)"
  by (simp add: handleStmtClose_def stmtsOK_def)

lemma reset_stmtsOK: "stmtsOK c \<Longrightarrow> stmtsOK (fst (handleStmtReset flags payload c))"
  by (auto simp: handleStmtReset_def Let_def split: option.splits
      intro!: stmtsOK_update elim: stmtsOK_get)

lemmas stmtsOK_preserved = prepare_stmtsOK execute_stmtsOK sendLong_stmtsOK close_stmtsOK reset_stmtsOK

lemma stmt_step_stmtsOK: "stmt_step std c c' \<Longrightarrow> stmtsOK c \<Longrightarrow> stmtsOK c'"
  by (erule stmt_stepE) (simp_all add: stmtsOK_preserved)

text \<open>
  C28: in every state the statement commands can reach from a fresh connection, each statement
  stands under its own id, its parameter count is the number of placeholders of its text and fits
  in 16 bits, and it has either no bound types or exactly one for each parameter (so that
  \<open>stmt.ParamTypes[i]\<close> is in range whenever values are decoded).
\<close>

theorem reachable_statements_ok: "stmt_reachable std c \<Longrightarrow> stmtsOK c"
proof (induction rule: stmt_reachable.induct)
  case start
  show ?case by (simp add: stmtInit_def stmtsOK_def)
next
  case (step c c')
  then show ?case by (blast intro: stmt_step_stmtsOK)
qed

theorem reachable_statements_ok_witness:
  "stmtsOK (fst (handleStmtPrepare 0 2 [] ''DO ?'' stmtInit))"
  by (rule reachable_statements_ok [of exampleStd]) (blast intro: stmt_reachable.intros stmt_step.prepare)

text \<open>
  long data arrives whole and only once. Chunks sent for a parameter are joined in the order
  they came, and an execution, whether it succeeds or not, leaves no long data behind.
\<close>

theorem long_data_joined_and_cleared:
  assumes "statements c i = Some stmt" "LongData stmt p = old" "unat (leUint16 pid) = p"
    and "length sid = 4" "leUint32 sid = i" "length pid = 2"
  shows "\<exists>c' stmt'. handleStmtSendLongData (sid @ pid @ chunk) c = (c', True) \<and> statements c' i = Some stmt' \<and>
      LongData stmt' p = Some ((case old of Some d \<Rightarrow> d | None \<Rightarrow> []) @ chunk) \<and>
      (\<forall>q. q \<noteq> p \<longrightarrow> LongData stmt' q = LongData stmt q) \<and>
      (\<forall>body. length body \<ge> 5 \<longrightarrow>
         (\<exists>stmt''. statements (fst (handleStmtExecute std (sid @ body) c')) i = Some stmt'' \<and> LongData stmt'' = Map.empty))"
proof -
  let ?stmt' = "stmt\<lparr> LongData := (LongData stmt)(p \<mapsto> (case old of Some d \<Rightarrow> d | None \<Rightarrow> []) @ chunk) \<rparr>"
  let ?c' = "c\<lparr> statements := (statements c)(i \<mapsto> ?stmt') \<rparr>"
  have g: "gslice (sid @ pid @ chunk) 0 4 = sid" "gslice (sid @ pid @ chunk) 4 6 = pid" "drop 6 (sid @ pid @ chunk) = chunk"
    using assms by (simp_all add: gslice_def)
  have "handleStmtSendLongData (sid @ pid @ chunk) c = (?c', True)"
    using assms g by (simp add: handleStmtSendLongData_def Let_def)
  moreover have "\<exists>stmt''. statements (fst (handleStmtExecute std (sid @ body) ?c')) i = Some stmt'' \<and> LongData stmt'' = Map.empty"
    if "length body \<ge> 5" for body
  proof -
    have "gslice (sid @ body) 0 4 = sid" "\<not> length (sid @ body) < 9" using assms that by (simp_all add: gslice_def)
    then show ?thesis using assms by (simp add: handleStmtExecute_def Let_def split: prod.splits)
  qed
  ultimately show ?thesis by auto
qed

definition exampleLongData :: stmtConn where
  "exampleLongData = \<lparr> nextStatementID = 2,
     statements = [1 \<mapsto> \<lparr> ID = 1, SQL = ''?'', ParamCount = 1, ParamTypes = [], LongData = [0 \<mapsto> [7]] \<rparr>] \<rparr>"

theorem long_data_joined_and_cleared_witness:
  "\<exists>stmt. statements (fst (handleStmtSendLongData [1, 0, 0, 0, 0, 0, 8] exampleLongData)) 1 = Some stmt \<and>
     LongData stmt 0 = Some [7, 8]"
  using long_data_joined_and_cleared [of exampleLongData 1
      "\<lparr> ID = 1, SQL = ''?'', ParamCount = 1, ParamTypes = [], LongData = [0 \<mapsto> [7]] \<rparr>" 0 "Some [7]" "[0, 0]" "[1, 0, 0, 0]" "[8]"]
  by (fastforce simp: exampleLongData_def leUint16_def leUint32_def)

end
