(* ===== verification/Shared_State.thy ===== *)
theory Shared_State
  imports Go_Prelude
begin

text \<open>
  State the connections share (\<open>pkg/mysqlmock/server_state.go\<close>): the advisory locks behind
  \<open>GET_LOCK\<close> and \<open>RELEASE_LOCK\<close>, and the diagnostics log. Every operation runs under the store's
  mutex, so it is one atomic function on the store's state.
\<close>

subsection \<open>Locks as an interface\<close>

text \<open>What a client relies on: who holds what after each operation, and what it answers.\<close>

locale exclusive_locks =
  fixes holder :: "'s \<Rightarrow> 'n \<Rightarrow> 'c option"
    and acquire :: "'n \<Rightarrow> 'c \<Rightarrow> 's \<Rightarrow> 's \<times> int"
    and giveUp :: "'n \<Rightarrow> 'c \<Rightarrow> 's \<Rightarrow> 's \<times> int option"
    and giveUpAll :: "'c \<Rightarrow> 's \<Rightarrow> 's"
  assumes acquire_free: "holder s n = None \<or> holder s n = Some c \<Longrightarrow>
      snd (acquire n c s) = 1 \<and> holder (fst (acquire n c s)) = (holder s)(n \<mapsto> c)"
    and acquire_taken: "holder s n = Some d \<Longrightarrow> d \<noteq> c \<Longrightarrow> acquire n c s = (s, 0)"
    and giveUp_free: "holder s n = None \<Longrightarrow> giveUp n c s = (s, None)"
    and giveUp_other: "holder s n = Some d \<Longrightarrow> d \<noteq> c \<Longrightarrow> giveUp n c s = (s, Some 0)"
    and giveUp_own: "holder s n = Some c \<Longrightarrow>
      snd (giveUp n c s) = Some 1 \<and> holder (fst (giveUp n c s)) = (holder s)(n := None)"
    and giveUpAll_holder: "holder (giveUpAll c s) m = (if holder s m = Some c then None else holder s m)"

text \<open>What the connections do, in the order the mutex lets them.\<close>

datatype ('n, 'c) lockOp = Acquire 'n 'c | GiveUp 'n 'c | GiveUpAll 'c

fun keepsLock :: "'n \<Rightarrow> 'c \<Rightarrow> ('n, 'c) lockOp \<Rightarrow> bool" where
  "keepsLock n c (Acquire m d) = True"
| "keepsLock n c (GiveUp m d) = (m \<noteq> n \<or> d \<noteq> c)"
| "keepsLock n c (GiveUpAll d) = (d \<noteq> c)"

fun lockStep :: "('n \<Rightarrow> 'c \<Rightarrow> 's \<Rightarrow> 's \<times> int) \<Rightarrow> ('n \<Rightarrow> 'c \<Rightarrow> 's \<Rightarrow> 's \<times> int option) \<Rightarrow> ('c \<Rightarrow> 's \<Rightarrow> 's) \<Rightarrow>
    ('n, 'c) lockOp \<Rightarrow> 's \<Rightarrow> 's" where
  "lockStep acquire giveUp giveUpAll (Acquire n c) s = fst (acquire n c s)"
| "lockStep acquire giveUp giveUpAll (GiveUp n c) s = fst (giveUp n c s)"
| "lockStep acquire giveUp giveUpAll (GiveUpAll c) s = giveUpAll c s"

context exclusive_locks begin

lemma holder_kept:
  assumes "holder s n = Some c" "keepsLock n c x"
  shows "holder (lockStep acquire giveUp giveUpAll x s) n = Some c"
proof (cases x)
  case (Acquire m d)
  show ?thesis
  proof (cases "holder s m = None \<or> holder s m = Some d")
    case True
    from acquire_free [OF this] show ?thesis using assms Acquire True by auto
  next
    case False
    then obtain e where "holder s m = Some e" "e \<noteq> d" by auto
    from acquire_taken [OF this] show ?thesis using assms Acquire by simp
  qed
next
  case (GiveUp m d)
  consider "holder s m = None" | "holder s m = Some d" | e where "holder s m = Some e" "e \<noteq> d" by auto
  then show ?thesis
  proof cases
    case 1
    then show ?thesis using assms GiveUp giveUp_free by simp
  next
    case 2
    then show ?thesis using assms GiveUp giveUp_own [OF 2] by auto
  next
    case 3
    then show ?thesis using assms GiveUp giveUp_other by simp
  qed
next
  case (GiveUpAll d)
  then show ?thesis using assms giveUpAll_holder by simp
qed

text \<open>A lock stays with its holder, and nobody else gets it, until the holder gives it up.\<close>

lemma held_until_given_up:
  assumes "snd (acquire n c s) = 1" "list_all (keepsLock n c) ops" "d \<noteq> c"
  shows "snd (acquire n d (fold (lockStep acquire giveUp giveUpAll) ops (fst (acquire n c s)))) = 0"
proof -
  have "holder s n = None \<or> holder s n = Some c"
    using assms(1) acquire_taken [of s n _ c] by (cases "holder s n") force+
  then have "holder (fst (acquire n c s)) n = Some c" using acquire_free by auto
  then have "holder (fold (lockStep acquire giveUp giveUpAll) ops (fst (acquire n c s))) n = Some c"
    using assms(2) by (induction ops arbitrary: s rule: rev_induct) (auto intro: holder_kept)
  then show ?thesis using assms(3) acquire_taken by simp
qed

lemma free_after_giving_up:
  assumes "holder s n = Some c"
  shows "snd (acquire n d (fst (giveUp n c s))) = 1" "snd (acquire n d (giveUpAll c s)) = 1"
  using giveUp_own [OF assms] giveUpAll_holder [of c s n] assms acquire_free by auto

end

subsection \<open>The advisory locks\<close>

text \<open>The field \<open>locks\<close>: from a lock's name to the connection that holds it. A nil map is empty.\<close>

type_synonym advisoryLockStore = "string \<Rightarrow> 32 word option"

definition getAdvisoryLock :: "string \<Rightarrow> 32 word \<Rightarrow> advisoryLockStore \<Rightarrow> advisoryLockStore \<times> int" where
  "getAdvisoryLock name connectionID locks =
     (case locks name of
        None \<Rightarrow> (locks(name \<mapsto> connectionID), 1)
      | Some holder \<Rightarrow>
          if holder = connectionID then (locks(name \<mapsto> connectionID), 1) else (locks, 0))"

text \<open>The answer of \<open>release\<close> is an \<open>any\<close>: nil, 0 or 1.\<close>

definition releaseAdvisoryLock :: "string \<Rightarrow> 32 word \<Rightarrow> advisoryLockStore \<Rightarrow> advisoryLockStore \<times> int option" where
  "releaseAdvisoryLock name connectionID locks =
     (case locks name of
        None \<Rightarrow> (locks, None)
      | Some holder \<Rightarrow>
          if holder \<noteq> connectionID then (locks, Some 0) else (locks(name := None), Some 1))"

definition releaseAllAdvisoryLocks :: "32 word \<Rightarrow> advisoryLockStore \<Rightarrow> advisoryLockStore" where
  "releaseAllAdvisoryLocks connectionID locks =
     (\<lambda>name. if locks name = Some connectionID then None else locks name)"

interpretation advisory: exclusive_locks "\<lambda>s. s" getAdvisoryLock releaseAdvisoryLock releaseAllAdvisoryLocks
  by unfold_locales
     (auto simp: getAdvisoryLock_def releaseAdvisoryLock_def releaseAllAdvisoryLocks_def split: option.splits)

text \<open>
  C18: advisory locks exclude. Once \<open>GET_LOCK\<close> has answered 1 to a connection, every other
  connection gets 0 for that name, whatever operations come in between, in any order and from any
  connection, as long as the holder neither releases the name nor ends.
\<close>

theorem advisory_lock_excludes:
  assumes "snd (getAdvisoryLock name c locks) = 1" "list_all (keepsLock name c) ops" "d \<noteq> c"
  shows "snd (getAdvisoryLock name d
      (fold (lockStep getAdvisoryLock releaseAdvisoryLock releaseAllAdvisoryLocks) ops
        (fst (getAdvisoryLock name c locks)))) = 0"
  using assms by (rule advisory.held_until_given_up)

theorem advisory_lock_excludes_witness:
  "snd (getAdvisoryLock ''l'' 2
      (fold (lockStep getAdvisoryLock releaseAdvisoryLock releaseAllAdvisoryLocks)
        [GiveUp ''l'' 3, Acquire ''m'' 1, GiveUpAll 2, Acquire ''l'' 1]
        (fst (getAdvisoryLock ''l'' 1 Map.empty)))) = 0"
  by (rule advisory_lock_excludes) (simp_all add: getAdvisoryLock_def)

text \<open>
  a lock is not lost. When the holder releases the name, or its connection ends, the next
  connection that asks for it gets it.
\<close>

theorem advisory_lock_freed:
  "locks name = Some c \<Longrightarrow>
   snd (getAdvisoryLock name d (fst (releaseAdvisoryLock name c locks))) = 1 \<and>
   snd (getAdvisoryLock name d (releaseAllAdvisoryLocks c locks)) = 1"
  using advisory.free_after_giving_up by blast

theorem advisory_lock_freed_witness:
  "snd (getAdvisoryLock ''l'' 2 (fst (releaseAdvisoryLock ''l'' 1 [''l'' \<mapsto> 1]))) = 1 \<and>
   snd (getAdvisoryLock ''l'' 2 (releaseAllAdvisoryLocks 1 [''l'' \<mapsto> 1])) = 1"
  by (rule advisory_lock_freed) simp

subsection \<open>The diagnostics log\<close>

record ('u, 'q) diagnosticsStore =
  unsupportedLog :: "'u list"
  queryLog :: "'q list"

definition unsupportedSnapshot :: "('u, 'q) diagnosticsStore \<Rightarrow> 'u list" where
  "unsupportedSnapshot s = unsupportedLog s"

definition queriesSnapshot :: "('u, 'q) diagnosticsStore \<Rightarrow> 'q list" where
  "queriesSnapshot s = queryLog s"

definition logUnsupported :: "'u \<Rightarrow> ('u, 'q) diagnosticsStore \<Rightarrow> ('u, 'q) diagnosticsStore" where
  "logUnsupported query s = s\<lparr> unsupportedLog := unsupportedLog s @ [query] \<rparr>"

definition logQuery :: "'q \<Rightarrow> ('u, 'q) diagnosticsStore \<Rightarrow> ('u, 'q) diagnosticsStore" where
  "logQuery event s = s\<lparr> queryLog := queryLog s @ [event] \<rparr>"

definition resetDiagnostics :: "('u, 'q) diagnosticsStore \<Rightarrow> ('u, 'q) diagnosticsStore" where
  "resetDiagnostics s = s\<lparr> unsupportedLog := [], queryLog := [] \<rparr>"

end
