(* ===== verification/Stats.thy ===== *)
theory Stats
  imports Sql_Scanner "HOL-Library.AList"
begin

text \<open>
  Execution counters (\<open>pkg/mysqlmock/stats.go\<close>): counts and timings of queries by command, route and
  kind, of internal phases, of metadata work and of resets. Counters are \<open>uint64\<close> and wrap; a map
  of counters is the list of its entries.
\<close>

type_synonym counts = "(string \<times> 64 word) list"

record TimingBucket =
  Count :: "64 word"
  TotalNanos :: "64 word"
  MaxNanos :: "64 word"

type_synonym buckets = "(string \<times> TimingBucket) list"

record QueryStats =
  Total :: "64 word"
  ByCommand :: counts
  ByRoute :: counts
  ByKind :: counts

record MetadataStats =
  InformationSchemaQueries :: "64 word"
  TargetedInformationSchemaQueries :: "64 word"
  BroadInformationSchemaQueries :: "64 word"
  BroadInformationSchemaQueryReasons :: counts
  ShowFullFieldsQueries :: "64 word"
  ShowCreateTableQueries :: "64 word"
  ShowKeysQueries :: "64 word"
  TargetTableRefreshes :: "64 word"
  TargetTableCacheHits :: "64 word"
  TargetTableMisses :: "64 word"
  FullRefreshes :: "64 word"
  FullRefreshCacheHits :: "64 word"
  TablesLoaded :: "64 word"

record ResetStats =
  ResetTotal :: "64 word"
  DataOnly :: "64 word"
  Full :: "64 word"

record QueryTimingStats =
  QueryTimes :: TimingBucket
  TimesByCommand :: buckets
  TimesByRoute :: buckets
  TimesByKind :: buckets

record PhaseTimingStats =
  PhaseTimes :: TimingBucket
  ByPhase :: buckets

record statsStore =
  queries :: QueryStats
  metadata :: MetadataStats
  resets :: ResetStats
  queryTimings :: QueryTimingStats
  phaseTimings :: PhaseTimingStats
  schemaChanges :: "64 word"
  unsupported :: "64 word"

subsection \<open>Counters\<close>

text \<open>\<open>(*counts)[key]++\<close>; a missing key counts from zero.\<close>

definition incrementCount :: "counts \<Rightarrow> string \<Rightarrow> counts" where
  "incrementCount m key =
     (if key = [] then m
      else AList.update key ((case map_of m key of Some n \<Rightarrow> n | None \<Rightarrow> 0) + 1) m)"

definition recordTimingBucket :: "64 word \<Rightarrow> TimingBucket \<Rightarrow> TimingBucket" where
  "recordTimingBucket nanos b =
     \<lparr> Count = Count b + 1, TotalNanos = TotalNanos b + nanos,
       MaxNanos = (if nanos > MaxNanos b then nanos else MaxNanos b) \<rparr>"

definition zeroBucket :: TimingBucket where
  "zeroBucket = \<lparr> Count = 0, TotalNanos = 0, MaxNanos = 0 \<rparr>"

definition incrementTimingBucket :: "buckets \<Rightarrow> string \<Rightarrow> 64 word \<Rightarrow> buckets" where
  "incrementTimingBucket m key nanos =
     (if key = [] then m
      else AList.update key (recordTimingBucket nanos (case map_of m key of Some b \<Rightarrow> b | None \<Rightarrow> zeroBucket)) m)"

text \<open>A \<open>time.Duration\<close> is an \<open>int64\<close>.\<close>

definition durationNanos :: "64 word \<Rightarrow> 64 word" where
  "durationNanos duration = (if sint duration \<le> 0 then 0 else duration)"

subsection \<open>Kinds of queries\<close>

definition hasPrefixFold :: "string \<Rightarrow> string \<Rightarrow> bool" where
  "hasPrefixFold s p = (length s \<ge> length p \<and> EqualFold (gslice s 0 (length p)) p)"

definition containsFold :: "string \<Rightarrow> string \<Rightarrow> bool" where
  "containsFold s sub =
     (if sub = [] then True
      else if length sub > length s then False
      else list_ex (\<lambda>i. EqualFold (gslice s i (i + length sub)) sub) [0..<Suc (length s - length sub)])"

definition isTransactionKind :: "string \<Rightarrow> bool" where
  "isTransactionKind sqlText =
     (EqualFold sqlText ''BEGIN'' \<or> EqualFold sqlText ''START TRANSACTION'' \<or> EqualFold sqlText ''COMMIT''
      \<or> EqualFold sqlText ''ROLLBACK'' \<or> EqualFold sqlText ''ROLLBACK AND CHAIN''
      \<or> hasPrefixFold sqlText ''ROLLBACK TO SAVEPOINT '' \<or> hasPrefixFold sqlText ''SAVEPOINT ''
      \<or> hasPrefixFold sqlText ''RELEASE SAVEPOINT '')"

text \<open>A case of the switch that does not return falls out to the test behind it.\<close>

definition kindAfterSwitch :: "string \<Rightarrow> string" where
  "kindAfterSwitch sqlText = (if hasPrefixFold sqlText ''ALTER TABLE '' then ''alter_table'' else ''other'')"

definition showKind :: "string \<Rightarrow> string" where
  "showKind sqlText =
     (if hasPrefixFold sqlText ''SHOW FULL FIELDS '' \<or> hasPrefixFold sqlText ''SHOW FULL COLUMNS ''
        \<or> hasPrefixFold sqlText ''SHOW FIELDS '' \<or> hasPrefixFold sqlText ''SHOW COLUMNS '' then ''show_full_fields''
      else if hasPrefixFold sqlText ''SHOW CREATE TABLE '' then ''show_create_table''
      else if hasPrefixFold sqlText ''SHOW KEYS '' \<or> hasPrefixFold sqlText ''SHOW INDEX ''
        \<or> hasPrefixFold sqlText ''SHOW INDEXES '' then ''show_keys''
      else ''show'')"

definition createKind :: "string \<Rightarrow> string" where
  "createKind sqlText =
     (if hasPrefixFold sqlText ''CREATE TABLE '' \<or> hasPrefixFold sqlText ''CREATE TEMPORARY TABLE ''
        \<or> hasPrefixFold sqlText ''CREATE TEMP TABLE '' then ''create_table''
      else if hasPrefixFold sqlText ''CREATE INDEX '' \<or> hasPrefixFold sqlText ''CREATE UNIQUE INDEX ''
      then ''create_index'' else ''other'')"

definition queryKindFromNormalizedSQL :: "string \<Rightarrow> string" where
  "queryKindFromNormalizedSQL sqlText0 =
     (let sqlText = TrimSpace sqlText0 in
      if sqlText = [] then ''empty''
      else (case readSQLIdentifier sqlText 0 of
          None \<Rightarrow> ''other''
        | Some (word, _) \<Rightarrow>
            let upper = ToUpper word in
            if upper = ''SHOW'' then showKind sqlText
            else if upper = ''SET'' then ''set''
            else if upper \<in> {''BEGIN'', ''COMMIT'', ''ROLLBACK'', ''SAVEPOINT''} then ''transaction''
            else if upper \<in> {''START'', ''RELEASE''} then
              (if isTransactionKind sqlText then ''transaction'' else kindAfterSwitch sqlText)
            else if upper = ''SELECT'' then
              (if containsFold sqlText ''information_schema'' then ''information_schema'' else ''select'')
            else if upper = ''WITH'' then
              (if containsFold sqlText ''information_schema'' then ''information_schema'' else ''with'')
            else if upper = ''INSERT'' then ''insert''
            else if upper = ''UPDATE'' then ''update''
            else if upper = ''DELETE'' then ''delete''
            else if upper = ''REPLACE'' then ''replace''
            else if upper = ''CREATE'' then createKind sqlText
            else if upper = ''ALTER'' \<and> hasPrefixFold sqlText ''ALTER TABLE '' then ''alter_table''
            else if upper = ''DROP'' then
              (if hasPrefixFold sqlText ''DROP TABLE '' then ''drop_table''
               else if hasPrefixFold sqlText ''DROP INDEX '' then ''drop_index'' else ''other'')
            else if upper = ''PRAGMA'' then ''pragma''
            else kindAfterSwitch sqlText))"

subsection \<open>Recording\<close>

definition recordQuery :: "string \<Rightarrow> string \<Rightarrow> string \<Rightarrow> statsStore \<Rightarrow> statsStore" where
  "recordQuery command route normalizedSQL s =
     s\<lparr> queries := \<lparr> Total = Total (queries s) + 1,
         ByCommand = incrementCount (ByCommand (queries s)) command,
         ByRoute = incrementCount (ByRoute (queries s)) route,
         ByKind = incrementCount (ByKind (queries s)) (queryKindFromNormalizedSQL normalizedSQL) \<rparr> \<rparr>"

definition recordQueryTiming :: "string \<Rightarrow> string \<Rightarrow> string \<Rightarrow> 64 word \<Rightarrow> statsStore \<Rightarrow> statsStore" where
  "recordQueryTiming command route normalizedSQL duration s =
     (let nanos = durationNanos duration; q = queryTimings s in
      s\<lparr> queryTimings := \<lparr> QueryTimes = recordTimingBucket nanos (QueryTimes q),
          TimesByCommand = incrementTimingBucket (TimesByCommand q) command nanos,
          TimesByRoute = incrementTimingBucket (TimesByRoute q) route nanos,
          TimesByKind = incrementTimingBucket (TimesByKind q) (queryKindFromNormalizedSQL normalizedSQL) nanos \<rparr> \<rparr>)"

definition recordPhaseTiming :: "string \<Rightarrow> 64 word \<Rightarrow> statsStore \<Rightarrow> statsStore" where
  "recordPhaseTiming phase duration s =
     (if phase = [] then s
      else let nanos = durationNanos duration; p = phaseTimings s in
        s\<lparr> phaseTimings := \<lparr> PhaseTimes = recordTimingBucket nanos (PhaseTimes p),
            ByPhase = incrementTimingBucket (ByPhase p) phase nanos \<rparr> \<rparr>)"

definition recordUnsupportedCount :: "statsStore \<Rightarrow> statsStore" where
  "recordUnsupportedCount s = s\<lparr> unsupported := unsupported s + 1 \<rparr>"

definition recordReset :: "string \<Rightarrow> statsStore \<Rightarrow> statsStore" where
  "recordReset kind s =
     (let r = resets s; r' = r\<lparr> ResetTotal := ResetTotal r + 1 \<rparr> in
      s\<lparr> resets := (if kind = ''data_only'' then r'\<lparr> DataOnly := DataOnly r + 1 \<rparr>
                    else if kind = ''full'' then r'\<lparr> Full := Full r + 1 \<rparr> else r') \<rparr>)"

definition recordSchemaChange :: "statsStore \<Rightarrow> statsStore" where
  "recordSchemaChange s = s\<lparr> schemaChanges := schemaChanges s + 1 \<rparr>"

definition onMetadata :: "(MetadataStats \<Rightarrow> MetadataStats) \<Rightarrow> statsStore \<Rightarrow> statsStore" where
  "onMetadata f s = s\<lparr> metadata := f (metadata s) \<rparr>"

definition recordInformationSchemaQuery :: "bool \<Rightarrow> string \<Rightarrow> statsStore \<Rightarrow> statsStore" where
  "recordInformationSchemaQuery targeted broadReason =
     onMetadata (\<lambda>m. let m' = m\<lparr> InformationSchemaQueries := InformationSchemaQueries m + 1 \<rparr> in
       if targeted
       then m'\<lparr> TargetedInformationSchemaQueries := TargetedInformationSchemaQueries m + 1 \<rparr>
       else m'\<lparr> BroadInformationSchemaQueries := BroadInformationSchemaQueries m + 1,
              BroadInformationSchemaQueryReasons := incrementCount (BroadInformationSchemaQueryReasons m) broadReason \<rparr>)"

definition recordShowFullFieldsQuery :: "statsStore \<Rightarrow> statsStore" where
  "recordShowFullFieldsQuery = onMetadata (\<lambda>m. m\<lparr> ShowFullFieldsQueries := ShowFullFieldsQueries m + 1 \<rparr>)"

definition recordShowCreateTableQuery :: "statsStore \<Rightarrow> statsStore" where
  "recordShowCreateTableQuery = onMetadata (\<lambda>m. m\<lparr> ShowCreateTableQueries := ShowCreateTableQueries m + 1 \<rparr>)"

definition recordShowKeysQuery :: "statsStore \<Rightarrow> statsStore" where
  "recordShowKeysQuery = onMetadata (\<lambda>m. m\<lparr> ShowKeysQueries := ShowKeysQueries m + 1 \<rparr>)"

definition recordInformationSchemaTargetTableCacheHit :: "statsStore \<Rightarrow> statsStore" where
  "recordInformationSchemaTargetTableCacheHit =
     onMetadata (\<lambda>m. m\<lparr> TargetTableCacheHits := TargetTableCacheHits m + 1 \<rparr>)"

definition recordInformationSchemaTargetTableRefresh :: "bool \<Rightarrow> statsStore \<Rightarrow> statsStore" where
  "recordInformationSchemaTargetTableRefresh tblExists =
     onMetadata (\<lambda>m. let m' = m\<lparr> TargetTableRefreshes := TargetTableRefreshes m + 1 \<rparr> in
       if \<not> tblExists then m'\<lparr> TargetTableMisses := TargetTableMisses m + 1 \<rparr> else m')"

definition recordInformationSchemaFullRefreshCacheHit :: "statsStore \<Rightarrow> statsStore" where
  "recordInformationSchemaFullRefreshCacheHit =
     onMetadata (\<lambda>m. m\<lparr> FullRefreshCacheHits := FullRefreshCacheHits m + 1 \<rparr>)"

definition recordInformationSchemaFullRefresh :: "statsStore \<Rightarrow> statsStore" where
  "recordInformationSchemaFullRefresh = onMetadata (\<lambda>m. m\<lparr> FullRefreshes := FullRefreshes m + 1 \<rparr>)"

definition recordInformationSchemaTableLoaded :: "statsStore \<Rightarrow> statsStore" where
  "recordInformationSchemaTableLoaded = onMetadata (\<lambda>m. m\<lparr> TablesLoaded := TablesLoaded m + 1 \<rparr>)"

subsection \<open>The totals agree with the breakdowns\<close>

lemma update_sum:
  fixes m :: counts
  shows "distinct (map fst m) \<Longrightarrow>
   sum_list (map snd (AList.update k ((case map_of m k of Some n \<Rightarrow> n | None \<Rightarrow> 0) + 1) m)) = sum_list (map snd m) + 1"
proof (induction m)
  case (Cons e m)
  have "map_of m k = None" if "k = fst e" using Cons.prems that by (auto simp: map_of_eq_None_iff)
  then show ?case using Cons by (cases e) (auto simp: ac_simps)
qed simp

lemma incrementCount_sum:
  "distinct (map fst m) \<Longrightarrow> k \<noteq> [] \<Longrightarrow>
   sum_list (map snd (incrementCount m k)) = sum_list (map snd m) + 1"
  by (simp add: incrementCount_def update_sum)

lemma incrementCount_distinct: "distinct (map fst m) \<Longrightarrow> distinct (map fst (incrementCount m k))"
  by (simp add: incrementCount_def distinct_update)

lemma if_nonempty: "x \<noteq> [] \<Longrightarrow> y \<noteq> [] \<Longrightarrow> (if b then x else y) \<noteq> []"
  by simp

lemma queryKind_nonempty: "queryKindFromNormalizedSQL s \<noteq> []"
proof (cases "readSQLIdentifier (TrimSpace s) 0")
  case None
  then show ?thesis by (simp add: queryKindFromNormalizedSQL_def Let_def)
next
  case (Some we)
  obtain w e where we: "we = (w, e)" by (cases we)
  show ?thesis
    unfolding queryKindFromNormalizedSQL_def Let_def Some we option.case prod.case
      showKind_def createKind_def kindAfterSwitch_def
    by (intro if_nonempty) simp_all
qed

text \<open>The counters add up: per kind always, per command as every command is named.\<close>

definition queriesAddUp :: "QueryStats \<Rightarrow> bool" where
  "queriesAddUp q = (distinct (map fst (ByCommand q)) \<and> distinct (map fst (ByKind q)) \<and>
     sum_list (map snd (ByKind q)) = Total q \<and> sum_list (map snd (ByCommand q)) = Total q)"

definition noQueries :: QueryStats where
  "noQueries = \<lparr> Total = 0, ByCommand = [], ByRoute = [], ByKind = [] \<rparr>"

lemma recordQuery_adds_up:
  "queriesAddUp (queries s) \<Longrightarrow> command \<noteq> [] \<Longrightarrow> queriesAddUp (queries (recordQuery command route sql s))"
  by (simp add: queriesAddUp_def recordQuery_def incrementCount_sum incrementCount_distinct queryKind_nonempty)

lemma recordQuery_Total: "Total (queries (recordQuery command route sql s)) = Total (queries s) + 1"
  by (simp add: recordQuery_def)

text \<open>A fresh store.\<close>

definition newStats :: statsStore where
  "newStats = \<lparr> queries = noQueries,
     metadata = \<lparr> InformationSchemaQueries = 0, TargetedInformationSchemaQueries = 0,
       BroadInformationSchemaQueries = 0, BroadInformationSchemaQueryReasons = [], ShowFullFieldsQueries = 0,
       ShowCreateTableQueries = 0, ShowKeysQueries = 0, TargetTableRefreshes = 0, TargetTableCacheHits = 0,
       TargetTableMisses = 0, FullRefreshes = 0, FullRefreshCacheHits = 0, TablesLoaded = 0 \<rparr>,
     resets = \<lparr> ResetTotal = 0, DataOnly = 0, Full = 0 \<rparr>,
     queryTimings = \<lparr> QueryTimes = zeroBucket, TimesByCommand = [], TimesByRoute = [], TimesByKind = [] \<rparr>,
     phaseTimings = \<lparr> PhaseTimes = zeroBucket, ByPhase = [] \<rparr>, schemaChanges = 0, unsupported = 0 \<rparr>"

text \<open>
  the query counters add up. After any sequence of recorded queries with named commands, the
  counts by kind and the counts by command each sum to the total, which is the number of queries
  modulo \<open>2^64\<close>: every query is counted under exactly one kind.
\<close>

theorem query_counters_add_up:
  assumes "queries s = noQueries" "\<forall>(command, route, sql) \<in> set events. command \<noteq> []"
  shows "queriesAddUp (queries (fold (\<lambda>(command, route, sql). recordQuery command route sql) events s)) \<and>
    Total (queries (fold (\<lambda>(command, route, sql). recordQuery command route sql) events s)) = of_nat (length events)"
  using assms(2)
proof (induction events rule: rev_induct)
  case Nil
  then show ?case using assms(1) by (simp add: noQueries_def queriesAddUp_def)
next
  case (snoc e es)
  then show ?case by (cases e) (auto simp: recordQuery_Total intro: recordQuery_adds_up)
qed

theorem query_counters_add_up_witness:
  defines "es \<equiv> [(''COM_QUERY'', ''sqlite'', ''SELECT 1''), (''COM_QUERY'', [], ''BEGIN'')]"
  shows "queriesAddUp (queries (fold (\<lambda>(command, route, sql). recordQuery command route sql) es newStats)) \<and>
    Total (queries (fold (\<lambda>(command, route, sql). recordQuery command route sql) es newStats)) = of_nat (length es)"
  by (rule query_counters_add_up) (simp_all add: newStats_def es_def)

lemma phase_step:
  assumes "phase \<noteq> []"
  shows "PhaseTimes (phaseTimings (recordPhaseTiming phase d s)) =
      recordTimingBucket (durationNanos d) (PhaseTimes (phaseTimings s))"
    and "map_of (ByPhase (phaseTimings (recordPhaseTiming phase d s))) phase =
      Some (recordTimingBucket (durationNanos d)
        (case map_of (ByPhase (phaseTimings s)) phase of Some b \<Rightarrow> b | None \<Rightarrow> zeroBucket))"
  using assms by (simp_all add: recordPhaseTiming_def incrementTimingBucket_def Let_def update_conv')

text \<open>
  timings aggregate what was recorded. After the phase timings \<open>ds\<close> of one phase on a fresh
  store, the phase's bucket and the overall bucket both hold the number of timings, the sum of the
  durations (negative ones counted as zero) and their maximum.
\<close>

theorem phase_timings_aggregate:
  assumes "phase \<noteq> []" "ds \<noteq> []"
  shows "\<exists>b. map_of (ByPhase (phaseTimings (fold (recordPhaseTiming phase) ds newStats))) phase = Some b \<and>
    PhaseTimes (phaseTimings (fold (recordPhaseTiming phase) ds newStats)) = b \<and>
    Count b = of_nat (length ds) \<and> TotalNanos b = sum_list (map durationNanos ds) \<and>
    MaxNanos b = Max (set (map durationNanos ds))"
  using assms(2)
proof (induction ds rule: rev_nonempty_induct)
  case (single d)
  then show ?case
    by (simp add: phase_step [OF assms(1)])
       (simp add: newStats_def recordTimingBucket_def zeroBucket_def word_gt_0)
next
  case (snoc d ds)
  have "Max (set (map durationNanos (ds @ [d]))) = max (durationNanos d) (Max (set (map durationNanos ds)))"
    using snoc(1) by simp
  then show ?case using snoc(2)
    by (auto simp: phase_step [OF assms(1)]) (auto simp: recordTimingBucket_def max_def)
qed

theorem phase_timings_aggregate_witness:
  "\<exists>b. map_of (ByPhase (phaseTimings (fold (recordPhaseTiming ''p'') [5, - 1, 3] newStats))) ''p'' = Some b \<and>
    PhaseTimes (phaseTimings (fold (recordPhaseTiming ''p'') [5, - 1, 3] newStats)) = b \<and>
    Count b = of_nat (length [5, - 1, 3 :: 64 word]) \<and> TotalNanos b = sum_list (map durationNanos [5, - 1, 3]) \<and>
    MaxNanos b = Max (set (map durationNanos [5, - 1, 3]))"
  by (rule phase_timings_aggregate) simp_all

end
