(* ===== verification/Caches.thy ===== *)
theory Caches
  imports Sql_Ddl "HOL-Library.AList"
begin

text \<open>
  The bounded cache \<open>cacheStore\<close> and the translation cache over it
  (\<open>pkg/mysqlmock/sql_translation_cache.go\<close>). The lock of the server is released between a
  lookup that misses and the store, so workers interleave: the properties are stated for every
  interleaving.
\<close>

subsection \<open>A cache as an interface\<close>

locale bounded_cache =
  fixes lookup :: "'s \<Rightarrow> 'k \<Rightarrow> 'v option"
    and store :: "'s \<Rightarrow> 'k \<Rightarrow> 'v \<Rightarrow> 's"
    and inv :: "'s \<Rightarrow> bool"
  assumes inv_store: "inv s \<Longrightarrow> inv (store s k v)"
    and lookup_same: "inv s \<Longrightarrow> lookup (store s k v) k = Some v"
    and lookup_other: "inv s \<Longrightarrow> k' \<noteq> k \<Longrightarrow> lookup (store s k v) k' = lookup s k' \<or> lookup (store s k v) k' = None"

text \<open>A worker between the locked sections, and the steps of all workers on one cache; \<open>f\<close>
  is the function cached, \<open>None\<close> its panic.\<close>

datatype ('k, 'v) worker = Asks 'k | Missed 'k | Computed 'k 'v | Answers 'k 'v

inductive cache_step ::
    "('s \<Rightarrow> 'k \<Rightarrow> 'v option) \<Rightarrow> ('s \<Rightarrow> 'k \<Rightarrow> 'v \<Rightarrow> 's) \<Rightarrow> ('k \<Rightarrow> 'v option) \<Rightarrow>
     's \<times> ('t \<Rightarrow> ('k, 'v) worker) \<Rightarrow> 's \<times> ('t \<Rightarrow> ('k, 'v) worker) \<Rightarrow> bool"
  for lookup store f where
  hit: "ws t = Asks k \<Longrightarrow> lookup s k = Some v \<Longrightarrow>
      cache_step lookup store f (s, ws) (s, ws(t := Answers k v))"
| miss: "ws t = Asks k \<Longrightarrow> lookup s k = None \<Longrightarrow>
      cache_step lookup store f (s, ws) (s, ws(t := Missed k))"
| compute: "ws t = Missed k \<Longrightarrow> f k = Some v \<Longrightarrow>
      cache_step lookup store f (s, ws) (s, ws(t := Computed k v))"
| save: "ws t = Computed k v \<Longrightarrow>
      cache_step lookup store f (s, ws) (store s k v, ws(t := Answers k v))"
| again: "ws t = Answers k v \<Longrightarrow>
      cache_step lookup store f (s, ws) (s, ws(t := Asks k'))"

inductive_cases cache_stepE: "cache_step lookup store f a b"

text \<open>The whole call by one worker with nobody in between.\<close>

definition cachedCall :: "('s \<Rightarrow> 'k \<Rightarrow> 'v option) \<Rightarrow> ('s \<Rightarrow> 'k \<Rightarrow> 'v \<Rightarrow> 's) \<Rightarrow> ('k \<Rightarrow> 'v option) \<Rightarrow> 's \<Rightarrow> 'k \<Rightarrow> ('v \<times> 's) option" where
  "cachedCall lookup store f s k =
     (case lookup s k of
        Some v \<Rightarrow> Some (v, s)
      | None \<Rightarrow> (case f k of None \<Rightarrow> None | Some v \<Rightarrow> Some (v, store s k v)))"

fun workerSound :: "('k \<Rightarrow> 'v option) \<Rightarrow> ('k, 'v) worker \<Rightarrow> bool" where
  "workerSound f (Asks k) = True"
| "workerSound f (Missed k) = True"
| "workerSound f (Computed k v) = (f k = Some v)"
| "workerSound f (Answers k v) = (f k = Some v)"

context bounded_cache begin

definition sound :: "('k \<Rightarrow> 'v option) \<Rightarrow> 's \<Rightarrow> bool" where
  "sound f s = (\<forall>k v. lookup s k = Some v \<longrightarrow> f k = Some v)"

lemma sound_store: "inv s \<Longrightarrow> sound f s \<Longrightarrow> f k = Some v \<Longrightarrow> sound f (store s k v)"
  unfolding sound_def using lookup_same lookup_other by (metis option.distinct(1) option.inject)

lemma cache_step_sound:
  assumes "cache_step lookup store f a b" "inv (fst a)" "sound f (fst a)" "\<forall>t. workerSound f (snd a t)"
  shows "inv (fst b) \<and> sound f (fst b) \<and> (\<forall>t. workerSound f (snd b t))"
  using assms
proof (cases rule: cache_step.cases)
  case (save ws t k v s)
  then have "f k = Some v" using assms(4) by (metis snd_conv workerSound.simps(3))
  then show ?thesis using save assms inv_store sound_store by auto
qed (auto simp: sound_def)

lemma cache_steps_sound:
  assumes "(cache_step lookup store f)\<^sup>*\<^sup>* a b" "inv (fst a)" "sound f (fst a)" "\<forall>t. workerSound f (snd a t)"
  shows "inv (fst b) \<and> sound f (fst b) \<and> (\<forall>t. workerSound f (snd b t))"
  using assms(1)
proof (induction rule: rtranclp_induct)
  case base
  then show ?case using assms by blast
next
  case (step b c)
  then show ?case using cache_step_sound by blast
qed

lemma cachedCall_transparent:
  assumes "inv s" "sound f s"
  shows "map_option fst (cachedCall lookup store f s k) = f k"
    and "cachedCall lookup store f s k = Some (v, s') \<Longrightarrow> inv s' \<and> sound f s'"
proof -
  show "map_option fst (cachedCall lookup store f s k) = f k"
    using assms by (auto simp: cachedCall_def sound_def split: option.splits)
  show "cachedCall lookup store f s k = Some (v, s') \<Longrightarrow> inv s' \<and> sound f s'"
    using assms inv_store sound_store by (auto simp: cachedCall_def split: option.splits)
qed

end

subsection \<open>cacheStore\<close>

definition sqlTranslationCacheLimit :: nat where "sqlTranslationCacheLimit = 4096"

text \<open>A Go map as the list of its entries, and the order in which the keys came.\<close>

record 'v cache =
  entries :: "(string \<times> 'v) list"
  order :: "string list"

text \<open>The eviction loop. With no key left in \<open>order\<close> Go deletes whichever key its range meets
  first, here the first of the list; the invariant below makes that branch unreachable.\<close>

function evict :: "nat \<Rightarrow> 'v cache \<Rightarrow> 'v cache" where
  "evict limit c =
     (if length (entries c) < limit then c
      else (case order c of
          [] \<Rightarrow> (case entries c of
              [] \<Rightarrow> c
            | e # es \<Rightarrow> evict limit (c\<lparr> entries := es \<rparr>))
        | k # ks \<Rightarrow>
            if map_of (entries c) k = None then evict limit (c\<lparr> order := ks \<rparr>)
            else evict limit (c\<lparr> entries := AList.delete k (entries c), order := ks \<rparr>)))"
  by pat_completeness auto
termination
  by (relation "measure (\<lambda>(limit, c). length (entries c) + length (order c))")
     (auto simp: AList.length_delete_le le_imp_less_Suc)

declare evict.simps [simp del]

definition cacheStore :: "'v cache \<Rightarrow> string \<Rightarrow> 'v \<Rightarrow> 'v cache" where
  "cacheStore c key v =
     (if map_of (entries c) key \<noteq> None then c\<lparr> entries := AList.update key v (entries c) \<rparr>
      else let c' = evict sqlTranslationCacheLimit c
           in c'\<lparr> entries := AList.update key v (entries c'), order := order c' @ [key] \<rparr>)"

definition cacheLookup :: "'v cache \<Rightarrow> string \<Rightarrow> 'v option" where
  "cacheLookup c key = map_of (entries c) key"

definition emptyCache :: "'v cache" where
  "emptyCache = \<lparr> entries = [], order = [] \<rparr>"

text \<open>\<open>order\<close> lists the keys of the map, each once, and there are at most 4096.\<close>

definition cacheInv :: "'v cache \<Rightarrow> bool" where
  "cacheInv c = (distinct (map fst (entries c)) \<and> distinct (order c) \<and>
     set (order c) = fst ` set (entries c) \<and> length (entries c) \<le> sqlTranslationCacheLimit)"

lemma length_delete_key:
  "distinct (map fst es) \<Longrightarrow> k \<in> fst ` set es \<Longrightarrow> Suc (length (AList.delete k es)) = length es"
proof (induction es)
  case (Cons e es)
  show ?case
  proof (cases "fst e = k")
    case True
    then have "k \<notin> fst ` set es" using Cons.prems(1) by auto
    then have "AList.delete k es = es" by (simp add: delete_id)
    then show ?thesis using True by (cases e) simp
  next
    case False
    then show ?thesis using Cons by (cases e) auto
  qed
qed simp

text \<open>On a cache that keeps the invariant one round of the loop is enough: the oldest key goes.\<close>

lemma evict_inv:
  assumes "cacheInv c"
  shows "evict sqlTranslationCacheLimit c =
    (if length (entries c) < sqlTranslationCacheLimit then c
     else c\<lparr> entries := AList.delete (hd (order c)) (entries c), order := tl (order c) \<rparr>)"
proof (cases "length (entries c) < sqlTranslationCacheLimit")
  case True
  then show ?thesis by (subst evict.simps) simp
next
  case False
  have full: "length (entries c) = sqlTranslationCacheLimit" using assms False by (simp add: cacheInv_def)
  then have "entries c \<noteq> []" by (auto simp: sqlTranslationCacheLimit_def)
  then obtain k ks where k: "order c = k # ks" using assms by (cases "order c") (auto simp: cacheInv_def)
  then have m: "k \<in> fst ` set (entries c)" using assms by (auto simp: cacheInv_def)
  then have "map_of (entries c) k \<noteq> None" by (simp add: map_of_eq_None_iff)
  moreover have "Suc (length (AList.delete k (entries c))) = length (entries c)"
    using assms m by (intro length_delete_key) (simp_all add: cacheInv_def)
  then have "length (AList.delete k (entries c)) < sqlTranslationCacheLimit" using full by simp
  then have "evict sqlTranslationCacheLimit (c\<lparr> entries := AList.delete k (entries c), order := ks \<rparr>) =
      c\<lparr> entries := AList.delete k (entries c), order := ks \<rparr>"
    by (subst evict.simps) simp
  ultimately show ?thesis using False k by (subst evict.simps) auto
qed

lemma evict_cacheInv:
  assumes "cacheInv c"
  shows "cacheInv (evict sqlTranslationCacheLimit c) \<and> length (entries (evict sqlTranslationCacheLimit c)) < sqlTranslationCacheLimit"
proof (cases "length (entries c) < sqlTranslationCacheLimit")
  case True
  then show ?thesis using assms by (simp add: evict_inv)
next
  case False
  then have "entries c \<noteq> []" by (auto simp: sqlTranslationCacheLimit_def)
  then obtain k ks where k: "order c = k # ks" using assms by (cases "order c") (auto simp: cacheInv_def)
  have "Suc (length (AList.delete k (entries c))) = length (entries c)"
    using assms k by (intro length_delete_key) (auto simp: cacheInv_def)
  moreover have "distinct (map fst (AList.delete k (entries c)))"
    using assms by (simp add: cacheInv_def distinct_delete)
  moreover have "fst ` set (AList.delete k (entries c)) = fst ` set (entries c) - {k}"
    unfolding list.set_map [symmetric] delete_keys by auto
  ultimately show ?thesis using assms k False
    by (auto simp: evict_inv cacheInv_def)
qed


lemma delete_key_subset: "fst ` set (AList.delete k es) \<subseteq> fst ` set es"
  unfolding list.set_map [symmetric] delete_keys by auto

lemma cacheStore_inv: "cacheInv c \<Longrightarrow> cacheInv (cacheStore c k v)"
proof (cases "map_of (entries c) k")
  case None
  let ?e = "evict sqlTranslationCacheLimit c"
  assume c: "cacheInv c"
  note e = evict_cacheInv [OF c]
  have "k \<notin> fst ` set (entries c)" using None by (simp add: map_of_eq_None_iff)
  moreover have "fst ` set (entries ?e) \<subseteq> fst ` set (entries c)"
    by (simp add: evict_inv [OF c] delete_key_subset)
  ultimately have k: "k \<notin> fst ` set (entries ?e)" by blast
  then have ks: "map fst (AList.update k v (entries ?e)) = map fst (entries ?e) @ [k]"
    by (simp add: update_keys)
  then have "distinct (map fst (AList.update k v (entries ?e)))"
    "fst ` set (AList.update k v (entries ?e)) = insert k (fst ` set (entries ?e))"
    "length (AList.update k v (entries ?e)) = Suc (length (entries ?e))"
    using e k unfolding list.set_map [symmetric]
    by (auto simp: cacheInv_def dest: arg_cong [where f = length])
  then show ?thesis using e k None by (auto simp: cacheStore_def cacheInv_def Let_def)
next
  case (Some w)
  assume c: "cacheInv c"
  have k: "k \<in> fst ` set (entries c)" using Some by (metis map_of_eq_None_iff option.distinct(1))
  have "map fst (AList.update k v (entries c)) = map fst (entries c)" using k by (simp add: update_keys)
  then have "distinct (map fst (AList.update k v (entries c)))"
    "fst ` set (AList.update k v (entries c)) = fst ` set (entries c)"
    "length (AList.update k v (entries c)) = length (entries c)"
    using c unfolding list.set_map [symmetric] by (auto simp: cacheInv_def dest: map_eq_imp_length_eq)
  then show ?thesis using c Some by (simp add: cacheStore_def cacheInv_def)
qed

lemma cacheStore_same: "cacheLookup (cacheStore c k v) k = Some v"
  by (simp add: cacheLookup_def cacheStore_def Let_def update_conv')

lemma cacheStore_other:
  assumes "cacheInv c" "k' \<noteq> k"
  shows "cacheLookup (cacheStore c k v) k' =
    (if cacheLookup c k = None \<and> length (entries c) = sqlTranslationCacheLimit \<and> k' = hd (order c)
     then None else cacheLookup c k')"
proof -
  have "length (entries c) < sqlTranslationCacheLimit \<or> length (entries c) = sqlTranslationCacheLimit"
    using assms(1) by (auto simp: cacheInv_def)
  then show ?thesis using assms(2)
    by (auto simp: cacheLookup_def cacheStore_def Let_def update_conv' evict_inv [OF assms(1)] delete_conv')
qed

interpretation fifo: bounded_cache cacheLookup cacheStore cacheInv
  by unfold_locales (simp_all add: cacheStore_inv cacheStore_same cacheStore_other)

subsection \<open>The translation cache\<close>

definition translateSQLCached :: "string cache \<Rightarrow> string \<Rightarrow> (string \<times> string cache) go" where
  "translateSQLCached c sqlText = cachedCall cacheLookup cacheStore translateSQL c sqlText"

definition translateSQLStatementsCached :: "string list cache \<Rightarrow> string \<Rightarrow> (string list \<times> string list cache) go" where
  "translateSQLStatementsCached c sqlText = cachedCall cacheLookup cacheStore translateSQLStatements c sqlText"

text \<open>
  \<open>cacheStore\<close> is a first-in first-out cache of at most 4096 entries. From a cache that lists
  each key once in its order, a store keeps that and the bound, makes the stored value found,
  and forgets at most one other key: the oldest, and only when the cache is full and the key is new.
\<close>

theorem cacheStore_fifo:
  assumes "cacheInv c"
  shows "cacheInv (cacheStore c k v) \<and> length (entries (cacheStore c k v)) \<le> 4096 \<and>
    cacheLookup (cacheStore c k v) k = Some v \<and>
    (\<forall>k'. k' \<noteq> k \<longrightarrow> cacheLookup (cacheStore c k v) k' =
      (if cacheLookup c k = None \<and> length (entries c) = 4096 \<and> k' = hd (order c) then None else cacheLookup c k'))"
  using cacheStore_inv [OF assms, of k v] cacheStore_same cacheStore_other [OF assms]
  by (simp add: sqlTranslationCacheLimit_def cacheInv_def)

theorem cacheStore_fifo_witness:
  "cacheInv (cacheStore \<lparr> entries = [(''a'', 1)], order = [''a''] \<rparr> ''b'' (2 :: nat))"
  using cacheStore_fifo [of "\<lparr> entries = [(''a'', 1)], order = [''a''] \<rparr>" "''b''" "2 :: nat"]
  by (simp add: cacheInv_def sqlTranslationCacheLimit_def)

text \<open>
  C17: caching is transparent under every interleaving. Starting from an empty cache, whatever the
  order in which any number of workers look up, compute and store, every answer of
  \<open>translateSQLStatementsCached\<close> is the value \<open>translateSQLStatements\<close> has for the worker's text,
  and the cache keeps its invariant, so never exceeds 4096 entries.
\<close>

theorem translation_cache_transparent:
  assumes "(cache_step cacheLookup cacheStore translateSQLStatements)\<^sup>*\<^sup>* (emptyCache, \<lambda>t. Asks (q t)) (c, ws)"
  shows "cacheInv c \<and> (\<forall>t sqlText out. ws t = Answers sqlText out \<longrightarrow> translateSQLStatements sqlText = Returns out)"
proof -
  have start: "cacheInv emptyCache" "fifo.sound translateSQLStatements emptyCache"
    by (simp_all add: emptyCache_def cacheInv_def fifo.sound_def cacheLookup_def)
  from fifo.cache_steps_sound [OF assms] start have "cacheInv c" "\<forall>t. workerSound translateSQLStatements (ws t)"
    by auto
  then show ?thesis by (metis workerSound.simps(4))
qed

theorem translation_cache_transparent_witness:
  "\<exists>c. cacheLookup c ''x'' = Some [''x''] \<and> cacheInv c \<and> translateSQLStatements ''x'' = Returns [''x'']"
proof -
  let ?step = "cache_step cacheLookup cacheStore translateSQLStatements"
  let ?c = "cacheStore emptyCache ''x'' [''x'']"
  let ?w = "\<lambda>t :: unit. Asks ''x''"
  have x: "translateSQLStatements ''x'' = Returns [''x'']" by code_simp
  have a: "?step (emptyCache, ?w) (emptyCache, ?w(() := Missed ''x''))"
    by (rule cache_step.miss) (simp_all add: cacheLookup_def emptyCache_def)
  have b: "?step (emptyCache, ?w(() := Missed ''x'')) (emptyCache, ?w(() := Missed ''x'', () := Computed ''x'' [''x'']))"
    by (rule cache_step.compute) (simp_all add: x)
  have c: "?step (emptyCache, ?w(() := Missed ''x'', () := Computed ''x'' [''x'']))
      (?c, ?w(() := Missed ''x'', () := Computed ''x'' [''x''], () := Answers ''x'' [''x'']))"
    by (rule cache_step.save) simp
  have "?step\<^sup>*\<^sup>* (emptyCache, ?w) (?c, ?w(() := Missed ''x'', () := Computed ''x'' [''x''], () := Answers ''x'' [''x'']))"
    using a b c by (meson converse_rtranclp_into_rtranclp r_into_rtranclp)
  from translation_cache_transparent [OF this]
  have "cacheInv ?c" "translateSQLStatements ''x'' = Returns [''x'']" by auto
  moreover have "cacheLookup ?c ''x'' = Some [''x'']"
    by (simp add: cacheLookup_def cacheStore_def emptyCache_def evict.simps sqlTranslationCacheLimit_def Let_def)
  ultimately show ?thesis by blast
qed

end
