(* ===== verification/Info_Cache.thy ===== *)
theory Info_Cache
  imports Caches Row_Codec
begin

text \<open>
  The information-schema cache (\<open>pkg/mysqlmock/information_schema_cache.go\<close>): which metadata has
  been loaded for which schema version, and two bounded caches of result sets under composed keys.
\<close>

subsection \<open>Keys\<close>

text \<open>\<open>%d\<close> of a length\<close>

fun itoa :: "nat \<Rightarrow> string" where
  "itoa n = (if n < 10 then [''0123456789'' ! n] else itoa (n div 10) @ [''0123456789'' ! (n mod 10)])"

declare itoa.simps [simp del]

definition writeInformationSchemaCacheKeyPart :: "string \<Rightarrow> string" where
  "writeInformationSchemaCacheKeyPart v = itoa (length v) @ '':'' @ v @ [CHR 0x00]"

text \<open>\<open>fmtArg\<close> is \<open>fmt.Sprintf("%T=%#v", arg, arg)\<close>.\<close>

definition informationSchemaQueryCacheKey :: "('a \<Rightarrow> string) \<Rightarrow> string \<Rightarrow> string \<Rightarrow> 'a list \<Rightarrow> string" where
  "informationSchemaQueryCacheKey fmtArg currentDB query args =
     writeInformationSchemaCacheKeyPart (ToLower currentDB) @
     writeInformationSchemaCacheKeyPart query @
     concat (map (\<lambda>arg. writeInformationSchemaCacheKeyPart (fmtArg arg)) args)"

definition canonicalInformationSchemaTableCacheKey :: "string \<Rightarrow> string" where
  "canonicalInformationSchemaTableCacheKey tableName = ToLower tableName"

definition showFullFieldsCacheKey :: "string \<Rightarrow> string \<Rightarrow> string \<Rightarrow> string \<Rightarrow> string" where
  "showFullFieldsCacheKey currentDB tableName likePattern collation =
     ToLower currentDB @ [CHR 0x00] @ canonicalInformationSchemaTableCacheKey tableName @ [CHR 0x00] @
     likePattern @ [CHR 0x00] @ ToLower collation"

fun digitsOf :: "nat \<Rightarrow> string \<Rightarrow> nat" where
  "digitsOf acc [] = acc"
| "digitsOf acc (c # r) = digitsOf (10 * acc + (of_char c - 48)) r"

lemma digitsOf_append: "digitsOf acc (s @ [c]) = 10 * digitsOf acc s + (of_char c - 48)"
  by (induction s arbitrary: acc) auto

lemma digit_value: "n < 10 \<Longrightarrow> of_char (''0123456789'' ! n) - 48 = n"
proof -
  assume "n < 10"
  then have "n \<in> {0, 1, 2, 3, 4, 5, 6, 7, 8, 9}" by auto
  then show ?thesis by auto
qed

lemma digit_not_colon: "n < 10 \<Longrightarrow> ''0123456789'' ! n \<noteq> CHR '':''"
proof -
  assume "n < 10"
  then have "n \<in> {0, 1, 2, 3, 4, 5, 6, 7, 8, 9}" by auto
  then show ?thesis by auto
qed

lemma digitsOf_itoa: "digitsOf 0 (itoa n) = n"
proof (induction n rule: itoa.induct)
  case (1 n)
  then show ?case
    using digit_value [of n] digit_value [of "n mod 10"]
    by (subst itoa.simps) (simp add: digitsOf_append)
qed

lemma itoa_no_colon: "CHR '':'' \<notin> set (itoa n)"
proof (induction n rule: itoa.induct)
  case (1 n)
  then show ?case
    using digit_not_colon [of n] digit_not_colon [of "n mod 10"] by (subst itoa.simps) auto
qed

lemma colon_split:
  "a @ CHR '':'' # x = b @ CHR '':'' # y \<Longrightarrow> CHR '':'' \<notin> set a \<Longrightarrow> CHR '':'' \<notin> set b \<Longrightarrow> a = b \<and> x = y"
proof (induction a arbitrary: b)
  case Nil
  then show ?case by (cases b) auto
next
  case (Cons c a)
  then show ?case by (cases b) auto
qed

lemma key_part_inject:
  assumes "writeInformationSchemaCacheKeyPart v @ x = writeInformationSchemaCacheKeyPart w @ y"
  shows "v = w \<and> x = y"
proof -
  have "itoa (length v) = itoa (length w) \<and> v @ CHR 0x00 # x = w @ CHR 0x00 # y"
    by (rule colon_split) (use assms in \<open>simp_all add: writeInformationSchemaCacheKeyPart_def itoa_no_colon\<close>)
  moreover from this have "length v = length w" by (metis digitsOf_itoa)
  ultimately show ?thesis by simp
qed

lemma key_part_nonempty: "writeInformationSchemaCacheKeyPart v @ x \<noteq> []"
  by (simp add: writeInformationSchemaCacheKeyPart_def)

lemma key_parts_inject:
  "concat (map (\<lambda>arg. writeInformationSchemaCacheKeyPart (g arg)) as) =
   concat (map (\<lambda>arg. writeInformationSchemaCacheKeyPart (g arg)) bs) \<Longrightarrow> map g as = map g bs"
proof (induction as arbitrary: bs)
  case Nil
  then show ?case by (cases bs) (auto simp: writeInformationSchemaCacheKeyPart_def)
next
  case (Cons a as)
  then obtain b bs' where bs: "bs = b # bs'"
    using key_part_nonempty by (cases bs) auto
  have "writeInformationSchemaCacheKeyPart (g a) @ concat (map (\<lambda>arg. writeInformationSchemaCacheKeyPart (g arg)) as) =
      writeInformationSchemaCacheKeyPart (g b) @ concat (map (\<lambda>arg. writeInformationSchemaCacheKeyPart (g arg)) bs')"
    using Cons.prems bs by simp
  from key_part_inject [OF this] Cons.IH bs show ?case by simp
qed

text \<open>
  two information-schema queries share a cache entry only if they are the same query: the
  composed key determines the database up to case, the text and the printed form of every
  argument, whatever bytes these contain.
\<close>

theorem query_cache_key_injective:
  assumes "informationSchemaQueryCacheKey fmtArg db query args = informationSchemaQueryCacheKey fmtArg db' query' args'"
  shows "ToLower db = ToLower db' \<and> query = query' \<and> map fmtArg args = map fmtArg args'"
  using assms unfolding informationSchemaQueryCacheKey_def
  by (auto dest!: key_part_inject dest: key_parts_inject)

theorem query_cache_key_injective_witness:
  "ToLower ''Db'' = ToLower ''dB'' \<and> ''q'' = ''q'' \<and> map (\<lambda>n. itoa n) [1, 2] = map (\<lambda>n. itoa n) [1, 2]"
  by (rule query_cache_key_injective)
     (simp add: informationSchemaQueryCacheKey_def ToLower_def lower_byte_def)

subsection \<open>The cache\<close>

record informationSchemaTableCacheEntry =
  tableVersion :: "64 word"
  tableExistsFlag :: bool

record resultSet =
  Columns :: "resultColumn list"
  Rows :: "goValue list list"

record informationSchemaResultSetCacheEntry =
  entryVersion :: "64 word"
  entryResult :: resultSet

record informationSchemaCache =
  fullLoaded :: bool
  fullVersion :: "64 word"
  schemataLoaded :: bool
  schemataVersion :: "64 word"
  tableListLoaded :: bool
  tableListVersion :: "64 word"
  tables :: "string \<Rightarrow> informationSchemaTableCacheEntry option"
  showFullFields :: "informationSchemaResultSetCacheEntry cache"
  queryResults :: "informationSchemaResultSetCacheEntry cache"

definition newInformationSchemaCache :: informationSchemaCache where
  "newInformationSchemaCache = \<lparr> fullLoaded = False, fullVersion = 0, schemataLoaded = False, schemataVersion = 0,
     tableListLoaded = False, tableListVersion = 0, tables = Map.empty,
     showFullFields = emptyCache, queryResults = emptyCache \<rparr>"

definition hasFullRefresh :: "informationSchemaCache \<Rightarrow> 64 word \<Rightarrow> bool" where
  "hasFullRefresh c version = (fullLoaded c \<and> fullVersion c = version)"

definition markFullRefresh :: "64 word \<Rightarrow> informationSchemaCache \<Rightarrow> informationSchemaCache" where
  "markFullRefresh version c = c\<lparr> fullLoaded := True, fullVersion := version, tables := Map.empty \<rparr>"

definition hasSchemataRefresh :: "informationSchemaCache \<Rightarrow> 64 word \<Rightarrow> bool" where
  "hasSchemataRefresh c version = (hasFullRefresh c version \<or> (schemataLoaded c \<and> schemataVersion c = version))"

definition markSchemataRefresh :: "64 word \<Rightarrow> informationSchemaCache \<Rightarrow> informationSchemaCache" where
  "markSchemataRefresh version c = c\<lparr> schemataLoaded := True, schemataVersion := version \<rparr>"

definition hasTableListRefresh :: "informationSchemaCache \<Rightarrow> 64 word \<Rightarrow> bool" where
  "hasTableListRefresh c version = (hasFullRefresh c version \<or> (tableListLoaded c \<and> tableListVersion c = version))"

definition markTableListRefresh :: "64 word \<Rightarrow> informationSchemaCache \<Rightarrow> informationSchemaCache" where
  "markTableListRefresh version c = (markSchemataRefresh version c)\<lparr> tableListLoaded := True, tableListVersion := version \<rparr>"

text \<open>\<open>None\<close> is the pair \<open>(false, false)\<close>: nothing known.\<close>

definition cachedTableExists :: "informationSchemaCache \<Rightarrow> string \<Rightarrow> 64 word \<Rightarrow> bool option" where
  "cachedTableExists c tableName version =
     (case tables c (canonicalInformationSchemaTableCacheKey tableName) of
        None \<Rightarrow> None
      | Some e \<Rightarrow> if tableVersion e \<noteq> version then None else Some (tableExistsFlag e))"

definition markTable :: "string \<Rightarrow> 64 word \<Rightarrow> bool \<Rightarrow> informationSchemaCache \<Rightarrow> informationSchemaCache" where
  "markTable tableName version there c =
     c\<lparr> tables := (tables c)(canonicalInformationSchemaTableCacheKey tableName \<mapsto>
          \<lparr> tableVersion = version, tableExistsFlag = there \<rparr>) \<rparr>"

text \<open>\<open>cloneResultSet\<close> copies the columns and every row; values here have no identity.\<close>

definition cloneResultSet :: "resultSet \<Rightarrow> resultSet" where
  "cloneResultSet rs = \<lparr> Columns = map (\<lambda>c. c) (Columns rs), Rows = map (\<lambda>row. map (\<lambda>v. v) row) (Rows rs) \<rparr>"

definition versionedLookup :: "informationSchemaResultSetCacheEntry cache \<Rightarrow> string \<Rightarrow> 64 word \<Rightarrow> resultSet option" where
  "versionedLookup items key version =
     (case cacheLookup items key of
        None \<Rightarrow> None
      | Some e \<Rightarrow> if entryVersion e \<noteq> version then None else Some (cloneResultSet (entryResult e)))"

definition versionedStore ::
    "string \<Rightarrow> 64 word \<Rightarrow> resultSet \<Rightarrow> informationSchemaResultSetCacheEntry cache \<Rightarrow> informationSchemaResultSetCacheEntry cache" where
  "versionedStore key version result items =
     cacheStore items key \<lparr> entryVersion = version, entryResult = cloneResultSet result \<rparr>"

definition showFullFieldsResult ::
    "informationSchemaCache \<Rightarrow> string \<Rightarrow> string \<Rightarrow> string \<Rightarrow> string \<Rightarrow> 64 word \<Rightarrow> resultSet option" where
  "showFullFieldsResult c currentDB tableName likePattern collation version =
     versionedLookup (showFullFields c) (showFullFieldsCacheKey currentDB tableName likePattern collation) version"

definition markShowFullFieldsResult ::
    "string \<Rightarrow> string \<Rightarrow> string \<Rightarrow> string \<Rightarrow> 64 word \<Rightarrow> resultSet \<Rightarrow> informationSchemaCache \<Rightarrow> informationSchemaCache" where
  "markShowFullFieldsResult currentDB tableName likePattern collation version result c =
     c\<lparr> showFullFields := versionedStore (showFullFieldsCacheKey currentDB tableName likePattern collation)
          version result (showFullFields c) \<rparr>"

definition queryResult :: "informationSchemaCache \<Rightarrow> string \<Rightarrow> 64 word \<Rightarrow> resultSet option" where
  "queryResult c key version = versionedLookup (queryResults c) key version"

definition markQueryResult :: "string \<Rightarrow> 64 word \<Rightarrow> resultSet \<Rightarrow> informationSchemaCache \<Rightarrow> informationSchemaCache" where
  "markQueryResult key version result c =
     c\<lparr> queryResults := versionedStore key version result (queryResults c) \<rparr>"

lemma cloneResultSet_id [simp]: "cloneResultSet rs = rs"
  by (simp add: cloneResultSet_def)

text \<open>Every entry holds the result of its key at its version.\<close>

definition resultsSound :: "(string \<Rightarrow> 64 word \<Rightarrow> resultSet) \<Rightarrow> informationSchemaCache \<Rightarrow> bool" where
  "resultsSound f c = (cacheInv (queryResults c) \<and>
     (\<forall>key e. cacheLookup (queryResults c) key = Some e \<longrightarrow> entryResult e = f key (entryVersion e)))"

lemma markQueryResult_sound:
  assumes "resultsSound f c"
  shows "resultsSound f (markQueryResult key version (f key version) c)"
proof -
  let ?e = "\<lparr> entryVersion = version, entryResult = f key version \<rparr>"
  have inv: "cacheInv (queryResults c)"
    and old: "\<And>k e. cacheLookup (queryResults c) k = Some e \<Longrightarrow> entryResult e = f k (entryVersion e)"
    using assms by (simp_all add: resultsSound_def)
  have "entryResult e = f k (entryVersion e)" if "cacheLookup (cacheStore (queryResults c) key ?e) k = Some e" for k e
  proof (cases "k = key")
    case True
    then show ?thesis using that by (auto simp: cacheStore_same)
  next
    case False
    then show ?thesis using that old by (simp add: cacheStore_other [OF inv] split: if_splits)
  qed
  then show ?thesis using cacheStore_inv [OF inv]
    by (simp add: resultsSound_def markQueryResult_def versionedStore_def)
qed

text \<open>
  C32: no stale metadata. If each stored result is the answer to its key at its schema version,
  then after any sequence of stores, with any evictions, a hit at a version is the answer at that
  version; and a store is found at its own version and at no other.
\<close>

theorem query_results_never_stale:
  defines "run f marks \<equiv> fold (\<lambda>(key, version). markQueryResult key version (f key version)) marks newInformationSchemaCache"
  shows "(queryResult (run f marks) key version = Some rs \<longrightarrow> rs = f key version) \<and>
    queryResult (markQueryResult key version rs' (run f marks)) key version' =
      (if version' = version then Some rs' else None)"
proof -
  have "resultsSound f (run f marks)"
  proof (induction marks rule: rev_induct)
    case Nil
    then show ?case
      by (simp add: assms(1) resultsSound_def newInformationSchemaCache_def emptyCache_def cacheInv_def cacheLookup_def)
  next
    case (snoc m ms)
    then show ?case using markQueryResult_sound by (cases m) (simp add: assms(1))
  qed
  then show ?thesis
    by (simp add: resultsSound_def queryResult_def versionedLookup_def markQueryResult_def versionedStore_def
        cacheStore_same split: option.split)
qed

theorem query_results_never_stale_witness:
  defines "f \<equiv> (\<lambda>key version. \<lparr> Columns = [], Rows = [[GoString (ascii key)]] \<rparr>)"
  shows "queryResult (markQueryResult ''k'' 3 (f ''k'' 3)
      (fold (\<lambda>(key, version). markQueryResult key version (f key version)) [(''k'', 2)] newInformationSchemaCache)) ''k'' 2 = None"
  using query_results_never_stale [of f "[(''k'', 2)]" "''k''" 3 "f ''k'' 3" "f ''k'' 3" 2] by (simp add: f_def)

end
