(* ===== verification/Rules.thy ===== *)
theory Rules
  imports Info_Cache Reply_Packets
begin

text \<open>
  Response rules (\<open>pkg/mysqlmock/rules.go\<close>): validating and preparing the configured rules, matching
  a query against them in order, one-shot rules, and the responses they give.

  Regular expressions and \<open>fmt.Sprint\<close> are Go's: \<open>compile\<close> gives for a pattern its matcher, or
  nothing when it does not compile, and \<open>sprint\<close> the printed form of a value.
\<close>

subsection \<open>Configuration\<close>

text \<open>A value read from YAML: a scalar, a list or a mapping.\<close>

datatype ruleAny = RVal goValue | RList "ruleAny list" | RMap "(string \<times> ruleAny) list"

record RuleRequestConfig =
  reqMatch :: string
  reqSQL :: string
  reqParams :: "ruleAny list option"

record RuleColumnConfig =
  colName :: string
  colType :: string

record RuleResponseConfig =
  respProfile :: string
  respType :: string
  respColumns :: "RuleColumnConfig list"
  respRowFormat :: string
  respRows :: "ruleAny list"
  respAffectedRows :: "64 word"
  respLastInsertID :: "64 word"
  respWarnings :: "16 word"
  respCode :: "16 word"
  respSQLState :: string
  respMessage :: string
  respDelayMS :: int
  respAfterMS :: int
  respOnce :: bool

record RuleConfig =
  ruleName :: string
  ruleRequest :: RuleRequestConfig
  ruleResponse :: RuleResponseConfig

datatype rule_error =
    UnsupportedMatch string
  | InvalidRegex string
  | UnsupportedColumnType string
  | UnsupportedRowFormat string
  | RowCountMismatch nat nat
  | MissingColumn string
  | UnsupportedRow
  | UnsupportedProfile string
  | ProfileNeedsType string string
  | SQLRequired string
  | NegativeDelay
  | NegativeAfter
  | ColumnsRequired
  | ColumnNameRequired nat
  | InvalidResultSet rule_error
  | UnsupportedResponseType string
  | RowError nat rule_error
  | RuleError nat rule_error

subsection \<open>Profiles\<close>

record ruleResponseProfile =
  profType :: string
  profCode :: "16 word"
  profSQLState :: string
  profMessage :: string

definition ruleResponseProfiles :: "string \<Rightarrow> ruleResponseProfile option" where
  "ruleResponseProfiles name =
     (if name = ''deadlock'' then
        Some \<lparr> profType = ''error'', profCode = 1213, profSQLState = ''40001'',
               profMessage = ''Deadlock found when trying to get lock; try restarting transaction'' \<rparr>
      else if name = ''lock_wait_timeout'' then
        Some \<lparr> profType = ''error'', profCode = 1205, profSQLState = ''HY000'',
               profMessage = ''Lock wait timeout exceeded; try restarting transaction'' \<rparr>
      else if name = ''duplicate_key'' then
        Some \<lparr> profType = ''error'', profCode = 1062, profSQLState = ''23000'',
               profMessage = ''Duplicate entry for key '' @ [sq] @ ''mysqlmock'' @ [sq] \<rparr>
      else if name = ''foreign_key_violation'' then
        Some \<lparr> profType = ''error'', profCode = 1452, profSQLState = ''23000'',
               profMessage = ''Cannot add or update a child row: a foreign key constraint fails'' \<rparr>
      else if name = ''disconnect'' then
        Some \<lparr> profType = ''disconnect'', profCode = 0, profSQLState = [], profMessage = [] \<rparr>
      else None)"

definition lookupRuleResponseProfile :: "string \<Rightarrow> ruleResponseProfile option" where
  "lookupRuleResponseProfile name0 =
     (let name = ToLower (TrimSpace name0) in if name = [] then None else ruleResponseProfiles name)"

definition applyRuleResponseProfile :: "RuleResponseConfig \<Rightarrow> RuleResponseConfig" where
  "applyRuleResponseProfile resp =
     (case lookupRuleResponseProfile (respProfile resp) of
        None \<Rightarrow> resp
      | Some p \<Rightarrow> resp\<lparr> respType := (if respType resp = [] then profType p else respType resp),
                       respCode := (if respCode resp = 0 then profCode p else respCode resp),
                       respSQLState := (if respSQLState resp = [] then profSQLState p else respSQLState resp),
                       respMessage := (if respMessage resp = [] then profMessage p else respMessage resp) \<rparr>)"

subsection \<open>Result sets of a rule\<close>

definition ruleColumnFieldType :: "string \<Rightarrow> byte option" where
  "ruleColumnFieldType typeName =
     (let t = ToUpper (TrimSpace typeName) in
      if t \<in> {[], ''CHAR'', ''VARCHAR'', ''TEXT'', ''STRING''} then Some 0xfd
      else if t \<in> {''TINYINT'', ''BOOL'', ''BOOLEAN''} then Some 0x01
      else if t = ''SMALLINT'' then Some 0x02
      else if t \<in> {''INT'', ''INTEGER'', ''MEDIUMINT''} then Some 0x03
      else if t = ''BIGINT'' then Some 0x08
      else if t = ''FLOAT'' then Some 0x04
      else if t \<in> {''DOUBLE'', ''REAL''} then Some 0x05
      else if t \<in> {''DECIMAL'', ''NUMERIC''} then Some 0x00
      else if t = ''DATE'' then Some 0x0a
      else if t = ''NEWDATE'' then Some 0x0e
      else if t = ''TIME'' then Some 0x0b
      else if t = ''DATETIME'' then Some 0x0c
      else if t = ''TIMESTAMP'' then Some 0x07
      else if t = ''TINYBLOB'' then Some 0xf9
      else if t = ''MEDIUMBLOB'' then Some 0xfa
      else if t = ''LONGBLOB'' then Some 0xfb
      else if t \<in> {''BLOB'', ''BINARY'', ''VARBINARY''} then Some 0xfc
      else if t = ''JSON'' then Some 0xf5
      else if t = ''ENUM'' then Some 0xf7
      else if t = ''SET'' then Some 0xf8
      else if t = ''GEOMETRY'' then Some 0xff
      else None)"

definition isRuleObjectRow :: "ruleAny \<Rightarrow> bool" where
  "isRuleObjectRow row = (case row of RMap _ \<Rightarrow> True | _ \<Rightarrow> False)"

definition ruleObjectRowLookup :: "ruleAny \<Rightarrow> string \<Rightarrow> ruleAny option" where
  "ruleObjectRowLookup row key = (case row of RMap m \<Rightarrow> map_of m key | _ \<Rightarrow> None)"

fun ruleObjectRowValues :: "RuleColumnConfig list \<Rightarrow> ruleAny \<Rightarrow> rule_error + ruleAny list" where
  "ruleObjectRowValues [] row = Inr []"
| "ruleObjectRowValues (col # cols) row =
     (case ruleObjectRowLookup row (colName col) of
        None \<Rightarrow> Inl (MissingColumn (colName col))
      | Some v \<Rightarrow> map_sum id (Cons v) (ruleObjectRowValues cols row))"

definition ruleRowValues :: "string \<Rightarrow> RuleColumnConfig list \<Rightarrow> ruleAny \<Rightarrow> rule_error + ruleAny list" where
  "ruleRowValues rowFormat columns row =
     (if rowFormat \<noteq> [] \<and> rowFormat \<noteq> ''array'' \<and> rowFormat \<noteq> ''object'' then Inl (UnsupportedRowFormat rowFormat)
      else if rowFormat = ''object'' then ruleObjectRowValues columns row
      else (case row of
          RList vs \<Rightarrow>
            if length vs \<noteq> length columns then Inl (RowCountMismatch (length vs) (length columns)) else Inr vs
        | _ \<Rightarrow>
            if isRuleObjectRow row then ruleObjectRowValues columns row
            else if length columns = 1 then Inr [row]
            else Inl UnsupportedRow))"

text \<open>A loop whose body may fail, with the index of the round in the error.\<close>

fun collect :: "nat \<Rightarrow> ('a \<Rightarrow> rule_error + 'b) \<Rightarrow> 'a list \<Rightarrow> rule_error + 'b list" where
  "collect i f [] = Inr []"
| "collect i f (x # xs) =
     (case f x of Inl e \<Rightarrow> Inl (RowError i e) | Inr y \<Rightarrow> map_sum id (Cons y) (collect (Suc i) f xs))"

fun ruleColumns :: "RuleColumnConfig list \<Rightarrow> rule_error + resultColumn list" where
  "ruleColumns [] = Inr []"
| "ruleColumns (col # cols) =
     (case ruleColumnFieldType (colType col) of
        None \<Rightarrow> Inl (UnsupportedColumnType (colType col))
      | Some t \<Rightarrow> map_sum id (Cons \<lparr> Name = ascii (colName col), Type = t, ZeroFillWidth = 0 \<rparr>) (ruleColumns cols))"

definition buildRuleResultSet :: "RuleResponseConfig \<Rightarrow> rule_error + (resultColumn list \<times> ruleAny list list)" where
  "buildRuleResultSet resp =
     (case ruleColumns (respColumns resp) of
        Inl e \<Rightarrow> Inl e
      | Inr columns \<Rightarrow>
          map_sum id (\<lambda>rows. (columns, rows))
            (collect 0 (ruleRowValues (respRowFormat resp) (respColumns resp)) (respRows resp)))"

subsection \<open>Validation and preparation\<close>

definition validateRuleConfig :: "(string \<Rightarrow> (string \<Rightarrow> bool) option) \<Rightarrow> RuleConfig \<Rightarrow> rule_error option" where
  "validateRuleConfig compile rule =
     (let resp = ruleResponse rule; req = ruleRequest rule;
          profile = lookupRuleResponseProfile (respProfile resp);
          match = (if reqMatch req = [] then ''exact'' else reqMatch req);
          checked = (if respProfile resp = [] then Inr (respType resp)
            else (case profile of
                None \<Rightarrow> Inl (UnsupportedProfile (respProfile resp))
              | Some p \<Rightarrow>
                  if respType resp \<noteq> [] \<and> respType resp \<noteq> profType p
                  then Inl (ProfileNeedsType (respProfile resp) (profType p))
                  else Inr (if respType resp = [] then profType p else respType resp)))
      in case checked of
           Inl e \<Rightarrow> Some e
         | Inr responseType \<Rightarrow>
             if match \<in> {''exact'', ''normalized'', ''regex'', ''contains''} \<and> reqSQL req = [] then Some (SQLRequired match)
             else if match \<notin> {''exact'', ''normalized'', ''regex'', ''contains'', ''any''} then Some (UnsupportedMatch match)
             else if match = ''regex'' \<and> compile (reqSQL req) = None then Some (InvalidRegex (reqSQL req))
             else if respDelayMS resp < 0 then Some NegativeDelay
             else if respAfterMS resp < 0 then Some NegativeAfter
             else if responseType = ''result_set'' then
               (if respColumns resp = [] then Some ColumnsRequired
                else (case find (\<lambda>i. colName (respColumns resp ! i) = []) [0..<length (respColumns resp)] of
                    Some i \<Rightarrow> Some (ColumnNameRequired i)
                  | None \<Rightarrow> (case buildRuleResultSet resp of
                      Inl e \<Rightarrow> Some (InvalidResultSet e) | Inr _ \<Rightarrow> None)))
             else if responseType \<in> {''ok'', ''error'', ''disconnect''} then None
             else Some (UnsupportedResponseType responseType))"

record preparedRule =
  prepConfig :: RuleConfig
  prepMatch :: string
  prepNormalizedSQL :: string
  prepRegex :: "string \<Rightarrow> bool"

definition prepareRule :: "(string \<Rightarrow> (string \<Rightarrow> bool) option) \<Rightarrow> RuleConfig \<Rightarrow> rule_error + preparedRule" where
  "prepareRule compile rule =
     (let req = ruleRequest rule;
          match = (if reqMatch req = [] then ''exact'' else reqMatch req);
          prepared = \<lparr> prepConfig = rule, prepMatch = match, prepNormalizedSQL = [], prepRegex = (\<lambda>_. False) \<rparr>
      in if match \<in> {''exact'', ''contains'', ''any''} then Inr prepared
         else if match = ''normalized'' then Inr (prepared\<lparr> prepNormalizedSQL := normalizeSQL (reqSQL req) \<rparr>)
         else if match = ''regex'' then
           (case compile (reqSQL req) of
              None \<Rightarrow> Inl (InvalidRegex (reqSQL req))
            | Some r \<Rightarrow> Inr (prepared\<lparr> prepRegex := r \<rparr>))
         else Inl (UnsupportedMatch (reqMatch req)))"

fun prepareRulesFrom :: "(string \<Rightarrow> (string \<Rightarrow> bool) option) \<Rightarrow> nat \<Rightarrow> RuleConfig list \<Rightarrow> rule_error + preparedRule list" where
  "prepareRulesFrom compile i [] = Inr []"
| "prepareRulesFrom compile i (rule # rules) =
     (case prepareRule compile rule of
        Inl e \<Rightarrow> Inl (RuleError i e)
      | Inr p \<Rightarrow> map_sum id (Cons p) (prepareRulesFrom compile (Suc i) rules))"

definition prepareRules :: "(string \<Rightarrow> (string \<Rightarrow> bool) option) \<Rightarrow> RuleConfig list \<Rightarrow> rule_error + preparedRule list" where
  "prepareRules compile rules = prepareRulesFrom compile 0 rules"

subsection \<open>Matching\<close>

text \<open>A \<open>[]byte\<close> is compared as a string.\<close>

definition bytesAsString :: "ruleAny \<Rightarrow> ruleAny" where
  "bytesAsString v = (case v of RVal (GoBytes b) \<Rightarrow> RVal (GoString b) | _ \<Rightarrow> v)"

definition ruleValueEqual :: "(ruleAny \<Rightarrow> bytes) \<Rightarrow> ruleAny \<Rightarrow> ruleAny \<Rightarrow> bool" where
  "ruleValueEqual sprint want got =
     (if want = RVal GoNil \<or> got = RVal GoNil then want = got
      else sprint (bytesAsString want) = sprint (bytesAsString got))"

definition ruleParamsMatch :: "(ruleAny \<Rightarrow> bytes) \<Rightarrow> ruleAny list option \<Rightarrow> ruleAny list \<Rightarrow> bool" where
  "ruleParamsMatch sprint want got =
     (case want of
        None \<Rightarrow> True
      | Some ws \<Rightarrow> length ws = length got \<and> list_all2 (ruleValueEqual sprint) ws got)"

text \<open>\<open>ruleMatchCache\<close> keeps the normalised query from the first rule that needs it.\<close>

definition cacheNormalized :: "string option \<Rightarrow> string \<Rightarrow> string \<times> string option" where
  "cacheNormalized cache sqlText =
     (case cache of Some n \<Rightarrow> (n, cache) | None \<Rightarrow> (normalizeSQL sqlText, Some (normalizeSQL sqlText)))"

definition ruleMatchesQuery ::
    "(ruleAny \<Rightarrow> bytes) \<Rightarrow> preparedRule \<Rightarrow> string \<Rightarrow> ruleAny list \<Rightarrow> string option \<Rightarrow> rule_error + (bool \<times> string option)" where
  "ruleMatchesQuery sprint r sqlText args cache =
     (let req = ruleRequest (prepConfig r) in
      if \<not> ruleParamsMatch sprint (reqParams req) args then Inr (False, cache)
      else if prepMatch r = ''exact'' then Inr (sqlText = reqSQL req, cache)
      else if prepMatch r = ''normalized'' then
        (let (n, cache') = cacheNormalized cache sqlText in Inr (EqualFold n (prepNormalizedSQL r), cache'))
      else if prepMatch r = ''regex'' then Inr (prepRegex r sqlText, cache)
      else if prepMatch r = ''contains'' then Inr (Contains sqlText (reqSQL req), cache)
      else if prepMatch r = ''any'' then Inr (True, cache)
      else Inl (UnsupportedMatch (reqMatch req)))"

text \<open>
  One round of \<open>matchRule\<close>'s loop, for the rule of index \<open>i\<close>; \<open>used\<close> is \<open>ruleOnceUsed\<close>. The test and
  the setting of the mark are one step: the code holds \<open>s.mu\<close> around them.
\<close>

definition tryRule ::
    "(ruleAny \<Rightarrow> bytes) \<Rightarrow> nat \<Rightarrow> preparedRule \<Rightarrow> string \<Rightarrow> ruleAny list \<Rightarrow> string option \<Rightarrow> nat set
     \<Rightarrow> rule_error + (bool \<times> string option \<times> nat set)" where
  "tryRule sprint i r sqlText args cache used =
     (case ruleMatchesQuery sprint r sqlText args cache of
        Inl e \<Rightarrow> Inl e
      | Inr (matched, cache') \<Rightarrow>
          if \<not> matched then Inr (False, cache', used)
          else if respOnce (ruleResponse (prepConfig r)) then
            (if i \<in> used then Inr (False, cache', used) else Inr (True, cache', insert i used))
          else Inr (True, cache', used))"

fun matchRuleFrom ::
    "(ruleAny \<Rightarrow> bytes) \<Rightarrow> nat \<Rightarrow> preparedRule list \<Rightarrow> string \<Rightarrow> ruleAny list \<Rightarrow> string option \<Rightarrow> nat set
     \<Rightarrow> rule_error + ((nat \<times> RuleConfig) option \<times> nat set)" where
  "matchRuleFrom sprint i [] sqlText args cache used = Inr (None, used)"
| "matchRuleFrom sprint i (r # rs) sqlText args cache used =
     (case tryRule sprint i r sqlText args cache used of
        Inl e \<Rightarrow> Inl e
      | Inr (answers, cache', used') \<Rightarrow>
          if answers then Inr (Some (i, prepConfig r), used')
          else matchRuleFrom sprint (Suc i) rs sqlText args cache' used')"

definition matchRule ::
    "(ruleAny \<Rightarrow> bytes) \<Rightarrow> preparedRule list \<Rightarrow> string \<Rightarrow> ruleAny list \<Rightarrow> nat set
     \<Rightarrow> rule_error + ((nat \<times> RuleConfig) option \<times> nat set)" where
  "matchRule sprint rules sqlText args used = matchRuleFrom sprint 0 rules sqlText args None used"

text \<open>What a matched rule answers; the two delays come back as milliseconds to wait.\<close>

datatype ruleAnswer =
    RuleOK okResult
  | RuleRows "resultColumn list" "ruleAny list list"
  | RuleErr mysqlError
  | RuleDisconnect int
  | RuleBuildError rule_error

definition ruleAnswerOf :: "RuleConfig \<Rightarrow> ruleAnswer" where
  "ruleAnswerOf rule =
     (let resp = ruleResponse rule in
      if respType resp = ''ok'' then
        RuleOK \<lparr> AffectedRows = respAffectedRows resp, LastInsertID = respLastInsertID resp, Warnings = respWarnings resp \<rparr>
      else if respType resp = ''result_set'' then
        (case buildRuleResultSet resp of Inl e \<Rightarrow> RuleBuildError e | Inr (cols, rows) \<Rightarrow> RuleRows cols rows)
      else if respType resp = ''error'' then RuleErr (errPacket (respCode resp) (respSQLState resp) (respMessage resp))
      else if respType resp = ''disconnect'' then RuleDisconnect (respAfterMS resp)
      else RuleErr (errPacket 1105 ''HY000'' (''Unsupported rule response type: '' @ respType resp)))"

definition executeRule ::
    "(ruleAny \<Rightarrow> bytes) \<Rightarrow> preparedRule list \<Rightarrow> string \<Rightarrow> ruleAny list \<Rightarrow> nat set
     \<Rightarrow> rule_error + ((int \<times> ruleAnswer) option \<times> nat set)" where
  "executeRule sprint rules sqlText args used =
     map_sum id (apfst (map_option (\<lambda>(i, rule). (respDelayMS (ruleResponse rule), ruleAnswerOf rule))))
       (matchRule sprint rules sqlText args used)"

subsection \<open>What a rule matches\<close>

text \<open>The meaning of \<open>request\<close>, read off the configuration alone.\<close>

definition requestMatches ::
    "(string \<Rightarrow> (string \<Rightarrow> bool) option) \<Rightarrow> (ruleAny \<Rightarrow> bytes) \<Rightarrow> RuleRequestConfig \<Rightarrow> string \<Rightarrow> ruleAny list \<Rightarrow> bool" where
  "requestMatches compile sprint req sqlText args =
     (ruleParamsMatch sprint (reqParams req) args \<and>
      (reqMatch req \<in> {[], ''exact''} \<and> sqlText = reqSQL req
       \<or> reqMatch req = ''normalized'' \<and> EqualFold (normalizeSQL sqlText) (normalizeSQL (reqSQL req))
       \<or> reqMatch req = ''regex'' \<and> (\<exists>m. compile (reqSQL req) = Some m \<and> m sqlText)
       \<or> reqMatch req = ''contains'' \<and> Contains sqlText (reqSQL req)
       \<or> reqMatch req = ''any''))"

definition cacheAgrees :: "string option \<Rightarrow> string \<Rightarrow> bool" where
  "cacheAgrees cache sqlText = (cache = None \<or> cache = Some (normalizeSQL sqlText))"

lemma cacheNormalized_agrees:
  "cacheAgrees cache sqlText \<Longrightarrow> cacheNormalized cache sqlText = (normalizeSQL sqlText, Some (normalizeSQL sqlText))"
  by (auto simp: cacheAgrees_def cacheNormalized_def)

lemma prepareRule_config: "prepareRule compile rule = Inr p \<Longrightarrow> prepConfig p = rule"
  by (auto simp: prepareRule_def Let_def split: if_splits option.splits)

lemma prepared_matches:
  assumes "prepareRule compile rule = Inr p" and "cacheAgrees cache sqlText"
  shows "\<exists>cache'. cacheAgrees cache' sqlText \<and>
    ruleMatchesQuery sprint p sqlText args cache = Inr (requestMatches compile sprint (ruleRequest rule) sqlText args, cache')"
proof -
  let ?r = "ruleRequest rule" let ?m = "reqMatch (ruleRequest rule)"
  have c: "prepConfig p = rule" by (rule prepareRule_config [OF assms(1)])
  have n: "cacheAgrees (Some (normalizeSQL sqlText)) sqlText" by (simp add: cacheAgrees_def)
  consider (e) "?m = [] \<or> ?m = ''exact''" | (c) "?m = ''contains''" | (a) "?m = ''any''"
    | (n) "?m = ''normalized''" | (r) "?m = ''regex''"
    using assms(1) by (simp add: prepareRule_def Let_def split: if_split_asm) blast+
  then show ?thesis
  proof cases
    case e
    then have "prepMatch p = ''exact''" using assms(1) by (auto simp: prepareRule_def Let_def)
    with e show ?thesis using assms(2) by (auto simp: ruleMatchesQuery_def c Let_def requestMatches_def)
  next
    case c
    then have "prepMatch p = ''contains''" using assms(1) by (auto simp: prepareRule_def Let_def)
    with c show ?thesis using assms(2) by (auto simp: ruleMatchesQuery_def \<open>prepConfig p = rule\<close> Let_def requestMatches_def)
  next
    case a
    then have "prepMatch p = ''any''" using assms(1) by (auto simp: prepareRule_def Let_def)
    with a show ?thesis using assms(2) by (auto simp: ruleMatchesQuery_def c Let_def requestMatches_def)
  next
    case n
    then have "prepMatch p = ''normalized''" "prepNormalizedSQL p = normalizeSQL (reqSQL ?r)"
      using assms(1) by (auto simp: prepareRule_def Let_def)
    with n show ?thesis using assms(2) \<open>cacheAgrees (Some _) _\<close>
      by (auto simp: ruleMatchesQuery_def c Let_def requestMatches_def cacheNormalized_agrees)
  next
    case r
    then obtain m where "compile (reqSQL ?r) = Some m" "prepMatch p = ''regex''" "prepRegex p = m"
      using assms(1) by (auto simp: prepareRule_def Let_def split: option.splits)
    with r show ?thesis using assms(2) by (auto simp: ruleMatchesQuery_def c Let_def requestMatches_def)
  qed
qed

lemma prepareRulesFrom_nth:
  "prepareRulesFrom compile i cfgs = Inr rules \<Longrightarrow>
     length rules = length cfgs \<and> (\<forall>k < length cfgs. prepareRule compile (cfgs ! k) = Inr (rules ! k))"
proof (induction cfgs arbitrary: i rules)
  case (Cons c cfgs)
  then obtain p ps where p: "prepareRule compile c = Inr p" "prepareRulesFrom compile (Suc i) cfgs = Inr ps"
      and r: "rules = p # ps"
    by (cases "prepareRule compile c"; cases "prepareRulesFrom compile (Suc i) cfgs") auto
  have "length ps = length cfgs \<and> (\<forall>k < length cfgs. prepareRule compile (cfgs ! k) = Inr (ps ! k))"
    by (rule Cons.IH [OF p(2)])
  with p(1) r show ?case by (auto simp: nth_Cons split: nat.splits)
qed simp

subsection \<open>The rule that answers\<close>

definition eligible ::
    "(string \<Rightarrow> (string \<Rightarrow> bool) option) \<Rightarrow> (ruleAny \<Rightarrow> bytes) \<Rightarrow> string \<Rightarrow> ruleAny list \<Rightarrow> nat set \<Rightarrow> nat \<Rightarrow> RuleConfig \<Rightarrow> bool" where
  "eligible compile sprint sqlText args used i rule =
     (requestMatches compile sprint (ruleRequest rule) sqlText args \<and> \<not> (respOnce (ruleResponse rule) \<and> i \<in> used))"

lemma tryRule_eligible:
  assumes "prepareRule compile rule = Inr p" and "cacheAgrees cache sqlText"
  shows "\<exists>cache'. cacheAgrees cache' sqlText \<and>
    tryRule sprint i p sqlText args cache used =
      Inr (eligible compile sprint sqlText args used i rule, cache',
           if eligible compile sprint sqlText args used i rule \<and> respOnce (ruleResponse rule) then insert i used else used)"
proof -
  obtain cache' where c: "cacheAgrees cache' sqlText"
      "ruleMatchesQuery sprint p sqlText args cache = Inr (requestMatches compile sprint (ruleRequest rule) sqlText args, cache')"
    using prepared_matches [OF assms] by blast
  show ?thesis
    by (rule exI [of _ cache'])
      (simp add: c tryRule_def eligible_def prepareRule_config [OF assms(1)])
qed

lemma matchRuleFrom_find:
  assumes "length rules = length cfgs" and "\<forall>k < length cfgs. prepareRule compile (cfgs ! k) = Inr (rules ! k)"
    and "cacheAgrees cache sqlText"
  shows "matchRuleFrom sprint i rules sqlText args cache used =
    Inr (case find (\<lambda>(k, c). eligible compile sprint sqlText args used k c) (enumerate i cfgs) of
           None \<Rightarrow> (None, used)
         | Some (k, c) \<Rightarrow> (Some (k, c), if respOnce (ruleResponse c) then insert k used else used))"
  using assms
proof (induction cfgs arbitrary: i rules cache)
  case (Cons c cfgs)
  then obtain p ps where r: "rules = p # ps" by (cases rules) auto
  with Cons.prems have p: "prepareRule compile c = Inr p" by force
  have rest: "length ps = length cfgs" "\<forall>k < length cfgs. prepareRule compile (cfgs ! k) = Inr (ps ! k)"
    using Cons.prems(1,2) r by auto
  obtain cache' where c: "cacheAgrees cache' sqlText"
      "tryRule sprint i p sqlText args cache used =
      Inr (eligible compile sprint sqlText args used i c, cache',
           if eligible compile sprint sqlText args used i c \<and> respOnce (ruleResponse c) then insert i used else used)"
    using tryRule_eligible [OF p Cons.prems(3)] by blast
  show ?case
    using Cons.IH [OF rest c(1)] by (simp add: r c(2) prepareRule_config [OF p])
qed simp

lemma find_enumerate:
  "find P (enumerate i xs) = Some (k, x) \<longleftrightarrow>
     i \<le> k \<and> k < i + length xs \<and> x = xs ! (k - i) \<and> P (k, x) \<and> (\<forall>j. i \<le> j \<longrightarrow> j < k \<longrightarrow> \<not> P (j, xs ! (j - i)))"
  (is "?l \<longleftrightarrow> ?r")
proof
  assume ?l
  then obtain n where n: "n < length xs" "P (i + n, xs ! n)" "(k, x) = (i + n, xs ! n)"
      "\<And>m. m < n \<Longrightarrow> \<not> P (i + m, xs ! m)"
    by (auto simp: find_Some_iff nth_enumerate_eq)
  have "\<not> P (j, xs ! (j - i))" if "i \<le> j" "j < k" for j
    using n(4) [of "j - i"] that n(3) by auto
  with n show ?r by auto
next
  assume r: ?r
  then have "\<not> P (i + j, xs ! j)" if "j < k - i" for j
    using r that by (auto dest!: spec [of _ "i + j"])
  with r show ?l
    unfolding find_Some_iff by (intro exI [of _ "k - i"]) (auto simp: nth_enumerate_eq)
qed

lemma find_enumerate_None: "find P (enumerate i xs) = None \<longleftrightarrow> (\<forall>k < length xs. \<not> P (i + k, xs ! k))"
proof
  assume f: "find P (enumerate i xs) = None"
  have "enumerate i xs ! k \<in> set (enumerate i xs)" if "k < length xs" for k using that by (intro nth_mem) simp
  with f show "\<forall>k < length xs. \<not> P (i + k, xs ! k)" by (auto simp: find_None_iff nth_enumerate_eq)
next
  assume "\<forall>k < length xs. \<not> P (i + k, xs ! k)"
  then have "\<not> P (a, xs ! (a - i))" if "a < length xs + i" "i \<le> a" for a
    using that by (auto dest!: spec [of _ "a - i"])
  then show "find P (enumerate i xs) = None" by (auto simp: find_None_iff in_set_enumerate_eq)
qed

lemma matchRule_find:
  assumes "prepareRules compile cfgs = Inr rules"
  shows "matchRule sprint rules sqlText args used =
    Inr (case find (\<lambda>(k, c). eligible compile sprint sqlText args used k c) (enumerate 0 cfgs) of
           None \<Rightarrow> (None, used)
         | Some (k, c) \<Rightarrow> (Some (k, c), if respOnce (ruleResponse c) then insert k used else used))"
  unfolding matchRule_def
  using prepareRulesFrom_nth [OF assms [unfolded prepareRules_def]]
  by (intro matchRuleFrom_find) (auto simp: cacheAgrees_def)

text \<open>
  C22: The answer of a query comes from the first configured rule, in file order, whose request matches it and
  that is not a spent one-shot rule; only that rule's one-shot mark is set. When no rule qualifies, nothing is
  answered and no mark changes. The shared normalisation cache has no influence on this.
\<close>

theorem first_matching_rule_answers:
  assumes "prepareRules compile cfgs = Inr rules"
  shows "\<exists>answer used'. matchRule sprint rules sqlText args used = Inr (answer, used') \<and>
    (case answer of
       None \<Rightarrow> used' = used \<and> (\<forall>k < length cfgs. \<not> eligible compile sprint sqlText args used k (cfgs ! k))
     | Some (k, rule) \<Rightarrow>
         k < length cfgs \<and> rule = cfgs ! k \<and> eligible compile sprint sqlText args used k rule
         \<and> (\<forall>j < k. \<not> eligible compile sprint sqlText args used j (cfgs ! j))
         \<and> used' = (if respOnce (ruleResponse rule) then insert k used else used))"
proof (cases "find (\<lambda>(k, c). eligible compile sprint sqlText args used k c) (enumerate 0 cfgs)")
  case None
  then have "\<forall>k < length cfgs. \<not> eligible compile sprint sqlText args used k (cfgs ! k)"
    by (simp add: find_enumerate_None)
  with None show ?thesis
    by (intro exI [of _ None] exI [of _ used]) (simp add: matchRule_find [OF assms])
next
  case (Some kc)
  obtain k c where kc: "kc = (k, c)" by (cases kc)
  have "k < length cfgs \<and> c = cfgs ! k \<and> eligible compile sprint sqlText args used k c
      \<and> (\<forall>j < k. \<not> eligible compile sprint sqlText args used j (cfgs ! j))"
    using Some unfolding kc find_enumerate by auto
  moreover have "matchRule sprint rules sqlText args used =
      Inr (Some (k, c), if respOnce (ruleResponse c) then insert k used else used)"
    using Some kc by (simp add: matchRule_find [OF assms])
  ultimately show ?thesis
    by (intro exI [of _ "Some (k, c)"] exI [of _ "if respOnce (ruleResponse c) then insert k used else used"]) auto
qed

definition exampleRules :: "RuleConfig list" where
  "exampleRules =
     (let resp = \<lparr> respProfile = [], respType = ''ok'', respColumns = [], respRowFormat = [], respRows = [],
                  respAffectedRows = 1, respLastInsertID = 0, respWarnings = 0, respCode = 0, respSQLState = [],
                  respMessage = [], respDelayMS = 0, respAfterMS = 0, respOnce = True \<rparr>
      in [\<lparr> ruleName = ''a'', ruleRequest = \<lparr> reqMatch = ''contains'', reqSQL = ''users'', reqParams = None \<rparr>, ruleResponse = resp \<rparr>,
          \<lparr> ruleName = ''b'', ruleRequest = \<lparr> reqMatch = ''normalized'', reqSQL = ''select  1'', reqParams = Some [] \<rparr>,
            ruleResponse = resp\<lparr> respOnce := False \<rparr> \<rparr>])"

lemma prepare_exampleRules: "\<exists>rules. prepareRules (\<lambda>_. None) exampleRules = Inr rules"
  by (simp add: prepareRules_def exampleRules_def Let_def prepareRule_def)

theorem first_matching_rule_answers_witness:
  "\<exists>rules. prepareRules (\<lambda>_. None) exampleRules = Inr rules \<and>
     matchRule (\<lambda>_. []) rules ''SELECT a FROM users'' [] {} = Inr (Some (0, exampleRules ! 0), {0})"
proof -
  obtain rules where r: "prepareRules (\<lambda>_. None) exampleRules = Inr rules" using prepare_exampleRules by blast
  have e: "eligible (\<lambda>_. None) (\<lambda>_. []) ''SELECT a FROM users'' [] {} 0 (exampleRules ! 0)"
    by (simp add: eligible_def requestMatches_def exampleRules_def Let_def ruleParamsMatch_def Contains_def) code_simp
  have o: "respOnce (ruleResponse (exampleRules ! 0))" "0 < length exampleRules"
    by (simp_all add: exampleRules_def Let_def)
  show ?thesis
    using first_matching_rule_answers [OF r, of "\<lambda>_. []" "''SELECT a FROM users''" "[]" "{}"] e o r
    by (fastforce split: option.splits prod.splits)
qed

subsection \<open>One-shot rules under concurrent queries\<close>

text \<open>
  Every connection walks the rules for its own query; the walks interleave between rounds. \<open>walks\<close> gives what
  each connection is doing, \<open>given\<close> the rules that have answered so far.
\<close>

datatype ruleWalk = Idle | Walking string "ruleAny list" nat "string option"

record ruleRun =
  ruleOnceUsed :: "nat set"
  walks :: "nat \<Rightarrow> ruleWalk"
  given :: "nat list"

inductive rule_step :: "(ruleAny \<Rightarrow> bytes) \<Rightarrow> preparedRule list \<Rightarrow> ruleRun \<Rightarrow> ruleRun \<Rightarrow> bool"
  for sprint :: "ruleAny \<Rightarrow> bytes" and rules :: "preparedRule list" where
  query: "walks s w = Idle \<Longrightarrow> rule_step sprint rules s (s\<lparr> walks := (walks s)(w := Walking sqlText args 0 None) \<rparr>)"
| answer: "walks s w = Walking sqlText args i cache \<Longrightarrow> i < length rules \<Longrightarrow>
    tryRule sprint i (rules ! i) sqlText args cache (ruleOnceUsed s) = Inr (True, cache', used') \<Longrightarrow>
    rule_step sprint rules s \<lparr> ruleOnceUsed = used', walks = (walks s)(w := Idle), given = given s @ [i] \<rparr>"
| pass: "walks s w = Walking sqlText args i cache \<Longrightarrow> i < length rules \<Longrightarrow>
    tryRule sprint i (rules ! i) sqlText args cache (ruleOnceUsed s) = Inr (False, cache', used') \<Longrightarrow>
    rule_step sprint rules s (s\<lparr> ruleOnceUsed := used', walks := (walks s)(w := Walking sqlText args (Suc i) cache') \<rparr>)"
| give_up: "walks s w = Walking sqlText args i cache \<Longrightarrow>
    i \<ge> length rules \<or> (\<exists>e. tryRule sprint i (rules ! i) sqlText args cache (ruleOnceUsed s) = Inl e) \<Longrightarrow>
    rule_step sprint rules s (s\<lparr> walks := (walks s)(w := Idle) \<rparr>)"

definition ruleStart :: ruleRun where
  "ruleStart = \<lparr> ruleOnceUsed = {}, walks = (\<lambda>_. Idle), given = [] \<rparr>"

definition givenOnce :: "preparedRule list \<Rightarrow> ruleRun \<Rightarrow> bool" where
  "givenOnce rules s = (\<forall>i < length rules. respOnce (ruleResponse (prepConfig (rules ! i))) \<longrightarrow>
     count_list (given s) i = (if i \<in> ruleOnceUsed s then 1 else 0))"

lemma tryRule_used:
  "tryRule sprint i r sqlText args cache used = Inr (answers, cache', used') \<Longrightarrow>
     used' = (if answers \<and> respOnce (ruleResponse (prepConfig r)) then insert i used else used)
     \<and> (answers \<and> respOnce (ruleResponse (prepConfig r)) \<longrightarrow> i \<notin> used)"
  by (auto simp: tryRule_def split: sum.splits prod.splits if_splits)

lemma rule_step_givenOnce: "rule_step sprint rules s t \<Longrightarrow> givenOnce rules s \<Longrightarrow> givenOnce rules t"
proof (induction rule: rule_step.induct)
  case (answer s w sqlText args i cache cache' used')
  then show ?case using tryRule_used [OF answer(3)] by (auto simp: givenOnce_def)
next
  case (pass s w sqlText args i cache cache' used')
  then show ?case using tryRule_used [OF pass(3)] by (auto simp: givenOnce_def)
qed (auto simp: givenOnce_def)

lemma rule_run_givenOnce: "(rule_step sprint rules)\<^sup>*\<^sup>* s t \<Longrightarrow> givenOnce rules s \<Longrightarrow> givenOnce rules t"
  by (induction rule: rtranclp_induct) (auto intro: rule_step_givenOnce)


definition exampleOnceRule :: preparedRule where
  "exampleOnceRule = \<lparr> prepConfig = exampleRules ! 0, prepMatch = ''any'', prepNormalizedSQL = [], prepRegex = (\<lambda>_. False) \<rparr>"


subsection \<open>What validation guarantees\<close>

text \<open>The rule part of \<open>applyDefaults\<close> (\<open>config.go\<close>), which runs before validation.\<close>

definition errorDefaults :: "RuleResponseConfig \<Rightarrow> RuleResponseConfig" where
  "errorDefaults resp =
     (if respType resp = ''error''
      then resp\<lparr> respCode := (if respCode resp = 0 then 1105 else respCode resp),
                 respSQLState := (if respSQLState resp = [] then ''HY000'' else respSQLState resp),
                 respMessage := (if respMessage resp = [] then ''Unsupported query'' else respMessage resp) \<rparr>
      else resp)"

definition applyRuleDefaults :: "RuleConfig \<Rightarrow> RuleConfig" where
  "applyRuleDefaults rule =
     (let req = ruleRequest rule in
      rule\<lparr> ruleRequest := (if reqMatch req = [] then req\<lparr> reqMatch := ''exact'' \<rparr> else req),
            ruleResponse := errorDefaults (applyRuleResponseProfile (ruleResponse rule)) \<rparr>)"

lemma ruleObjectRowValues_length: "ruleObjectRowValues cols row = Inr vs \<Longrightarrow> length vs = length cols"
proof (induction cols arbitrary: vs)
  case (Cons c cols)
  then show ?case by (cases "ruleObjectRowValues cols row") (auto split: option.splits)
qed simp

lemma ruleRowValues_length: "ruleRowValues fmt cols row = Inr vs \<Longrightarrow> length vs = length cols"
  by (auto simp: ruleRowValues_def ruleObjectRowValues_length split: if_split_asm ruleAny.splits)

lemma collect_all: "collect i f xs = Inr ys \<Longrightarrow> \<forall>y \<in> set ys. \<exists>x \<in> set xs. f x = Inr y"
proof (induction xs arbitrary: i ys)
  case (Cons x xs)
  then show ?case by (cases "f x"; cases "collect (Suc i) f xs") fastforce+
qed simp

lemma ruleColumns_length: "ruleColumns cols = Inr cs \<Longrightarrow> length cs = length cols \<and> map Name cs = map (ascii \<circ> colName) cols"
proof (induction cols arbitrary: cs)
  case (Cons c cols)
  then show ?case by (cases "ruleColumns cols") (auto split: option.splits)
qed simp

lemma buildRuleResultSet_shape:
  assumes "buildRuleResultSet resp = Inr (cols, rows)"
  shows "length cols = length (respColumns resp) \<and> (\<forall>row \<in> set rows. length row = length cols)"
proof -
  obtain "ruleColumns (respColumns resp) = Inr cols"
      "collect 0 (ruleRowValues (respRowFormat resp) (respColumns resp)) (respRows resp) = Inr rows"
    using assms
    by (cases "ruleColumns (respColumns resp)";
        cases "collect 0 (ruleRowValues (respRowFormat resp) (respColumns resp)) (respRows resp)")
      (auto simp: buildRuleResultSet_def)
  then show ?thesis
    using ruleColumns_length collect_all ruleRowValues_length by metis
qed

lemma validate_ok:
  assumes "validateRuleConfig compile rule = None"
  obtains rt where
    "if respProfile (ruleResponse rule) = [] then rt = respType (ruleResponse rule)
     else \<exists>p. lookupRuleResponseProfile (respProfile (ruleResponse rule)) = Some p
            \<and> rt = (if respType (ruleResponse rule) = [] then profType p else respType (ruleResponse rule))"
    "rt = ''result_set'' \<and> respColumns (ruleResponse rule) \<noteq> [] \<and> (\<exists>rs. buildRuleResultSet (ruleResponse rule) = Inr rs)
     \<or> rt \<in> {''ok'', ''error'', ''disconnect''}"
    "reqMatch (ruleRequest rule) \<in> {[], ''exact'', ''normalized'', ''contains'', ''any''}
     \<or> reqMatch (ruleRequest rule) = ''regex'' \<and> compile (reqSQL (ruleRequest rule)) \<noteq> None"
    "0 \<le> respDelayMS (ruleResponse rule)" "0 \<le> respAfterMS (ruleResponse rule)"
proof -
  let ?resp = "ruleResponse rule" let ?req = "ruleRequest rule"
  let ?rest = "\<lambda>rt. rt = ''result_set'' \<and> respColumns ?resp \<noteq> [] \<and> (\<exists>rs. buildRuleResultSet ?resp = Inr rs)
     \<or> rt \<in> {''ok'', ''error'', ''disconnect''}"
  define checked where "checked = (if respProfile ?resp = [] then Inr (respType ?resp)
            else (case lookupRuleResponseProfile (respProfile ?resp) of
                None \<Rightarrow> Inl (UnsupportedProfile (respProfile ?resp))
              | Some p \<Rightarrow>
                  if respType ?resp \<noteq> [] \<and> respType ?resp \<noteq> profType p
                  then Inl (ProfileNeedsType (respProfile ?resp) (profType p))
                  else Inr (if respType ?resp = [] then profType p else respType ?resp)))"
  obtain rt where rt: "checked = Inr rt"
    using assms by (cases checked) (simp_all add: validateRuleConfig_def Let_def checked_def)
  define m where "m = (if reqMatch ?req = [] then ''exact'' else reqMatch ?req)"
  note v = assms [unfolded validateRuleConfig_def Let_def, folded checked_def m_def, unfolded rt sum.case]
  have m: "m \<in> {''exact'', ''normalized'', ''regex'', ''contains'', ''any''}" using v by (simp split: if_split_asm)
  have r: "m = ''regex'' \<Longrightarrow> compile (reqSQL ?req) \<noteq> None" using v by (simp split: if_split_asm)
  have d: "0 \<le> respDelayMS ?resp" using v m r by (simp split: if_split_asm)
  have a: "0 \<le> respAfterMS ?resp" using v m r d by (simp split: if_split_asm)
  have t: "?rest rt" using v m r d a by (simp split: if_split_asm option.splits sum.splits)
  show ?thesis
  proof (rule that [of rt])
    show "if respProfile ?resp = [] then rt = respType ?resp
       else \<exists>p. lookupRuleResponseProfile (respProfile ?resp) = Some p \<and>
         rt = (if respType ?resp = [] then profType p else respType ?resp)"
      using rt by (auto simp: checked_def split: if_split_asm option.splits)
    show "?rest rt" by (rule t)
    show "reqMatch ?req \<in> {[], ''exact'', ''normalized'', ''contains'', ''any''}
       \<or> reqMatch ?req = ''regex'' \<and> compile (reqSQL ?req) \<noteq> None"
      using m r by (auto simp: m_def split: if_split_asm)
  qed (fact d a)+
qed

lemma defaults_profile [simp]:
  "respProfile (ruleResponse (applyRuleDefaults rule)) = respProfile (ruleResponse rule)"
  by (simp add: applyRuleDefaults_def errorDefaults_def applyRuleResponseProfile_def Let_def split: option.splits)

lemma profile_type_nonempty: "lookupRuleResponseProfile name = Some p \<Longrightarrow> profType p \<noteq> []"
  by (auto simp: lookupRuleResponseProfile_def ruleResponseProfiles_def Let_def split: if_splits)

lemma defaults_type:
  "lookupRuleResponseProfile (respProfile (ruleResponse rule)) = Some p \<Longrightarrow>
     respType (ruleResponse (applyRuleDefaults rule)) \<noteq> []"
  using profile_type_nonempty [of _ p]
  by (auto simp: applyRuleDefaults_def errorDefaults_def applyRuleResponseProfile_def Let_def)

lemma validated_match:
  assumes "validateRuleConfig compile rule = None"
  shows "\<exists>p. prepareRule compile rule = Inr p"
proof -
  from assms have "reqMatch (ruleRequest rule) \<in> {[], ''exact'', ''normalized'', ''contains'', ''any''}
     \<or> reqMatch (ruleRequest rule) = ''regex'' \<and> compile (reqSQL (ruleRequest rule)) \<noteq> None"
    by (rule validate_ok)
  then show ?thesis by (auto simp: prepareRule_def Let_def)
qed

text \<open>
  C24: Once a rule with its defaults has passed validation, it can be prepared, and every query it matches gets
  the response its type asks for: never an unsupported type, never a result set that cannot be built. The rows of
  a result set have one value per column, an error has a non-zero code, and no delay is negative.
\<close>

theorem validated_rule_answers:
  assumes "validateRuleConfig compile (applyRuleDefaults rule) = None"
  shows "(\<exists>p. prepareRule compile (applyRuleDefaults rule) = Inr p) \<and>
    0 \<le> respDelayMS (ruleResponse (applyRuleDefaults rule)) \<and>
    (case ruleAnswerOf (applyRuleDefaults rule) of
       RuleOK r \<Rightarrow> respType (ruleResponse (applyRuleDefaults rule)) = ''ok''
     | RuleRows cols rows \<Rightarrow> cols \<noteq> [] \<and> (\<forall>row \<in> set rows. length row = length cols)
     | RuleErr e \<Rightarrow> respType (ruleResponse (applyRuleDefaults rule)) = ''error'' \<and> Code e \<noteq> 0 \<and> length (SQLState e) = 5
     | RuleDisconnect ms \<Rightarrow> 0 \<le> ms
     | RuleBuildError e \<Rightarrow> False)"
proof -
  let ?rule = "applyRuleDefaults rule" let ?resp = "ruleResponse ?rule"
  obtain rt where rt: "if respProfile ?resp = [] then rt = respType ?resp
     else \<exists>p. lookupRuleResponseProfile (respProfile ?resp) = Some p
            \<and> rt = (if respType ?resp = [] then profType p else respType ?resp)"
    and t: "rt = ''result_set'' \<and> respColumns ?resp \<noteq> [] \<and> (\<exists>rs. buildRuleResultSet ?resp = Inr rs)
     \<or> rt \<in> {''ok'', ''error'', ''disconnect''}"
    and d: "0 \<le> respDelayMS ?resp" and a: "0 \<le> respAfterMS ?resp"
    by (rule validate_ok [OF assms])
  have rt': "rt = respType ?resp"
    using rt defaults_type by (auto split: if_split_asm)
  have p: "\<exists>p. prepareRule compile ?rule = Inr p"
    by (rule validated_match [OF assms])
  have err: "respType ?resp = ''error'' \<Longrightarrow> respCode ?resp \<noteq> 0"
    by (simp add: applyRuleDefaults_def errorDefaults_def Let_def split: if_split_asm)
  have state: "length (fixedSQLState s) = 5" for s by (simp add: fixedSQLState_def)
  consider (ok) "respType ?resp = ''ok''" | (rows) cols rows where "respType ?resp = ''result_set''"
      "respColumns ?resp \<noteq> []" "buildRuleResultSet ?resp = Inr (cols, rows)"
    | (err) "respType ?resp = ''error''" | (disc) "respType ?resp = ''disconnect''"
    using t rt' by auto
  then show ?thesis
  proof cases
    case rows
    with p d buildRuleResultSet_shape [OF rows(3)] show ?thesis by (auto simp: ruleAnswerOf_def Let_def)
  qed (use p d a err state in \<open>auto simp: ruleAnswerOf_def Let_def errPacket_def\<close>)
qed

definition exampleRowsRule :: RuleConfig where
  "exampleRowsRule = (exampleRules ! 0)\<lparr> ruleResponse := (ruleResponse (exampleRules ! 0))
     \<lparr> respType := ''result_set'', respColumns := [\<lparr> colName = ''a'', colType = ''INT'' \<rparr>, \<lparr> colName = ''b'', colType = [] \<rparr>],
       respRows := [RList [RVal (GoInt 1), RVal GoNil], RMap [(''b'', RVal (GoInt 2)), (''a'', RVal (GoInt 3))]] \<rparr> \<rparr>"

theorem validated_rule_answers_witness:
  "\<exists>cols rows. ruleAnswerOf (applyRuleDefaults exampleRowsRule) = RuleRows cols rows \<and> length cols = 2 \<and>
     list_all (\<lambda>row. length row = length cols) rows"
proof -
  note rule = exampleRowsRule_def exampleRules_def Let_def applyRuleDefaults_def errorDefaults_def applyRuleResponseProfile_def
    lookupRuleResponseProfile_def TrimSpace_def TrimLeftFunc_def TrimRightFunc_def ToLower_def
  have types: "ruleColumnFieldType ''INT'' = Some 3" "ruleColumnFieldType [] = Some 0xfd"
    by code_simp+
  have rows: "\<exists>cols rows. buildRuleResultSet (ruleResponse (applyRuleDefaults exampleRowsRule)) = Inr (cols, rows) \<and> length cols = 2"
    by (simp add: rule buildRuleResultSet_def types ruleRowValues_def isRuleObjectRow_def ruleObjectRowLookup_def)
  have two: "[0..<length (respColumns (ruleResponse (applyRuleDefaults exampleRowsRule)))] = [0, 1]"
    by (simp add: rule)
  have "validateRuleConfig (\<lambda>_. None) (applyRuleDefaults exampleRowsRule) = None"
    using rows two by (auto simp: validateRuleConfig_def) (auto simp: rule)
  from validated_rule_answers [OF this] rows show ?thesis
    by (auto simp: list_all_iff ruleAnswerOf_def Let_def) (auto simp: rule)
qed

end
