(* ===== verification/Configuration.thy ===== *)
theory Configuration
  imports Rules
begin

text \<open>
  The configuration (\<open>pkg/mysqlmock/config.go\<close>): its defaults, its validation, the compatibility profiles, and the
  decoding of CSV seed files.

  Reading YAML, JSON and CSV is library work: a configuration is a value here, a CSV file the records the reader gives.
  Maps from names to texts are partial functions. The seed rows are not looked at by these operations; \<open>Seed\<close> is any
  type with an empty value.
\<close>

subsection \<open>Configuration values\<close>

record AuthConfig =
  Mode :: string

record ServerConfig =
  Listen :: string
  MySQLVersion :: string
  ConnectionIDStart :: "32 word"
  Auth :: AuthConfig

record DatabaseConfig =
  Engine :: string
  dbMode :: string
  Shared :: bool
  Path :: string

record SeedFileConfig =
  seedPath :: string
  seedFormat :: string
  seedTable :: string
  NullValues :: "string list"
  InferTypes :: bool

record CompatConfig =
  Profile :: string
  AllowZeroDates :: bool
  ImplicitDefaults :: bool
  WriteValidation :: string
  Variables :: "(string \<rightharpoonup> string) option"

record UnsupportedConfig =
  unType :: string
  unCode :: "16 word"
  unState :: string
  unMessage :: string

record FallbackConfig =
  fbType :: string
  Unsupported :: UnsupportedConfig

record 's Config =
  Version :: int
  Server :: ServerConfig
  Backend :: DatabaseConfig
  SchemaFiles :: "string list"
  Schema :: "string list"
  SeedFiles :: "string list"
  SeedConfigs :: "SeedFileConfig list"
  Seed :: "'s option"
  Compat :: CompatConfig
  cfgRules :: "RuleConfig list"
  Fallback :: FallbackConfig

definition defaultVariables :: "string \<rightharpoonup> string" where
  "defaultVariables = map_of
     [(''autocommit'', ''1''), (''character_set_client'', ''utf8mb4''), (''character_set_connection'', ''utf8mb4''),
      (''character_set_database'', ''utf8mb4''), (''character_set_results'', ''utf8mb4''),
      (''collation_connection'', ''utf8mb4_general_ci''), (''collation_database'', ''utf8mb4_general_ci''),
      (''foreign_key_checks'', ''1''), (''max_allowed_packet'', ''67108864''), (''sql_mode'', []),
      (''transaction_isolation'', ''READ-COMMITTED''), (''version'', ''8.0.36-mock''), (''version_comment'', ''mysqlmock'')]"

definition DefaultConfig :: "'s \<Rightarrow> 's Config" where
  "DefaultConfig noSeed =
     \<lparr> Version = 1,
       Server = \<lparr> Listen = ''127.0.0.1:0'', MySQLVersion = ''8.0.36-mock'', ConnectionIDStart = 1, Auth = \<lparr> Mode = ''allow_any'' \<rparr> \<rparr>,
       Backend = \<lparr> Engine = ''sqlite'', dbMode = ''memory'', Shared = True, Path = [] \<rparr>,
       SchemaFiles = [], Schema = [], SeedFiles = [], SeedConfigs = [], Seed = Some noSeed,
       Compat = \<lparr> Profile = ''default'', AllowZeroDates = False, ImplicitDefaults = False, WriteValidation = ''strict'',
                  Variables = Some defaultVariables \<rparr>,
       cfgRules = [],
       Fallback = \<lparr> fbType = ''sqlite'',
                    Unsupported = \<lparr> unType = ''error'', unCode = 1105, unState = ''HY000'', unMessage = ''Unsupported query'' \<rparr> \<rparr> \<rparr>"

subsection \<open>Compatibility profiles\<close>

definition normalizeCompatProfile :: "string \<Rightarrow> string" where
  "normalizeCompatProfile name0 =
     (let name = ToLower (TrimSpace name0) in if name = [] then ''default'' else name)"

definition compatProfiles :: "string \<rightharpoonup> (string \<rightharpoonup> string)" where
  "compatProfiles = map_of
     [(''default'', Map.empty),
      (''gorm'', map_of
         [(''character_set_server'', ''utf8mb4''), (''collation_server'', ''utf8mb4_0900_ai_ci''),
          (''foreign_key_checks'', ''1''), (''lower_case_table_names'', ''0''), (''sql_auto_is_null'', ''0''),
          (''system_time_zone'', ''UTC''), (''time_zone'', ''SYSTEM''), (''transaction_read_only'', ''0''),
          (''tx_isolation'', ''READ-COMMITTED''), (''tx_read_only'', ''0''), (''unique_checks'', ''1'')])]"

definition lookupCompatProfile :: "string \<Rightarrow> (string \<rightharpoonup> string) option" where
  "lookupCompatProfile name = compatProfiles (normalizeCompatProfile name)"

text \<open>A loop that fills in the variables not yet set: what is there wins.\<close>

definition applyCompatProfile :: "string \<Rightarrow> (string \<rightharpoonup> string) \<Rightarrow> string \<rightharpoonup> string" where
  "applyCompatProfile name variables =
     (case lookupCompatProfile name of None \<Rightarrow> variables | Some profile \<Rightarrow> profile ++ variables)"

definition normalizeWriteValidationMode :: "string \<Rightarrow> string" where
  "normalizeWriteValidationMode name0 =
     (let name = ToLower (TrimSpace name0) in if name = [] then ''strict'' else name)"

definition lookupWriteValidationMode :: "string \<Rightarrow> string option" where
  "lookupWriteValidationMode name0 =
     (let name = normalizeWriteValidationMode name0 in
      if name \<in> {''strict'', ''basic'', ''off''} then Some name else None)"

subsection \<open>Defaults\<close>

definition orDefault :: "string \<Rightarrow> string \<Rightarrow> string" where
  "orDefault v d = (if v = [] then d else v)"

definition serverDefaults :: "ServerConfig \<Rightarrow> ServerConfig" where
  "serverDefaults srv =
     srv\<lparr> Listen := orDefault (Listen srv) ''127.0.0.1:0'', MySQLVersion := orDefault (MySQLVersion srv) ''8.0.36-mock'',
          ConnectionIDStart := (if ConnectionIDStart srv = 0 then 1 else ConnectionIDStart srv),
          Auth := (Auth srv)\<lparr> Mode := orDefault (Mode (Auth srv)) ''allow_any'' \<rparr> \<rparr>"

definition backendDefaults :: "DatabaseConfig \<Rightarrow> DatabaseConfig" where
  "backendDefaults db = db\<lparr> Engine := orDefault (Engine db) ''sqlite'', dbMode := orDefault (dbMode db) ''memory'' \<rparr>"

definition unsupportedDefaults :: "UnsupportedConfig \<Rightarrow> UnsupportedConfig" where
  "unsupportedDefaults un =
     un\<lparr> unType := orDefault (unType un) ''error'', unCode := (if unCode un = 0 then 1105 else unCode un),
         unState := orDefault (unState un) ''HY000'', unMessage := orDefault (unMessage un) ''Unsupported query'' \<rparr>"

definition fallbackDefaults :: "FallbackConfig \<Rightarrow> FallbackConfig" where
  "fallbackDefaults fb = fb\<lparr> fbType := orDefault (fbType fb) ''sqlite'', Unsupported := unsupportedDefaults (Unsupported fb) \<rparr>"

text \<open>\<open>version\<close> is the server's version, which wins over a configured variable of that name.\<close>

definition compatDefaults :: "string \<Rightarrow> CompatConfig \<Rightarrow> CompatConfig" where
  "compatDefaults version cp =
     (let profile = (if Profile cp = [] then ''default'' else normalizeCompatProfile (Profile cp));
          own = (case Variables cp of None \<Rightarrow> Map.empty | Some m \<Rightarrow> m)
      in cp\<lparr> Profile := profile,
             WriteValidation := (if WriteValidation cp = [] then ''strict'' else normalizeWriteValidationMode (WriteValidation cp)),
             Variables := Some ((applyCompatProfile profile (defaultVariables ++ own))(''version'' \<mapsto> version)) \<rparr>)"

definition applyDefaults :: "'s \<Rightarrow> 's Config \<Rightarrow> 's Config" where
  "applyDefaults noSeed c =
     c\<lparr> Version := (if Version c = 0 then 1 else Version c),
        Server := serverDefaults (Server c),
        Backend := backendDefaults (Backend c),
        Fallback := fallbackDefaults (Fallback c),
        Seed := Some (case Seed c of None \<Rightarrow> noSeed | Some s \<Rightarrow> s),
        Compat := compatDefaults (MySQLVersion (serverDefaults (Server c))) (Compat c),
        cfgRules := map applyRuleDefaults (cfgRules c) \<rparr>"

subsection \<open>Validation\<close>

datatype config_error =
    UnsupportedVersion int
  | UnsupportedAuthMode string
  | UnsupportedEngine string
  | UnsupportedCompatProfile string
  | UnsupportedWriteValidation string
  | DatabasePathRequired
  | UnsupportedDatabaseMode string
  | UnsupportedFallback string
  | UnsupportedUnsupportedType string
  | BadFallbackState string
  | SeedPathRequired nat
  | UnsupportedSeedFormat nat string
  | BadRule nat rule_error

text \<open>\<open>filepath.Ext\<close>: from the last dot of the last path element.\<close>

definition Ext :: "string \<Rightarrow> string" where
  "Ext path =
     (let base = rev (takeWhile (\<lambda>c. c \<noteq> CHR ''/'') (rev path)) in
      if CHR ''.'' \<in> set base then CHR ''.'' # rev (takeWhile (\<lambda>c. c \<noteq> CHR ''.'') (rev base)) else [])"

definition seedFileFormat :: "string \<Rightarrow> string \<Rightarrow> string" where
  "seedFileFormat path format0 =
     (let format = ToLower (TrimSpace format0) in
      if format = [] then ToLower (Ext path) else CHR ''.'' # TrimPrefix format ''.'')"

fun firstSome :: "nat \<Rightarrow> (nat \<Rightarrow> 'a \<Rightarrow> 'e option) \<Rightarrow> 'a list \<Rightarrow> 'e option" where
  "firstSome i f [] = None"
| "firstSome i f (x # xs) = (case f i x of Some e \<Rightarrow> Some e | None \<Rightarrow> firstSome (Suc i) f xs)"

definition validateSeedFile :: "nat \<Rightarrow> SeedFileConfig \<Rightarrow> config_error option" where
  "validateSeedFile i sf =
     (if TrimSpace (seedPath sf) = [] then Some (SeedPathRequired i)
      else if seedFileFormat (seedPath sf) (seedFormat sf) \<in> {''.yaml'', ''.yml'', ''.json'', ''.csv'', []} then None
      else Some (UnsupportedSeedFormat i (seedFormat sf)))"

definition Validate :: "(string \<Rightarrow> (string \<Rightarrow> bool) option) \<Rightarrow> 's Config \<Rightarrow> config_error option" where
  "Validate compile c =
     (if Version c \<noteq> 1 then Some (UnsupportedVersion (Version c))
      else if Mode (Auth (Server c)) \<noteq> ''allow_any'' then Some (UnsupportedAuthMode (Mode (Auth (Server c))))
      else if Engine (Backend c) \<noteq> ''sqlite'' then Some (UnsupportedEngine (Engine (Backend c)))
      else if lookupCompatProfile (Profile (Compat c)) = None then Some (UnsupportedCompatProfile (Profile (Compat c)))
      else if lookupWriteValidationMode (WriteValidation (Compat c)) = None
        then Some (UnsupportedWriteValidation (WriteValidation (Compat c)))
      else if dbMode (Backend c) = ''file'' \<and> Path (Backend c) = [] then Some DatabasePathRequired
      else if dbMode (Backend c) \<noteq> ''memory'' \<and> dbMode (Backend c) \<noteq> ''file'' then Some (UnsupportedDatabaseMode (dbMode (Backend c)))
      else if orDefault (fbType (Fallback c)) ''sqlite'' \<noteq> ''sqlite'' then Some (UnsupportedFallback (fbType (Fallback c)))
      else if orDefault (unType (Unsupported (Fallback c))) ''error'' \<noteq> ''error''
        then Some (UnsupportedUnsupportedType (unType (Unsupported (Fallback c))))
      else if orDefault (unState (Unsupported (Fallback c))) ''HY000'' \<noteq> fixedSQLState (orDefault (unState (Unsupported (Fallback c))) ''HY000'')
        then Some (BadFallbackState (unState (Unsupported (Fallback c))))
      else (case firstSome 0 validateSeedFile (SeedConfigs c) of
          Some e \<Rightarrow> Some e
        | None \<Rightarrow> firstSome 0 (\<lambda>i rule. map_option (BadRule i) (validateRuleConfig compile rule)) (cfgRules c)))"

subsection \<open>Properties\<close>

lemma isSpace_lower [simp]: "isSpace (lower_byte c) = isSpace c"
  by (cases c) (auto simp: lower_byte_def isSpace_def)

lemma dropWhile_idem [simp]: "dropWhile P (dropWhile P xs) = dropWhile P xs"
  by (induction xs) auto

lemma TrimSpace_lower: "TrimSpace (ToLower s) = ToLower (TrimSpace s)"
  by (simp add: TrimSpace_def TrimLeftFunc_def TrimRightFunc_def ToLower_def dropWhile_map rev_map comp_def)

lemma TrimLeft_Right: "dropWhile P (rev (dropWhile P (rev (dropWhile P s)))) = rev (dropWhile P (rev (dropWhile P s)))"
proof (cases "dropWhile P s")
  case Nil
  show ?thesis unfolding Nil by simp
next
  case (Cons a t)
  then have "\<not> P a" by (metis dropWhile_eq_Cons_conv)
  then have "rev (dropWhile P (rev (a # t))) = a # rev (dropWhile P (rev t))"
    by (simp add: dropWhile_append)
  then show ?thesis using Cons \<open>\<not> P a\<close> by simp
qed

lemma TrimSpace_idem [simp]: "TrimSpace (TrimSpace s) = TrimSpace s"
  by (simp add: TrimSpace_def TrimLeftFunc_def TrimRightFunc_def TrimLeft_Right)

lemma normalizeCompatProfile_idem [simp]: "normalizeCompatProfile (normalizeCompatProfile s) = normalizeCompatProfile s"
proof -
  have "ToLower (TrimSpace ''default'') = ''default''" by code_simp
  then show ?thesis by (simp add: normalizeCompatProfile_def Let_def TrimSpace_lower)
qed

lemma normalizeWriteValidationMode_idem [simp]:
  "normalizeWriteValidationMode (normalizeWriteValidationMode s) = normalizeWriteValidationMode s"
proof -
  have "ToLower (TrimSpace ''strict'') = ''strict''" by code_simp
  then show ?thesis by (simp add: normalizeWriteValidationMode_def Let_def TrimSpace_lower)
qed

lemma normalize_defaults [simp]:
  "normalizeCompatProfile ''default'' = ''default''" "normalizeWriteValidationMode ''strict'' = ''strict''"
  by code_simp+

lemma normalize_nonempty [simp]: "normalizeCompatProfile s \<noteq> []" "normalizeWriteValidationMode s \<noteq> []"
  by (simp_all add: normalizeCompatProfile_def normalizeWriteValidationMode_def Let_def)

lemma orDefault_idem [simp]: "orDefault (orDefault v d) d = orDefault v d"
  by (simp add: orDefault_def)

lemma applyRuleResponseProfile_idem [simp]:
  "applyRuleResponseProfile (applyRuleResponseProfile resp) = applyRuleResponseProfile resp"
  by (cases "lookupRuleResponseProfile (respProfile resp)")
    (simp_all add: applyRuleResponseProfile_def)

lemma applyRuleResponseProfile_fixed:
  assumes "\<And>p. lookupRuleResponseProfile (respProfile resp) = Some p \<Longrightarrow>
    (respType resp = [] \<longrightarrow> profType p = []) \<and> (respCode resp = 0 \<longrightarrow> profCode p = 0) \<and>
    (respSQLState resp = [] \<longrightarrow> profSQLState p = []) \<and> (respMessage resp = [] \<longrightarrow> profMessage p = [])"
  shows "applyRuleResponseProfile resp = resp"
proof (cases "lookupRuleResponseProfile (respProfile resp)")
  case (Some p)
  with assms [OF Some] show ?thesis by (cases resp) (auto simp: applyRuleResponseProfile_def)
qed (simp add: applyRuleResponseProfile_def)

lemma errorDefaults_idem [simp]: "errorDefaults (errorDefaults resp) = errorDefaults resp"
  by (cases resp) (simp add: errorDefaults_def)

lemma response_defaults_fixed [simp]:
  "applyRuleResponseProfile (errorDefaults (applyRuleResponseProfile resp)) = errorDefaults (applyRuleResponseProfile resp)"
proof (rule applyRuleResponseProfile_fixed)
  fix p
  let ?r = "errorDefaults (applyRuleResponseProfile resp)"
  assume l: "lookupRuleResponseProfile (respProfile ?r) = Some p"
  have "respProfile ?r = respProfile resp"
    by (simp add: errorDefaults_def applyRuleResponseProfile_def split: option.splits)
  with l have "applyRuleResponseProfile resp =
     resp\<lparr> respType := (if respType resp = [] then profType p else respType resp),
           respCode := (if respCode resp = 0 then profCode p else respCode resp),
           respSQLState := (if respSQLState resp = [] then profSQLState p else respSQLState resp),
           respMessage := (if respMessage resp = [] then profMessage p else respMessage resp) \<rparr>"
    by (simp add: applyRuleResponseProfile_def)
  then show "(respType ?r = [] \<longrightarrow> profType p = []) \<and> (respCode ?r = 0 \<longrightarrow> profCode p = 0) \<and>
    (respSQLState ?r = [] \<longrightarrow> profSQLState p = []) \<and> (respMessage ?r = [] \<longrightarrow> profMessage p = [])"
    by (simp add: errorDefaults_def)
qed

lemma applyRuleDefaults_idem [simp]: "applyRuleDefaults (applyRuleDefaults rule) = applyRuleDefaults rule"
  by (simp add: applyRuleDefaults_def Let_def)

lemma applyCompatProfile_idem [simp]:
  "(applyCompatProfile p ((defaultVariables ++ applyCompatProfile p (defaultVariables ++ own))(x \<mapsto> y)))(x \<mapsto> y) =
     (applyCompatProfile p (defaultVariables ++ own))(x \<mapsto> y)"
  by (rule ext) (auto simp: applyCompatProfile_def map_add_def split: option.splits)

lemma serverDefaults_idem [simp]: "serverDefaults (serverDefaults s) = serverDefaults s"
  by (simp add: serverDefaults_def)

lemma backendDefaults_idem [simp]: "backendDefaults (backendDefaults s) = backendDefaults s"
  by (simp add: backendDefaults_def)

lemma fallbackDefaults_idem [simp]: "fallbackDefaults (fallbackDefaults s) = fallbackDefaults s"
  by (simp add: fallbackDefaults_def unsupportedDefaults_def)

lemma compatDefaults_idem [simp]: "compatDefaults v (compatDefaults v s) = compatDefaults v s"
  by (simp add: compatDefaults_def Let_def)

text \<open>
  applying the defaults is idempotent: a configuration that already has them is left as it is, profiles, modes,
  variables and rules included.
\<close>

theorem applyDefaults_idempotent: "applyDefaults noSeed (applyDefaults noSeed c) = applyDefaults noSeed c"
  by (simp add: applyDefaults_def comp_def)

lemma default_is_profile: "lookupCompatProfile ''default'' = Some Map.empty"
  by (simp add: lookupCompatProfile_def compatProfiles_def)

lemma compatDefaults_default:
  "compatDefaults ''8.0.36-mock''
     \<lparr> Profile = ''default'', AllowZeroDates = a, ImplicitDefaults = i, WriteValidation = ''strict'', Variables = Some defaultVariables \<rparr> =
     \<lparr> Profile = ''default'', AllowZeroDates = a, ImplicitDefaults = i, WriteValidation = ''strict'', Variables = Some defaultVariables \<rparr>"
proof -
  have "defaultVariables ''version'' = Some ''8.0.36-mock''" by (simp add: defaultVariables_def)
  then have "defaultVariables(''version'' \<mapsto> ''8.0.36-mock'') = defaultVariables" by (rule map_upd_triv)
  moreover have "defaultVariables ++ defaultVariables = defaultVariables"
    by (rule ext) (simp add: map_add_def split: option.splits)
  ultimately show ?thesis by (simp add: compatDefaults_def Let_def applyCompatProfile_def default_is_profile)
qed

lemma applyCompatProfile_keeps:
  "own k = Some v \<Longrightarrow> applyCompatProfile p (defaultVariables ++ own) k = Some v"
  by (simp add: applyCompatProfile_def split: option.splits)

lemma defaults_default:
  "applyDefaults noSeed (DefaultConfig noSeed) = DefaultConfig noSeed" "Validate compile (DefaultConfig noSeed) = None"
proof -
  show "applyDefaults noSeed (DefaultConfig noSeed) = DefaultConfig noSeed"
    by (simp add: applyDefaults_def DefaultConfig_def compatDefaults_default serverDefaults_def backendDefaults_def
        fallbackDefaults_def unsupportedDefaults_def orDefault_def)
  have "lookupWriteValidationMode ''strict'' = Some ''strict''" by (simp add: lookupWriteValidationMode_def)
  then show "Validate compile (DefaultConfig noSeed) = None"
    by (simp add: Validate_def DefaultConfig_def default_is_profile orDefault_def fixedSQLState_def)
qed

text \<open>
  the defaults of the code are consistent: \<open>applyDefaults\<close> leaves \<open>DefaultConfig\<close> alone, it passes validation, and
  a variable the user has set keeps its value, except \<open>version\<close>, which is always the server's version.
\<close>

theorem defaults_consistent:
  "applyDefaults noSeed (DefaultConfig noSeed) = DefaultConfig noSeed \<and>
   Validate compile (DefaultConfig noSeed) = None \<and>
   (let own = (case Variables (Compat c) of None \<Rightarrow> Map.empty | Some m \<Rightarrow> m) in
      case Variables (Compat (applyDefaults noSeed c)) of None \<Rightarrow> False | Some vars \<Rightarrow>
        vars ''version'' = Some (MySQLVersion (Server (applyDefaults noSeed c))) \<and>
        vars |` (dom own - {''version''}) = own |` (- {''version''}))"
proof (intro conjI defaults_default)
  let ?own = "case Variables (Compat c) of None \<Rightarrow> Map.empty | Some m \<Rightarrow> m"
  let ?p = "if Profile (Compat c) = [] then ''default'' else normalizeCompatProfile (Profile (Compat c))"
  have vars: "Variables (Compat (applyDefaults noSeed c)) =
      Some ((applyCompatProfile ?p (defaultVariables ++ ?own))(''version'' \<mapsto> MySQLVersion (serverDefaults (Server c))))"
    by (simp add: applyDefaults_def compatDefaults_def Let_def)
  have "((applyCompatProfile ?p (defaultVariables ++ ?own))(''version'' \<mapsto> w)) |` (dom ?own - {''version''}) = ?own |` (- {''version''})" for w
    by (rule ext) (auto simp: restrict_map_def applyCompatProfile_keeps domIff)
  then show "let own = ?own in case Variables (Compat (applyDefaults noSeed c)) of None \<Rightarrow> False | Some vars \<Rightarrow>
        vars ''version'' = Some (MySQLVersion (Server (applyDefaults noSeed c))) \<and>
        vars |` (dom own - {''version''}) = own |` (- {''version''})"
    by (simp add: vars Let_def) (simp add: applyDefaults_def)
qed

lemma firstSome_None: "firstSome i f xs = None \<longleftrightarrow> (\<forall>k < length xs. f (i + k) (xs ! k) = None)"
proof (induction xs arbitrary: i)
  case (Cons x xs)
  show ?case by (auto simp: Cons nth_Cons split: option.splits nat.splits)
qed simp

lemma prepareRulesFrom_all:
  "\<forall>r \<in> set rules. \<exists>p. prepareRule compile r = Inr p \<Longrightarrow> \<exists>ps. prepareRulesFrom compile i rules = Inr ps"
proof (induction rules arbitrary: i)
  case (Cons r rules)
  then obtain p ps where "prepareRule compile r = Inr p" "prepareRulesFrom compile (Suc i) rules = Inr ps" by fastforce
  then show ?case by simp
qed simp

lemma Validate_None:
  assumes "Validate compile c = None"
  shows "lookupCompatProfile (Profile (Compat c)) \<noteq> None" "lookupWriteValidationMode (WriteValidation (Compat c)) \<noteq> None"
    "dbMode (Backend c) = ''memory'' \<or> dbMode (Backend c) = ''file'' \<and> Path (Backend c) \<noteq> []"
    "firstSome 0 (\<lambda>i rule. map_option (BadRule i) (validateRuleConfig compile rule)) (cfgRules c) = None"
proof -
  note v = assms [unfolded Validate_def]
  show p: "lookupCompatProfile (Profile (Compat c)) \<noteq> None" using v by (simp split: if_split_asm)
  show w: "lookupWriteValidationMode (WriteValidation (Compat c)) \<noteq> None" using v by (simp split: if_split_asm)
  have m: "dbMode (Backend c) = ''file'' \<Longrightarrow> Path (Backend c) \<noteq> []" using v by (simp split: if_split_asm)
  have "dbMode (Backend c) = ''memory'' \<or> dbMode (Backend c) = ''file''" using v by (simp split: if_split_asm)
  with m show "dbMode (Backend c) = ''memory'' \<or> dbMode (Backend c) = ''file'' \<and> Path (Backend c) \<noteq> []" by blast
  show "firstSome 0 (\<lambda>i rule. map_option (BadRule i) (validateRuleConfig compile rule)) (cfgRules c) = None"
    using v by (simp split: if_split_asm option.splits)
qed

lemma compatDefaults_modes:
  "Profile (compatDefaults v cp) = normalizeCompatProfile (Profile cp)"
  "WriteValidation (compatDefaults v cp) = normalizeWriteValidationMode (WriteValidation cp)"
  by (simp_all add: compatDefaults_def Let_def)
    (simp_all add: normalizeCompatProfile_def normalizeWriteValidationMode_def Let_def TrimSpace_def TrimLeftFunc_def TrimRightFunc_def ToLower_def)

text \<open>
  C39: a configuration that passes validation after its defaults is one the server can run: every rule can be prepared,
  so \<open>New\<close> does not fail on them, the write validation mode is one of the three the code knows, the compatibility
  profile is known, and a file database has a path.
\<close>

theorem validated_config_runs:
  assumes "Validate compile (applyDefaults noSeed c) = None"
  shows "(\<exists>rules. prepareRules compile (cfgRules (applyDefaults noSeed c)) = Inr rules) \<and>
    WriteValidation (Compat (applyDefaults noSeed c)) \<in> {''strict'', ''basic'', ''off''} \<and>
    Profile (Compat (applyDefaults noSeed c)) \<in> {''default'', ''gorm''} \<and>
    (dbMode (Backend (applyDefaults noSeed c)) = ''memory'' \<or>
     dbMode (Backend (applyDefaults noSeed c)) = ''file'' \<and> Path (Backend (applyDefaults noSeed c)) \<noteq> [])"
proof -
  note v = Validate_None [OF assms]
  have rules: "cfgRules (applyDefaults noSeed c) = map applyRuleDefaults (cfgRules c)"
    and compat: "Compat (applyDefaults noSeed c) = compatDefaults (MySQLVersion (serverDefaults (Server c))) (Compat c)"
    by (simp_all add: applyDefaults_def)
  have "\<forall>r \<in> set (map applyRuleDefaults (cfgRules c)). \<exists>p. prepareRule compile r = Inr p"
    using v(4) validated_match unfolding rules firstSome_None by (fastforce simp: in_set_conv_nth)
  then have "\<exists>rs. prepareRules compile (cfgRules (applyDefaults noSeed c)) = Inr rs"
    unfolding rules prepareRules_def by (rule prepareRulesFrom_all)
  moreover have "Profile (Compat (applyDefaults noSeed c)) \<in> {''default'', ''gorm''}"
    using v(1) by (auto simp: compat compatDefaults_modes lookupCompatProfile_def compatProfiles_def split: if_split_asm)
  moreover have "WriteValidation (Compat (applyDefaults noSeed c)) \<in> {''strict'', ''basic'', ''off''}"
    using v(2) by (auto simp: compat compatDefaults_modes lookupWriteValidationMode_def Let_def split: if_split_asm)
  ultimately show ?thesis using v(3) by blast
qed

theorem validated_config_runs_witness:
  "\<exists>rules. prepareRules (\<lambda>_. None) (cfgRules (applyDefaults () (DefaultConfig ()))) = Inr rules"
  using validated_config_runs [of "\<lambda>_. None" "()" "DefaultConfig ()"] by (simp add: defaults_default)

end
