(* ===== verification/Seed_Csv.thy ===== *)
theory Seed_Csv
  imports Configuration Row_Codec
begin

text \<open>
  CSV seed files (\<open>decodeCSVSeedFile\<close> and what it calls in \<open>pkg/mysqlmock/config.go\<close>): the table name, the header, the
  null markers and the inference of types. The records come from Go's CSV reader, which gives every record as many
  fields as the first one or fails; \<open>seedStd\<close> parses floats and times.
\<close>

unbundle bit_operations_syntax

definition lowerByte :: "byte \<Rightarrow> byte" where
  "lowerByte b = (if 65 \<le> b \<and> b \<le> 90 then b + 32 else b)"

definition spaceByte :: "byte \<Rightarrow> bool" where
  "spaceByte b = (b = 32 \<or> (9 \<le> b \<and> b \<le> 13))"

definition trimCell :: "bytes \<Rightarrow> bytes" where
  "trimCell s = rev (dropWhile spaceByte (rev (dropWhile spaceByte s)))"

definition isIntegerLiteral :: "bytes \<Rightarrow> bool" where
  "isIntegerLiteral v0 =
     (if v0 = [] then False
      else let v = (if hd v0 = 45 \<or> hd v0 = 43 then tl v0 else v0) in v \<noteq> [] \<and> list_all isDigitByte v)"

text \<open>Bytes \<open>. e E - +\<close> are 46, 101, 69, 45, 43.\<close>

definition isFloatLiteral :: "bytes \<Rightarrow> bool" where
  "isFloatLiteral v0 =
     (if \<not> list_ex (\<lambda>b. b \<in> {46, 101, 69}) v0 then False
      else let v = (if hd v0 = 45 \<or> hd v0 = 43 then tl v0 else v0) in
        list_all (\<lambda>b. isDigitByte b \<or> b \<in> {46, 101, 69, 45, 43}) v \<and> list_ex isDigitByte v)"

definition seedLayouts :: "bytes list" where
  "seedLayouts =
     [ascii ''2006-01-02T15:04:05.999999999Z07:00'', ascii ''2006-01-02 15:04:05.999999'',
      ascii ''2006-01-02 15:04:05'', ascii ''2006-01-02'']"

fun firstSeedLayout :: "goStd \<Rightarrow> bytes list \<Rightarrow> bytes \<Rightarrow> goTime option" where
  "firstSeedLayout std [] v = None"
| "firstSeedLayout std (l # ls) v = (case parseLayout std l v of Some t \<Rightarrow> Some t | None \<Rightarrow> firstSeedLayout std ls v)"

text \<open>The last resort of the inference: a time, or the cell itself.\<close>

definition seedTimeOrText :: "goStd \<Rightarrow> bytes \<Rightarrow> bytes \<Rightarrow> goValue" where
  "seedTimeOrText std trimmed v =
     (case firstSeedLayout std seedLayouts trimmed of Some t \<Rightarrow> GoTime t | None \<Rightarrow> GoString v)"

definition seedFloatOrTime :: "goStd \<Rightarrow> bytes \<Rightarrow> bytes \<Rightarrow> goValue" where
  "seedFloatOrTime std trimmed v =
     (if isFloatLiteral trimmed then
        (case parseFloat std trimmed of Some f \<Rightarrow> GoFloat (F64 f) | None \<Rightarrow> seedTimeOrText std trimmed v)
      else seedTimeOrText std trimmed v)"

definition decodeCSVSeedValue :: "goStd \<Rightarrow> bytes \<Rightarrow> bool \<Rightarrow> goValue" where
  "decodeCSVSeedValue std v inferTypes =
     (if \<not> inferTypes then GoString v
      else let trimmed = trimCell v; low = map lowerByte trimmed in
        if low = ascii ''true'' then GoBool True
        else if low = ascii ''false'' then GoBool False
        else if isIntegerLiteral trimmed then
          (case parseInt trimmed of Inr n \<Rightarrow> GoInt64 n | Inl _ \<Rightarrow> seedFloatOrTime std trimmed v)
        else seedFloatOrTime std trimmed v)"

definition seedCSVNullValues :: "string list \<Rightarrow> bytes \<Rightarrow> bool" where
  "seedCSVNullValues vs v = (v \<in> set (map ascii (if vs = [] then [[bslash, CHR ''N'']] else vs)))"

datatype csv_error = NoTableName | ReaderError nat | EmptyHeader | EmptyColumn nat

text \<open>\<open>filepath.Base\<close> of a path without trailing slashes, which file names have.\<close>

definition Base :: "string \<Rightarrow> string" where
  "Base path =
     (let p = rev (dropWhile (\<lambda>c. c = CHR ''/'') (rev path)) in
      if path = [] then ''.'' else if p = [] then ''/'' else rev (takeWhile (\<lambda>c. c \<noteq> CHR ''/'') (rev p)))"

text \<open>The byte order mark a spreadsheet program writes first.\<close>

definition trimBOM :: "bytes \<Rightarrow> bytes" where
  "trimBOM h = (if prefix [0xEF, 0xBB, 0xBF] h then drop 3 h else h)"

definition seedHeader :: "bytes list \<Rightarrow> bytes list" where
  "seedHeader h = map trimCell (case h of [] \<Rightarrow> [] | x # xs \<Rightarrow> trimBOM x # xs)"

definition seedRow :: "goStd \<Rightarrow> SeedFileConfig \<Rightarrow> bytes list \<Rightarrow> bytes list \<Rightarrow> bytes \<rightharpoonup> goValue" where
  "seedRow std cfg header rec =
     fold (\<lambda>(name, v) row. row(name \<mapsto>
         (if seedCSVNullValues (NullValues cfg) v then GoNil else decodeCSVSeedValue std v (InferTypes cfg))))
       (zip header rec) Map.empty"

text \<open>The rows until the reader ends or fails: \<open>reads\<close> lists its results.\<close>

fun seedRows :: "goStd \<Rightarrow> SeedFileConfig \<Rightarrow> bytes list \<Rightarrow> (nat + bytes list) list \<Rightarrow> csv_error + (bytes \<rightharpoonup> goValue) list" where
  "seedRows std cfg header [] = Inr []"
| "seedRows std cfg header (Inl e # rs) = Inl (ReaderError e)"
| "seedRows std cfg header (Inr rec # rs) =
     map_sum id (Cons (seedRow std cfg header rec)) (seedRows std cfg header rs)"

definition decodeCSVSeedFile ::
    "goStd \<Rightarrow> SeedFileConfig \<Rightarrow> (nat + bytes list) list \<Rightarrow> csv_error + (string \<times> (bytes \<rightharpoonup> goValue) list)" where
  "decodeCSVSeedFile std cfg reads =
     (let tableName0 = TrimSpace (seedTable cfg);
          tableName = (if tableName0 = [] then TrimSuffix (Base (seedPath cfg)) (Ext (seedPath cfg)) else tableName0) in
      if tableName = [] then Inl NoTableName
      else (case reads of
          [] \<Rightarrow> Inl (ReaderError 0)
        | Inl e # rs \<Rightarrow> Inl (ReaderError e)
        | Inr h # rs \<Rightarrow>
            if h = [] then Inl EmptyHeader
            else let header = seedHeader h in
              (case find (\<lambda>i. header ! i = []) [0..<length header] of
                 Some i \<Rightarrow> Inl (EmptyColumn (i + 1))
               | None \<Rightarrow> map_sum id (Pair tableName) (seedRows std cfg header rs))))"

subsection \<open>Properties\<close>

lemma digit_byte: "d < 10 \<Longrightarrow> isDigitByte (of_nat (48 + d)) \<and> unat (of_nat (48 + d) - 48 :: byte) = d"
proof -
  assume "d < 10"
  then have "d \<in> {0, 1, 2, 3, 4, 5, 6, 7, 8, 9}" by auto
  then show ?thesis by (auto simp: isDigitByte_def)
qed

lemma digitsValue_append: "digitsValue acc (xs @ [b]) = 10 * digitsValue acc xs + unat (b - 48)"
  by (induction xs arbitrary: acc) simp_all

lemma formatNat_digits: "formatNat n \<noteq> [] \<and> list_all isDigitByte (formatNat n) \<and> digitsValue 0 (formatNat n) = n"
proof (induction n rule: formatNat.induct)
  case (1 n)
  show ?case
  proof (cases "n < 10")
    case True
    then show ?thesis using digit_byte [OF True] by (simp add: formatNat.simps [of n])
  next
    case False
    have d: "n mod 10 < 10" by simp
    have e: "formatNat n = formatNat (n div 10) @ [of_nat (48 + n mod 10)]"
      using False by (subst formatNat.simps) simp
    show ?thesis
      unfolding e list_all_append digitsValue_append
      using 1 [OF False] digit_byte [OF d] by (simp del: of_nat_add)
  qed
qed

lemma digit_plain: "isDigitByte b \<Longrightarrow> b \<noteq> 45 \<and> b \<noteq> 43 \<and> \<not> spaceByte b \<and> b \<noteq> 116 \<and> b \<noteq> 102 \<and> lowerByte b = b"
  by (auto simp: isDigitByte_def spaceByte_def lowerByte_def word_le_nat_alt word_less_nat_alt)

lemma parseInt_formatInt: "parseInt (formatInt n) = Inr n"
proof -
  have r: "- (2 ^ 63) \<le> sint n" "sint n < 2 ^ 63"
    using sint_greater_eq [of n] sint_less [of n] by simp_all
  let ?m = "formatNat (nat (sint n))" let ?k = "formatNat (nat (- sint n))"
  obtain b bs where m: "?m = b # bs" "isDigitByte b"
    using formatNat_digits [of "nat (sint n)"] by (cases ?m) auto
  show ?thesis
  proof (cases "sint n < 0")
    case True
    then show ?thesis
      using r formatNat_digits [of "nat (- sint n)"] by (simp add: formatInt_def parseInt_def Let_def)
  next
    case False
    have "digitsValue 0 (b # bs) = nat (sint n)" "list_all isDigitByte (b # bs)"
      using formatNat_digits [of "nat (sint n)"] m(1) by simp_all
    with False r digit_plain [OF m(2)] show ?thesis
      by (simp add: formatInt_def m(1) parseInt_def Let_def del: digitsValue.simps)
  qed
qed

lemma formatInt_shape:
  "formatInt n \<noteq> [] \<and> \<not> spaceByte (hd (formatInt n)) \<and> \<not> spaceByte (last (formatInt n)) \<and>
   hd (formatInt n) \<notin> {116, 102} \<and> lowerByte (hd (formatInt n)) = hd (formatInt n) \<and> isIntegerLiteral (formatInt n)"
proof (cases "sint n < 0")
  case True
  have k: "formatNat (nat (- sint n)) \<noteq> []" "list_all isDigitByte (formatNat (nat (- sint n)))"
    using formatNat_digits by blast+
  then have "isDigitByte (last (formatNat (nat (- sint n))))" by (simp add: list_all_iff)
  with True k digit_plain show ?thesis
    by (simp add: formatInt_def isIntegerLiteral_def spaceByte_def [of 45] lowerByte_def [of 45])
next
  case False
  have k: "formatNat (nat (sint n)) \<noteq> []" "list_all isDigitByte (formatNat (nat (sint n)))"
    using formatNat_digits by blast+
  then have "isDigitByte (last (formatNat (nat (sint n))))" "isDigitByte (hd (formatNat (nat (sint n))))"
    by (simp_all add: list_all_iff)
  with False k digit_plain show ?thesis by (simp add: formatInt_def isIntegerLiteral_def Let_def)
qed

lemma trimCell_padded:
  assumes "list_all spaceByte pre" "list_all spaceByte post" "v \<noteq> []" "\<not> spaceByte (hd v)" "\<not> spaceByte (last v)"
  shows "trimCell (pre @ v @ post) = v"
proof -
  have "dropWhile spaceByte (pre @ v @ post) = v @ post"
    using assms(1,3,4) by (cases v) (simp_all add: dropWhile_append list_all_iff)
  moreover have "dropWhile spaceByte (rev (v @ post)) = rev v"
    using assms(2,3,5) by (cases v rule: rev_cases) (simp_all add: dropWhile_append list_all_iff)
  ultimately show ?thesis by (simp add: trimCell_def)
qed

text \<open>
  an integer written into a CSV cell is read back as that integer when types are inferred, for every 64-bit value and
  whatever blanks surround it; without inference every cell is the text itself.
\<close>

theorem csv_integer_roundtrip:
  assumes "list_all spaceByte pre" "list_all spaceByte post"
  shows "decodeCSVSeedValue std (pre @ formatInt n @ post) True = GoInt64 n \<and> decodeCSVSeedValue std v False = GoString v"
proof -
  note s = formatInt_shape [of n]
  have t: "trimCell (pre @ formatInt n @ post) = formatInt n"
    using s by (intro trimCell_padded assms) simp_all
  have "hd (map lowerByte (formatInt n)) \<notin> {116, 102}" using s by (simp add: hd_map)
  then have "map lowerByte (formatInt n) \<noteq> ascii ''true''" "map lowerByte (formatInt n) \<noteq> ascii ''false''"
    by (auto simp: ascii_def)
  with s t show ?thesis by (simp add: decodeCSVSeedValue_def Let_def parseInt_formatInt)
qed

theorem csv_integer_roundtrip_witness:
  "decodeCSVSeedValue exampleStd ([32] @ formatInt (- 7) @ [9]) True = GoInt64 (- 7)"
  using csv_integer_roundtrip [of "[32]" "[9]" exampleStd "- 7" "[]"] by (simp add: spaceByte_def)

end
