(* ===== verification/Snapshot_Json.thy ===== *)
theory Snapshot_Json
  imports Go_Prelude
begin

text \<open>
  The JSON snapshots of recorded queries (\<open>pkg/mysqlmock/diagnostics.go\<close>): the hand-written encoder and the
  computation of the size it will need.
\<close>

subsection \<open>UTF-8\<close>

abbreviation byteVal :: "char \<Rightarrow> nat" where
  "byteVal c \<equiv> of_char c"

abbreviation continuation :: "char \<Rightarrow> bool" where
  "continuation c \<equiv> 0x80 \<le> byteVal c \<and> byteVal c \<le> 0xBF"

text \<open>
  \<open>utf8.DecodeRuneInString\<close> on a text that does not start with an ASCII byte: the code point and its width. Overlong
  forms, surrogates and truncated sequences give \<open>utf8.RuneError\<close> with width 1.
\<close>

definition decodeRune :: "string \<Rightarrow> nat \<times> nat" where
  "decodeRune s =
     (let b0 = byteVal (s ! 0) in
      if 0xC2 \<le> b0 \<and> b0 \<le> 0xDF \<and> 1 < length s \<and> continuation (s ! 1) then
        ((b0 - 0xC0) * 64 + (byteVal (s ! 1) - 0x80), 2)
      else if 0xE0 \<le> b0 \<and> b0 \<le> 0xEF \<and> 2 < length s
          \<and> (if b0 = 0xE0 then 0xA0 else 0x80) \<le> byteVal (s ! 1) \<and> byteVal (s ! 1) \<le> (if b0 = 0xED then 0x9F else 0xBF)
          \<and> continuation (s ! 2) then
        ((b0 - 0xE0) * 4096 + (byteVal (s ! 1) - 0x80) * 64 + (byteVal (s ! 2) - 0x80), 3)
      else if 0xF0 \<le> b0 \<and> b0 \<le> 0xF4 \<and> 3 < length s
          \<and> (if b0 = 0xF0 then 0x90 else 0x80) \<le> byteVal (s ! 1) \<and> byteVal (s ! 1) \<le> (if b0 = 0xF4 then 0x8F else 0xBF)
          \<and> continuation (s ! 2) \<and> continuation (s ! 3) then
        ((b0 - 0xF0) * 262144 + (byteVal (s ! 1) - 0x80) * 4096 + (byteVal (s ! 2) - 0x80) * 64
           + (byteVal (s ! 3) - 0x80), 4)
      else (0xFFFD, 1))"

lemma decodeRune_size: "1 \<le> snd (decodeRune s)"
  by (simp add: decodeRune_def Let_def)

lemma decodeRune_fits: "s \<noteq> [] \<Longrightarrow> snd (decodeRune s) \<le> length s"
  by (auto simp: decodeRune_def Let_def Suc_le_eq)

lemma below_four: "(i :: nat) < 4 \<longleftrightarrow> i = 0 \<or> i = 1 \<or> i = 2 \<or> i = 3"
  by auto

lemma decodeRune_high:
  "decodeRune s = (r, n) \<Longrightarrow> n \<noteq> 1 \<Longrightarrow> c \<in> set (take n s) \<Longrightarrow> 0x80 \<le> byteVal c"
  by (auto simp: decodeRune_def Let_def in_set_conv_nth nth_Cons less_Suc_eq numeral_2_eq_2 numeral_3_eq_3 below_four
      split: if_split_asm)

subsection \<open>Escapes\<close>

definition snapshotJSONSafeASCII :: "char \<Rightarrow> bool" where
  "snapshotJSONSafeASCII b =
     (0x20 \<le> byteVal b \<and> b \<noteq> bslash \<and> b \<noteq> dq \<and> b \<noteq> CHR ''<'' \<and> b \<noteq> CHR ''>'' \<and> b \<noteq> CHR ''&'')"

definition snapshotJSONHex :: string where
  "snapshotJSONHex = ''0123456789abcdef''"

definition appendSnapshotJSONEscapedASCII :: "string \<Rightarrow> char \<Rightarrow> string" where
  "appendSnapshotJSONEscapedASCII out b =
     (if b = bslash \<or> b = dq then out @ [bslash, b]
      else if b = CHR 0x08 then out @ [bslash, CHR ''b'']
      else if b = CHR 0x0C then out @ [bslash, CHR ''f'']
      else if b = CHR 0x0A then out @ [bslash, CHR ''n'']
      else if b = CHR 0x0D then out @ [bslash, CHR ''r'']
      else if b = CHR 0x09 then out @ [bslash, CHR ''t'']
      else out @ [bslash, CHR ''u'', CHR ''0'', CHR ''0'', snapshotJSONHex ! (byteVal b div 16), snapshotJSONHex ! (byteVal b mod 16)])"

definition snapshotJSONEscapedASCIILen :: "char \<Rightarrow> nat" where
  "snapshotJSONEscapedASCIILen b =
     (if b \<in> {bslash, dq, CHR 0x08, CHR 0x0C, CHR 0x0A, CHR 0x0D, CHR 0x09} then 2 else 6)"

text \<open>\<open>appendSnapshotJSONString\<close>'s loop: \<open>start\<close> is where the bytes not yet copied begin.\<close>

function jsonString_loop :: "string \<Rightarrow> string \<Rightarrow> nat \<Rightarrow> nat \<Rightarrow> string" where
  "jsonString_loop value out start i =
     (if i < length value then
        if byteVal (value ! i) < 0x80 then
          if snapshotJSONSafeASCII (value ! i) then jsonString_loop value out start (i + 1)
          else jsonString_loop value (appendSnapshotJSONEscapedASCII (out @ gslice value start i) (value ! i)) (i + 1) (i + 1)
        else case decodeRune (drop i value) of (r, n) \<Rightarrow>
          if r = 0xFFFD \<and> n = 1 then
            jsonString_loop value (out @ gslice value start i @ bslash # ''ufffd'') (i + n) (i + n)
          else if r = 0x2028 \<or> r = 0x2029 then
            jsonString_loop value (out @ gslice value start i @ bslash # ''u202'' @ [snapshotJSONHex ! (r mod 16)]) (i + n) (i + n)
          else jsonString_loop value out start (i + n)
      else out @ drop start value @ [dq])"
  by pat_completeness auto
termination
  by (relation "measure (\<lambda>(v, out, start, i). length v - i)")
    (auto simp: diff_less_mono2, (metis One_nat_def Suc_le_lessD add_gr_0 decodeRune_size diff_less_mono2 less_add_same_cancel1 snd_conv)+)

declare jsonString_loop.simps [simp del]

definition appendSnapshotJSONString :: "string \<Rightarrow> string \<Rightarrow> string" where
  "appendSnapshotJSONString out value = jsonString_loop value (out @ [dq]) 0 0"

function jsonLen_loop :: "string \<Rightarrow> nat \<Rightarrow> nat \<Rightarrow> nat" where
  "jsonLen_loop value sz i =
     (if i < length value then
        if byteVal (value ! i) < 0x80 then
          jsonLen_loop value
            (if snapshotJSONSafeASCII (value ! i) then sz + 1 else sz + snapshotJSONEscapedASCIILen (value ! i)) (i + 1)
        else case decodeRune (drop i value) of (r, n) \<Rightarrow>
          if r = 0xFFFD \<and> n = 1 then jsonLen_loop value (sz + 6) (i + n)
          else if r = 0x2028 \<or> r = 0x2029 then jsonLen_loop value (sz + 6) (i + n)
          else jsonLen_loop value (sz + n) (i + n)
      else sz)"
  by pat_completeness auto
termination
  by (relation "measure (\<lambda>(v, sz, i). length v - i)")
    (auto simp: diff_less_mono2, (metis One_nat_def Suc_le_lessD add_gr_0 decodeRune_size diff_less_mono2 less_add_same_cancel1 snd_conv)+)

declare jsonLen_loop.simps [simp del]

definition snapshotJSONStringLen :: "string \<Rightarrow> nat" where
  "snapshotJSONStringLen value = jsonLen_loop value 2 0"

subsection \<open>Documents\<close>

record UnsupportedQuery =
  unSQL :: string
  unNormalizedSQL :: string
  unConnectionID :: "32 word"
  unCommand :: string
  unCurrentDB :: string
  unRouteStage :: string
  unSuggestion :: string

record QueryEvent =
  evEvent :: string
  evConnectionID :: "32 word"
  evCommand :: string
  evRoute :: string
  evDatabase :: string
  evSQL :: string
  evNormalizedSQL :: string
  evSuggestion :: string

definition snapshotEmpty :: string where
  "snapshotEmpty = ''{'' @ nl # ''  '' @ dq # ''queries'' @ dq # '': []'' @ nl # ''}'' @ [nl]"

definition snapshotHead :: string where
  "snapshotHead = ''{'' @ nl # ''  '' @ dq # ''queries'' @ dq # '': ['' @ [nl]"

definition appendSnapshotJSONStart :: "string \<Rightarrow> nat \<Rightarrow> string" where
  "appendSnapshotJSONStart out count = (if count = 0 then out @ snapshotEmpty else out @ snapshotHead)"

definition appendSnapshotJSONEnd :: "string \<Rightarrow> nat \<Rightarrow> string" where
  "appendSnapshotJSONEnd out count = (if count = 0 then out else out @ nl # ''  ]'' @ nl # ''}'' @ [nl])"

definition appendSnapshotObjectStart :: "string \<Rightarrow> string" where
  "appendSnapshotObjectStart out =
     (let out' = (if length out > length snapshotHead then out @ '','' @ [nl] else out) in out' @ ''    {'' @ [nl])"

definition appendSnapshotObjectEnd :: "string \<Rightarrow> string" where
  "appendSnapshotObjectEnd out = out @ nl # ''    }''"

definition appendSnapshotStringField :: "string \<Rightarrow> nat \<Rightarrow> string \<Rightarrow> string \<Rightarrow> bool \<Rightarrow> string \<times> nat" where
  "appendSnapshotStringField out fieldCount name value omitEmpty =
     (if omitEmpty \<and> value = [] then (out, fieldCount)
      else (appendSnapshotJSONString
              ((if fieldCount > 0 then out @ '','' @ [nl] else out) @ ''      '' @ dq # name @ dq # '': '') value,
            fieldCount + 1))"

definition estimateSnapshotStringField :: "nat \<Rightarrow> nat \<Rightarrow> string \<Rightarrow> string \<Rightarrow> bool \<Rightarrow> nat \<times> nat" where
  "estimateSnapshotStringField sz fieldCount name value omitEmpty =
     (if omitEmpty \<and> value = [] then (sz, fieldCount)
      else ((if fieldCount > 0 then sz + 2 else sz) + 7 + length name + 3 + snapshotJSONStringLen value, fieldCount + 1))"

text \<open>The fields both loops write for an entry, in their order; the flag is \<open>omitEmpty\<close>.\<close>

definition queryFields :: "QueryEvent \<Rightarrow> (string \<times> string \<times> bool) list" where
  "queryFields q =
     [(''command'', evCommand q, True), (''route'', evRoute q, True), (''database'', evDatabase q, True),
      (''sql'', evSQL q, False),
      (''normalized_sql'', if evNormalizedSQL q = evSQL q then [] else evNormalizedSQL q, True)]"

definition unsupportedFields :: "UnsupportedQuery \<Rightarrow> (string \<times> string \<times> bool) list" where
  "unsupportedFields q =
     [(''command'', unCommand q, True), (''route_stage'', unRouteStage q, True), (''database'', unCurrentDB q, True),
      (''sql'', unSQL q, False),
      (''normalized_sql'', if unNormalizedSQL q = unSQL q then [] else unNormalizedSQL q, True),
      (''suggestion'', unSuggestion q, True)]"

definition appendFields :: "(string \<times> string \<times> bool) list \<Rightarrow> string \<times> nat \<Rightarrow> string \<times> nat" where
  "appendFields = fold (\<lambda>(name, value, omit) (out, n). appendSnapshotStringField out n name value omit)"

definition appendEntry :: "(string \<times> string \<times> bool) list \<Rightarrow> string \<Rightarrow> string" where
  "appendEntry fs out = appendSnapshotObjectEnd (fst (appendFields fs (appendSnapshotObjectStart out, 0)))"

definition QuerySnapshotJSON :: "QueryEvent list \<Rightarrow> string" where
  "QuerySnapshotJSON queries =
     appendSnapshotJSONEnd
       (fold (\<lambda>q. appendEntry (queryFields q)) queries (appendSnapshotJSONStart [] (length queries))) (length queries)"

definition UnsupportedSnapshotJSON :: "UnsupportedQuery list \<Rightarrow> string" where
  "UnsupportedSnapshotJSON queries =
     appendSnapshotJSONEnd
       (fold (\<lambda>q. appendEntry (unsupportedFields q)) queries (appendSnapshotJSONStart [] (length queries))) (length queries)"

definition estimateFields :: "(string \<times> string \<times> bool) list \<Rightarrow> nat \<times> nat \<Rightarrow> nat \<times> nat" where
  "estimateFields = fold (\<lambda>(name, value, omit) (sz, n). estimateSnapshotStringField sz n name value omit)"

definition estimateEntry :: "(string \<times> string \<times> bool) list \<Rightarrow> nat \<times> nat \<Rightarrow> nat \<times> nat" where
  "estimateEntry fs st =
     (case st of (i, sz) \<Rightarrow>
        (i + 1, fst (estimateFields fs ((if i > 0 then sz + 2 else sz) + 6 + 6, 0))))"

definition estimateQuerySnapshotJSONSize :: "QueryEvent list \<Rightarrow> nat" where
  "estimateQuerySnapshotJSONSize queries =
     (if queries = [] then length snapshotEmpty
      else snd (fold (\<lambda>q. estimateEntry (queryFields q)) queries (0, length snapshotHead + 7)))"

definition estimateUnsupportedSnapshotJSONSize :: "UnsupportedQuery list \<Rightarrow> nat" where
  "estimateUnsupportedSnapshotJSONSize queries =
     (if queries = [] then length snapshotEmpty
      else snd (fold (\<lambda>q. estimateEntry (unsupportedFields q)) queries (0, length snapshotHead + 7)))"

subsection \<open>Strings: the encoder, its size and a reader\<close>

text \<open>What is written for the character at the front, and its width.\<close>

definition escapeFront :: "string \<Rightarrow> string \<times> nat" where
  "escapeFront s =
     (if byteVal (hd s) < 0x80 then
        (if snapshotJSONSafeASCII (hd s) then [hd s] else appendSnapshotJSONEscapedASCII [] (hd s), 1)
      else case decodeRune s of (r, n) \<Rightarrow>
        if r = 0xFFFD \<and> n = 1 then (bslash # ''ufffd'', n)
        else if r = 0x2028 \<or> r = 0x2029 then (bslash # ''u202'' @ [snapshotJSONHex ! (r mod 16)], n)
        else (take n s, n))"

lemma escapeFront_size: "1 \<le> snd (escapeFront s)"
  using decodeRune_size [of s] by (auto simp: escapeFront_def split: prod.splits)

lemma escapeFront_fits: "s \<noteq> [] \<Longrightarrow> snd (escapeFront s) \<le> length s"
  using decodeRune_fits [of s] by (auto simp: escapeFront_def Suc_le_eq split: prod.splits)

function escapes :: "string \<Rightarrow> string" where
  "escapes s = (if s = [] then [] else fst (escapeFront s) @ escapes (drop (snd (escapeFront s)) s))"
  by pat_completeness auto
termination
  by (relation "measure length") (use escapeFront_size in \<open>auto simp: Suc_le_eq\<close>)

declare escapes.simps [simp del]

lemma escapes_Nil [simp]: "escapes [] = []"
  by (simp add: escapes.simps)

lemma appendEscaped_append: "appendSnapshotJSONEscapedASCII out b = out @ appendSnapshotJSONEscapedASCII [] b"
  by (simp add: appendSnapshotJSONEscapedASCII_def)

lemma appendEscaped_length: "length (appendSnapshotJSONEscapedASCII [] b) = snapshotJSONEscapedASCIILen b"
  by (auto simp: appendSnapshotJSONEscapedASCII_def snapshotJSONEscapedASCIILen_def)

lemma jsonString_loop_eq:
  "start \<le> i \<Longrightarrow> i \<le> length value \<Longrightarrow>
     jsonString_loop value out start i = out @ gslice value start i @ escapes (drop i value) @ [dq]"
proof (induction "value" out start i rule: jsonString_loop.induct)
  case (1 v out start i)
  show ?case
  proof (cases "i < length v")
    case True
    obtain r n where d: "decodeRune (drop i v) = (r, n)" by (cases "decodeRune (drop i v)")
    let ?s = "drop i v"
    have s: "?s \<noteq> []" "hd ?s = v ! i" using True by (simp_all add: hd_drop_conv_nth)
    have n: "1 \<le> n" "i + n \<le> length v"
      using decodeRune_size [of ?s] decodeRune_fits [OF s(1)] d True by simp_all
    have e: "escapes ?s = fst (escapeFront ?s) @ escapes (drop (i + snd (escapeFront ?s)) v)"
      using s(1) by (subst escapes.simps) (simp add: add.commute)
    have one: "gslice v start (Suc i) = gslice v start i @ [v ! i]"
      using gslice_append_slice [of start i "Suc i" v] "1.prems" True by (simp add: gslice_Suc)
    have many: "gslice v start (i + n) = gslice v start i @ take n ?s"
      using gslice_append_slice [of start i "i + n" v] "1.prems" n by (simp add: take_gslice)
    note IH = "1.IH" [OF True]
    show ?thesis
      using "1.prems" True IH d n
      by (subst jsonString_loop.simps)
        (auto simp: e escapeFront_def s one many d appendEscaped_append [of "_ @ _"])
  next
    case False
    with "1.prems" show ?thesis by (subst jsonString_loop.simps) (simp add: gslice_drop)
  qed
qed

lemma appendSnapshotJSONString_eq: "appendSnapshotJSONString out value = out @ dq # escapes value @ [dq]"
  by (simp add: appendSnapshotJSONString_def jsonString_loop_eq)

lemma jsonLen_loop_eq: "i \<le> length value \<Longrightarrow> jsonLen_loop value sz i = sz + length (escapes (drop i value))"
proof (induction "value" sz i rule: jsonLen_loop.induct)
  case (1 v sz i)
  show ?case
  proof (cases "i < length v")
    case True
    obtain r n where d: "decodeRune (drop i v) = (r, n)" by (cases "decodeRune (drop i v)")
    let ?s = "drop i v"
    have s: "?s \<noteq> []" "hd ?s = v ! i" using True by (simp_all add: hd_drop_conv_nth)
    have n: "1 \<le> n" "i + n \<le> length v"
      using decodeRune_size [of ?s] decodeRune_fits [OF s(1)] d True by simp_all
    have e: "escapes ?s = fst (escapeFront ?s) @ escapes (drop (i + snd (escapeFront ?s)) v)"
      using s(1) by (subst escapes.simps) (simp add: add.commute)
    note IH = "1.IH" [OF True]
    show ?thesis
      using "1.prems" True IH d n
      by (subst jsonLen_loop.simps) (auto simp: e escapeFront_def s d appendEscaped_length)
  next
    case False
    with "1.prems" show ?thesis by (subst jsonLen_loop.simps) simp
  qed
qed

lemma snapshotJSONStringLen_eq: "snapshotJSONStringLen value = length (appendSnapshotJSONString [] value)"
  by (simp add: snapshotJSONStringLen_def jsonLen_loop_eq appendSnapshotJSONString_eq)

definition hexVal :: "char \<Rightarrow> nat" where
  "hexVal c = (if isDigit c then byteVal c - 48 else byteVal c - 87)"

text \<open>UTF-8 for the code points below \<open>0x10000\<close>, which a \<open>\u\<close> escape can name.\<close>

definition encodeRune :: "nat \<Rightarrow> string" where
  "encodeRune r =
     (if r < 0x80 then [char_of r]
      else if r < 0x800 then [char_of (0xC0 + r div 64), char_of (0x80 + r mod 64)]
      else [char_of (0xE0 + r div 4096), char_of (0x80 + r div 64 mod 64), char_of (0x80 + r mod 64)])"

definition simpleEscape :: "char \<Rightarrow> char option" where
  "simpleEscape c = map_of [(dq, dq), (bslash, bslash), (CHR ''/'', CHR ''/''), (CHR ''b'', CHR 0x08), (CHR ''f'', CHR 0x0C),
     (CHR ''n'', CHR 0x0A), (CHR ''r'', CHR 0x0D), (CHR ''t'', CHR 0x09)] c"

text \<open>A JSON reader, from behind the opening quote: the string and what follows it.\<close>

fun readJSON :: "string \<Rightarrow> (string \<times> string) option" where
  "readJSON [] = None"
| "readJSON (c # s) =
     (if c = dq then Some ([], s)
      else if byteVal c < 0x20 then None
      else if c \<noteq> bslash then map_option (apfst ((@) [c])) (readJSON s)
      else case s of
          [] \<Rightarrow> None
        | e # s1 \<Rightarrow>
            if e = CHR ''u'' then
              (case s1 of
                 h1 # h2 # h3 # h4 # s2 \<Rightarrow>
                   map_option (apfst ((@) (encodeRune (((hexVal h1 * 16 + hexVal h2) * 16 + hexVal h3) * 16 + hexVal h4)))) (readJSON s2)
               | _ \<Rightarrow> None)
            else (case simpleEscape e of
                None \<Rightarrow> None
              | Some x \<Rightarrow> map_option (apfst ((@) [x])) (readJSON s1)))"

text \<open>The text with every byte that is not part of well-formed UTF-8 replaced by U+FFFD.\<close>

function repaired :: "string \<Rightarrow> string" where
  "repaired s =
     (if s = [] then []
      else if byteVal (hd s) < 0x80 then hd s # repaired (tl s)
      else case decodeRune s of (r, n) \<Rightarrow>
        if r = 0xFFFD \<and> n = 1 then encodeRune 0xFFFD @ repaired (tl s) else take n s @ repaired (drop n s))"
  by pat_completeness auto
termination
proof (relation "measure length", goal_cases)
  case (4 s x y)
  then have "y = snd (decodeRune s)" by (metis snd_conv)
  with 4 decodeRune_size [of s] show ?case by simp
qed (simp_all add: length_greater_0_conv [symmetric] del: length_greater_0_conv)

declare repaired.simps [simp del]

lemma hexVal_digit: "k < 16 \<Longrightarrow> hexVal (snapshotJSONHex ! k) = k"
proof -
  assume "k < 16"
  then have "k \<in> set [0..<16]" by simp
  moreover have "list_all (\<lambda>k. hexVal (snapshotJSONHex ! k) = k) [0..<16]" by code_simp
  ultimately show ?thesis by (simp only: list_all_iff)
qed

lemma encodeRune_three:
  assumes "0xE0 \<le> byteVal a" "continuation b" "continuation c" "byteVal a \<le> 0xEF"
    and "r = (byteVal a - 0xE0) * 4096 + (byteVal b - 0x80) * 64 + (byteVal c - 0x80)" "0x800 \<le> r"
  shows "encodeRune r = [a, b, c]"
proof -
  obtain x y z where x: "byteVal a = 0xE0 + x" "byteVal b = 0x80 + y" "byteVal c = 0x80 + z"
    using assms le_Suc_ex by metis
  then have b: "y < 64" "z < 64" "r = (x * 64 + y) * 64 + z" using assms by auto
  have r: "r div 64 = x * 64 + y" "r mod 64 = z" "(x * 64 + y) div 64 = x" "(x * 64 + y) mod 64 = y"
    unfolding b(3) using b(1,2) by (simp_all only: div_mult_self3 mod_mult_self3) simp_all
  then have "r div 4096 = x" using div_mult2_eq [of r 64 64] by simp
  note r = this r
  have "char_of (byteVal a) = a" "char_of (byteVal b) = b" "char_of (byteVal c) = c" by simp_all
  then show ?thesis using assms(6) r by (simp only: encodeRune_def x) simp
qed

lemma decodeRune_one: "decodeRune s = (r, 1) \<Longrightarrow> r = 0xFFFD"
  by (auto simp: decodeRune_def Let_def split: if_split_asm)

lemma decodeRune_two: "decodeRune s = (r, 2) \<Longrightarrow> r < 0x800"
proof -
  assume "decodeRune s = (r, 2)"
  then have "r = (byteVal (s ! 0) - 0xC0) * 64 + (byteVal (s ! 1) - 0x80)" "byteVal (s ! 0) \<le> 0xDF" "continuation (s ! 1)"
    by (simp_all only: decodeRune_def Let_def split: if_split_asm) simp_all
  then have "r = (byteVal (s ! 0) - 0xC0) * 64 + (byteVal (s ! 1) - 0x80)" "byteVal (s ! 0) \<le> 0xDF" "byteVal (s ! 1) \<le> 0xBF"
    by blast+
  then show ?thesis by linarith
qed

lemma decodeRune_three:
  assumes "decodeRune s = (r, 3)" "0x800 \<le> r"
  shows "take 3 s = encodeRune r"
proof -
  have d: "r = (byteVal (s ! 0) - 0xE0) * 4096 + (byteVal (s ! 1) - 0x80) * 64 + (byteVal (s ! 2) - 0x80)"
      "0xE0 \<le> byteVal (s ! 0)" "byteVal (s ! 0) \<le> 0xEF" "2 < length s" "continuation (s ! 2)"
    using assms(1) by (simp_all only: decodeRune_def Let_def split: if_split_asm) simp_all
  have "(if byteVal (s ! 0) = 0xE0 then 0xA0 else 0x80) \<le> byteVal (s ! 1) \<and> byteVal (s ! 1) \<le> (if byteVal (s ! 0) = 0xED then 0x9F else 0xBF)"
    using assms(1) by (simp_all only: decodeRune_def Let_def split: if_split_asm) simp_all
  then have "continuation (s ! 1)" by (simp split: if_split_asm)
  with d assms(2) have "encodeRune r = [s ! 0, s ! 1, s ! 2]" by (intro encodeRune_three) simp_all
  moreover have "take 3 s = [s ! 0, s ! 1, s ! 2]"
    using d(4) by (intro nth_equalityI) (auto simp: nth_Cons numeral_3_eq_3 numeral_2_eq_2 less_Suc_eq)
  ultimately show ?thesis by simp
qed

lemma decodeRune_four: "decodeRune s = (r, 4) \<Longrightarrow> 0x10000 \<le> r"
proof -
  assume four: "decodeRune s = (r, 4)"
  have r: "r = (byteVal (s ! 0) - 0xF0) * 262144 + (byteVal (s ! 1) - 0x80) * 4096 + (byteVal (s ! 2) - 0x80) * 64
           + (byteVal (s ! 3) - 0x80)" and h: "0xF0 \<le> byteVal (s ! 0)"
    using four by (simp_all only: decodeRune_def Let_def split: if_split_asm) simp_all
  have c: "(if byteVal (s ! 0) = 0xF0 then 0x90 else 0x80) \<le> byteVal (s ! 1)"
    using four by (simp_all only: decodeRune_def Let_def split: if_split_asm) simp_all
  show ?thesis
  proof (cases "byteVal (s ! 0) = 0xF0")
    case True
    with c have "16 \<le> byteVal (s ! 1) - 0x80" by simp
    with r show ?thesis by linarith
  next
    case False
    with h have "1 \<le> byteVal (s ! 0) - 0xF0" by simp
    with r show ?thesis by linarith
  qed
qed

lemma decodeRune_sizes: "decodeRune s = (r, n) \<Longrightarrow> n = 1 \<or> n = 2 \<or> n = 3 \<or> n = 4"
  by (auto simp: decodeRune_def Let_def split: if_split_asm)

lemma decodeRune_separator:
  assumes d: "decodeRune s = (r, n)" and r: "r = 0x2028 \<or> r = 0x2029"
  shows "take n s = encodeRune r"
proof -
  have n: "n = 3"
    using decodeRune_sizes [OF d] d r by (auto dest: decodeRune_one [unfolded One_nat_def] decodeRune_two decodeRune_four)
  have "0x800 \<le> r" using r by auto
  with d show ?thesis unfolding n by (rule decodeRune_three)
qed

lemma readJSON_plain:
  "list_all (\<lambda>c. 0x80 \<le> byteVal c) u \<Longrightarrow> readJSON (u @ t) = map_option (apfst ((@) u)) (readJSON t)"
proof (induction u)
  case Nil
  show ?case by (cases "readJSON t") (simp_all add: apfst_def map_prod_def)
next
  case (Cons c u)
  then have "c \<noteq> dq" "c \<noteq> bslash" "\<not> byteVal c < 0x20" by auto
  with Cons show ?case by (cases "readJSON t") (auto simp: prod_eq_iff)
qed

lemma readJSON_ascii:
  assumes "byteVal b < 0x80"
  shows "readJSON ((if snapshotJSONSafeASCII b then [b] else appendSnapshotJSONEscapedASCII [] b) @ t) =
    map_option (apfst ((@) [b])) (readJSON t)"
proof -
  have h: "hexVal (CHR ''0'') = 0" by code_simp
  have "byteVal b div 16 < 16" using assms by simp
  then have u: "((hexVal (CHR ''0'') * 16 + hexVal (CHR ''0'')) * 16 + hexVal (snapshotJSONHex ! (byteVal b div 16))) * 16
      + hexVal (snapshotJSONHex ! (byteVal b mod 16)) = byteVal b"
    by (simp add: hexVal_digit h)
  consider (safe) "snapshotJSONSafeASCII b"
    | (short) "b = bslash \<or> b = dq \<or> b = CHR 0x08 \<or> b = CHR 0x0C \<or> b = CHR 0x0A \<or> b = CHR 0x0D \<or> b = CHR 0x09"
    | (long) "\<not> snapshotJSONSafeASCII b" "b \<noteq> bslash" "b \<noteq> dq" "b \<noteq> CHR 0x08" "b \<noteq> CHR 0x0C" "b \<noteq> CHR 0x0A"
        "b \<noteq> CHR 0x0D" "b \<noteq> CHR 0x09"
    by blast
  then show ?thesis
  proof cases
    case safe
    then show ?thesis by (simp add: snapshotJSONSafeASCII_def)
  next
    case short
    then show ?thesis
      by (elim disjE) (simp_all add: snapshotJSONSafeASCII_def appendSnapshotJSONEscapedASCII_def simpleEscape_def)
  next
    case long
    have b: "encodeRune (byteVal b) = [b]" using assms by (simp add: encodeRune_def)
    have "readJSON (bslash # CHR ''u'' # CHR ''0'' # CHR ''0'' # snapshotJSONHex ! (byteVal b div 16) # snapshotJSONHex ! (byteVal b mod 16) # t)
      = map_option (apfst ((@) (encodeRune (byteVal b)))) (readJSON t)"
      using u by (simp del: of_char_mod_256)
    with long show ?thesis by (simp add: appendSnapshotJSONEscapedASCII_def b)
  qed
qed

lemma escapeFront_reads:
  assumes "s \<noteq> []"
  shows "readJSON (fst (escapeFront s) @ t) = map_option (apfst ((@)
    (if byteVal (hd s) < 0x80 then [hd s]
     else if decodeRune s = (0xFFFD, 1) then encodeRune 0xFFFD else take (snd (escapeFront s)) s))) (readJSON t)"
proof (cases "byteVal (hd s) < 0x80")
  case True
  then show ?thesis using readJSON_ascii [OF True, of t] by (simp add: escapeFront_def)
next
  case False
  obtain r n where d: "decodeRune s = (r, n)" by (cases "decodeRune s")
  have h: "hexVal (CHR ''f'') = 15" "hexVal (CHR ''d'') = 13" "hexVal (CHR ''2'') = 2" "hexVal (CHR ''0'') = 0"
    "hexVal (snapshotJSONHex ! 8) = 8" "hexVal (snapshotJSONHex ! 9) = 9"
    by code_simp+
  consider (err) "r = 0xFFFD" "n = 1" | (sep) "r = 0x2028 \<or> r = 0x2029" | (other) "\<not> (r = 0xFFFD \<and> n = 1)" "r \<noteq> 0x2028" "r \<noteq> 0x2029"
    by blast
  then show ?thesis
  proof cases
    case err
    with False d show ?thesis by (simp add: escapeFront_def h)
  next
    case sep
    with False d decodeRune_separator [OF d sep] show ?thesis
      by (elim disjE) (simp_all add: escapeFront_def h)
  next
    case other
    then have "n \<noteq> 1" using decodeRune_one d by auto
    then have "list_all (\<lambda>c. 0x80 \<le> byteVal c) (take n s)"
      using decodeRune_high [OF d] by (simp add: list_all_iff)
    from readJSON_plain [OF this] other False d show ?thesis by (auto simp: escapeFront_def)
  qed
qed

lemma repaired_front:
  "s \<noteq> [] \<Longrightarrow> repaired s =
    (if byteVal (hd s) < 0x80 then [hd s]
     else if decodeRune s = (0xFFFD, 1) then encodeRune 0xFFFD else take (snd (escapeFront s)) s)
    @ repaired (drop (snd (escapeFront s)) s)"
  by (subst repaired.simps) (auto simp: escapeFront_def drop_Suc split: prod.splits)

lemma escapes_read_back: "readJSON (escapes s @ dq # rest) = Some (repaired s, rest)"
proof (induction s rule: escapes.induct)
  case (1 s)
  show ?case
  proof (cases "s = []")
    case True
    then show ?thesis by (simp add: repaired.simps)
  next
    case False
    have "readJSON (escapes s @ dq # rest) =
        readJSON (fst (escapeFront s) @ escapes (drop (snd (escapeFront s)) s) @ dq # rest)"
      using False by (subst escapes.simps) simp
    then show ?thesis
      using 1 [OF False] escapeFront_reads [OF False, of "escapes (drop (snd (escapeFront s)) s) @ dq # rest"]
        repaired_front [OF False]
      by simp
  qed
qed

text \<open>
  C40: a string of the snapshot is a JSON string: a JSON reader that starts behind its opening quote ends at its closing
  quote, whatever follows, and reads back the text with its ill-formed UTF-8 bytes replaced by U+FFFD.
\<close>

theorem json_string_reads_back:
  "appendSnapshotJSONString out v = out @ dq # escapes v @ [dq] \<and>
   readJSON (escapes v @ dq # rest) = Some (repaired v, rest)"
  by (simp add: appendSnapshotJSONString_eq escapes_read_back)

subsection \<open>Documents\<close>

definition keptFields :: "(string \<times> string \<times> bool) list \<Rightarrow> (string \<times> string) list" where
  "keptFields fs = map (\<lambda>(name, v, omit). (name, v)) (filter (\<lambda>(name, v, omit). \<not> (omit \<and> v = [])) fs)"

definition fieldText :: "string \<times> string \<Rightarrow> string" where
  "fieldText f = ''      '' @ dq # fst f @ dq # '': '' @ dq # escapes (snd f) @ [dq]"

definition entryText :: "(string \<times> string \<times> bool) list \<Rightarrow> string" where
  "entryText fs = ''    {'' @ nl # Join (map fieldText (keptFields fs)) ('','' @ [nl]) @ nl # ''    }''"

definition documentText :: "(string \<times> string \<times> bool) list list \<Rightarrow> string" where
  "documentText es =
     (if es = [] then snapshotEmpty
      else snapshotHead @ Join (map entryText es) ('','' @ [nl]) @ nl # ''  ]'' @ nl # ''}'' @ [nl])"

lemma Join_snoc: "xs \<noteq> [] \<Longrightarrow> Join (xs @ [x]) sep = Join xs sep @ sep @ x"
  by (induction xs sep rule: Join.induct) (auto simp: Join_Cons)

lemma field_step:
  "\<not> (omit \<and> v = []) \<Longrightarrow>
   appendSnapshotStringField (out @ Join (map fieldText ds) ('','' @ [nl])) (length ds) name v omit =
     (out @ Join (map fieldText (ds @ [(name, v)])) ('','' @ [nl]), Suc (length ds))"
  by (cases "ds = []") (auto simp: appendSnapshotStringField_def appendSnapshotJSONString_eq Join_snoc fieldText_def)

lemma appendFields_Nil: "appendFields [] st = st"
  by (simp add: appendFields_def)

lemma appendFields_Cons:
  "appendFields ((name, v, omit) # fs) (out, n) = appendFields fs (appendSnapshotStringField out n name v omit)"
  by (simp add: appendFields_def)

lemma keptFields_Cons:
  "keptFields ((name, v, omit) # fs) = (if omit \<and> v = [] then keptFields fs else (name, v) # keptFields fs)"
  by (simp add: keptFields_def)

lemma appendFields_text:
  "appendFields fs (out @ Join (map fieldText ds) ('','' @ [nl]), length ds) =
     (out @ Join (map fieldText (ds @ keptFields fs)) ('','' @ [nl]), length ds + length (keptFields fs))"
proof (induction fs arbitrary: ds)
  case Nil
  show ?case by (simp add: appendFields_Nil keptFields_def)
next
  case (Cons f fs)
  obtain name v omit where f: "f = (name, v, omit)" by (cases f)
  show ?case
  proof (cases "omit \<and> v = []")
    case True
    then have "appendFields (f # fs) (out @ Join (map fieldText ds) ('','' @ [nl]), length ds) =
        appendFields fs (out @ Join (map fieldText ds) ('','' @ [nl]), length ds)"
      by (simp add: f appendFields_Cons appendSnapshotStringField_def)
    with True show ?thesis by (simp add: Cons f keptFields_Cons del: append.simps)
  next
    case False
    have "appendFields (f # fs) (out @ Join (map fieldText ds) ('','' @ [nl]), length ds) =
        appendFields fs (out @ Join (map fieldText (ds @ [(name, v)])) ('','' @ [nl]), length (ds @ [(name, v)]))"
      unfolding f appendFields_Cons field_step [OF False] by simp
    also have "\<dots> = (out @ Join (map fieldText ((ds @ [(name, v)]) @ keptFields fs)) ('','' @ [nl]),
        length (ds @ [(name, v)]) + length (keptFields fs))"
      by (rule Cons)
    finally show ?thesis using False by (simp add: f keptFields_Cons)
  qed
qed

lemma appendEntry_text:
  "appendEntry fs out = (if length out > length snapshotHead then out @ '','' @ [nl] else out) @ entryText fs"
proof -
  let ?o = "(if length out > length snapshotHead then out @ '','' @ [nl] else out) @ ''    {'' @ [nl]"
  have "appendFields fs (?o, 0) = (?o @ Join (map fieldText (keptFields fs)) ('','' @ [nl]), length (keptFields fs))"
    using appendFields_text [of fs ?o "[]"] by simp
  then show ?thesis
    by (simp add: appendEntry_def appendSnapshotObjectEnd_def appendSnapshotObjectStart_def Let_def entryText_def)
qed

lemma entries_text:
  "fold appendEntry es (snapshotHead @ Join (map entryText ds) ('','' @ [nl])) =
     snapshotHead @ Join (map entryText (ds @ es)) ('','' @ [nl])"
proof (induction es arbitrary: ds)
  case (Cons e es)
  have pos: "0 < length (Join (map entryText (d # ds)) sep)" for d ds sep
    by (cases ds) (simp_all add: entryText_def)
  have "appendEntry e (snapshotHead @ Join (map entryText ds) ('','' @ [nl])) =
      snapshotHead @ Join (map entryText (ds @ [e])) ('','' @ [nl])"
  proof (cases "ds = []")
    case True
    then show ?thesis by (simp add: appendEntry_text)
  next
    case False
    then have "0 < length (Join (map entryText ds) ('','' @ [nl]))"
      using pos [of "hd ds" "tl ds"] by (metis list.collapse)
    moreover have "Join (map entryText (ds @ [e])) ('','' @ [nl]) =
        Join (map entryText ds) ('','' @ [nl]) @ ('','' @ [nl]) @ entryText e"
      using Join_snoc [of "map entryText ds"] False by simp
    ultimately show ?thesis by (simp only: appendEntry_text length_append) simp
  qed
  then show ?case using Cons [of "ds @ [e]"] by simp
qed simp

lemma encoder_text:
  "appendSnapshotJSONEnd (fold appendEntry es (appendSnapshotJSONStart [] (length es))) (length es) = documentText es"
proof (cases "es = []")
  case True
  then show ?thesis by (simp add: appendSnapshotJSONEnd_def appendSnapshotJSONStart_def documentText_def)
next
  case False
  have "fold appendEntry es snapshotHead = snapshotHead @ Join (map entryText es) ('','' @ [nl])"
    using entries_text [of es "[]"] by simp
  with False show ?thesis
    by (simp add: appendSnapshotJSONEnd_def appendSnapshotJSONStart_def documentText_def)
qed

lemma query_encoder_text:
  "appendSnapshotJSONEnd (fold (\<lambda>q. appendEntry (queryFields q)) qs (appendSnapshotJSONStart [] (length qs))) (length qs)
     = documentText (map queryFields qs)"
  using encoder_text [of "map queryFields qs"] by (simp only: fold_map comp_def length_map)

lemma unsupported_encoder_text:
  "appendSnapshotJSONEnd (fold (\<lambda>q. appendEntry (unsupportedFields q)) us (appendSnapshotJSONStart [] (length us))) (length us)
     = documentText (map unsupportedFields us)"
  using encoder_text [of "map unsupportedFields us"] by (simp only: fold_map comp_def length_map)

text \<open>
  a snapshot is well laid out: whatever the entries hold, both encoders write the fixed head, the entries separated
  by commas, and the fixed tail; an entry lists its fields in order, separated by commas, the empty ones left out except
  the SQL text. (The encoder decides about a comma by comparing the length of its output with that of the head.)
\<close>

theorem snapshot_layout:
  "QuerySnapshotJSON qs = documentText (map queryFields qs) \<and>
   UnsupportedSnapshotJSON us = documentText (map unsupportedFields us)"
  by (simp only: QuerySnapshotJSON_def UnsupportedSnapshotJSON_def query_encoder_text unsupported_encoder_text simp_thms)

lemma estimateFields_length:
  "estimateFields fs (length out + k, n) = (length (fst (appendFields fs (out, n))) + k, snd (appendFields fs (out, n)))"
proof (induction fs arbitrary: out n)
  case Nil
  show ?case by (simp add: estimateFields_def appendFields_Nil)
next
  case (Cons f fs)
  obtain name v omit where f: "f = (name, v, omit)" by (cases f)
  obtain out' n' where s: "appendSnapshotStringField out n name v omit = (out', n')"
    by (cases "appendSnapshotStringField out n name v omit")
  then have "estimateSnapshotStringField (length out + k) n name v omit = (length out' + k, n')"
    by (auto simp: appendSnapshotStringField_def estimateSnapshotStringField_def snapshotJSONStringLen_eq
        appendSnapshotJSONString_eq split: if_split_asm)
  then have "estimateFields (f # fs) (length out + k, n) = estimateFields fs (length out' + k, n')"
    by (simp add: f estimateFields_def)
  with Cons s show ?case by (simp add: f appendFields_Cons)
qed

lemma snapshotHead_length: "length snapshotHead = 17"
  by (simp add: snapshotHead_def)

lemma estimateEntry_length:
  assumes "i = 0 \<longleftrightarrow> length out = length snapshotHead" "length snapshotHead \<le> length out"
  shows "estimateEntry fs (i, length out + 7) = (Suc i, length (appendEntry fs out) + 7)"
proof -
  let ?o = "appendSnapshotObjectStart out"
  have pre: "(if i > 0 then length out + 7 + 2 else length out + 7) + 6 + 6 = length ?o + 13"
    using assms by (auto simp: appendSnapshotObjectStart_def Let_def)
  show ?thesis
    unfolding estimateEntry_def prod.case pre estimateFields_length
    by (simp add: appendEntry_def appendSnapshotObjectEnd_def)
qed

lemma estimateEntries_fold:
  assumes "i = 0 \<longleftrightarrow> length out = length snapshotHead" "length snapshotHead \<le> length out"
  shows "fold estimateEntry es (i, length out + 7) = (i + length es, length (fold appendEntry es out) + 7)"
  using assms
proof (induction es arbitrary: i out)
  case (Cons e es)
  have "length out < length (appendEntry e out)" by (simp add: appendEntry_text entryText_def)
  with Cons.IH [of "Suc i" "appendEntry e out"] Cons.prems show ?case
    by (simp add: estimateEntry_length)
qed simp

lemma estimateEntries_length:
  assumes "es \<noteq> []"
  shows "snd (fold estimateEntry es (0, length snapshotHead + 7)) = length (documentText es)"
  using assms estimateEntries_fold [of 0 snapshotHead es] encoder_text [of es, symmetric]
  by (simp add: appendSnapshotJSONEnd_def appendSnapshotJSONStart_def)

lemma estimate_query: "estimateQuerySnapshotJSONSize qs = length (documentText (map queryFields qs))"
proof (cases "qs = []")
  case True
  then show ?thesis by (simp add: estimateQuerySnapshotJSONSize_def documentText_def)
next
  case False
  then have "snd (fold estimateEntry (map queryFields qs) (0, length snapshotHead + 7)) = length (documentText (map queryFields qs))"
    by (intro estimateEntries_length) simp
  with False show ?thesis by (simp only: estimateQuerySnapshotJSONSize_def fold_map comp_def if_False)
qed

lemma estimate_unsupported: "estimateUnsupportedSnapshotJSONSize us = length (documentText (map unsupportedFields us))"
proof (cases "us = []")
  case True
  then show ?thesis by (simp add: estimateUnsupportedSnapshotJSONSize_def documentText_def)
next
  case False
  then have "snd (fold estimateEntry (map unsupportedFields us) (0, length snapshotHead + 7)) = length (documentText (map unsupportedFields us))"
    by (intro estimateEntries_length) simp
  with False show ?thesis by (simp only: estimateUnsupportedSnapshotJSONSize_def fold_map comp_def if_False)
qed

text \<open>
  the encoders allocate exactly the space they use: the size computed beforehand is the length of the snapshot.
\<close>

theorem snapshot_size_exact:
  "length (QuerySnapshotJSON qs) = estimateQuerySnapshotJSONSize qs \<and>
   length (UnsupportedSnapshotJSON us) = estimateUnsupportedSnapshotJSONSize us"
  by (simp only: QuerySnapshotJSON_def UnsupportedSnapshotJSON_def query_encoder_text unsupported_encoder_text
      estimate_query estimate_unsupported simp_thms)

end
