(* ===== verification/Index_Metadata.thy ===== *)
theory Index_Metadata
  imports Ddl_Compat Reply_Packets
begin

text \<open>
  The MySQL view of a schema that SQLite cannot hold (\<open>pkg/mysqlmock/index_metadata.go\<close>): index names, prefix lengths,
  expressions and visibility, zero-fill widths and \<open>AUTO_INCREMENT\<close> columns, and the original \<open>CREATE TABLE\<close> texts.

  A Go map is a partial function; where the code ranges over a map the order of the keys is an argument.
  \<open>sscan\<close> is \<open>parseInt64String\<close>, which is \<open>fmt.Sscan\<close> into an \<open>int64\<close>.
\<close>

subsection \<open>The stored facts\<close>

record mysqlIndexColumnMetadata =
  icColumnName :: string
  icSubPart :: "int option"
  icExpression :: string

record mysqlIndexMetadata =
  ixTableName :: string
  ixIndexName :: string
  ixSQLiteName :: string
  ixColumns :: "mysqlIndexColumnMetadata list"
  ixVisible :: string

record mysqlColumnMetadata =
  cmTableName :: string
  cmColumnName :: string
  cmZeroFillWidth :: int
  cmAutoIncrement :: bool

record metadata =
  indexMetadata :: "string \<rightharpoonup> mysqlIndexMetadata"
  columnMetadata :: "string \<rightharpoonup> mysqlColumnMetadata"
  autoIncrementColumns :: "string \<rightharpoonup> mysqlColumnMetadata"
  tableDDL :: "string \<rightharpoonup> string"

definition noMetadata :: metadata where
  "noMetadata = \<lparr> indexMetadata = Map.empty, columnMetadata = Map.empty, autoIncrementColumns = Map.empty, tableDDL = Map.empty \<rparr>"

definition indexMetadataKey :: "string \<Rightarrow> string \<Rightarrow> string" where
  "indexMetadataKey tableName indexName =
     ToLower (unquoteSQLWord tableName) @ ''.'' @ ToLower (unquoteSQLWord indexName)"

definition columnMetadataKey :: "string \<Rightarrow> string \<Rightarrow> string" where
  "columnMetadataKey tableName columnName =
     ToLower (unquoteSQLWord tableName) @ ''.'' @ ToLower (unquoteSQLWord columnName)"

definition tableMetadataKey :: "string \<Rightarrow> string" where
  "tableMetadataKey tableName = ToLower (unquoteSQLWord tableName)"

subsection \<open>Table names of statements\<close>

text \<open>\<open>CREATE [TEMPORARY] [TEMP] TABLE [IF NOT EXISTS]\<close>: where the table name starts.\<close>

definition createTablePrefix :: "string \<Rightarrow> nat option" where
  "createTablePrefix sqlText = do {
     p1 \<leftarrow> consumeKeyword sqlText (skipSQLSpaces sqlText 0) ''CREATE'';
     let p2 = consumeOptional sqlText p1 ''TEMPORARY'';
     let p3 = consumeOptional sqlText p2 ''TEMP'';
     p4 \<leftarrow> consumeKeyword sqlText p3 ''TABLE'';
     (case consumeKeyword sqlText p4 ''IF'' of
        None \<Rightarrow> Some p4
      | Some p \<Rightarrow> do { q \<leftarrow> consumeKeyword sqlText p ''NOT''; consumeKeyword sqlText q ''EXISTS'' }) }"

definition parseCreateTableDDLTableName :: "string \<Rightarrow> string option" where
  "parseCreateTableDDLTableName sqlText = do {
     p \<leftarrow> createTablePrefix sqlText;
     (tableName, _) \<leftarrow> readSQLQualifiedName sqlText p;
     Some tableName }"

definition parseDropTableName :: "string \<Rightarrow> string option" where
  "parseDropTableName sqlText = do {
     p1 \<leftarrow> consumeKeyword sqlText (skipSQLSpaces sqlText 0) ''DROP'';
     p2 \<leftarrow> consumeKeyword sqlText p1 ''TABLE'';
     p3 \<leftarrow> (case consumeKeyword sqlText p2 ''IF'' of None \<Rightarrow> Some p2 | Some p \<Rightarrow> consumeKeyword sqlText p ''EXISTS'');
     (tableName, _) \<leftarrow> readSQLQualifiedName sqlText p3;
     Some tableName }"

definition parseAlterTableName :: "string \<Rightarrow> string option" where
  "parseAlterTableName sqlText = do {
     p1 \<leftarrow> consumeKeyword sqlText (skipSQLSpaces sqlText 0) ''ALTER'';
     p2 \<leftarrow> consumeKeyword sqlText p1 ''TABLE'';
     (tableName, _) \<leftarrow> readSQLQualifiedName sqlText p2;
     Some tableName }"

definition normalizeShowCreateTableDDL :: "string \<Rightarrow> string" where
  "normalizeShowCreateTableDDL sqlText =
     (let ddl = TrimSpace (TrimSuffix (TrimSpace sqlText) '';'') in
      if \<not> Contains (ToUpper ddl) '' ENGINE='' then ddl @ '' ENGINE=InnoDB DEFAULT CHARSET=utf8mb4 COLLATE=utf8mb4_general_ci''
      else ddl)"

subsection \<open>Index columns\<close>

text \<open>\<open>strings.LastIndex\<close>\<close>

definition LastIndex :: "string \<Rightarrow> string \<Rightarrow> nat option" where
  "LastIndex s p = List.find (\<lambda>i. HasPrefix (drop i s) p) (rev [0..<Suc (length s)])"

definition trimIndexColumnOrder :: "string \<Rightarrow> string" where
  "trimIndexColumnOrder item =
     (let ws = Fields item in
      if ws = [] then item
      else if ToUpper (last ws) \<noteq> ''ASC'' \<and> ToUpper (last ws) \<noteq> ''DESC'' then item
      else (case LastIndex item (last ws) of None \<Rightarrow> item | Some i \<Rightarrow> TrimSpace (take i item)))"

definition noIndexColumn :: mysqlIndexColumnMetadata where
  "noIndexColumn = \<lparr> icColumnName = [], icSubPart = None, icExpression = [] \<rparr>"

text \<open>\<open>strconv.Atoi\<close> of digits, with its error dropped: a number that does not fit gives the largest \<open>int\<close>.\<close>

definition atoiDigits :: "string \<Rightarrow> int" where
  "atoiDigits ds = min (int (digitsValue 0 (ascii ds))) (2 ^ 63 - 1)"

definition indexExpression :: "string \<Rightarrow> mysqlIndexColumnMetadata" where
  "indexExpression item =
     (case parenthesizedSQLSpan item 0 of
        Some e \<Rightarrow> noIndexColumn\<lparr> icExpression :=
          (if skipSQLSpaces item e = length item then TrimSpace (gslice item 1 (e - 1)) else item) \<rparr>
      | None \<Rightarrow> noIndexColumn\<lparr> icExpression := item \<rparr>)"

definition parseMySQLIndexColumnItemMetadata :: "string \<Rightarrow> mysqlIndexColumnMetadata" where
  "parseMySQLIndexColumnItemMetadata item0 =
     (let item = trimIndexColumnOrder (TrimSpace item0) in
      if item = [] then noIndexColumn
      else (case readSQLNameToken item 0 of
          None \<Rightarrow> indexExpression item
        | Some (name, pos) \<Rightarrow>
            let p = skipSQLSpaces item pos;
                plain = (if p = length item then noIndexColumn\<lparr> icColumnName := unquoteSQLWord name \<rparr> else indexExpression item)
            in (case parenthesizedSQLSpan item p of
                Some e \<Rightarrow>
                  if isNumericParenthesized (gslice item p e) then
                    noIndexColumn\<lparr> icColumnName := unquoteSQLWord name,
                      icSubPart := Some (atoiDigits (TrimSpace (gslice item (p + 1) (e - 1)))) \<rparr>
                  else plain
              | None \<Rightarrow> plain)))"

definition parseMySQLIndexColumnMetadata :: "string \<Rightarrow> mysqlIndexColumnMetadata list" where
  "parseMySQLIndexColumnMetadata columns =
     (if length columns < 2 then []
      else map parseMySQLIndexColumnItemMetadata (splitSQLTopLevelList (gslice columns 1 (length columns - 1))))"

definition parseMySQLIndexVisibility :: "string \<Rightarrow> string" where
  "parseMySQLIndexVisibility sqlText =
     (if containsSQLIdentifier sqlText ''INVISIBLE'' then ''NO''
      else if containsSQLIdentifier sqlText ''VISIBLE'' then ''YES'' else ''YES'')"

text \<open>The record every index parser returns, from the table, the index and the column list at \<open>columnsStart\<close>.\<close>

definition indexRecord :: "string \<Rightarrow> string \<Rightarrow> string \<Rightarrow> nat \<Rightarrow> nat \<Rightarrow> mysqlIndexMetadata" where
  "indexRecord tableName indexName sqlText columnsStart columnsEnd =
     \<lparr> ixTableName = tableName, ixIndexName = indexName, ixSQLiteName = [],
       ixColumns = parseMySQLIndexColumnMetadata (gslice sqlText columnsStart columnsEnd),
       ixVisible = parseMySQLIndexVisibility (drop columnsEnd sqlText) \<rparr>"

definition parseCreateIndexMetadata :: "string \<Rightarrow> mysqlIndexMetadata option" where
  "parseCreateIndexMetadata sqlText = do {
     p1 \<leftarrow> consumeKeyword sqlText (skipSQLSpaces sqlText 0) ''CREATE'';
     let p2 = consumeOptional sqlText p1 ''UNIQUE'';
     p3 \<leftarrow> consumeKeyword sqlText p2 ''INDEX'';
     (indexName, p4) \<leftarrow> readSQLNameToken sqlText p3;
     let p5 = skipNamedOption sqlText p4 ''USING'';
     p6 \<leftarrow> consumeKeyword sqlText p5 ''ON'';
     (tableName, p7) \<leftarrow> readSQLQualifiedName sqlText p6;
     let columnsStart = skipSQLSpaces sqlText p7;
     columnsEnd \<leftarrow> parenthesizedSQLSpan sqlText columnsStart;
     Some (indexRecord tableName (unquoteSQLWord indexName) sqlText columnsStart columnsEnd) }"

definition parseAlterTableAddIndexMetadata :: "string \<Rightarrow> mysqlIndexMetadata option" where
  "parseAlterTableAddIndexMetadata sqlText = do {
     p1 \<leftarrow> consumeKeyword sqlText (skipSQLSpaces sqlText 0) ''ALTER'';
     p2 \<leftarrow> consumeKeyword sqlText p1 ''TABLE'';
     (tableName, p3) \<leftarrow> readSQLQualifiedName sqlText p2;
     p4 \<leftarrow> consumeKeyword sqlText p3 ''ADD'';
     let p5 = consumeOptional sqlText p4 ''UNIQUE'';
     p6 \<leftarrow> consumeEither sqlText p5 ''INDEX'' ''KEY'';
     let p7 = skipNamedOption sqlText p6 ''USING'';
     (indexName, p8) \<leftarrow> readSQLNameToken sqlText p7;
     let columnsStart = skipSQLSpaces sqlText (skipNamedOption sqlText p8 ''USING'');
     columnsEnd \<leftarrow> parenthesizedSQLSpan sqlText columnsStart;
     Some (indexRecord tableName (unquoteSQLWord indexName) sqlText columnsStart columnsEnd) }"

definition parseCreateTableItemIndexMetadata :: "string \<Rightarrow> string \<Rightarrow> mysqlIndexMetadata option" where
  "parseCreateTableItemIndexMetadata tableName item0 = (let item = TrimSpace item0 in do {
     (constraintName, p1) \<leftarrow> (case consumeKeyword item 0 ''CONSTRAINT'' of
          None \<Rightarrow> Some ([], 0)
        | Some p \<Rightarrow> map_option (\<lambda>(name, nxt). (unquoteSQLWord name, nxt)) (readSQLNameToken item p));
     let unique = (consumeKeyword item p1 ''UNIQUE'' \<noteq> None);
     let p2 = consumeOptional item p1 ''UNIQUE'';
     p3 \<leftarrow> consumeEither item p2 ''KEY'' ''INDEX'';
     let p4 = skipNamedOption item p3 ''USING'';
     let start0 = skipSQLSpaces item p4;
     (indexName0, columnsStart) \<leftarrow>
       (if start0 \<ge> length item \<or> item ! start0 \<noteq> CHR ''('' then do {
          (name, nxt) \<leftarrow> readSQLNameToken item p4;
          Some (unquoteSQLWord name, skipSQLSpaces item (skipNamedOption item nxt ''USING'')) }
        else Some (constraintName, start0));
     columnsEnd \<leftarrow> parenthesizedSQLSpan item columnsStart;
     let indexName = (if indexName0 = [] then generatedIndexName tableName (gslice item columnsStart columnsEnd) unique else indexName0);
     Some (indexRecord (unquoteSQLWord tableName) indexName item columnsStart columnsEnd) })"

text \<open>The name is read with \<open>readSQLNameToken\<close> here, so a table name with a schema gives no indexes.\<close>

definition parseCreateTableIndexMetadata :: "string \<Rightarrow> mysqlIndexMetadata list" where
  "parseCreateTableIndexMetadata sqlText =
     (case do { p \<leftarrow> createTablePrefix sqlText;
                (tableName, q) \<leftarrow> readSQLNameToken sqlText p;
                let bodyStart = skipSQLSpaces sqlText q;
                bodyEnd \<leftarrow> parenthesizedSQLSpan sqlText bodyStart;
                Some (tableName, gslice sqlText (bodyStart + 1) (bodyEnd - 1)) } of
        None \<Rightarrow> []
      | Some (tableName, body) \<Rightarrow> List.map_filter (parseCreateTableItemIndexMetadata tableName) (splitSQLTopLevelList body))"

definition parseMySQLIndexMetadata :: "string \<Rightarrow> mysqlIndexMetadata list" where
  "parseMySQLIndexMetadata sqlText =
     (case parseCreateIndexMetadata sqlText of
        Some m \<Rightarrow> [m]
      | None \<Rightarrow> (case parseAlterTableAddIndexMetadata sqlText of
          Some m \<Rightarrow> [m]
        | None \<Rightarrow> parseCreateTableIndexMetadata sqlText))"

subsection \<open>Columns\<close>

definition isCreateTableConstraintItem :: "string \<Rightarrow> bool" where
  "isCreateTableConstraintItem firstToken =
     (ToUpper (unquoteSQLWord firstToken) \<in>
        {''PRIMARY'', ''UNIQUE'', ''KEY'', ''INDEX'', ''CONSTRAINT'', ''FOREIGN'', ''CHECK'', ''FULLTEXT'', ''SPATIAL''})"

definition columnItemMetadata :: "(string \<Rightarrow> int option) \<Rightarrow> string \<Rightarrow> string \<Rightarrow> mysqlColumnMetadata option" where
  "columnItemMetadata sscan tableName item0 =
     (let item = TrimSpace item0 in
      case readSQLNameToken item 0 of
        None \<Rightarrow> None
      | Some (columnName, pos) \<Rightarrow>
          if isCreateTableConstraintItem columnName then None
          else let m = \<lparr> cmTableName = tableName, cmColumnName = unquoteSQLWord columnName,
                         cmZeroFillWidth = mysqlZeroFillWidth sscan (drop pos item),
                         cmAutoIncrement = containsSQLIdentifier (drop pos item) ''AUTO_INCREMENT'' \<rparr>
            in if cmZeroFillWidth m > 0 \<or> cmAutoIncrement m then Some m else None)"

definition parseMySQLColumnMetadata :: "(string \<Rightarrow> int option) \<Rightarrow> string \<Rightarrow> mysqlColumnMetadata list" where
  "parseMySQLColumnMetadata sscan sqlText =
     (case do { tableName \<leftarrow> parseCreateTableDDLTableName sqlText;
                p \<leftarrow> createTablePrefix sqlText;
                let q = (case readSQLQualifiedName sqlText p of Some (_, nxt) \<Rightarrow> nxt | None \<Rightarrow> p);
                let bodyStart = skipSQLSpaces sqlText q;
                bodyEnd \<leftarrow> parenthesizedSQLSpan sqlText bodyStart;
                Some (tableName, gslice sqlText (bodyStart + 1) (bodyEnd - 1)) } of
        None \<Rightarrow> []
      | Some (tableName, body) \<Rightarrow> List.map_filter (columnItemMetadata sscan tableName) (splitSQLTopLevelList body))"

subsection \<open>The store\<close>

definition recordIndex :: "mysqlIndexMetadata \<Rightarrow> metadata \<Rightarrow> metadata" where
  "recordIndex m0 st =
     (if ixTableName m0 = [] \<or> ixIndexName m0 = [] then st
      else let m1 = (if ixVisible m0 = [] then m0\<lparr> ixVisible := ''YES'' \<rparr> else m0);
               m = (if ixSQLiteName m1 = [] then m1\<lparr> ixSQLiteName := sqliteIndexName (ixTableName m1) (ixIndexName m1) \<rparr> else m1)
           in st\<lparr> indexMetadata := (indexMetadata st)(indexMetadataKey (ixTableName m) (ixIndexName m) \<mapsto> m) \<rparr>)"

definition recordMySQLIndexMetadata :: "string \<Rightarrow> metadata \<Rightarrow> metadata" where
  "recordMySQLIndexMetadata sqlText st = fold recordIndex (parseMySQLIndexMetadata sqlText) st"

definition recordColumn :: "mysqlColumnMetadata \<Rightarrow> metadata \<Rightarrow> metadata" where
  "recordColumn m st =
     (if cmTableName m = [] \<or> cmColumnName m = [] \<or> (cmZeroFillWidth m \<le> 0 \<and> \<not> cmAutoIncrement m) then st
      else let st1 = st\<lparr> columnMetadata := (columnMetadata st)(columnMetadataKey (cmTableName m) (cmColumnName m) \<mapsto> m) \<rparr>
           in if cmAutoIncrement m
              then st1\<lparr> autoIncrementColumns := (autoIncrementColumns st1)(tableMetadataKey (cmTableName m) \<mapsto> m) \<rparr> else st1)"

definition recordMySQLColumnMetadata :: "(string \<Rightarrow> int option) \<Rightarrow> string \<Rightarrow> metadata \<Rightarrow> metadata" where
  "recordMySQLColumnMetadata sscan sqlText st = fold recordColumn (parseMySQLColumnMetadata sscan sqlText) st"

definition lookupMySQLColumnMetadata :: "metadata \<Rightarrow> string \<Rightarrow> string \<Rightarrow> mysqlColumnMetadata option" where
  "lookupMySQLColumnMetadata st tableName columnName = columnMetadata st (columnMetadataKey tableName columnName)"

definition lookupMySQLAutoIncrementColumn :: "metadata \<Rightarrow> string \<Rightarrow> mysqlColumnMetadata option" where
  "lookupMySQLAutoIncrementColumn st tableName = autoIncrementColumns st (tableMetadataKey tableName)"

definition lookupMySQLIndexMetadata :: "metadata \<Rightarrow> string \<Rightarrow> string \<Rightarrow> mysqlIndexMetadata option" where
  "lookupMySQLIndexMetadata st tableName indexName = indexMetadata st (indexMetadataKey tableName indexName)"

definition sqliteNameOf :: "mysqlIndexMetadata \<Rightarrow> mysqlIndexMetadata" where
  "sqliteNameOf m =
     (if ixSQLiteName m = [] then m\<lparr> ixSQLiteName := sqliteIndexName (ixTableName m) (ixIndexName m) \<rparr> else m)"

fun lookupMySQLIndexMetadataBySQLiteName :: "string list \<Rightarrow> metadata \<Rightarrow> string \<Rightarrow> string \<Rightarrow> mysqlIndexMetadata option" where
  "lookupMySQLIndexMetadataBySQLiteName [] st tableName sqliteName = None"
| "lookupMySQLIndexMetadataBySQLiteName (k # order) st tableName sqliteName =
     (case indexMetadata st k of
        None \<Rightarrow> lookupMySQLIndexMetadataBySQLiteName order st tableName sqliteName
      | Some m \<Rightarrow>
          if \<not> EqualFold (ixTableName m) tableName then lookupMySQLIndexMetadataBySQLiteName order st tableName sqliteName
          else if EqualFold (ixSQLiteName (sqliteNameOf m)) sqliteName then Some (sqliteNameOf m)
          else lookupMySQLIndexMetadataBySQLiteName order st tableName sqliteName)"

definition sqliteIndexNameForMySQL :: "metadata \<Rightarrow> string \<Rightarrow> string \<Rightarrow> string" where
  "sqliteIndexNameForMySQL st tableName indexName =
     (case indexMetadata st (indexMetadataKey tableName indexName) of
        Some m \<Rightarrow> if ixSQLiteName m \<noteq> [] then ixSQLiteName m else sqliteIndexName tableName indexName
      | None \<Rightarrow> sqliteIndexName tableName indexName)"

definition renameMySQLIndexMetadata :: "string \<Rightarrow> string \<Rightarrow> string \<Rightarrow> metadata \<Rightarrow> metadata" where
  "renameMySQLIndexMetadata tableName oldName newName st =
     (let key = indexMetadataKey tableName oldName in
      case indexMetadata st key of
        None \<Rightarrow> st
      | Some m \<Rightarrow>
          st\<lparr> indexMetadata := ((indexMetadata st)(key := None))(indexMetadataKey tableName newName \<mapsto>
                m\<lparr> ixIndexName := newName, ixSQLiteName := sqliteIndexName tableName newName \<rparr>) \<rparr>)"

definition dropMySQLIndexMetadata :: "string \<Rightarrow> string \<Rightarrow> metadata \<Rightarrow> metadata" where
  "dropMySQLIndexMetadata tableName indexName st =
     st\<lparr> indexMetadata := (indexMetadata st)(indexMetadataKey tableName indexName := None) \<rparr>"

definition setMySQLIndexVisibility :: "string \<Rightarrow> string \<Rightarrow> string \<Rightarrow> metadata \<Rightarrow> metadata" where
  "setMySQLIndexVisibility tableName indexName visible st =
     (let key = indexMetadataKey tableName indexName;
          m = (case indexMetadata st key of
                 Some m \<Rightarrow> m
               | None \<Rightarrow> \<lparr> ixTableName = tableName, ixIndexName = indexName, ixSQLiteName = sqliteIndexName tableName indexName,
                           ixColumns = [], ixVisible = [] \<rparr>)
      in st\<lparr> indexMetadata := (indexMetadata st)(key \<mapsto> m\<lparr> ixVisible := visible \<rparr>) \<rparr>)"

definition renameIndexEntry :: "string \<Rightarrow> string \<Rightarrow> metadata \<Rightarrow> string \<Rightarrow> (string \<rightharpoonup> mysqlIndexMetadata) \<Rightarrow> (string \<rightharpoonup> mysqlIndexMetadata)" where
  "renameIndexEntry oldName newName st key renamed =
     (case indexMetadata st key of
        None \<Rightarrow> renamed
      | Some m \<Rightarrow>
          if \<not> EqualFold (ixTableName m) oldName then renamed(key \<mapsto> m)
          else renamed(indexMetadataKey newName (ixIndexName m) \<mapsto> m\<lparr> ixTableName := newName \<rparr>))"

definition renameMySQLTableIndexMetadata :: "string list \<Rightarrow> string \<Rightarrow> string \<Rightarrow> metadata \<Rightarrow> metadata" where
  "renameMySQLTableIndexMetadata order oldName newName st =
     st\<lparr> indexMetadata := fold (renameIndexEntry oldName newName st) order Map.empty \<rparr>"

definition renameColumnEntry ::
    "string \<Rightarrow> string \<Rightarrow> metadata \<Rightarrow> string \<Rightarrow>
     (string \<rightharpoonup> mysqlColumnMetadata) \<times> (string \<rightharpoonup> mysqlColumnMetadata) \<Rightarrow>
     (string \<rightharpoonup> mysqlColumnMetadata) \<times> (string \<rightharpoonup> mysqlColumnMetadata)" where
  "renameColumnEntry oldName newName st key acc =
     (case acc of (renamed, renamedAuto) \<Rightarrow>
        (case columnMetadata st key of
           None \<Rightarrow> acc
         | Some m \<Rightarrow>
             if \<not> EqualFold (cmTableName m) oldName then
               (renamed(key \<mapsto> m),
                if cmAutoIncrement m then renamedAuto(tableMetadataKey (cmTableName m) \<mapsto> m) else renamedAuto)
             else let m' = m\<lparr> cmTableName := newName \<rparr> in
               (renamed(columnMetadataKey newName (cmColumnName m') \<mapsto> m'),
                if cmAutoIncrement m' then renamedAuto(tableMetadataKey newName \<mapsto> m') else renamedAuto)))"

definition renameMySQLTableColumnMetadata :: "string list \<Rightarrow> string \<Rightarrow> string \<Rightarrow> metadata \<Rightarrow> metadata" where
  "renameMySQLTableColumnMetadata order oldName newName st =
     (let (renamed, renamedAuto) = fold (renameColumnEntry oldName newName st) order (Map.empty, Map.empty)
      in st\<lparr> columnMetadata := renamed, autoIncrementColumns := renamedAuto \<rparr>)"

definition recordMySQLTableDDL :: "string \<Rightarrow> metadata \<Rightarrow> metadata" where
  "recordMySQLTableDDL sqlText st =
     (case parseCreateTableDDLTableName sqlText of
        None \<Rightarrow> st
      | Some tableName \<Rightarrow> st\<lparr> tableDDL := (tableDDL st)(tableMetadataKey tableName \<mapsto> normalizeShowCreateTableDDL sqlText) \<rparr>)"

definition lookupMySQLTableDDL :: "metadata \<Rightarrow> string \<Rightarrow> string option" where
  "lookupMySQLTableDDL st tableName = tableDDL st (tableMetadataKey tableName)"

definition invalidateMySQLTableDDL :: "string \<Rightarrow> metadata \<Rightarrow> metadata" where
  "invalidateMySQLTableDDL tableName st = st\<lparr> tableDDL := (tableDDL st)(tableMetadataKey tableName := None) \<rparr>"

definition renameMySQLTableDDL :: "string \<Rightarrow> string \<Rightarrow> metadata \<Rightarrow> metadata" where
  "renameMySQLTableDDL oldName newName st =
     (let key = tableMetadataKey oldName in
      case tableDDL st key of
        None \<Rightarrow> st
      | Some ddl \<Rightarrow> st\<lparr> tableDDL := ((tableDDL st)(key := None))(tableMetadataKey newName \<mapsto> ddl) \<rparr>)"

definition invalidateMySQLTableDDLForStatement :: "string \<Rightarrow> metadata \<Rightarrow> metadata" where
  "invalidateMySQLTableDDLForStatement sqlText st =
     (case parseCreateTableDDLTableName sqlText of
        Some _ \<Rightarrow> st
      | None \<Rightarrow> (case parseDropTableName sqlText of
          Some tableName \<Rightarrow> invalidateMySQLTableDDL tableName st
        | None \<Rightarrow> (case parseAlterTableName sqlText of
            Some tableName \<Rightarrow> invalidateMySQLTableDDL tableName st
          | None \<Rightarrow> st)))"

end
