(* ===== verification/Insert_Statements.thy ===== *)
theory Insert_Statements
  imports Index_Metadata Prepared Caches Info_Cache
begin

text \<open>
  \<open>INSERT\<close>, \<open>REPLACE\<close> and \<open>INSERT ... ON DUPLICATE KEY UPDATE\<close> statements (\<open>pkg/mysqlmock/upsert.go\<close>): the
  templates a text is parsed into, their caches, binding of arguments, rows and defaults, and the SQLite statements built from them.
\<close>

subsection \<open>Data\<close>

record mysqlUpsertRow =
  rowExprs :: "string list"
  rowArgs :: "goValue list"

record mysqlUpsertRowTemplate =
  tplExprs :: "string list"
  tplPlaceholderCount :: nat

record mysqlUpsertStatement =
  upTableName :: string
  upColumns :: "string list"
  upRows :: "mysqlUpsertRow list"
  upValueAlias :: string
  upUpdateSQL :: string
  upUpdateArgs :: "goValue list"

record mysqlUpsertStatementTemplate =
  utTableName :: string
  utColumns :: "string list"
  utRows :: "mysqlUpsertRowTemplate list"
  utValueAlias :: string
  utUpdateSQL :: string
  utUpdatePlaceholderCount :: nat

record mysqlInsertStatement =
  inTableName :: string
  inColumns :: "string list"
  inRows :: "mysqlUpsertRow list"
  inIgnore :: bool
  inReplace :: bool

record mysqlInsertStatementTemplate =
  itTableName :: string
  itColumns :: "string list"
  itRows :: "mysqlUpsertRowTemplate list"
  itIgnore :: bool
  itReplace :: bool

record sqliteTableColumn =
  tcName :: string
  tcType :: string
  tcNotNull :: bool
  tcDefaultSQL :: string
  tcHasDefault :: bool
  tcPK :: int

definition sqlCompatErrorf :: "string \<Rightarrow> mysqlError" where
  "sqlCompatErrorf msg = errPacket 1105 ''HY000'' msg"

subsection \<open>Parsing\<close>

text \<open>The optional modifiers: where they end and whether \<open>IGNORE\<close> is among them.\<close>

function insertModifiers :: "string \<Rightarrow> nat \<Rightarrow> bool \<Rightarrow> nat \<times> bool" where
  "insertModifiers sqlText pos ignore =
     (case consumeKeyword sqlText pos ''LOW_PRIORITY'' of Some p \<Rightarrow> insertModifiers sqlText p ignore
      | None \<Rightarrow> (case consumeKeyword sqlText pos ''DELAYED'' of Some p \<Rightarrow> insertModifiers sqlText p ignore
      | None \<Rightarrow> (case consumeKeyword sqlText pos ''HIGH_PRIORITY'' of Some p \<Rightarrow> insertModifiers sqlText p ignore
      | None \<Rightarrow> (case consumeKeyword sqlText pos ''IGNORE'' of Some p \<Rightarrow> insertModifiers sqlText p True
      | None \<Rightarrow> (pos, ignore)))))"
  by pat_completeness auto
termination
  by (relation "measure (\<lambda>(s, i, g). length s - i)") (auto dest!: consumeKeyword_bounds intro!: diff_less_mono2)

declare insertModifiers.simps [simp del]

text \<open>The column list at \<open>pos\<close>, if there is one: \<open>None\<close> when its bracket is not closed.\<close>

definition insertColumnList :: "string \<Rightarrow> nat \<Rightarrow> (string list \<times> nat) option" where
  "insertColumnList sqlText pos =
     (let nxt = skipSQLSpaces sqlText pos in
      if nxt < length sqlText \<and> sqlText ! nxt = CHR ''('' then
        (case parenthesizedSQLSpan sqlText nxt of
           None \<Rightarrow> None
         | Some columnsEnd \<Rightarrow>
             Some (map unquoteSQLWord (filter (\<lambda>name. name \<noteq> [])
                     (map TrimSpace (splitSQLTopLevelList (gslice sqlText (nxt + 1) (columnsEnd - 1))))), columnsEnd))
      else Some ([], pos))"

definition rowPlaceholders :: "string list \<Rightarrow> nat" where
  "rowPlaceholders exprs = sum_list (map countPlaceholders exprs)"

definition rowTemplate :: "string list \<Rightarrow> mysqlUpsertRowTemplate" where
  "rowTemplate exprs = \<lparr> tplExprs = exprs, tplPlaceholderCount = rowPlaceholders exprs \<rparr>"

lemma value_row_measure [termination_simp]:
  "parenthesizedSQLSpan s (skipSQLSpaces s pos) = Some e \<Longrightarrow> skipSQLSpaces s e < length s \<Longrightarrow>
   length s - Suc (skipSQLSpaces s e) < length s - pos"
  using parenthesizedSQLSpan_bounds [of s "skipSQLSpaces s pos" e] skipSQLSpaces_ge [of pos s] skipSQLSpaces_ge [of e s] by linarith

text \<open>The end of the rows: a semicolon and blanks may follow.\<close>

definition rowsEnd :: "string \<Rightarrow> nat \<Rightarrow> bool" where
  "rowsEnd sqlText pos =
     ((if pos < length sqlText \<and> sqlText ! pos = CHR '';'' then skipSQLSpaces sqlText (pos + 1) else pos) = length sqlText)"

function parseMySQLValueRowTemplates :: "string \<Rightarrow> nat \<Rightarrow> mysqlUpsertRowTemplate list option" where
  "parseMySQLValueRowTemplates sqlText pos0 =
     (let pos = skipSQLSpaces sqlText pos0 in
      if pos \<ge> length sqlText then Some []
      else (case parenthesizedSQLSpan sqlText pos of
          None \<Rightarrow> None
        | Some rowEnd \<Rightarrow>
            let row = rowTemplate (splitSQLTopLevelList (gslice sqlText (pos + 1) (rowEnd - 1)));
                p = skipSQLSpaces sqlText rowEnd
            in if p < length sqlText \<and> sqlText ! p = CHR '','' then
                 map_option ((#) row) (parseMySQLValueRowTemplates sqlText (p + 1))
               else if rowsEnd sqlText p then Some [row] else None))"
  by pat_completeness auto
termination by (relation "measure (\<lambda>(s, i). length s - i)") (auto simp: termination_simp)

declare parseMySQLValueRowTemplates.simps [simp del]

text \<open>The rows with their arguments, and how many arguments they take.\<close>

function parseMySQLValuesRows :: "string \<Rightarrow> nat \<Rightarrow> goValue list \<Rightarrow> nat \<Rightarrow> (mysqlUpsertRow list \<times> nat) option" where
  "parseMySQLValuesRows sqlText pos0 args argPos =
     (let pos = skipSQLSpaces sqlText pos0 in
      if pos \<ge> length sqlText then Some ([], argPos)
      else (case parenthesizedSQLSpan sqlText pos of
          None \<Rightarrow> None
        | Some rowEnd \<Rightarrow>
            let exprs = splitSQLTopLevelList (gslice sqlText (pos + 1) (rowEnd - 1));
                n = rowPlaceholders exprs; p = skipSQLSpaces sqlText rowEnd
            in if argPos + n > length args then None
               else let row = \<lparr> rowExprs = exprs, rowArgs = gslice args argPos (argPos + n) \<rparr> in
                 if p < length sqlText \<and> sqlText ! p = CHR '','' then
                   map_option (\<lambda>(rows, q). (row # rows, q)) (parseMySQLValuesRows sqlText (p + 1) args (argPos + n))
                 else if rowsEnd sqlText p then Some ([row], argPos + n) else None))"
  by pat_completeness auto
termination by (relation "measure (\<lambda>(s, i, _). length s - i)") (auto simp: termination_simp)

declare parseMySQLValuesRows.simps [simp del]

definition parseMySQLInsertStatementTemplate :: "string \<Rightarrow> mysqlInsertStatementTemplate option" where
  "parseMySQLInsertStatementTemplate sqlText = do {
     let p0 = skipSQLSpaces sqlText 0;
     let isReplace = (consumeKeyword sqlText p0 ''REPLACE'' \<noteq> None);
     p1 \<leftarrow> consumeEither sqlText p0 ''REPLACE'' ''INSERT'';
     let (p2, ignore) = insertModifiers sqlText p1 False;
     p3 \<leftarrow> (if isReplace then Some (consumeOptional sqlText p2 ''INTO'') else consumeKeyword sqlText p2 ''INTO'');
     (tableName, p4) \<leftarrow> readSQLQualifiedName sqlText p3;
     (columns, p5) \<leftarrow> insertColumnList sqlText p4;
     p6 \<leftarrow> consumeEither sqlText p5 ''VALUES'' ''VALUE'';
     rows \<leftarrow> parseMySQLValueRowTemplates sqlText p6;
     Some \<lparr> itTableName = tableName, itColumns = columns, itRows = rows, itIgnore = ignore, itReplace = isReplace \<rparr> }"

function dup_key_loop :: "string \<Rightarrow> nat \<Rightarrow> nat \<Rightarrow> (nat \<times> nat) option" where
  "dup_key_loop sqlText depth i =
     (if i \<ge> length sqlText then None
      else (case skipSpan sqlText i of
          Some e \<Rightarrow> dup_key_loop sqlText depth e
        | None \<Rightarrow>
            if sqlText ! i = CHR ''('' then dup_key_loop sqlText (depth + 1) (i + 1)
            else if sqlText ! i = CHR '')'' then dup_key_loop sqlText (depth - 1) (i + 1)
            else (case (if depth = 0 then do {
                          p1 \<leftarrow> consumeKeyword sqlText i ''ON''; p2 \<leftarrow> consumeKeyword sqlText p1 ''DUPLICATE'';
                          p3 \<leftarrow> consumeKeyword sqlText p2 ''KEY''; consumeKeyword sqlText p3 ''UPDATE'' } else None) of
                Some pos \<Rightarrow> Some (i, pos)
              | None \<Rightarrow> dup_key_loop sqlText depth (i + 1))))"
  by pat_completeness auto
termination by (relation "measure (\<lambda>(s, d, i). length s - i)") (auto simp: termination_simp dest: skipSpan_bounds)

declare dup_key_loop.simps [simp del]

definition splitOnDuplicateKeyUpdate :: "string \<Rightarrow> (string \<times> string) option" where
  "splitOnDuplicateKeyUpdate sqlText =
     (case dup_key_loop sqlText 0 0 of
        None \<Rightarrow> None
      | Some (i, pos) \<Rightarrow> Some (TrimSpace (take i sqlText), TrimSuffix (TrimSpace (drop pos sqlText)) '';''))"

definition skipSemicolon :: "string \<Rightarrow> nat \<Rightarrow> nat" where
  "skipSemicolon sqlText pos =
     (if pos < length sqlText \<and> sqlText ! pos = CHR '';'' then skipSQLSpaces sqlText (pos + 1) else pos)"

definition consumeOptionalValuesAlias :: "string \<Rightarrow> nat \<Rightarrow> (string \<times> nat) option" where
  "consumeOptionalValuesAlias sqlText pos0 =
     (let pos = skipSemicolon sqlText (skipSQLSpaces sqlText pos0) in
      if pos \<ge> length sqlText then Some ([], pos)
      else do {
        p1 \<leftarrow> consumeKeyword sqlText pos ''AS'';
        (name, p2) \<leftarrow> readSQLNameToken sqlText p1;
        let p3 = skipSQLSpaces sqlText p2;
        let p4 = (case parenthesizedSQLSpan sqlText p3 of Some e \<Rightarrow> skipSQLSpaces sqlText e | None \<Rightarrow> p3);
        Some (unquoteSQLWord name, skipSemicolon sqlText p4) })"

datatype upsertError = BadTarget | BadColumns | BadForm | BadRow | BadSuffix | TooFewArguments | ArgumentCount

definition upsertMessage :: "upsertError \<Rightarrow> mysqlError" where
  "upsertMessage e = sqlCompatErrorf (case e of
       BadTarget \<Rightarrow> ''Unsupported ON DUPLICATE KEY UPDATE insert target''
     | BadColumns \<Rightarrow> ''Malformed ON DUPLICATE KEY UPDATE column list''
     | BadForm \<Rightarrow> ''Unsupported ON DUPLICATE KEY UPDATE insert form''
     | BadRow \<Rightarrow> ''Malformed ON DUPLICATE KEY UPDATE values row''
     | BadSuffix \<Rightarrow> ''Unsupported ON DUPLICATE KEY UPDATE values suffix''
     | TooFewArguments \<Rightarrow> ''ON DUPLICATE KEY UPDATE has too few arguments''
     | ArgumentCount \<Rightarrow> ''ON DUPLICATE KEY UPDATE argument count mismatch'')"

function upsertRows_loop :: "string \<Rightarrow> nat \<Rightarrow> upsertError + (mysqlUpsertRowTemplate list \<times> string)" where
  "upsertRows_loop sqlText pos0 =
     (let pos = skipSQLSpaces sqlText pos0 in
      if pos \<ge> length sqlText then Inr ([], [])
      else (case parenthesizedSQLSpan sqlText pos of
          None \<Rightarrow> Inl BadRow
        | Some rowEnd \<Rightarrow>
            let row = rowTemplate (splitSQLTopLevelList (gslice sqlText (pos + 1) (rowEnd - 1)));
                p = skipSQLSpaces sqlText rowEnd
            in if p < length sqlText \<and> sqlText ! p = CHR '','' then
                 (case upsertRows_loop sqlText (p + 1) of
                    Inl e \<Rightarrow> Inl e
                  | Inr (rows, alias) \<Rightarrow> Inr (row # rows, alias))
               else (case consumeOptionalValuesAlias sqlText p of
                    Some (alias, nxt) \<Rightarrow> if nxt \<noteq> length sqlText then Inl BadSuffix else Inr ([row], alias)
                  | None \<Rightarrow> if p \<noteq> length sqlText then Inl BadSuffix else Inr ([row], []))))"
  by pat_completeness auto
termination by (relation "measure (\<lambda>(s, i). length s - i)") (auto simp: termination_simp)

declare upsertRows_loop.simps [simp del]

text \<open>\<open>Inr None\<close>: not a statement of this kind.\<close>

definition parseMySQLUpsertStatementTemplate :: "string \<Rightarrow> upsertError + mysqlUpsertStatementTemplate option" where
  "parseMySQLUpsertStatementTemplate sqlText =
     (case splitOnDuplicateKeyUpdate sqlText of
        None \<Rightarrow> Inr None
      | Some (insertSQL, updateSQL) \<Rightarrow>
          (case do { p1 \<leftarrow> consumeKeyword insertSQL (skipSQLSpaces insertSQL 0) ''INSERT'';
                     consumeKeyword insertSQL (fst (insertModifiers insertSQL p1 False)) ''INTO'' } of
             None \<Rightarrow> Inr None
           | Some p2 \<Rightarrow> (case readSQLQualifiedName insertSQL p2 of
               None \<Rightarrow> Inl BadTarget
             | Some (tableName, p3) \<Rightarrow> (case insertColumnList insertSQL p3 of
                 None \<Rightarrow> Inl BadColumns
               | Some (columns, p4) \<Rightarrow> (case consumeEither insertSQL p4 ''VALUES'' ''VALUE'' of
                   None \<Rightarrow> Inl BadForm
                 | Some p5 \<Rightarrow> (case upsertRows_loop insertSQL p5 of
                     Inl e \<Rightarrow> Inl e
                   | Inr (rows, alias) \<Rightarrow>
                       Inr (Some \<lparr> utTableName = tableName, utColumns = columns, utRows = rows, utValueAlias = alias,
                         utUpdateSQL = updateSQL, utUpdatePlaceholderCount = countPlaceholders updateSQL \<rparr>)))))))"

subsection \<open>Binding arguments\<close>

fun bindRows :: "goValue list \<Rightarrow> nat \<Rightarrow> mysqlUpsertRowTemplate list \<Rightarrow> (mysqlUpsertRow list \<times> nat) option" where
  "bindRows args argPos [] = Some ([], argPos)"
| "bindRows args argPos (row # rows) =
     (let n = tplPlaceholderCount row in
      if argPos + n > length args then None
      else map_option (\<lambda>(rs, q). (\<lparr> rowExprs = tplExprs row, rowArgs = gslice args argPos (argPos + n) \<rparr> # rs, q))
             (bindRows args (argPos + n) rows))"

definition bindInsert :: "mysqlInsertStatementTemplate \<Rightarrow> goValue list \<Rightarrow> mysqlInsertStatement option" where
  "bindInsert tpl args =
     (case bindRows args 0 (itRows tpl) of
        None \<Rightarrow> None
      | Some (rows, argPos) \<Rightarrow>
          if argPos \<noteq> length args then None
          else Some \<lparr> inTableName = itTableName tpl, inColumns = itColumns tpl, inRows = rows, inIgnore = itIgnore tpl,
                      inReplace = itReplace tpl \<rparr>)"

definition bindUpsert :: "mysqlUpsertStatementTemplate \<Rightarrow> goValue list \<Rightarrow> upsertError + mysqlUpsertStatement" where
  "bindUpsert tpl args =
     (case bindRows args 0 (utRows tpl) of
        None \<Rightarrow> Inl TooFewArguments
      | Some (rows, argPos) \<Rightarrow>
          let updateArgs = drop argPos args in
          if utUpdatePlaceholderCount tpl \<noteq> length updateArgs then Inl ArgumentCount
          else Inr \<lparr> upTableName = utTableName tpl, upColumns = utColumns tpl, upRows = rows, upValueAlias = utValueAlias tpl,
                     upUpdateSQL = utUpdateSQL tpl, upUpdateArgs = updateArgs \<rparr>)"

subsection \<open>The template caches\<close>

definition parseMySQLInsertStatementCached ::
    "mysqlInsertStatementTemplate option cache \<Rightarrow> string \<Rightarrow> goValue list \<Rightarrow>
     mysqlInsertStatement option \<times> mysqlInsertStatementTemplate option cache" where
  "parseMySQLInsertStatementCached c sqlText args =
     (case cacheLookup c sqlText of
        Some cached \<Rightarrow> (Option.bind cached (\<lambda>tpl. bindInsert tpl args), c)
      | None \<Rightarrow>
          let parsed = parseMySQLInsertStatementTemplate sqlText
          in (Option.bind parsed (\<lambda>tpl. bindInsert tpl args), cacheStore c sqlText parsed))"

definition boundUpsert :: "mysqlUpsertStatementTemplate option \<Rightarrow> goValue list \<Rightarrow> upsertError + mysqlUpsertStatement option" where
  "boundUpsert parsed args =
     (case parsed of
        None \<Rightarrow> Inr None
      | Some tpl \<Rightarrow> (case bindUpsert tpl args of Inl e \<Rightarrow> Inl e | Inr stmt \<Rightarrow> Inr (Some stmt)))"

definition parseMySQLUpsertStatementCached ::
    "mysqlUpsertStatementTemplate option cache \<Rightarrow> string \<Rightarrow> goValue list \<Rightarrow>
     (upsertError + mysqlUpsertStatement option) \<times> mysqlUpsertStatementTemplate option cache" where
  "parseMySQLUpsertStatementCached c sqlText args =
     (case cacheLookup c sqlText of
        Some cached \<Rightarrow> (boundUpsert cached args, c)
      | None \<Rightarrow> (case parseMySQLUpsertStatementTemplate sqlText of
          Inl e \<Rightarrow> (Inl e, c)
        | Inr parsed \<Rightarrow> (boundUpsert parsed args, cacheStore c sqlText parsed)))"

end
