(* ===== verification/Insert_Values.thy ===== *)
theory Insert_Values
  imports Insert_Statements
begin

text \<open>
  The values of an \<open>INSERT\<close> row (\<open>pkg/mysqlmock/upsert.go\<close>): \<open>DEFAULT\<close> and implicit defaults, the SQLite statements built from a
  row, and the rewriting of an \<open>ON DUPLICATE KEY UPDATE\<close> list.
\<close>

subsection \<open>Columns and defaults\<close>

definition findSQLiteTableColumn :: "sqliteTableColumn list \<Rightarrow> string \<Rightarrow> sqliteTableColumn option" where
  "findSQLiteTableColumn columns name =
     List.find (\<lambda>column. EqualFold (tcName column) (ToLower (unquoteSQLWord name))) columns"

definition isBareDefaultExpr :: "string \<Rightarrow> bool" where
  "isBareDefaultExpr expr =
     (case readSQLIdentifier expr (skipSQLSpaces expr 0) of
        None \<Rightarrow> False
      | Some (word, nxt) \<Rightarrow> if \<not> EqualFold word ''DEFAULT'' then False else skipSQLSpaces expr nxt = length expr)"

definition isBarePlaceholderExpr :: "string \<Rightarrow> bool" where
  "isBarePlaceholderExpr expr = (TrimSpace expr = ''?'')"

definition isPlaceholderOnlyUpsertRow :: "mysqlUpsertRow \<Rightarrow> bool" where
  "isPlaceholderOnlyUpsertRow row =
     (if length (rowArgs row) \<noteq> length (rowExprs row) then False else list_all isBarePlaceholderExpr (rowExprs row))"

definition insertStatementUsesDefaultValues :: "mysqlInsertStatement \<Rightarrow> bool" where
  "insertStatementUsesDefaultValues stmt = list_ex (\<lambda>row. list_ex isBareDefaultExpr (rowExprs row)) (inRows stmt)"

definition needsMySQLImplicitDefault :: "sqliteTableColumn \<Rightarrow> bool" where
  "needsMySQLImplicitDefault column = (tcNotNull column \<and> \<not> tcHasDefault column \<and> tcPK column = 0)"

text \<open>The function's second result is always \<open>true\<close>.\<close>

definition mysqlImplicitDefaultValue :: "sqliteTableColumn \<Rightarrow> goValue" where
  "mysqlImplicitDefaultValue column =
     (let upper = ToUpper (TrimSpace (tcType column)) in
      if Contains upper ''INT'' \<or> Contains upper ''BOOL'' \<or> Contains upper ''BIT'' then GoInt64 0
      else if Contains upper ''DECIMAL'' \<or> Contains upper ''NUMERIC'' \<or> Contains upper ''REAL'' \<or>
              Contains upper ''DOUBLE'' \<or> Contains upper ''FLOAT'' then GoFloat (F64 0)
      else if Contains upper ''DATETIME'' \<or> Contains upper ''TIMESTAMP'' then GoString (ascii ''0000-00-00 00:00:00'')
      else if Contains upper ''DATE'' then GoString (ascii ''0000-00-00'')
      else if Contains upper ''TIME'' then GoString (ascii ''00:00:00'')
      else if Contains upper ''BLOB'' then GoBytes []
      else GoString [])"

definition columnKey :: "string \<Rightarrow> string" where
  "columnKey column = ToLower (unquoteSQLWord column)"

text \<open>The first loop: an explicit \<open>NULL\<close> for a column that needs a default is replaced.\<close>

definition fillImplicitDefault :: "sqliteTableColumn list \<Rightarrow> string \<Rightarrow> goValue \<Rightarrow> goValue" where
  "fillImplicitDefault tableColumns column v =
     (if v \<noteq> GoNil then v
      else (case findSQLiteTableColumn tableColumns column of
          None \<Rightarrow> v
        | Some tableColumn \<Rightarrow> if needsMySQLImplicitDefault tableColumn then mysqlImplicitDefaultValue tableColumn else v))"

fun fillValues :: "sqliteTableColumn list \<Rightarrow> string list \<Rightarrow> goValue list \<Rightarrow> goValue list" where
  "fillValues tableColumns (c # cs) (v # vs) = fillImplicitDefault tableColumns c v # fillValues tableColumns cs vs"
| "fillValues tableColumns [] vs = vs"
| "fillValues tableColumns cs [] = []"

definition applyImplicitDefaultInsertValues ::
    "bool \<Rightarrow> sqliteTableColumn list \<Rightarrow> string list \<Rightarrow> goValue list \<Rightarrow> string list \<times> goValue list" where
  "applyImplicitDefaultInsertValues implicitDefaults tableColumns columns vs =
     (if \<not> implicitDefaults then (columns, vs)
      else let seen = map columnKey columns;
               missing = filter (\<lambda>tc. ToLower (tcName tc) \<notin> set seen \<and> needsMySQLImplicitDefault tc) tableColumns
           in (columns @ map tcName missing, fillValues tableColumns columns vs @ map mysqlImplicitDefaultValue missing))"

subsection \<open>SQLite statements\<close>

definition buildSQLiteInsert :: "string \<Rightarrow> string list \<Rightarrow> string" where
  "buildSQLiteInsert tableName columns =
     ''INSERT INTO '' @ quoteIdent (unquoteSQLWord tableName) @ '' ('' @ joinQuoted columns @ '') VALUES ('' @
     Join (map (\<lambda>_. ''?'') columns) '', '' @ '')''"

text \<open>The map from column keys to the values of the row.\<close>

definition valueByColumn :: "string list \<Rightarrow> goValue list \<Rightarrow> string \<rightharpoonup> goValue" where
  "valueByColumn columns vs = map_of (rev (zip (map columnKey columns) vs))"

datatype updateError = UnknownValuesColumn string | UnknownAliasColumn string string | TooFewUpdateArguments | UnusedUpdateArguments

definition updateMessage :: "updateError \<Rightarrow> mysqlError" where
  "updateMessage e = sqlCompatErrorf (case e of
       UnknownValuesColumn column \<Rightarrow> ''ON DUPLICATE KEY UPDATE references unknown VALUES column: '' @ column
     | UnknownAliasColumn alias column \<Rightarrow> ''ON DUPLICATE KEY UPDATE references unknown alias column: '' @ alias @ ''.'' @ column
     | TooFewUpdateArguments \<Rightarrow> ''ON DUPLICATE KEY UPDATE has too few update arguments''
     | UnusedUpdateArguments \<Rightarrow> ''ON DUPLICATE KEY UPDATE has unused update arguments'')"

text \<open>\<open>Inr None\<close>: no name starts here. Otherwise the replacement, where to go on, and the arguments it takes.\<close>

definition rewriteUpsertReference ::
    "string \<Rightarrow> nat \<Rightarrow> string \<Rightarrow> string \<Rightarrow> (string \<rightharpoonup> goValue) \<Rightarrow> updateError + (string \<times> nat \<times> goValue list) option" where
  "rewriteUpsertReference updateSQL pos tableName valueAlias vals =
     (case readSQLNameToken updateSQL pos of
        None \<Rightarrow> Inr None
      | Some (name, e) \<Rightarrow>
          let unquotedName = unquoteSQLWord name in
          if EqualFold unquotedName ''VALUES'' then
            (let callStart = skipSQLSpaces updateSQL e in
             case parenthesizedSQLSpan updateSQL callStart of
               None \<Rightarrow> Inr (Some (gslice updateSQL pos e, e, []))
             | Some callEnd \<Rightarrow>
                 let column = TrimSpace (gslice updateSQL (callStart + 1) (callEnd - 1)) in
                 (case vals (columnKey column) of
                    None \<Rightarrow> Inl (UnknownValuesColumn column)
                  | Some v \<Rightarrow> Inr (Some (''?'', callEnd, [v]))))
          else
            let dot = skipSQLSpaces updateSQL e in
            if dot \<ge> length updateSQL \<or> updateSQL ! dot \<noteq> CHR ''.'' then Inr (Some (gslice updateSQL pos e, e, []))
            else (case readSQLNameToken updateSQL (dot + 1) of
                None \<Rightarrow> Inr (Some (gslice updateSQL pos e, e, []))
              | Some (column, columnEnd) \<Rightarrow>
                  let unquotedColumn = unquoteSQLWord column in
                  if valueAlias \<noteq> [] \<and> EqualFold unquotedName valueAlias then
                    (case vals (ToLower unquotedColumn) of
                       None \<Rightarrow> Inl (UnknownAliasColumn unquotedName unquotedColumn)
                     | Some v \<Rightarrow> Inr (Some (''?'', columnEnd, [v])))
                  else if EqualFold unquotedName (unquoteSQLWord tableName) then Inr (Some (quoteIdent unquotedColumn, columnEnd, []))
                  else Inr (Some (gslice updateSQL pos columnEnd, columnEnd, []))))"

lemma rewriteUpsertReference_bounds [scan_bounds]:
  assumes "rewriteUpsertReference s pos t a v = Inr (Some (r, nxt, args))" shows "pos < nxt \<and> nxt \<le> length s"
proof -
  obtain name e where r: "readSQLNameToken s pos = Some (name, e)"
    using assms by (auto simp: rewriteUpsertReference_def split: option.splits)
  have e: "pos < e" "e \<le> length s" using readSQLNameToken_bounds [OF r] by simp_all
  have call: "parenthesizedSQLSpan s (skipSQLSpaces s e) = Some c \<Longrightarrow> pos < c \<and> c \<le> length s" for c
    using parenthesizedSQLSpan_bounds [of s "skipSQLSpaces s e" c] skipSQLSpaces_ge [of e s] e by simp
  have col: "readSQLNameToken s (Suc (skipSQLSpaces s e)) = Some (w, c) \<Longrightarrow> pos < c \<and> c \<le> length s" for w c
    using readSQLNameToken_bounds [of s "Suc (skipSQLSpaces s e)" w c] skipSQLSpaces_ge [of e s] e by simp
  show ?thesis
    using assms r e call col by (auto simp: rewriteUpsertReference_def Let_def split: option.splits if_splits)
qed

text \<open>One round of the loop: what it writes, the arguments of the placeholders in it, where to go on, the arguments left.\<close>

definition upsertUpdateStep ::
    "string \<Rightarrow> string \<Rightarrow> string \<Rightarrow> (string \<rightharpoonup> goValue) \<Rightarrow> nat \<Rightarrow> goValue list \<Rightarrow>
     updateError + (string \<times> goValue list \<times> nat \<times> goValue list)" where
  "upsertUpdateStep updateSQL tableName valueAlias vals i updateArgs =
     (case (if updateSQL ! i = sq then quotedSQLSpan updateSQL i else None) of
        Some e \<Rightarrow> Inr (gslice updateSQL i e, [], e, updateArgs)
      | None \<Rightarrow> (case sqlCommentSpan updateSQL i of
          Some e \<Rightarrow> Inr (gslice updateSQL i e, [], e, updateArgs)
        | None \<Rightarrow>
            if updateSQL ! i = CHR ''?'' then
              (case updateArgs of
                 [] \<Rightarrow> Inl TooFewUpdateArguments
               | a # rest \<Rightarrow> Inr (''?'', [a], i + 1, rest))
            else (case rewriteUpsertReference updateSQL i tableName valueAlias vals of
                Inl err \<Rightarrow> Inl err
              | Inr (Some (replacement, nxt, args)) \<Rightarrow> Inr (replacement, args, nxt, updateArgs)
              | Inr None \<Rightarrow> Inr ([updateSQL ! i], [], i + 1, updateArgs))))"

lemma upsertUpdateStep_bounds [scan_bounds]:
  "upsertUpdateStep s t a v i args = Inr (text, as, nxt, rest) \<Longrightarrow> i < length s \<Longrightarrow> i < nxt \<and> nxt \<le> length s"
  by (auto simp: upsertUpdateStep_def dest!: rewriteUpsertReference_bounds quotedSQLSpan_bounds sqlCommentSpan_bounds
      split: option.splits if_splits list.splits sum.splits)

text \<open>The whole loop; the arguments left over must be none.\<close>

function upsertUpdate_loop ::
    "string \<Rightarrow> string \<Rightarrow> string \<Rightarrow> (string \<rightharpoonup> goValue) \<Rightarrow> nat \<Rightarrow> goValue list \<Rightarrow> updateError + (string \<times> goValue list)" where
  "upsertUpdate_loop updateSQL tableName valueAlias vals i updateArgs =
     (if i \<ge> length updateSQL then (if updateArgs \<noteq> [] then Inl UnusedUpdateArguments else Inr ([], []))
      else (case upsertUpdateStep updateSQL tableName valueAlias vals i updateArgs of
          Inl err \<Rightarrow> Inl err
        | Inr (text, args, nxt, rest) \<Rightarrow>
            (case upsertUpdate_loop updateSQL tableName valueAlias vals nxt rest of
               Inl err \<Rightarrow> Inl err
             | Inr (out, outArgs) \<Rightarrow> Inr (text @ out, args @ outArgs))))"
  by pat_completeness auto
termination
  by (relation "measure (\<lambda>(s, _, _, _, i, _). length s - i)") (auto dest!: upsertUpdateStep_bounds)

declare upsertUpdate_loop.simps [simp del]

text \<open>\<open>translateSQL\<close> can panic: \<open>None\<close>.\<close>

definition buildSQLiteUpsertUpdate ::
    "string \<Rightarrow> string list \<Rightarrow> goValue list \<Rightarrow> string \<Rightarrow> string \<Rightarrow> goValue list \<Rightarrow> 64 word \<Rightarrow> (updateError + (string \<times> goValue list)) go" where
  "buildSQLiteUpsertUpdate tableName columns vs valueAlias updateSQL updateArgs rowID =
     (case upsertUpdate_loop updateSQL tableName valueAlias (valueByColumn columns vs) 0 updateArgs of
        Inl err \<Rightarrow> Some (Inl err)
      | Inr (out, args) \<Rightarrow>
          map_option (\<lambda>out'. Inr (''UPDATE '' @ quoteIdent (unquoteSQLWord tableName) @ '' SET '' @ out' @ '' WHERE rowid = ?'',
                                  args @ [GoInt64 rowID])) (translateSQL out))"

text \<open>The condition that finds the rows a unique key conflicts with; \<open>None\<close>: a column of the key has no value.\<close>

fun conflictWhere :: "(string \<rightharpoonup> goValue) \<Rightarrow> string list \<Rightarrow> (string list \<times> goValue list) option" where
  "conflictWhere vals [] = Some ([], [])"
| "conflictWhere vals (column # columns) =
     (case vals (ToLower column) of
        None \<Rightarrow> None
      | Some v \<Rightarrow> if v = GoNil then None
          else map_option (\<lambda>(ws, as). ((quoteIdent column @ '' = ?'') # ws, v # as)) (conflictWhere vals columns))"

definition conflictQuery :: "string \<Rightarrow> (string \<rightharpoonup> goValue) \<Rightarrow> string list \<Rightarrow> (string \<times> goValue list) option" where
  "conflictQuery tableName vals columns =
     (case conflictWhere vals columns of
        None \<Rightarrow> None
      | Some (ws, as) \<Rightarrow> if ws = [] then None
          else Some (''SELECT rowid FROM '' @ quoteIdent (unquoteSQLWord tableName) @ '' WHERE '' @ Join ws '' AND '', as))"

end
