(* ===== verification/Sqlite_Results.thy ===== *)
theory Sqlite_Results
  imports Insert_Values
begin

text \<open>
  Results of SQLite queries (\<open>pkg/mysqlmock/sqlite_result.go\<close>) and the \<open>SELECT\<close> reader that finds the zero-fill widths of
  their columns (\<open>pkg/mysqlmock/protocol.go\<close>). What \<open>database/sql\<close> delivers is an argument: the column names, the
  declared types (\<open>None\<close>: \<open>ColumnTypes\<close> failed) and the rows.
\<close>

subsection \<open>Simple SELECT statements\<close>

definition isSelectAllItem :: "string \<Rightarrow> bool" where
  "isSelectAllItem item0 =
     (let item = TrimSpace item0 in
      if item = ''*'' then True
      else if HasSuffix item ''.*'' then
        (let pre = TrimSpace (TrimSuffix item ''.*'') in
         case readSQLQualifiedName pre 0 of
           None \<Rightarrow> False
         | Some (_, pos) \<Rightarrow> skipSQLSpaces pre pos = length pre)
      else False)"

definition selectItemColumnName :: "string \<Rightarrow> string option" where
  "selectItemColumnName item =
     (case readSQLQualifiedName item 0 of
        None \<Rightarrow> None
      | Some (columnName, p0) \<Rightarrow>
          let pos = skipSQLSpaces item p0;
              alias = (\<lambda>p. case readSQLNameToken item p of
                 None \<Rightarrow> None
               | Some (_, e) \<Rightarrow> if skipSQLSpaces item e = length item then Some columnName else None)
          in if pos = length item then Some columnName
             else (case consumeKeyword item pos ''AS'' of Some p \<Rightarrow> alias p | None \<Rightarrow> alias pos))"

function select_source_loop :: "string \<Rightarrow> nat \<Rightarrow> nat \<Rightarrow> bool" where
  "select_source_loop sqlText depth i =
     (if i \<ge> length sqlText then False
      else (case skipSpan sqlText i of
          Some e \<Rightarrow> select_source_loop sqlText depth e
        | None \<Rightarrow>
            if sqlText ! i = CHR ''('' then select_source_loop sqlText (depth + 1) (i + 1)
            else if sqlText ! i = CHR '')'' then select_source_loop sqlText (depth - 1) (i + 1)
            else if sqlText ! i = CHR '','' then (if depth = 0 then True else select_source_loop sqlText depth (i + 1))
            else (case readSQLIdentifier sqlText i of
                None \<Rightarrow> select_source_loop sqlText depth (i + 1)
              | Some (word, e) \<Rightarrow>
                  if depth = 0 \<and> ToUpper word = ''JOIN'' then True
                  else if depth = 0 \<and> ToUpper word \<in>
                      {''WHERE'', ''GROUP'', ''HAVING'', ''ORDER'', ''LIMIT'', ''OFFSET'', ''FOR'', ''LOCK''} then False
                  else select_source_loop sqlText depth e)))"
  by pat_completeness auto
termination
  by (relation "measure (\<lambda>(s, d, i). length s - i)")
    (auto simp: termination_simp dest: skipSpan_bounds readSQLIdentifier_bounds)

declare select_source_loop.simps [simp del]

definition hasAdditionalTopLevelSelectSource :: "string \<Rightarrow> bool" where
  "hasAdditionalTopLevelSelectSource sqlText = select_source_loop sqlText 0 0"

definition parseSimpleSelectSource :: "string \<Rightarrow> (string \<times> string list) option" where
  "parseSimpleSelectSource sqlText = do {
     p1 \<leftarrow> consumeKeyword sqlText 0 ''SELECT'';
     fromPos \<leftarrow> findTopLevelSQLKeyword sqlText p1 ''FROM'';
     let selectItems = splitSQLTopLevelList (gslice sqlText p1 fromPos);
     p2 \<leftarrow> consumeKeyword sqlText fromPos ''FROM'';
     let p3 = skipSQLSpaces sqlText p2;
     (if p3 \<ge> length sqlText \<or> sqlText ! p3 = CHR ''('' then None else Some ());
     (tableName, p4) \<leftarrow> readSQLQualifiedName sqlText p3;
     (if hasAdditionalTopLevelSelectSource (drop p4 sqlText) then None else Some (tableName, selectItems)) }"

definition zeroFillOf :: "metadata \<Rightarrow> string \<Rightarrow> string \<Rightarrow> int" where
  "zeroFillOf md tableName columnName =
     (case lookupMySQLColumnMetadata md tableName columnName of None \<Rightarrow> 0 | Some m \<Rightarrow> cmZeroFillWidth m)"

definition resultZeroFillWidths :: "metadata \<Rightarrow> string \<Rightarrow> string list \<Rightarrow> int list" where
  "resultZeroFillWidths md query names =
     (case parseSimpleSelectSource query of
        None \<Rightarrow> map (\<lambda>_. 0) names
      | Some (tableName, selectItems) \<Rightarrow>
          if length selectItems = 1 \<and> isSelectAllItem (selectItems ! 0) then map (zeroFillOf md tableName) names
          else if length selectItems \<noteq> length names then map (\<lambda>_. 0) names
          else map (\<lambda>item. case selectItemColumnName item of None \<Rightarrow> 0 | Some columnName \<Rightarrow> zeroFillOf md tableName columnName)
                 selectItems)"

subsection \<open>Columns and rows\<close>

definition sqliteResultColumn :: "(string \<Rightarrow> int option) \<Rightarrow> string \<Rightarrow> string option \<Rightarrow> int \<Rightarrow> resultColumn" where
  "sqliteResultColumn sscan name dbType width =
     (let (t, w0) = (case dbType of None \<Rightarrow> (fieldTypeVarString, 0) | Some d \<Rightarrow> (mysqlFieldType d, mysqlZeroFillWidth sscan d));
          w = (if width > w0 then width else w0)
      in \<lparr> Name = ascii name, Type = (if w > 0 then fieldTypeVarString else t), ZeroFillWidth = w \<rparr>)"

definition typeAt :: "string list option \<Rightarrow> nat \<Rightarrow> string option" where
  "typeAt types i = (case types of None \<Rightarrow> None | Some ts \<Rightarrow> if i < length ts then Some (ts ! i) else None)"

text \<open>The columns, and whether the rows can be sent as they come: every column has a declared type.\<close>

definition sqliteResultColumns ::
    "(string \<Rightarrow> int option) \<Rightarrow> metadata \<Rightarrow> string \<Rightarrow> string list \<Rightarrow> string list option \<Rightarrow> resultColumn list \<times> bool" where
  "sqliteResultColumns sscan md query names types =
     (let widths = resultZeroFillWidths md query names in
      (map (\<lambda>i. sqliteResultColumn sscan (names ! i) (typeAt types i) (widths ! i)) [0..<length names],
       list_all (\<lambda>i. case typeAt types i of None \<Rightarrow> False | Some d \<Rightarrow> TrimSpace d \<noteq> []) [0..<length names]))"

definition nextValue :: "goStd \<Rightarrow> bool \<Rightarrow> resultColumn \<Rightarrow> goValue \<Rightarrow> resultColumn \<times> goValue" where
  "nextValue std refineColumnTypes column v =
     (if ZeroFillWidth column > 0 then (column, if v \<noteq> GoNil then GoString (textValueForColumn std v column) else v)
      else if refineColumnTypes \<and> Type column = fieldTypeVarString then (column\<lparr> Type := fieldTypeFromValue v \<rparr>, v)
      else (column, v))"

text \<open>One row; \<open>Scan\<close> fills a value per column.\<close>

definition nextRow :: "goStd \<Rightarrow> bool \<Rightarrow> resultColumn list \<Rightarrow> goValue list \<Rightarrow> resultColumn list \<times> goValue list" where
  "nextRow std refineColumnTypes columns vs =
     (let r = map2 (nextValue std refineColumnTypes) columns vs in (map fst r, map snd r))"

fun materialize_loop :: "goStd \<Rightarrow> resultColumn list \<Rightarrow> goValue list list \<Rightarrow> resultColumn list \<times> goValue list list" where
  "materialize_loop std columns [] = (columns, [])"
| "materialize_loop std columns (row # rows) =
     (let (columns', row') = nextRow std True columns row; (columns'', rows') = materialize_loop std columns' rows
      in (columns'', row' # rows'))"

definition materialize :: "goStd \<Rightarrow> resultColumn list \<Rightarrow> goValue list list \<Rightarrow> resultSet" where
  "materialize std columns rows = (let (columns', rows') = materialize_loop std columns rows in \<lparr> Columns = columns', Rows = rows' \<rparr>)"

subsection \<open>What is kept\<close>

lemma sqliteResultColumns_length [simp]: "length (fst (sqliteResultColumns sscan md query names types)) = length names"
  by (simp add: sqliteResultColumns_def Let_def)

lemma nextRow_length [simp]:
  "length vs = length columns \<Longrightarrow> length (fst (nextRow std r columns vs)) = length columns"
  "length vs = length columns \<Longrightarrow> length (snd (nextRow std r columns vs)) = length columns"
  by (simp_all add: nextRow_def Let_def)

lemma materialize_loop_rows:
  "list_all (\<lambda>row. length row = length columns) rows \<Longrightarrow>
   length (fst (materialize_loop std columns rows)) = length columns \<and>
   list_all (\<lambda>row. length row = length columns) (snd (materialize_loop std columns rows)) \<and>
   length (snd (materialize_loop std columns rows)) = length rows"
proof (induction rows arbitrary: columns)
  case (Cons row rows)
  have l: "length (fst (nextRow std True columns row)) = length columns" "length (snd (nextRow std True columns row)) = length columns"
    using Cons.prems by simp_all
  have "list_all (\<lambda>row. length row = length (fst (nextRow std True columns row'))) rows" if "length row' = length columns" for row'
    using Cons.prems that by (simp add: l)
  from Cons.IH [OF this] Cons.prems l show ?case by (simp add: case_prod_unfold Let_def)
qed simp

text \<open>Rows without zero-fill columns are passed on unchanged.\<close>

lemma nextRow_plain:
  "length vs = length columns \<Longrightarrow> list_all (\<lambda>c. ZeroFillWidth c \<le> 0) columns \<Longrightarrow>
   snd (nextRow std r columns vs) = vs \<and> list_all (\<lambda>c. ZeroFillWidth c \<le> 0) (fst (nextRow std r columns vs))"
  by (induction vs columns rule: list_induct2) (auto simp: nextRow_def Let_def nextValue_def)

lemma materialize_plain:
  "list_all (\<lambda>row. length row = length columns) rows \<Longrightarrow> list_all (\<lambda>c. ZeroFillWidth c \<le> 0) columns \<Longrightarrow>
   Rows (materialize std columns rows) = rows"
proof (induction rows arbitrary: columns)
  case Nil
  then show ?case by (simp add: materialize_def)
next
  case (Cons row rows)
  have l: "length (fst (nextRow std True columns row)) = length columns" using Cons.prems by simp
  have p: "snd (nextRow std True columns row) = row" "list_all (\<lambda>c. ZeroFillWidth c \<le> 0) (fst (nextRow std True columns row))"
    using nextRow_plain [of row columns] Cons.prems by simp_all
  have "Rows (materialize std (fst (nextRow std True columns row)) rows) = rows"
    using Cons.IH [of "fst (nextRow std True columns row)"] Cons.prems p l by simp
  with p show ?case by (simp add: materialize_def case_prod_unfold Let_def)
qed

end
