(* ===== verification/Session.thy ===== *)
theory Session
  imports Sql_Properties Info_Cache Reply_Packets Shared_State
begin

text \<open>
  The session state of a connection (\<open>mysqlConn\<close> in \<open>pkg/mysqlmock/protocol.go\<close>): the \<open>SET\<close> statements, the system
  variables they change, the statements that read them, and the results the server answers from the session alone.

  \<open>vars\<close> is \<open>server.cfg.Compat.Variables\<close>. Go's map index gives the empty text for a missing key. Statements that the
  code sends to SQLite without looking at the result are returned in the order in which they are sent.
\<close>

unbundle bit_operations_syntax

subsection \<open>The state\<close>

record session =
  connectionID :: "32 word"
  user :: string
  clientCaps :: "32 word"
  statusFlags :: "16 word"
  currentDB :: string
  characterSetClient :: string
  characterSetConnection :: string
  characterSetResults :: string
  collationConnection :: string
  sessionVariables :: "string \<rightharpoonup> string"
  lastInsertID :: "64 word"
  lastAffectedRows :: "64 word"

definition serverStatusInTrans :: "16 word" where "serverStatusInTrans = 1"
definition serverStatusAutocommit :: "16 word" where "serverStatusAutocommit = 2"

definition mapIndex :: "(string \<rightharpoonup> string) \<Rightarrow> string \<Rightarrow> string" where
  "mapIndex m k = (case m k of Some v \<Rightarrow> v | None \<Rightarrow> [])"

definition setFlag :: "16 word \<Rightarrow> session \<Rightarrow> session" where
  "setFlag f s = s\<lparr> statusFlags := statusFlags s OR f \<rparr>"

definition clearFlag :: "16 word \<Rightarrow> session \<Rightarrow> session" where
  "clearFlag f s = s\<lparr> statusFlags := statusFlags s AND NOT f \<rparr>"

definition hasFlag :: "16 word \<Rightarrow> session \<Rightarrow> bool" where
  "hasFlag f s = (statusFlags s AND f \<noteq> 0)"

lemma hasFlag_bit:
  "hasFlag serverStatusInTrans s = bit (statusFlags s) 0" "hasFlag serverStatusAutocommit s = bit (statusFlags s) 1"
  using and_exp_eq_0_iff_not_bit [of "statusFlags s" 0] and_exp_eq_0_iff_not_bit [of "statusFlags s" 1]
  by (simp_all add: hasFlag_def serverStatusInTrans_def serverStatusAutocommit_def)

lemma flag_bits:
  "bit serverStatusInTrans n = (n = 0)" "bit serverStatusAutocommit n = (n = 1)"
  using bit_exp_iff [of 0 n, where ?'a = "16 word"] bit_exp_iff [of 1 n, where ?'a = "16 word"]
  by (auto simp: serverStatusInTrans_def serverStatusAutocommit_def dest: bit_imp_le_length)

lemma flags [simp]:
  "hasFlag serverStatusInTrans (setFlag serverStatusInTrans s)"
  "\<not> hasFlag serverStatusInTrans (clearFlag serverStatusInTrans s)"
  "hasFlag serverStatusAutocommit (setFlag serverStatusAutocommit s)"
  "\<not> hasFlag serverStatusAutocommit (clearFlag serverStatusAutocommit s)"
  "hasFlag serverStatusAutocommit (setFlag serverStatusInTrans s) = hasFlag serverStatusAutocommit s"
  "hasFlag serverStatusAutocommit (clearFlag serverStatusInTrans s) = hasFlag serverStatusAutocommit s"
  "hasFlag serverStatusInTrans (setFlag serverStatusAutocommit s) = hasFlag serverStatusInTrans s"
  "hasFlag serverStatusInTrans (clearFlag serverStatusAutocommit s) = hasFlag serverStatusInTrans s"
  by (simp_all only: hasFlag_bit) (simp_all add: setFlag_def clearFlag_def bit_simps flag_bits)

text \<open>The connection \<open>handleNetConn\<close> starts with.\<close>

definition newSession :: "(string \<rightharpoonup> string) \<Rightarrow> 32 word \<Rightarrow> session" where
  "newSession vars cid =
     \<lparr> connectionID = cid, user = [], clientCaps = 0, statusFlags = serverStatusAutocommit, currentDB = ''mysqlmock'',
       characterSetClient = mapIndex vars ''character_set_client'',
       characterSetConnection = mapIndex vars ''character_set_connection'',
       characterSetResults = mapIndex vars ''character_set_results'',
       collationConnection = mapIndex vars ''collation_connection'',
       sessionVariables = Map.empty, lastInsertID = 0, lastAffectedRows = 0 \<rparr>"

subsection \<open>SET\<close>

definition setAutocommit :: "string \<Rightarrow> session \<Rightarrow> session" where
  "setAutocommit upper s =
     (if Contains upper ''= 0'' \<or> HasSuffix upper ''=0'' \<or> HasSuffix upper '' OFF'' then clearFlag serverStatusAutocommit s
      else setFlag serverStatusAutocommit s)"

definition resetCharacterSetState :: "(string \<rightharpoonup> string) \<Rightarrow> session \<Rightarrow> session" where
  "resetCharacterSetState vars s =
     s\<lparr> characterSetClient := mapIndex vars ''character_set_client'',
        characterSetConnection := mapIndex vars ''character_set_connection'',
        characterSetResults := mapIndex vars ''character_set_results'',
        collationConnection := mapIndex vars ''collation_connection'' \<rparr>"

text \<open>The loop that looks for \<open>COLLATE\<close>: the word behind the first one.\<close>

fun collate_loop :: "string list \<Rightarrow> string option" where
  "collate_loop (w # v # r) = (if EqualFold w ''COLLATE'' then Some (unquoteSQLWord v) else collate_loop (v # r))"
| "collate_loop _ = None"

definition setNames :: "(string \<rightharpoonup> string) \<Rightarrow> string \<Rightarrow> session \<Rightarrow> session" where
  "setNames vars normalizedSQL s =
     (let ws = Fields normalizedSQL in
      if length ws < 3 then s
      else let charset = unquoteSQLWord (ws ! 2) in
        if EqualFold charset ''DEFAULT'' then resetCharacterSetState vars s
        else let s' = s\<lparr> characterSetClient := charset, characterSetConnection := charset, characterSetResults := charset \<rparr> in
          (case collate_loop (drop 3 ws) of None \<Rightarrow> s' | Some c \<Rightarrow> s'\<lparr> collationConnection := c \<rparr>))"

definition parseSetVariableAssignment :: "string \<Rightarrow> (string \<times> string) option" where
  "parseSetVariableAssignment assignment0 =
     (let assignment = TrimSpace assignment0 in
      case topLevelEqualIndex assignment of
        None \<Rightarrow> None
      | Some eq \<Rightarrow>
          let name = TrimSpace (take eq assignment); v = TrimSpace (TrimSuffix (drop (eq + 1) assignment) '';'') in
          if name = [] \<or> v = [] then None else Some (name, v))"

definition normalizeSystemVariableName :: "string \<Rightarrow> string" where
  "normalizeSystemVariableName name =
     TrimPrefix (TrimPrefix (ToLower (TrimPrefix (TrimSpace name) ''@@'')) ''session.'') ''global.''"

definition normalizeSystemVariableValue :: "(string \<rightharpoonup> string) \<Rightarrow> string \<Rightarrow> string \<Rightarrow> string" where
  "normalizeSystemVariableValue vars name v0 =
     (let v = TrimSpace (TrimSuffix v0 '';'') in if EqualFold v ''DEFAULT'' then mapIndex vars name else unquoteSQLWord v)"

text \<open>What an assignment stores, if it stores anything, and the pragmas a change of \<open>foreign_key_checks\<close> sends.\<close>

definition setVariable :: "(string \<rightharpoonup> string) \<Rightarrow> string \<Rightarrow> session \<times> string list \<Rightarrow> session \<times> string list" where
  "setVariable vars assignment st =
     (case st of (s, sent) \<Rightarrow>
        (case parseSetVariableAssignment assignment of
           None \<Rightarrow> (s, sent)
         | Some (name0, v0) \<Rightarrow>
             let name = normalizeSystemVariableName name0 in
             if name = [] then (s, sent)
             else let v = normalizeSystemVariableValue vars name v0;
                      s' = s\<lparr> sessionVariables := (sessionVariables s)(name \<mapsto> v) \<rparr> in
               if EqualFold name ''foreign_key_checks'' then
                 (if v = ''0'' \<or> EqualFold v ''OFF'' then
                    (s', sent @ (if hasFlag serverStatusInTrans s then [''PRAGMA defer_foreign_keys = ON''] else [])
                         @ [''PRAGMA foreign_keys = OFF''])
                  else (s', sent @ [''PRAGMA foreign_keys = ON'']))
               else (s', sent)))"

definition setVariables :: "(string \<rightharpoonup> string) \<Rightarrow> string \<Rightarrow> session \<Rightarrow> session \<times> string list" where
  "setVariables vars sqlText s =
     fold (setVariable vars) (splitSQLTopLevelList (TrimSpace (drop 3 sqlText))) (s, [])"

subsection \<open>Reading variables\<close>

definition compatVariable :: "(string \<rightharpoonup> string) \<Rightarrow> session \<Rightarrow> string \<Rightarrow> string option" where
  "compatVariable vars s name =
     (if name = ''autocommit'' then Some (if hasFlag serverStatusAutocommit s then ''1'' else ''0'')
      else if name = ''character_set_client'' then Some (characterSetClient s)
      else if name = ''character_set_connection'' then Some (characterSetConnection s)
      else if name = ''character_set_results'' then Some (characterSetResults s)
      else if name = ''collation_connection'' then Some (collationConnection s)
      else (case sessionVariables s name of Some v \<Rightarrow> Some v | None \<Rightarrow> vars name))"

definition liveVariables :: "string list" where
  "liveVariables =
     [''autocommit'', ''character_set_client'', ''character_set_connection'', ''character_set_results'', ''collation_connection'']"

definition compatVariables :: "(string \<rightharpoonup> string) \<Rightarrow> session \<Rightarrow> string \<rightharpoonup> string" where
  "compatVariables vars s =
     fold (\<lambda>name m. m(name \<mapsto> (case compatVariable vars s name of Some v \<Rightarrow> v | None \<Rightarrow> []))) liveVariables
       (vars ++ sessionVariables s)"

definition oneRow :: "string \<Rightarrow> goValue \<Rightarrow> resultSet" where
  "oneRow name v = \<lparr> Columns = [\<lparr> Name = ascii name, Type = fieldTypeVarString, ZeroFillWidth = 0 \<rparr>], Rows = [[v]] \<rparr>"

text \<open>\<open>None\<close>: the variable is unknown, the query goes to the unsupported log and fails.\<close>

definition selectVariable :: "(string \<rightharpoonup> string) \<Rightarrow> session \<Rightarrow> string \<Rightarrow> resultSet option" where
  "selectVariable vars s normalizedSQL =
     (let expr = TrimSuffix (TrimSpace (TrimPrefix (TrimSpace normalizedSQL) ''SELECT'')) '';'';
          name = TrimPrefix (TrimPrefix (ToLower (TrimPrefix (TrimSpace expr) ''@@'')) ''session.'') ''global.''
      in map_option (\<lambda>v. oneRow expr (GoString (ascii v))) (compatVariable vars s name))"

text \<open>\<open>sort.Strings\<close> of the keys, over a list of the names in the map.\<close>

fun insertName :: "string \<Rightarrow> string list \<Rightarrow> string list" where
  "insertName k [] = [k]"
| "insertName k (x # xs) = (if lexordp_eq (map (of_char :: char \<Rightarrow> nat) k) (map of_char x) then k # x # xs else x # insertName k xs)"

definition showVariables :: "string list \<Rightarrow> (string \<rightharpoonup> string) \<Rightarrow> session \<Rightarrow> resultSet" where
  "showVariables names vars s =
     (let m = compatVariables vars s in
      \<lparr> Columns = [\<lparr> Name = ascii ''Variable_name'', Type = fieldTypeVarString, ZeroFillWidth = 0 \<rparr>,
                   \<lparr> Name = ascii ''Value'', Type = fieldTypeVarString, ZeroFillWidth = 0 \<rparr>],
        Rows = map (\<lambda>k. [GoString (ascii k), GoString (ascii (mapIndex m k))]) (foldr insertName names []) \<rparr>)"

subsection \<open>The rest of the session\<close>

definition currentUser :: "session \<Rightarrow> string" where
  "currentUser s = (if user s = [] then ''mysqlmock'' else user s) @ ''@%''"

datatype reply = ReplyOK okResult | ReplyRows resultSet

definition recordResult :: "reply \<Rightarrow> session \<Rightarrow> session" where
  "recordResult r s =
     (case r of
        ReplyOK ok \<Rightarrow>
          (let s' = s\<lparr> lastAffectedRows := AffectedRows ok \<rparr> in
           if LastInsertID ok \<noteq> 0 then s'\<lparr> lastInsertID := LastInsertID ok \<rparr> else s')
      | ReplyRows _ \<Rightarrow> s\<lparr> lastAffectedRows := - 1 \<rparr>)"

definition aliasToEnd :: "string \<Rightarrow> nat \<Rightarrow> string option" where
  "aliasToEnd sqlText pos =
     (case readSQLNameToken sqlText pos of
        None \<Rightarrow> None
      | Some (alias, e) \<Rightarrow> if skipSQLSpaces sqlText e \<noteq> length sqlText then None else Some (unquoteSQLWord alias))"

definition selectVersionColumnName :: "string \<Rightarrow> string option" where
  "selectVersionColumnName sqlText0 =
     (let sqlText = TrimSpace (TrimSuffix (TrimSpace sqlText0) '';'') in
      case consumeKeyword sqlText 0 ''SELECT'' of
        None \<Rightarrow> None
      | Some p1 \<Rightarrow> (case consumeKeyword sqlText p1 ''VERSION'' of
          None \<Rightarrow> None
        | Some p2 \<Rightarrow>
            let p3 = skipSQLSpaces sqlText p2;
                call = (if p3 < length sqlText \<and> sqlText ! p3 = CHR ''('' then
                    (case parenthesizedSQLSpan sqlText p3 of
                       None \<Rightarrow> None
                     | Some e \<Rightarrow> if TrimSpace (gslice sqlText (p3 + 1) (e - 1)) \<noteq> [] then None else Some e)
                  else Some p3)
            in (case call of
                None \<Rightarrow> None
              | Some p4 \<Rightarrow>
                  let p5 = skipSQLSpaces sqlText p4 in
                  if p5 \<ge> length sqlText then Some ''VERSION()''
                  else (case consumeKeyword sqlText p5 ''AS'' of
                      Some p6 \<Rightarrow> aliasToEnd sqlText p6
                    | None \<Rightarrow> aliasToEnd sqlText p5))))"

definition isAdvisoryLockQuery :: "string \<Rightarrow> bool" where
  "isAdvisoryLockQuery upper = (HasPrefix upper ''SELECT GET_LOCK('' \<or> HasPrefix upper ''SELECT RELEASE_LOCK('')"

definition advisoryLockName :: "string \<Rightarrow> string option" where
  "advisoryLockName expr =
     (case readSQLIdentifier expr 0 of
        None \<Rightarrow> None
      | Some (name, e) \<Rightarrow>
          if \<not> EqualFold name ''GET_LOCK'' \<and> \<not> EqualFold name ''RELEASE_LOCK'' then None
          else let callStart = skipSQLSpaces expr e in
            (case parenthesizedSQLSpan expr callStart of
               None \<Rightarrow> None
             | Some callEnd \<Rightarrow>
                 (case splitSQLTopLevelList (gslice expr (callStart + 1) (callEnd - 1)) of
                    [] \<Rightarrow> None
                  | a # _ \<Rightarrow> Some (unquoteSQLWord (TrimSpace a)))))"

definition lockValue :: "int option \<Rightarrow> goValue" where
  "lockValue r = (case r of None \<Rightarrow> GoNil | Some n \<Rightarrow> GoInt (word_of_int n))"

definition advisoryLockResult :: "string \<Rightarrow> session \<Rightarrow> advisoryLockStore \<Rightarrow> resultSet \<times> advisoryLockStore" where
  "advisoryLockResult sqlText s locks =
     (let expr = TrimSuffix (TrimSpace (TrimPrefix (TrimSpace sqlText) ''SELECT'')) '';'' in
      case advisoryLockName expr of
        None \<Rightarrow> (oneRow expr GoNil, locks)
      | Some name \<Rightarrow>
          if HasPrefix (ToUpper (TrimSpace expr)) ''RELEASE_LOCK'' then
            (let (locks', r) = releaseAdvisoryLock name (connectionID s) locks in (oneRow expr (lockValue r), locks'))
          else (let (locks', r) = getAdvisoryLock name (connectionID s) locks in (oneRow expr (lockValue (Some r)), locks')))"

subsection \<open>What is set is read back\<close>

lemma TrimSpace_id: "s \<noteq> [] \<Longrightarrow> \<not> isSpace (hd s) \<Longrightarrow> \<not> isSpace (last s) \<Longrightarrow> TrimSpace s = s"
proof -
  assume s: "s \<noteq> []" "\<not> isSpace (hd s)" "\<not> isSpace (last s)"
  then have "dropWhile isSpace s = s" "dropWhile isSpace (rev s) = rev s"
    by (simp_all add: dropWhile_eq_self_iff hd_rev)
  then show ?thesis by (simp add: TrimSpace_def TrimLeftFunc_def TrimRightFunc_def)
qed

lemma TrimSpace_blank: "TrimSpace (CHR '' '' # s) = TrimSpace s"
  by (simp add: TrimSpace_def TrimLeftFunc_def isSpace_def)

lemma TrimSpace_blank_end: "TrimSpace (s @ '' '') = TrimSpace s"
proof (cases "\<forall>c \<in> set s. isSpace c")
  case True
  then have "dropWhile isSpace (s @ '' '') = []" "dropWhile isSpace s = []"
    by (auto simp: isSpace_def [of "CHR '' ''"])
  then show ?thesis by (simp only: TrimSpace_def TrimLeftFunc_def)
next
  case False
  then have "dropWhile isSpace (s @ '' '') = dropWhile isSpace s @ '' ''"
    by (metis dropWhile_append1)
  then show ?thesis by (simp add: TrimSpace_def TrimLeftFunc_def TrimRightFunc_def isSpace_def)
qed

lemma TrimSuffix_other: "s \<noteq> [] \<Longrightarrow> last s \<noteq> c \<Longrightarrow> TrimSuffix s [c] = s"
  by (auto simp: TrimSuffix_def HasSuffix_def suffix_def)

definition plainText :: "string \<Rightarrow> bool" where
  "plainText s = (set s \<inter> {sq, dq, bq, CHR ''-'', CHR ''#'', CHR ''/'', CHR ''('', CHR '')'', CHR '',''} = {})"

lemma skipSpan_plain: "plainText s \<Longrightarrow> i < length s \<Longrightarrow> skipSpan s i = None"
proof -
  assume p: "plainText s" and i: "i < length s"
  then have "s ! i \<notin> {sq, dq, bq, CHR ''-'', CHR ''#'', CHR ''/''}"
    unfolding plainText_def using nth_mem [OF i] by blast
  with i show ?thesis by (simp add: skipSpan_def quotedSQLSpan_def sqlCommentSpan_def Let_def)
qed

lemma plain_nth: "plainText s \<Longrightarrow> i < length s \<Longrightarrow> s ! i \<noteq> CHR ''('' \<and> s ! i \<noteq> CHR '')'' \<and> s ! i \<noteq> CHR '',''"
  unfolding plainText_def using nth_mem [of i s] by fastforce

lemma split_loop_plain: "plainText s \<Longrightarrow> split_loop s start 0 i = [gslice s start (length s)]"
proof (induction s start "0 :: nat" i rule: split_loop.induct)
  case (1 s start i)
  then show ?case
    using skipSpan_plain [of s i] plain_nth [of s i] by (subst split_loop.simps) auto
qed

lemma top_eq_loop_plain:
  "plainText s \<Longrightarrow> i \<le> k \<Longrightarrow> k < length s \<Longrightarrow> s ! k = CHR ''='' \<Longrightarrow> \<forall>j < k. s ! j \<noteq> CHR ''='' \<Longrightarrow>
     top_eq_loop s 0 i = Some k"
proof (induction s "0 :: nat" i rule: top_eq_loop.induct)
  case (1 s i)
  then show ?case
    using skipSpan_plain [of s i] plain_nth [of s i]
    by (cases "i = k") (subst top_eq_loop.simps, simp add: Suc_le_eq)+
qed

definition plainWord :: "string \<Rightarrow> bool" where
  "plainWord w = (w \<noteq> [] \<and> list_all isSQLIdentifierPart w)"

lemma identifier_part_other:
  "isSQLIdentifierPart c \<Longrightarrow> \<not> isSpace c \<and>
    c \<notin> {sq, dq, bq, CHR ''-'', CHR ''#'', CHR ''/'', CHR ''('', CHR '')'', CHR '','', CHR ''='', CHR '';'', CHR ''.'', CHR ''@''}"
  by (auto simp: isSQLIdentifierPart_def isSQLIdentifierStart_def isSpace_def less_eq_char_def)

lemma plainWord_ends: "plainWord w \<Longrightarrow> isSQLIdentifierPart (hd w) \<and> isSQLIdentifierPart (last w)"
  by (simp add: plainWord_def list_all_iff)

lemma plainWord_set: "plainWord w \<Longrightarrow> c \<in> set w \<Longrightarrow> isSQLIdentifierPart c"
  by (simp add: plainWord_def list_all_iff)

lemma unquote_plain: "plainWord w \<Longrightarrow> unquoteSQLWord w = w"
proof -
  assume w: "plainWord w"
  note e = plainWord_ends [OF w]
  have "TrimSpace w = w" using w e identifier_part_other by (intro TrimSpace_id) (auto simp: plainWord_def)
  moreover have "TrimSuffix w '';'' = w"
    using w e identifier_part_other by (intro TrimSuffix_other) (auto simp: plainWord_def)
  moreover have "\<not> isQuote (w ! 0)"
    using w e identifier_part_other [of "hd w"] by (auto simp: plainWord_def hd_conv_nth isQuote_def)
  ultimately show ?thesis by (simp add: unquoteSQLWord_def Let_def)
qed

text \<open>The prefixes under which clients name a system variable, and their text.\<close>

definition variablePrefixes :: "string list" where
  "variablePrefixes = [[], ''@@'', ''@@session.'', ''@@SESSION.'', ''@@global.'', ''@@GLOBAL.'']"

lemma prefix_word_start:
  "plainWord w \<Longrightarrow> c \<notin> set w \<Longrightarrow> \<not> prefix (u @ [c]) (w)"
  by (auto simp: prefix_def)

lemma not_part: "\<not> isSQLIdentifierPart (CHR ''@'')" "\<not> isSQLIdentifierPart (CHR ''.'')"
  using identifier_part_other [of "CHR ''@''"] identifier_part_other [of "CHR ''.''"] by auto

lemma ToLower_Cons: "ToLower (c # s) = lower_byte c # ToLower s"
  by (simp add: ToLower_def)

lemma lower_byte_letters [simp]:
  "lower_byte (CHR ''S'') = CHR ''s''" "lower_byte (CHR ''E'') = CHR ''e''" "lower_byte (CHR ''I'') = CHR ''i''"
  "lower_byte (CHR ''O'') = CHR ''o''" "lower_byte (CHR ''N'') = CHR ''n''" "lower_byte (CHR ''G'') = CHR ''g''"
  "lower_byte (CHR ''L'') = CHR ''l''" "lower_byte (CHR ''B'') = CHR ''b''" "lower_byte (CHR ''A'') = CHR ''a''"
  "lower_byte (CHR ''s'') = CHR ''s''" "lower_byte (CHR ''e'') = CHR ''e''" "lower_byte (CHR ''i'') = CHR ''i''"
  "lower_byte (CHR ''o'') = CHR ''o''" "lower_byte (CHR ''n'') = CHR ''n''" "lower_byte (CHR ''g'') = CHR ''g''"
  "lower_byte (CHR ''l'') = CHR ''l''" "lower_byte (CHR ''b'') = CHR ''b''" "lower_byte (CHR ''a'') = CHR ''a''"
  "lower_byte (CHR ''.'') = CHR ''.''"
  by code_simp+

lemma isSpace_at: "\<not> isSpace (CHR ''@'')"
  by (simp add: isSpace_def)

lemma normalize_prefixed:
  assumes "plainWord name" "ToLower name = name" "pre \<in> set variablePrefixes"
  shows "normalizeSystemVariableName (pre @ name) = name"
proof -
  have e: "isSQLIdentifierPart (hd name)" "isSQLIdentifierPart (last name)" using plainWord_ends [OF assms(1)] by simp_all
  have n: "name \<noteq> []" using assms(1) by (simp add: plainWord_def)
  have no: "CHR ''@'' \<notin> set name" "CHR ''.'' \<notin> set name"
    using plainWord_set [OF assms(1)] not_part by auto
  have at: "\<not> prefix ''@@'' name" using no(1) set_mono_prefix [of "''@@''" name] by auto
  have dot: "\<not> prefix ''session.'' name" "\<not> prefix ''global.'' name"
    using no(2) set_mono_prefix [of "''session.''" name] set_mono_prefix [of "''global.''" name] by auto
  have t: "TrimSpace (p @ name) = p @ name" if "p = [] \<or> hd p = CHR ''@''" for p
  proof (rule TrimSpace_id)
    show "p @ name \<noteq> []" using n by simp
    show "\<not> isSpace (hd (p @ name))" using that identifier_part_other [OF e(1)] isSpace_at by (cases p) simp_all
    show "\<not> isSpace (last (p @ name))" using n identifier_part_other [OF e(2)] by (simp only: last_append) simp
  qed
  have low: "ToLower (p @ name) = ToLower p @ name" for p using assms(2) by (simp add: ToLower_def)
  have trim: "TrimPrefix (p @ name) p = name" for p by (simp add: TrimPrefix_def HasPrefix_def)
  have keep: "TrimPrefix name ''@@'' = name" "TrimPrefix name ''session.'' = name" "TrimPrefix name ''global.'' = name"
    using at dot by (simp_all add: TrimPrefix_def HasPrefix_def)
  from assms(3) show ?thesis
    unfolding variablePrefixes_def normalizeSystemVariableName_def
    using t [of "[]"] t [of "''@@''"] t [of "''@@session.''"] t [of "''@@SESSION.''"] t [of "''@@global.''"]
      t [of "''@@GLOBAL.''"] at dot
    by (auto simp: TrimPrefix_def HasPrefix_def ToLower_Cons assms(2))
qed

lemma plainWord_text: "plainWord w \<Longrightarrow> plainText w \<and> CHR ''='' \<notin> set w"
  using plainWord_set identifier_part_other unfolding plainText_def by fastforce

lemma plainText_append: "plainText (a @ b) \<longleftrightarrow> plainText a \<and> plainText b"
  by (auto simp: plainText_def)

lemma prefix_text: "pre \<in> set variablePrefixes \<Longrightarrow> plainText pre \<and> CHR ''='' \<notin> set pre \<and> (pre = [] \<or> hd pre = CHR ''@'')"
  by (auto simp: variablePrefixes_def plainText_def)

lemma TrimSpace_word:
  "plainWord w \<Longrightarrow> p = [] \<or> hd p = CHR ''@'' \<Longrightarrow> TrimSpace (p @ w) = p @ w"
proof (rule TrimSpace_id)
  assume w: "plainWord w" and p: "p = [] \<or> hd p = CHR ''@''"
  have n: "w \<noteq> []" using w by (simp add: plainWord_def)
  have e: "isSQLIdentifierPart (hd w)" "isSQLIdentifierPart (last w)" using plainWord_ends [OF w] by simp_all
  show "p @ w \<noteq> []" using n by simp
  show "\<not> isSpace (hd (p @ w))" using p identifier_part_other [OF e(1)] isSpace_at by (cases p) simp_all
  show "\<not> isSpace (last (p @ w))" using n identifier_part_other [OF e(2)] by (simp only: last_append) simp
qed

lemma TrimSuffix_word: "plainWord w \<Longrightarrow> TrimSuffix (p @ w) '';'' = p @ w"
proof (rule TrimSuffix_other)
  assume w: "plainWord w"
  then have n: "w \<noteq> []" by (simp add: plainWord_def)
  then show "p @ w \<noteq> []" by simp
  show "last (p @ w) \<noteq> CHR '';''"
    using n identifier_part_other [of "last w"] plainWord_ends [OF w] by (simp only: last_append) auto
qed

lemma parse_assignment:
  assumes "plainWord name" "plainWord v" "pre \<in> set variablePrefixes"
  shows "parseSetVariableAssignment (pre @ name @ '' = '' @ v) = Some (pre @ name, v)"
proof -
  let ?a = "pre @ name @ '' = '' @ v" and ?k = "length (pre @ name) + 1"
  note p = prefix_text [OF assms(3)]
  have ne: "name \<noteq> []" "v \<noteq> []" using assms by (simp_all add: plainWord_def)
  have trim: "TrimSpace ?a = ?a"
  proof (rule TrimSpace_id)
    have "isSQLIdentifierPart (hd name)" "isSQLIdentifierPart (last v)"
      using plainWord_ends [OF assms(1)] plainWord_ends [OF assms(2)] by simp_all
    then show "\<not> isSpace (hd ?a)" "\<not> isSpace (last ?a)" "?a \<noteq> []"
      using ne p isSpace_at identifier_part_other [of "hd name"] identifier_part_other [of "last v"]
      by (cases pre; simp)+
  qed
  have plain: "plainText ?a"
    using p plainWord_text [OF assms(1)] plainWord_text [OF assms(2)] by (simp add: plainText_append) (simp add: plainText_def)
  have k: "?a ! ?k = CHR ''=''" "?k < length ?a"
    by (simp_all add: nth_append)
  have before: "\<forall>j < ?k. ?a ! j \<noteq> CHR ''=''"
  proof (intro allI impI)
    fix j assume j: "j < ?k"
    have "?a ! j = (pre @ name @ '' '') ! j" using j by (simp add: nth_append)
    moreover have "(pre @ name @ '' '') ! j \<in> set (pre @ name @ '' '')" using j by (intro nth_mem) simp
    ultimately show "?a ! j \<noteq> CHR ''=''" using p plainWord_text [OF assms(1)] by auto
  qed
  have eq: "topLevelEqualIndex ?a = Some ?k"
    unfolding topLevelEqualIndex_def by (rule top_eq_loop_plain [OF plain _ k(2,1) before]) simp
  have parts: "take ?k ?a = (pre @ name) @ '' ''" "drop (?k + 1) ?a = '' '' @ v" by simp_all
  have left: "TrimSpace (take ?k ?a) = pre @ name"
    unfolding parts TrimSpace_blank_end using p by (intro TrimSpace_word assms) auto
  have right: "TrimSpace (TrimSuffix (drop (?k + 1) ?a) '';'') = v"
    unfolding parts TrimSuffix_word [OF assms(2)] using TrimSpace_word [OF assms(2), of "[]"] by (simp add: TrimSpace_blank)
  show ?thesis
    unfolding parseSetVariableAssignment_def trim Let_def eq option.case left right using ne by simp
qed

lemma setVariables_plain:
  assumes "plainWord name" "ToLower name = name" "plainWord v" "pre \<in> set variablePrefixes"
  shows "sessionVariables (fst (setVariables vars (''SET '' @ pre @ name @ '' = '' @ v) s)) =
     (sessionVariables s)(name \<mapsto> normalizeSystemVariableValue vars name v) \<and>
    (\<exists>m. fst (setVariables vars (''SET '' @ pre @ name @ '' = '' @ v) s) = s\<lparr> sessionVariables := m \<rparr>)"
proof -
  let ?a = "pre @ name @ '' = '' @ v"
  note p = prefix_text [OF assms(4)]
  have ne: "name \<noteq> []" "v \<noteq> []" using assms by (simp_all add: plainWord_def)
  have e: "\<not> isSpace (hd ?a)" "\<not> isSpace (last ?a)"
    using ne p isSpace_at identifier_part_other [of "hd name"] identifier_part_other [of "last v"]
      plainWord_ends [OF assms(1)] plainWord_ends [OF assms(3)] by (cases pre; simp)+
  then have trim: "TrimSpace (drop 3 (''SET '' @ ?a)) = ?a"
    using TrimSpace_id [of ?a] ne by (simp add: TrimSpace_blank)
  have plain: "plainText ?a"
    using p plainWord_text [OF assms(1)] plainWord_text [OF assms(3)] by (simp add: plainText_append) (simp add: plainText_def)
  have split: "splitSQLTopLevelList ?a = [?a]"
    unfolding splitSQLTopLevelList_def split_loop_plain [OF plain] gslice_all by (rule refl)
  have "setVariables vars (''SET '' @ ?a) s = setVariable vars ?a (s, [])"
    unfolding setVariables_def trim split by simp
  then show ?thesis
    unfolding setVariable_def prod.case parse_assignment [OF assms(1,3,4)] option.case Let_def
      normalize_prefixed [OF assms(1,2,4)]
    using ne by auto
qed



subsection \<open>What MySQL accepts and the session does not\<close>

text \<open>
  C38: four gaps of the session. With any variables and in any state: \<open>SET NAMES\<close> followed by an assignment, as
  ActiveRecord sends it, records the character set with the comma behind it; the keyword form \<open>SET SESSION
  foreign_key_checks = 0\<close> neither changes the variable nor turns the checks off; \<open>SET AUTOCOMMIT = FALSE\<close> turns
  autocommit on; and \<open>select @@autocommit\<close> in lower case is looked up under a name that includes the keyword.
\<close>

theorem session_dialect_gaps:
  "characterSetClient (setNames vars ''SET NAMES utf8mb4, @@SESSION.wait_timeout = 123'' s) = ''utf8mb4,'' \<and>
   snd (setVariables vars ''SET SESSION foreign_key_checks = 0'' s) = [] \<and>
   compatVariable vars (fst (setVariables vars ''SET SESSION foreign_key_checks = 0'' s)) ''foreign_key_checks''
     = compatVariable vars s ''foreign_key_checks'' \<and>
   hasFlag serverStatusAutocommit (setAutocommit ''SET AUTOCOMMIT = FALSE'' s) \<and>
   selectVariable vars s ''SELECT @@autocommit'' \<noteq> None \<and>
   selectVariable vars s ''select @@autocommit'' =
     map_option (\<lambda>v. oneRow ''select @@autocommit'' (GoString (ascii v)))
       (case sessionVariables s ''select @@autocommit'' of Some v \<Rightarrow> Some v | None \<Rightarrow> vars ''select @@autocommit'')"
proof (intro conjI)
  have "Fields ''SET NAMES utf8mb4, @@SESSION.wait_timeout = 123'' = [''SET'', ''NAMES'', ''utf8mb4,'', ''@@SESSION.wait_timeout'', ''='', ''123'']"
    by code_simp
  moreover have "unquoteSQLWord ''utf8mb4,'' = ''utf8mb4,''" "\<not> EqualFold ''utf8mb4,'' ''DEFAULT''" by code_simp+
  ultimately show "characterSetClient (setNames vars ''SET NAMES utf8mb4, @@SESSION.wait_timeout = 123'' s) = ''utf8mb4,''"
    by (simp add: setNames_def Let_def split: option.splits)
  have a: "splitSQLTopLevelList (TrimSpace (drop 3 ''SET SESSION foreign_key_checks = 0'')) = [''SESSION foreign_key_checks = 0'']"
    by code_simp
  have b: "parseSetVariableAssignment ''SESSION foreign_key_checks = 0'' = Some (''SESSION foreign_key_checks'', ''0'')"
    "normalizeSystemVariableName ''SESSION foreign_key_checks'' = ''session foreign_key_checks''"
    "\<not> EqualFold ''session foreign_key_checks'' ''foreign_key_checks''"
    by code_simp+
  show "snd (setVariables vars ''SET SESSION foreign_key_checks = 0'' s) = []"
    "compatVariable vars (fst (setVariables vars ''SET SESSION foreign_key_checks = 0'' s)) ''foreign_key_checks''
       = compatVariable vars s ''foreign_key_checks''"
    unfolding setVariables_def a by (simp_all add: setVariable_def b Let_def compatVariable_def)
  have "\<not> (Contains ''SET AUTOCOMMIT = FALSE'' ''= 0'' \<or> HasSuffix ''SET AUTOCOMMIT = FALSE'' ''=0'' \<or> HasSuffix ''SET AUTOCOMMIT = FALSE'' '' OFF'')"
    by code_simp
  then show "hasFlag serverStatusAutocommit (setAutocommit ''SET AUTOCOMMIT = FALSE'' s)"
    by (simp add: setAutocommit_def)
  have up: "TrimSuffix (TrimSpace (TrimPrefix (TrimSpace ''SELECT @@autocommit'') ''SELECT'')) '';'' = ''@@autocommit''"
    "TrimPrefix (TrimPrefix (ToLower (TrimPrefix (TrimSpace ''@@autocommit'') ''@@'')) ''session.'') ''global.'' = ''autocommit''"
    by code_simp+
  show "selectVariable vars s ''SELECT @@autocommit'' \<noteq> None"
    unfolding selectVariable_def up Let_def by (simp add: compatVariable_def)
  have low: "TrimSuffix (TrimSpace (TrimPrefix (TrimSpace ''select @@autocommit'') ''SELECT'')) '';'' = ''select @@autocommit''"
    "TrimPrefix (TrimPrefix (ToLower (TrimPrefix (TrimSpace ''select @@autocommit'') ''@@'')) ''session.'') ''global.'' = ''select @@autocommit''"
    by code_simp+
  show "selectVariable vars s ''select @@autocommit'' =
     map_option (\<lambda>v. oneRow ''select @@autocommit'' (GoString (ascii v)))
       (case sessionVariables s ''select @@autocommit'' of Some v \<Rightarrow> Some v | None \<Rightarrow> vars ''select @@autocommit'')"
    unfolding selectVariable_def low Let_def by (simp add: compatVariable_def)
qed

end
