(* ===== verification/Handshake.thy ===== *)
theory Handshake
  imports Session
begin

text \<open>
  The opening of a connection (\<open>writeHandshake\<close> and \<open>readHandshakeResponse\<close> in \<open>pkg/mysqlmock/protocol.go\<close>): the greeting
  the server sends and what it takes from the client's answer.
\<close>

unbundle bit_operations_syntax

definition clientLongPassword :: "32 word" where "clientLongPassword = 0x1"
definition clientLongFlag :: "32 word" where "clientLongFlag = 0x4"
definition clientConnectWithDB :: "32 word" where "clientConnectWithDB = 0x8"
definition clientProtocol41 :: "32 word" where "clientProtocol41 = 0x200"
definition clientTransactions :: "32 word" where "clientTransactions = 0x2000"
definition clientSecureConnection :: "32 word" where "clientSecureConnection = 0x8000"
definition clientPluginAuth :: "32 word" where "clientPluginAuth = 0x80000"

definition serverCapabilityFlags :: "32 word" where
  "serverCapabilityFlags =
     clientLongPassword OR clientLongFlag OR clientConnectWithDB OR clientProtocol41 OR clientTransactions OR
     clientSecureConnection OR clientPluginAuth OR clientDeprecateEOF"

definition authData :: bytes where "authData = ascii ''12345678abcdefghijkl''"

definition handshakePayload :: "string \<Rightarrow> session \<Rightarrow> bytes" where
  "handshakePayload version s =
     [0x0a] @ ascii version @ [0] @ appendUint32 [] (connectionID s) @ take 8 authData @ [0] @
     appendUint16 [] (ucast serverCapabilityFlags) @ [45] @ appendUint16 [] (statusFlags s) @
     appendUint16 [] (ucast (drop_bit 16 serverCapabilityFlags)) @ [of_nat (length authData) + 1] @ replicate 10 0 @
     drop 8 authData @ [0] @ ascii ''mysql_native_password'' @ [0]"

definition writeHandshake :: "bytes \<Rightarrow> string \<Rightarrow> session \<Rightarrow> codec_error + (bytes \<times> bytes)" where
  "writeHandshake packetBuf version s = writePacket packetBuf 0 (handshakePayload version s)"

datatype handshake_error = MalformedHandshake | Protocol41Required | MalformedProtocol41

definition textOf :: "bytes \<Rightarrow> string" where
  "textOf b = map (\<lambda>x. char_of (unat x)) b"

text \<open>\<open>bytes.IndexByte(payload[pos:], 0)\<close>\<close>

fun indexZero :: "bytes \<Rightarrow> nat option" where
  "indexZero [] = None"
| "indexZero (b # r) = (if b = 0 then Some 0 else map_option Suc (indexZero r))"

text \<open>Where the authentication data ends; \<open>None\<close>: the answer stops before that, and is accepted as it is.\<close>

definition authEnd :: "32 word \<Rightarrow> bytes \<Rightarrow> nat \<Rightarrow> nat option" where
  "authEnd caps payload pos =
     (if caps AND clientSecureConnection \<noteq> 0 then
        (if pos \<ge> length payload then None
         else let authLen = unat (payload ! pos) in
           if pos + 1 + authLen > length payload then None else Some (pos + 1 + authLen))
      else map_option (\<lambda>e. pos + e + 1) (indexZero (drop pos payload)))"

definition readHandshakeResponse :: "bytes \<Rightarrow> session \<Rightarrow> session \<times> handshake_error option" where
  "readHandshakeResponse payload s =
     (if length payload < 4 then (s, Some MalformedHandshake)
      else let caps = leUint32 (take 4 payload); s1 = s\<lparr> clientCaps := caps \<rparr> in
        if caps AND clientProtocol41 = 0 then (s1, Some Protocol41Required)
        else if length payload < 32 then (s1, Some MalformedProtocol41)
        else if 32 \<ge> length payload then (s1, None)
        else (case indexZero (drop 32 payload) of
            None \<Rightarrow> (s1, None)
          | Some userEnd \<Rightarrow>
              let s2 = s1\<lparr> user := textOf (gslice payload 32 (32 + userEnd)) \<rparr> in
              (case authEnd caps payload (32 + userEnd + 1) of
                 None \<Rightarrow> (s2, None)
               | Some pos \<Rightarrow>
                   if caps AND clientConnectWithDB \<noteq> 0 \<and> pos < length payload then
                     (case indexZero (drop pos payload) of
                        None \<Rightarrow> (s2, None)
                      | Some dbEnd \<Rightarrow> (s2\<lparr> currentDB := textOf (gslice payload pos (pos + dbEnd)) \<rparr>, None))
                   else (s2, None))))"

subsection \<open>What a client sends is understood\<close>

definition asciiText :: "string \<Rightarrow> bool" where
  "asciiText t = (CHR 0x00 \<notin> set t)"

lemma unat_of_char: "unat (of_char c :: byte) = of_char c"
proof -
  have "(of_char c :: byte) = of_nat (of_char c)" by (simp add: of_nat_of_char)
  then show ?thesis by (simp add: unat_of_nat)
qed

lemma textOf_ascii [simp]: "textOf (ascii t) = t"
  by (induction t) (simp_all add: textOf_def ascii_def unat_of_char)

lemma indexZero_append: "0 \<notin> set b \<Longrightarrow> indexZero (b @ 0 # r) = Some (length b)"
  by (induction b) auto

lemma ascii_no_zero: "asciiText t \<Longrightarrow> 0 \<notin> set (ascii t)"
proof
  assume t: "asciiText t" and "0 \<in> set (ascii t)"
  then obtain c where "c \<in> set t" "(of_char c :: byte) = 0" by (auto simp: ascii_def)
  then have "(of_char c :: nat) = 0" using unat_of_char [of c] by simp
  then have "c = char_of (0 :: nat)" by (metis char_of_char)
  moreover have "char_of (0 :: nat) = CHR 0x00" by code_simp
  ultimately have "c = CHR 0x00" by simp
  with t \<open>c \<in> set t\<close> show False by (simp add: asciiText_def)
qed

text \<open>The answer of a 4.1 client: capabilities, packet size, character set, filler, user, password, database.\<close>

definition clientAnswer :: "32 word \<Rightarrow> bytes \<Rightarrow> string \<Rightarrow> bytes \<Rightarrow> string \<Rightarrow> bytes \<Rightarrow> bytes" where
  "clientAnswer caps middle u auth db rest =
     appendUint32 [] caps @ middle @ ascii u @ [0] @
     (if caps AND clientSecureConnection \<noteq> 0 then of_nat (length auth) # auth else auth @ [0]) @
     (if caps AND clientConnectWithDB \<noteq> 0 then ascii db @ [0] else []) @ rest"

lemma readHandshakeResponse_steps:
  assumes "32 < length p" "leUint32 (take 4 p) = caps" "caps AND clientProtocol41 \<noteq> 0"
    and "indexZero (drop 32 p) = Some n" "authEnd caps p (32 + n + 1) = Some pos"
    and "caps AND clientConnectWithDB \<noteq> 0 \<Longrightarrow> pos < length p \<and> indexZero (drop pos p) = Some m"
  shows "readHandshakeResponse p s =
    (s\<lparr> clientCaps := caps, user := textOf (gslice p 32 (32 + n)),
        currentDB := (if caps AND clientConnectWithDB \<noteq> 0 then textOf (gslice p pos (pos + m)) else currentDB s) \<rparr>, None)"
  using assms by (cases "caps AND clientConnectWithDB = 0") (simp_all add: readHandshakeResponse_def Let_def)

lemma authEnd_counted:
  assumes "caps AND clientSecureConnection \<noteq> 0" "drop q p = of_nat (length auth) # auth @ t" "length auth < 256"
  shows "authEnd caps p q = Some (q + 1 + length auth)"
proof -
  have q: "q < length p" using assms(2) by (metis drop_all linorder_not_le list.simps(3))
  have "length (drop q p) = 1 + length auth + length t" by (simp add: assms(2))
  then have "length p = q + 1 + length auth + length t" using q by simp
  moreover have "p ! q = of_nat (length auth)" by (rule nth_via_drop [OF assms(2)])
  moreover have "unat (of_nat (length auth) :: byte) = length auth" using assms(3) by (simp add: unat_of_nat)
  ultimately show ?thesis using assms(1) by (simp add: authEnd_def)
qed

lemma authEnd_terminated:
  assumes "caps AND clientSecureConnection = 0" "drop q p = auth @ 0 # t" "0 \<notin> set auth"
  shows "authEnd caps p q = Some (q + 1 + length auth)"
  using assms indexZero_append [of auth t] by (simp add: authEnd_def)

lemma drop_piece: "drop k p = a @ r \<Longrightarrow> k + length a = m \<Longrightarrow> drop m p = r"
  by (metis append_eq_conv_conj drop_drop add.commute)

lemma gslice_piece: "drop k p = a @ r \<Longrightarrow> gslice p k (k + length a) = a"
  by (simp add: gslice_def)

text \<open>
  C36: the server understands every answer a 4.1 client can form: the capabilities, the user and the database it names are
  recorded, with a password of up to 255 bytes in the counted form or one without a zero byte in the other, whatever
  follows. Without a database the current one stays.
\<close>

theorem handshake_understood:
  assumes "caps AND clientProtocol41 \<noteq> 0" "length middle = 28" "asciiText u" "asciiText db"
    and "length auth < 256" "caps AND clientSecureConnection = 0 \<Longrightarrow> 0 \<notin> set auth"
  shows "readHandshakeResponse (clientAnswer caps middle u auth db rest) s =
    (s\<lparr> clientCaps := caps, user := u,
        currentDB := (if caps AND clientConnectWithDB \<noteq> 0 then db else currentDB s) \<rparr>, None)"
proof -
  define a where "a = (if caps AND clientSecureConnection \<noteq> 0 then of_nat (length auth) # auth else auth @ [0])"
  define d where "d = (if caps AND clientConnectWithDB \<noteq> 0 then ascii db @ [0] else [])"
  define p where "p = clientAnswer caps middle u auth db rest"
  define q where "q = 32 + length u + 1"
  have len: "length (appendUint32 [] caps) = 4" "length (ascii u) = length u" "length (ascii db) = length db"
    by (simp_all add: appendUint32_def ascii_def)
  have p: "p = appendUint32 [] caps @ middle @ ascii u @ 0 # a @ d @ rest" by (simp add: p_def clientAnswer_def a_def d_def)
  have caps: "leUint32 (take 4 p) = caps" using leUint32_append [of caps "[]"] len by (simp add: p)
  have d32: "drop 32 p = ascii u @ 0 # a @ d @ rest" using len assms(2) by (simp add: p)
  have big: "32 < length p" using len assms(2) by (simp add: p)
  have user: "indexZero (drop 32 p) = Some (length u)" "gslice p 32 (32 + length u) = ascii u"
    using indexZero_append [OF ascii_no_zero [OF assms(3)]] gslice_piece [OF d32] len by (simp_all add: d32)
  have dq: "drop q p = a @ d @ rest"
    by (rule drop_piece [of 32 p "ascii u @ [0]"]) (simp_all add: d32 q_def len)
  have auth: "authEnd caps p q = Some (q + length a)"
  proof (cases "caps AND clientSecureConnection = 0")
    case True
    then show ?thesis using authEnd_terminated [OF True, of q p auth "d @ rest"] assms(6) dq by (simp add: a_def)
  next
    case False
    then show ?thesis using authEnd_counted [OF False, of q p auth "d @ rest"] assms(5) dq by (simp add: a_def)
  qed
  have dr: "drop (q + length a) p = d @ rest" by (rule drop_piece [OF dq refl])
  have db: "indexZero (drop (q + length a) p) = Some (length db)"
      "gslice p (q + length a) (q + length a + length db) = ascii db" "q + length a < length p"
    if c: "caps AND clientConnectWithDB \<noteq> 0"
  proof -
    have e: "drop (q + length a) p = ascii db @ 0 # rest" using dr c by (simp add: d_def)
    show "indexZero (drop (q + length a) p) = Some (length db)"
      using indexZero_append [OF ascii_no_zero [OF assms(4)]] len by (simp add: e)
    show "gslice p (q + length a) (q + length a + length db) = ascii db" using gslice_piece [OF e] len by simp
    show "q + length a < length p" using e by (metis drop_all linorder_not_le append_is_Nil_conv list.simps(3))
  qed
  have "readHandshakeResponse p s =
    (s\<lparr> clientCaps := caps, user := textOf (gslice p 32 (32 + length u)),
        currentDB := (if caps AND clientConnectWithDB \<noteq> 0
          then textOf (gslice p (q + length a) (q + length a + length db)) else currentDB s) \<rparr>, None)"
    by (rule readHandshakeResponse_steps [OF big caps assms(1) user(1) auth [unfolded q_def], folded q_def])
      (simp add: db)
  moreover have "caps AND clientConnectWithDB \<noteq> 0 \<Longrightarrow>
      textOf (gslice p (q + length a) (q + length a + length db)) = db" using db(2) by simp
  ultimately show ?thesis unfolding p_def [symmetric] by (simp add: user(2))
qed

theorem handshake_understood_witness:
  "readHandshakeResponse (clientAnswer 0x8208 (replicate 28 0) ''root'' [1, 2] ''shop'' []) (newSession Map.empty 1) =
    ((newSession Map.empty 1)\<lparr> clientCaps := 0x8208, user := ''root'', currentDB := ''shop'' \<rparr>, None)"
  using handshake_understood [of "0x8208" "replicate 28 0" "''root''" "''shop''" "[1, 2]" "[]" "newSession Map.empty 1"]
  by (simp add: clientProtocol41_def clientConnectWithDB_def clientSecureConnection_def asciiText_def)

end
