(* ===== verification/Engine.thy ===== *)
theory Engine
  imports Sqlite_Results Handshake Configuration Stats Snapshot_Json
begin

text \<open>
  The connection with SQLite behind it. SQLite and its driver are an argument, \<open>env\<close>: how a statement is executed and how
  a query is answered on a database state \<open>'d\<close> of any type. Everything the server adds to it is here and in the theories that
  follow: result columns, cached table metadata (\<open>pkg/mysqlmock/upsert.go\<close>), and later inserts, transactions and schema tables.

  A computation takes the state and gives an error or a value, and the state after it. A step of one connection is a
  function of that connection and the server state it shares; phase timings are not modelled.
\<close>

subsection \<open>Errors and computations\<close>

text \<open>\<open>Panicked\<close> ends the process; nothing in the code recovers from it.\<close>

datatype connError = Panicked | Driver string | Mysql mysqlError

fun errorText :: "connError \<Rightarrow> string" where
  "errorText Panicked = []"
| "errorText (Driver msg) = msg"
| "errorText (Mysql e) = Message e"

text \<open>\<open>fmt.Errorf("...: %w", err)\<close>: an inner \<open>mysqlError\<close> is still found by \<open>errors.As\<close>.\<close>

fun wrap :: "string \<Rightarrow> connError \<Rightarrow> connError" where
  "wrap context (Driver msg) = Driver (context @ '': '' @ msg)"
| "wrap context e = e"

definition isSQLiteUniqueConstraint :: "connError \<Rightarrow> bool" where
  "isSQLiteUniqueConstraint e = Contains (ToLower (errorText e)) ''unique constraint''"

type_synonym ('w, 'a) io = "'w \<Rightarrow> (connError + 'a) \<times> 'w"

definition ret :: "'a \<Rightarrow> ('w, 'a) io" where "ret x w = (Inr x, w)"
definition fail :: "connError \<Rightarrow> ('w, 'a) io" where "fail e w = (Inl e, w)"

definition andThen :: "('w, 'a) io \<Rightarrow> ('a \<Rightarrow> ('w, 'b) io) \<Rightarrow> ('w, 'b) io" where
  "andThen m f w = (case m w of (Inl e, w') \<Rightarrow> (Inl e, w') | (Inr x, w') \<Rightarrow> f x w')"

text \<open>The error as a value: \<open>x, err := ...\<close>. A panic is not an error.\<close>

definition attempt :: "('w, 'a) io \<Rightarrow> ('w, connError + 'a) io" where
  "attempt m w = (case m w of (Inl Panicked, w') \<Rightarrow> (Inl Panicked, w') | (r, w') \<Rightarrow> (Inr r, w'))"

text \<open>Deferred work for the case that \<open>m\<close> fails or panics.\<close>

definition onError :: "('w, 'a) io \<Rightarrow> ('w \<Rightarrow> 'w) \<Rightarrow> ('w, 'a) io" where
  "onError m cleanup w = (case m w of (Inl e, w') \<Rightarrow> (Inl e, cleanup w') | (Inr x, w') \<Rightarrow> (Inr x, w'))"

definition fromGo :: "'a go \<Rightarrow> ('w, 'a) io" where
  "fromGo r = (case r of None \<Rightarrow> fail Panicked | Some x \<Rightarrow> ret x)"

definition getState :: "('w \<Rightarrow> 'a) \<Rightarrow> ('w, 'a) io" where "getState f w = (Inr (f w), w)"
definition putState :: "('w \<Rightarrow> 'w) \<Rightarrow> ('w, unit) io" where "putState f w = (Inr (), f w)"

text \<open>A loop over a list with an accumulator; the first error ends it.\<close>

fun forEach :: "('a \<Rightarrow> 'x \<Rightarrow> ('w, 'a) io) \<Rightarrow> 'a \<Rightarrow> 'x list \<Rightarrow> ('w, 'a) io" where
  "forEach f acc [] = ret acc"
| "forEach f acc (x # xs) = andThen (f acc x) (\<lambda>acc'. forEach f acc' xs)"

subsection \<open>State and environment\<close>

record mysqlUniqueKey =
  ukName :: string
  ukColumns :: "string list"

record 'd world =
  db :: 'd
  sess :: session
  restoreTables :: "string \<rightharpoonup> string"
  mdata :: metadata
  autoInc :: "string \<rightharpoonup> 64 word"
  schemaVersion :: "64 word"
  columnCache :: "string \<rightharpoonup> 64 word \<times> sqliteTableColumn list"
  uniqueCache :: "string \<rightharpoonup> 64 word \<times> mysqlUniqueKey list"
  autoTables :: "string \<rightharpoonup> 64 word \<times> bool"
  insertCache :: "mysqlInsertStatementTemplate option cache"
  upsertCache :: "mysqlUpsertStatementTemplate option cache"
  infoSchema :: informationSchemaCache
  locks :: advisoryLockStore
  sqlCache :: "string cache"
  stmtsCache :: "string list cache"
  stats :: statsStore
  diagnostics :: "(UnsupportedQuery, QueryEvent) diagnosticsStore"
  ruleUsed :: "nat set"

record sqliteRows =
  rowNames :: "string list"
  rowTypes :: "string list option"
  rowValues :: "goValue list list"
  rowError :: "string option"

text \<open>
  \<open>Exec\<close> gives the rows affected and the last insert id, or the driver's error message. \<open>sscan\<close> is \<open>fmt.Sscan\<close> into an \<open>int64\<close>.
  \<open>infoDSN\<close> is the data source name of the schema tables, which holds the server's
  address; \<open>fmtArg\<close> prints an argument with its type.
\<close>

record 'd env =
  Exec :: "string \<Rightarrow> goValue list \<Rightarrow> 'd \<Rightarrow> (string + 64 word \<times> 64 word) \<times> 'd"
  Query :: "string \<Rightarrow> goValue list \<Rightarrow> 'd \<Rightarrow> (string + sqliteRows) \<times> 'd"
  std :: goStd
  sscan :: "string \<Rightarrow> int option"
  compat :: CompatConfig
  infoDSN :: string
  fmtArg :: "goValue \<Rightarrow> string"

definition execContext :: "'d env \<Rightarrow> string \<Rightarrow> goValue list \<Rightarrow> ('d world, 64 word \<times> 64 word) io" where
  "execContext env query args w =
     (case Exec env query args (db w) of (r, d) \<Rightarrow>
        ((case r of Inl msg \<Rightarrow> Inl (Driver msg) | Inr x \<Rightarrow> Inr x), w\<lparr> db := d \<rparr>))"

definition queryContext :: "'d env \<Rightarrow> string \<Rightarrow> goValue list \<Rightarrow> ('d world, sqliteRows) io" where
  "queryContext env query args w =
     (case Query env query args (db w) of (r, d) \<Rightarrow>
        ((case r of Inl msg \<Rightarrow> Inl (Driver msg) | Inr x \<Rightarrow> Inr x), w\<lparr> db := d \<rparr>))"

text \<open>\<open>rows.Err()\<close> after the last row.\<close>

definition rowsErr :: "sqliteRows \<Rightarrow> ('w, unit) io" where
  "rowsErr rows = (case rowError rows of None \<Rightarrow> ret () | Some msg \<Rightarrow> fail (Driver msg))"

subsection \<open>Query results\<close>

definition materializeRows :: "'d env \<Rightarrow> metadata \<Rightarrow> string \<Rightarrow> sqliteRows \<Rightarrow> resultSet" where
  "materializeRows env md query rows =
     materialize (std env) (fst (sqliteResultColumns (sscan env) md query (rowNames rows) (rowTypes rows))) (rowValues rows)"

definition querySQLite :: "'d env \<Rightarrow> string \<Rightarrow> goValue list \<Rightarrow> ('d world, resultSet) io" where
  "querySQLite env query args =
     andThen (queryContext env query args) (\<lambda>rows.
     andThen (rowsErr rows) (\<lambda>_. getState (\<lambda>w. materializeRows env (mdata w) query rows)))"

text \<open>
  A query result for the client: rows that can be streamed are read while they are sent, so an error behind them is left to
  the writer; the others are read at once.
\<close>

datatype queryReply = Materialized resultSet | Streamed resultSet "string option"

definition querySQLiteText :: "'d env \<Rightarrow> string \<Rightarrow> bool \<Rightarrow> goValue list \<Rightarrow> ('d world, queryReply) io" where
  "querySQLiteText env query stream args =
     andThen (queryContext env query args) (\<lambda>rows.
     andThen (getState (\<lambda>w. sqliteResultColumns (sscan env) (mdata w) query (rowNames rows) (rowTypes rows))) (\<lambda>(columns, streamable).
       if stream \<and> streamable then
         ret (Streamed \<lparr> Columns = columns, Rows = map (\<lambda>row. snd (nextRow (std env) False columns row)) (rowValues rows) \<rparr> (rowError rows))
       else andThen (rowsErr rows) (\<lambda>_. ret (Materialized (materialize (std env) columns (rowValues rows))))))"

subsection \<open>Scanning rows\<close>

text \<open>\<open>Scan\<close> of \<open>database/sql\<close>; the text of its errors is shortened.\<close>

definition scanError :: connError where "scanError = Driver ''sql: Scan error''"

definition scanString :: "goStd \<Rightarrow> goValue \<Rightarrow> string option" where
  "scanString s v = (if v = GoNil then None else Some (textOf (textValue s v)))"

definition scanInt :: "goStd \<Rightarrow> goValue \<Rightarrow> int option" where
  "scanInt s v =
     (case v of
        GoInt64 n \<Rightarrow> Some (sint n)
      | GoNil \<Rightarrow> None
      | _ \<Rightarrow> (case parseInt (textValue s v) of Inl _ \<Rightarrow> None | Inr n \<Rightarrow> Some (sint n)))"

text \<open>\<open>sql.NullString\<close>: \<open>None\<close> is NULL.\<close>

definition scanNullString :: "goStd \<Rightarrow> goValue \<Rightarrow> string option" where
  "scanNullString s v = (if v = GoNil then None else scanString s v)"

definition orScanError :: "'a option \<Rightarrow> ('w, 'a) io" where
  "orScanError r = (case r of None \<Rightarrow> fail scanError | Some x \<Rightarrow> ret x)"

fun mapOption :: "('x \<Rightarrow> 'a option) \<Rightarrow> 'x list \<Rightarrow> 'a list option" where
  "mapOption f [] = Some []"
| "mapOption f (x # xs) =
     (case f x of None \<Rightarrow> None | Some y \<Rightarrow> (case mapOption f xs of None \<Rightarrow> None | Some ys \<Rightarrow> Some (y # ys)))"

subsection \<open>Table metadata\<close>

definition normalizedTableCacheKey :: "string \<Rightarrow> string" where
  "normalizedTableCacheKey tableName = ToLower (unquoteSQLWord tableName)"

definition cachedAt :: "(string \<rightharpoonup> 64 word \<times> 'a) \<Rightarrow> string \<Rightarrow> 64 word \<Rightarrow> 'a option" where
  "cachedAt cache key version =
     (case cache key of None \<Rightarrow> None | Some (v, x) \<Rightarrow> if v = version then Some x else None)"

definition scanTableColumn :: "goStd \<Rightarrow> goValue list \<Rightarrow> sqliteTableColumn option" where
  "scanTableColumn s row =
     (case row of
        [cid, name, type, notNull, dflt, pk] \<Rightarrow> do {
          _ \<leftarrow> scanInt s cid;
          n \<leftarrow> scanString s name;
          t \<leftarrow> scanString s type;
          nn \<leftarrow> scanInt s notNull;
          p \<leftarrow> scanInt s pk;
          Some \<lparr> tcName = n, tcType = t, tcNotNull = (nn \<noteq> 0),
                 tcDefaultSQL = (case scanNullString s dflt of None \<Rightarrow> [] | Some d \<Rightarrow> d),
                 tcHasDefault = (scanNullString s dflt \<noteq> None), tcPK = p \<rparr> }
      | _ \<Rightarrow> None)"

definition tableColumns :: "'d env \<Rightarrow> string \<Rightarrow> ('d world, sqliteTableColumn list) io" where
  "tableColumns env tableName =
     andThen (getState (\<lambda>w. (schemaVersion w, cachedAt (columnCache w) (normalizedTableCacheKey tableName) (schemaVersion w))))
       (\<lambda>(version, cached). case cached of
          Some columns \<Rightarrow> ret columns
        | None \<Rightarrow>
            andThen (queryContext env (''PRAGMA main.table_info('' @ quoteIdent (unquoteSQLWord tableName) @ '')'') []) (\<lambda>rows.
            andThen (orScanError (mapOption (scanTableColumn (std env)) (rowValues rows))) (\<lambda>columns.
            andThen (rowsErr rows) (\<lambda>_.
            andThen (putState (\<lambda>w. w\<lparr> columnCache := (columnCache w)(normalizedTableCacheKey tableName \<mapsto> (version, columns)) \<rparr>))
              (\<lambda>_. ret columns)))))"

definition insertColumns :: "'d env \<Rightarrow> string \<Rightarrow> ('d world, string list) io" where
  "insertColumns env tableName = andThen (tableColumns env tableName) (\<lambda>columns. ret (map tcName columns))"

definition scanIndexColumn :: "goStd \<Rightarrow> goValue list \<Rightarrow> string option option" where
  "scanIndexColumn s row =
     (case row of
        [seqno, cid, name] \<Rightarrow> do { _ \<leftarrow> scanInt s seqno; _ \<leftarrow> scanInt s cid; Some (scanNullString s name) }
      | _ \<Rightarrow> None)"

definition indexColumns :: "'d env \<Rightarrow> string \<Rightarrow> ('d world, string list) io" where
  "indexColumns env indexName =
     andThen (queryContext env (''PRAGMA main.index_info('' @ quoteIdent indexName @ '')'') []) (\<lambda>rows.
     andThen (orScanError (mapOption (scanIndexColumn (std env)) (rowValues rows))) (\<lambda>names.
     andThen (rowsErr rows) (\<lambda>_. ret (List.map_filter id names))))"

text \<open>An entry of \<open>PRAGMA index_list\<close>: name, unique, origin.\<close>

definition scanIndexEntry :: "goStd \<Rightarrow> goValue list \<Rightarrow> (string \<times> int \<times> string) option" where
  "scanIndexEntry s row =
     (case row of
        [seq, name, uniq, origin, partial] \<Rightarrow> do {
          _ \<leftarrow> scanInt s seq; n \<leftarrow> scanString s name; u \<leftarrow> scanInt s uniq; o' \<leftarrow> scanString s origin; _ \<leftarrow> scanInt s partial;
          Some (n, u, o') }
      | _ \<Rightarrow> None)"

definition primaryKey :: "sqliteTableColumn list \<Rightarrow> mysqlUniqueKey list" where
  "primaryKey columns =
     (let pk = sort_key tcPK (filter (\<lambda>c. tcPK c > 0) columns) in
      if pk = [] then [] else [\<lparr> ukName = ''PRIMARY'', ukColumns = map tcName pk \<rparr>])"

definition uniqueKeys :: "'d env \<Rightarrow> string \<Rightarrow> ('d world, mysqlUniqueKey list) io" where
  "uniqueKeys env tableName =
     andThen (getState (\<lambda>w. (schemaVersion w, cachedAt (uniqueCache w) (normalizedTableCacheKey tableName) (schemaVersion w))))
       (\<lambda>(version, cached). case cached of
          Some keys \<Rightarrow> ret keys
        | None \<Rightarrow>
            andThen (tableColumns env tableName) (\<lambda>columns.
            andThen (queryContext env (''PRAGMA main.index_list('' @ quoteIdent (unquoteSQLWord tableName) @ '')'') []) (\<lambda>rows.
            andThen (forEach (\<lambda>keys row.
                andThen (orScanError (scanIndexEntry (std env) row)) (\<lambda>(name, uniq, _).
                  if uniq = 0 then ret keys
                  else andThen (indexColumns env name) (\<lambda>keyColumns.
                    ret (if keyColumns = [] then keys else keys @ [\<lparr> ukName = name, ukColumns = keyColumns \<rparr>]))))
                (primaryKey columns) (rowValues rows)) (\<lambda>keys.
            andThen (rowsErr rows) (\<lambda>_.
            andThen (putState (\<lambda>w. w\<lparr> uniqueCache := (uniqueCache w)(normalizedTableCacheKey tableName \<mapsto> (version, keys)) \<rparr>))
              (\<lambda>_. ret keys))))))"

definition bumpSchemaVersion :: "'d world \<Rightarrow> 'd world" where
  "bumpSchemaVersion w =
     w\<lparr> schemaVersion := schemaVersion w + 1, columnCache := Map.empty, uniqueCache := Map.empty, autoTables := Map.empty,
        infoSchema := newInformationSchemaCache, stats := recordSchemaChange (stats w) \<rparr>"

end
