(* ===== verification/Auto_Increment.thy ===== *)
theory Auto_Increment
  imports Engine
begin

text \<open>
  \<open>AUTO_INCREMENT\<close> (\<open>pkg/mysqlmock/auto_increment_compat.go\<close>): the largest value given out per table, kept by the server so
  that a rollback does not give it out again, the values generated for columns SQLite does not number itself, and the
  repair of SQLite's own counters after a rollback.
\<close>

subsection \<open>Allocations\<close>

definition allocated :: "(string \<rightharpoonup> 64 word) \<Rightarrow> string \<Rightarrow> 64 word" where
  "allocated m tableName = (case m (tableMetadataKey tableName) of None \<Rightarrow> 0 | Some v \<Rightarrow> v)"

definition mysqlAutoIncrementAllocation :: "string \<Rightarrow> ('d world, 64 word) io" where
  "mysqlAutoIncrementAllocation tableName = getState (\<lambda>w. allocated (autoInc w) tableName)"

text \<open>The server's method: whether the value is a new largest one.\<close>

definition recordAllocation :: "string \<Rightarrow> 64 word \<Rightarrow> 'd world \<Rightarrow> bool \<times> 'd world" where
  "recordAllocation tableName v w =
     (if tableName = [] \<or> v = 0 then (False, w)
      else if v \<le> allocated (autoInc w) tableName then (False, w)
      else (True, w\<lparr> autoInc := (autoInc w)(tableMetadataKey tableName \<mapsto> v) \<rparr>))"

function insertTargetModifiers :: "string \<Rightarrow> nat \<Rightarrow> nat" where
  "insertTargetModifiers sqlText pos =
     (case consumeKeyword sqlText pos ''LOW_PRIORITY'' of Some p \<Rightarrow> insertTargetModifiers sqlText p
      | None \<Rightarrow> (case consumeKeyword sqlText pos ''DELAYED'' of Some p \<Rightarrow> insertTargetModifiers sqlText p
      | None \<Rightarrow> (case consumeKeyword sqlText pos ''HIGH_PRIORITY'' of Some p \<Rightarrow> insertTargetModifiers sqlText p
      | None \<Rightarrow> (case consumeKeyword sqlText pos ''IGNORE'' of Some p \<Rightarrow> insertTargetModifiers sqlText p
      | None \<Rightarrow> (case consumeKeyword sqlText pos ''OR'' of
          None \<Rightarrow> pos
        | Some p \<Rightarrow> (case readSQLIdentifier sqlText p of
            Some (_, nxt) \<Rightarrow> insertTargetModifiers sqlText nxt
          | None \<Rightarrow> pos))))))"
  by pat_completeness auto
termination
  by (relation "measure (\<lambda>(s, i). length s - i)")
    (auto dest!: consumeKeyword_bounds readSQLIdentifier_bounds intro!: diff_less_mono2)

declare insertTargetModifiers.simps [simp del]

definition parseInsertTargetTable :: "string \<Rightarrow> string option" where
  "parseInsertTargetTable sqlText = do {
     let p0 = skipSQLSpaces sqlText 0;
     let isReplace = (consumeKeyword sqlText p0 ''REPLACE'' \<noteq> None);
     p1 \<leftarrow> consumeEither sqlText p0 ''REPLACE'' ''INSERT'';
     p2 \<leftarrow> (if isReplace then Some (consumeOptional sqlText p1 ''INTO'')
            else consumeKeyword sqlText (insertTargetModifiers sqlText p1) ''INTO'');
     (tableName, _) \<leftarrow> readSQLQualifiedName sqlText p2;
     (if EqualFold tableName ''sqlite_sequence'' then None else Some tableName) }"

subsection \<open>Tables SQLite numbers itself\<close>

definition cacheSQLiteTableAutoincrement :: "string \<Rightarrow> 64 word \<Rightarrow> bool \<Rightarrow> ('d world, unit) io" where
  "cacheSQLiteTableAutoincrement cacheKey version uses =
     putState (\<lambda>w. w\<lparr> autoTables := (autoTables w)(cacheKey \<mapsto> (version, uses)) \<rparr>)"

text \<open>\<open>QueryRow(...).Scan\<close> into a nullable text: the first row, if there is one.\<close>

definition queryNullString :: "'d env \<Rightarrow> string \<Rightarrow> goValue list \<Rightarrow> ('d world, string option option) io" where
  "queryNullString env query args =
     andThen (queryContext env query args) (\<lambda>rows.
       case rowValues rows of
         [] \<Rightarrow> andThen (rowsErr rows) (\<lambda>_. ret None)
       | [v] # _ \<Rightarrow> ret (Some (scanNullString (std env) v))
       | _ \<Rightarrow> fail scanError)"

definition sqliteTableUsesAutoincrement :: "'d env \<Rightarrow> string \<Rightarrow> ('d world, bool) io" where
  "sqliteTableUsesAutoincrement env tableName =
     andThen (getState (\<lambda>w. (schemaVersion w, cachedAt (autoTables w) (normalizedTableCacheKey tableName) (schemaVersion w))))
       (\<lambda>(version, cached). case cached of
          Some uses \<Rightarrow> ret uses
        | None \<Rightarrow>
            andThen (queryNullString env
                (nl # ''SELECT sql'' @ nl # ''FROM main.sqlite_master'' @ nl # ''WHERE type = '' @ sq # ''table'' @ sq # nl # ''  AND name = ?'')
                [GoString (ascii (unquoteSQLWord tableName))]) (\<lambda>found.
            let uses = (case found of Some (Some createSQL) \<Rightarrow> containsSQLIdentifier createSQL ''AUTOINCREMENT'' | _ \<Rightarrow> False) in
            andThen (cacheSQLiteTableAutoincrement (normalizedTableCacheKey tableName) version uses) (\<lambda>_. ret uses)))"

definition markMySQLAutoIncrementRestoreTable :: "string \<Rightarrow> 'd world \<Rightarrow> 'd world" where
  "markMySQLAutoIncrementRestoreTable tableName w =
     (if \<not> hasFlag serverStatusInTrans (sess w) then w
      else w\<lparr> restoreTables := (restoreTables w)(tableMetadataKey tableName \<mapsto> unquoteSQLWord tableName) \<rparr>)"

text \<open>The connection's method; errors of the lookup are dropped.\<close>

definition recordMySQLAutoIncrementAllocation :: "'d env \<Rightarrow> string \<Rightarrow> okResult \<Rightarrow> ('d world, unit) io" where
  "recordMySQLAutoIncrementAllocation env query result =
     (if LastInsertID result = 0 then ret ()
      else (case parseInsertTargetTable query of
          None \<Rightarrow> ret ()
        | Some tableName \<Rightarrow>
            andThen (attempt (sqliteTableUsesAutoincrement env tableName)) (\<lambda>r.
              case r of
                Inr True \<Rightarrow> putState (\<lambda>w. let (newLargest, w') = recordAllocation tableName (LastInsertID result) w in
                    if newLargest then markMySQLAutoIncrementRestoreTable tableName w' else w')
              | _ \<Rightarrow> ret ())))"

definition setSQLiteSequenceAtLeast :: "'d env \<Rightarrow> string \<Rightarrow> 64 word \<Rightarrow> ('d world, unit) io" where
  "setSQLiteSequenceAtLeast env tableName v =
     (let seq = GoInt64 (if unat v > 2 ^ 63 - 1 then 2 ^ 63 - 1 else v); name = GoString (ascii (unquoteSQLWord tableName)) in
      andThen (execContext env
          (nl # ''UPDATE sqlite_sequence'' @ nl # ''SET seq = CASE WHEN seq < ? THEN ? ELSE seq END'' @ nl # ''WHERE name = ?'')
          [seq, seq, name]) (\<lambda>(affected, _).
        if affected \<noteq> 0 then ret ()
        else andThen (execContext env
            (nl # ''INSERT OR IGNORE INTO sqlite_sequence (name, seq)'' @ nl # ''VALUES (?, ?)'') [name, seq]) (\<lambda>_. ret ())))"

definition restoreSequence :: "'d env \<Rightarrow> string \<Rightarrow> ('d world, unit) io" where
  "restoreSequence env tableName =
     andThen (mysqlAutoIncrementAllocation tableName) (\<lambda>v.
       if v = 0 then ret ()
       else andThen (sqliteTableUsesAutoincrement env tableName) (\<lambda>uses.
         if \<not> uses then ret () else setSQLiteSequenceAtLeast env tableName v))"

text \<open>\<open>sort.Strings\<close> of the names in the map; \<open>keys\<close> lists its keys.\<close>

definition mysqlAutoIncrementRestoreTableNames :: "string list \<Rightarrow> (string \<rightharpoonup> string) \<Rightarrow> string list" where
  "mysqlAutoIncrementRestoreTableNames keys m = foldr insertName (List.map_filter m keys) []"

definition restoreMySQLAutoIncrementSequences :: "'d env \<Rightarrow> string list \<Rightarrow> ('d world, unit) io" where
  "restoreMySQLAutoIncrementSequences env keys =
     andThen (getState (\<lambda>w. mysqlAutoIncrementRestoreTableNames keys (restoreTables w)))
       (forEach (\<lambda>_. restoreSequence env) ())"

definition clearMySQLAutoIncrementRestoreTables :: "'d world \<Rightarrow> 'd world" where
  "clearMySQLAutoIncrementRestoreTables w = w\<lparr> restoreTables := Map.empty \<rparr>"

subsection \<open>Values the server generates\<close>

record mysqlAutoIncrementInsertValue =
  aiValue :: "64 word"
  aiGenerated :: bool

definition noInsertValue :: mysqlAutoIncrementInsertValue where
  "noInsertValue = \<lparr> aiValue = 0, aiGenerated = False \<rparr>"

definition sqliteTableColumnsUseRowIDAutoIncrement :: "sqliteTableColumn list \<Rightarrow> string \<Rightarrow> bool" where
  "sqliteTableColumnsUseRowIDAutoIncrement columns columnName =
     (case findSQLiteTableColumn columns columnName of
        None \<Rightarrow> False
      | Some column \<Rightarrow>
          if tcPK column \<noteq> 1 \<or> \<not> EqualFold (TrimSpace (tcType column)) ''INTEGER'' then False
          else length (filter (\<lambda>c. tcPK c > 0) columns) = 1)"

definition needsMySQLAutoIncrementInsertCompatibility :: "metadata \<Rightarrow> sqliteTableColumn list \<Rightarrow> string \<Rightarrow> bool" where
  "needsMySQLAutoIncrementInsertCompatibility md columns tableName =
     (case lookupMySQLAutoIncrementColumn md tableName of
        None \<Rightarrow> False
      | Some m \<Rightarrow> \<not> sqliteTableColumnsUseRowIDAutoIncrement columns (cmColumnName m))"

fun insertColumnIndex :: "string list \<Rightarrow> string \<Rightarrow> nat option" where
  "insertColumnIndex [] columnName = None"
| "insertColumnIndex (c # cs) columnName =
     (if EqualFold (unquoteSQLWord c) columnName then Some 0 else map_option Suc (insertColumnIndex cs columnName))"

text \<open>\<open>int64Value\<close>; texts go through \<open>fmt.Sscan\<close>.\<close>

definition int64Value :: "(string \<Rightarrow> int option) \<Rightarrow> goValue \<Rightarrow> int option" where
  "int64Value scan v =
     (case v of
        GoInt64 n \<Rightarrow> Some (sint n)
      | GoInt n \<Rightarrow> Some (sint n)
      | GoInt32 n \<Rightarrow> Some (sint n)
      | GoUint64 n \<Rightarrow> if uint n \<le> 2 ^ 63 - 1 then Some (uint n) else None
      | GoBytes b \<Rightarrow> scan (textOf b)
      | GoString b \<Rightarrow> scan (textOf b)
      | _ \<Rightarrow> None)"

definition shouldGenerateAutoIncrementValue :: "(string \<Rightarrow> int option) \<Rightarrow> goValue \<Rightarrow> bool" where
  "shouldGenerateAutoIncrementValue scan v = (v = GoNil \<or> int64Value scan v = Some 0)"

definition positiveAutoIncrementValue :: "(string \<Rightarrow> int option) \<Rightarrow> goValue \<Rightarrow> (64 word) option" where
  "positiveAutoIncrementValue scan v =
     (case int64Value scan v of None \<Rightarrow> None | Some i \<Rightarrow> if i \<le> 0 then None else Some (word_of_int i))"

text \<open>\<open>sql.NullInt64\<close>: the aggregate always gives one row.\<close>

definition queryNullInt :: "'d env \<Rightarrow> string \<Rightarrow> ('d world, int option) io" where
  "queryNullInt env query =
     andThen (queryContext env query []) (\<lambda>rows.
       case rowValues rows of
         [v] # _ \<Rightarrow> if v = GoNil then ret None
                     else andThen (orScanError (scanInt (std env) v)) (\<lambda>n. ret (Some n))
       | [] \<Rightarrow> andThen (rowsErr rows) (\<lambda>_. fail (Driver ''sql: no rows in result set''))
       | _ \<Rightarrow> fail scanError)"

definition nextAfter :: "int option \<Rightarrow> 64 word \<Rightarrow> (64 word) option" where
  "nextAfter maxValue allocation =
     (let base0 = (case maxValue of Some n \<Rightarrow> if n > 0 then word_of_int n else 0 | None \<Rightarrow> 0);
          base = (if allocation > base0 then allocation else base0)
      in if base \<ge> 2 ^ 63 - 1 then None else Some (base + 1))"

definition nextMySQLAutoIncrementValue :: "'d env \<Rightarrow> string \<Rightarrow> string \<Rightarrow> ('d world, 64 word) io" where
  "nextMySQLAutoIncrementValue env tableName columnName =
     andThen (queryNullInt env
         (''SELECT MAX('' @ quoteIdent (unquoteSQLWord columnName) @ '') FROM '' @ quoteIdent (unquoteSQLWord tableName))) (\<lambda>maxValue.
     andThen (mysqlAutoIncrementAllocation tableName) (\<lambda>allocation.
       case nextAfter maxValue allocation of
         Some v \<Rightarrow> ret v
       | None \<Rightarrow> fail (Mysql (sqlCompatErrorf (''AUTO_INCREMENT value overflow for '' @ unquoteSQLWord tableName @ ''.'' @
                   unquoteSQLWord columnName)))))"

text \<open>The columns and values of the row, and the value the row gets.\<close>

definition applyMySQLAutoIncrementInsertValue ::
    "'d env \<Rightarrow> string \<Rightarrow> sqliteTableColumn list \<Rightarrow> string list \<Rightarrow> goValue list \<Rightarrow>
     ('d world, string list \<times> goValue list \<times> mysqlAutoIncrementInsertValue) io" where
  "applyMySQLAutoIncrementInsertValue env tableName tcs columns vs =
     andThen (getState (\<lambda>w. lookupMySQLAutoIncrementColumn (mdata w) tableName)) (\<lambda>found.
       case found of
         None \<Rightarrow> ret (columns, vs, noInsertValue)
       | Some m \<Rightarrow>
           if sqliteTableColumnsUseRowIDAutoIncrement tcs (cmColumnName m) then ret (columns, vs, noInsertValue)
           else (case insertColumnIndex columns (cmColumnName m) of
               Some i \<Rightarrow>
                 if i \<ge> length vs then ret (columns, vs, noInsertValue)
                 else if \<not> shouldGenerateAutoIncrementValue (sscan env) (vs ! i) then
                   ret (columns, vs, (case positiveAutoIncrementValue (sscan env) (vs ! i) of
                     Some n \<Rightarrow> \<lparr> aiValue = n, aiGenerated = False \<rparr> | None \<Rightarrow> noInsertValue))
                 else andThen (nextMySQLAutoIncrementValue env tableName (cmColumnName m)) (\<lambda>n.
                   ret (columns, vs[i := GoInt64 n], \<lparr> aiValue = n, aiGenerated = True \<rparr>))
             | None \<Rightarrow> andThen (nextMySQLAutoIncrementValue env tableName (cmColumnName m)) (\<lambda>n.
                 ret (columns @ [cmColumnName m], vs @ [GoInt64 n], \<lparr> aiValue = n, aiGenerated = True \<rparr>))))"

end
