(* ===== verification/Write_Validation.thy ===== *)
theory Write_Validation
  imports Auto_Increment Seed_Csv
begin

text \<open>
  Row evaluation (\<open>evaluateUpsertRow\<close>, \<open>defaultColumnValue\<close> of \<open>pkg/mysqlmock/upsert.go\<close>) and the strict checks of written
  values (\<open>pkg/mysqlmock/mysql_error_compat.go\<close>). Lengths are counted in runes; \<open>time.Parse\<close> is \<open>parseLayout\<close>.
\<close>

subsection \<open>Evaluating a row\<close>

definition compatError :: "string \<Rightarrow> ('w, 'a) io" where
  "compatError msg = fail (Mysql (sqlCompatErrorf msg))"

text \<open>The single value of a query, as the callers of \<open>querySQLite\<close> test for it.\<close>

definition singleValue :: "resultSet \<Rightarrow> goValue option" where
  "singleValue rs = (case Rows rs of [[v]] \<Rightarrow> Some v | _ \<Rightarrow> None)"

definition defaultColumnValue :: "'d env \<Rightarrow> string \<Rightarrow> string \<Rightarrow> sqliteTableColumn list \<Rightarrow> ('d world, goValue) io" where
  "defaultColumnValue env tableName columnName tcs =
     (case findSQLiteTableColumn tcs columnName of
        None \<Rightarrow> compatError (''ON DUPLICATE KEY UPDATE references unknown DEFAULT column: '' @ columnName)
      | Some column \<Rightarrow>
          andThen (getState (\<lambda>w. lookupMySQLAutoIncrementColumn (mdata w) tableName)) (\<lambda>auto'.
          if (case auto' of None \<Rightarrow> False | Some m \<Rightarrow> EqualFold (cmColumnName m) (unquoteSQLWord columnName)) then ret GoNil
          else if tcHasDefault column then
            andThen (fromGo (translateSQL (tcDefaultSQL column))) (\<lambda>dflt.
            andThen (querySQLite env (''SELECT '' @ dflt) []) (\<lambda>rs.
              case singleValue rs of
                Some v \<Rightarrow> ret v
              | None \<Rightarrow> compatError (''default value for '' @ tableName @ ''.'' @ columnName @ '' did not evaluate to one value'')))
          else if tcPK column = 1 \<and> Contains (ToUpper (tcType column)) ''INT'' then ret GoNil
          else if \<not> tcNotNull column then ret GoNil
          else if ImplicitDefaults (compat env) then ret (mysqlImplicitDefaultValue column)
          else fail (Mysql (errPacket 1105 ''HY000''
                  (''Field '' @ [sq] @ unquoteSQLWord columnName @ [sq] @ '' doesn'' @ [sq] @ ''t have a default value'')))))"

text \<open>The loop over the expressions: what to select, the arguments, and how many of the row's arguments are used.\<close>

fun rowExprs_loop ::
    "'d env \<Rightarrow> string \<Rightarrow> sqliteTableColumn list \<Rightarrow> goValue list \<Rightarrow> nat \<Rightarrow> (string \<times> string) list \<Rightarrow>
     ('d world, string list \<times> goValue list \<times> nat) io" where
  "rowExprs_loop env tableName tcs argsIn argPos [] = ret ([], [], argPos)"
| "rowExprs_loop env tableName tcs argsIn argPos ((expr, column) # rest) =
     (if isBareDefaultExpr expr then
        andThen (defaultColumnValue env tableName column tcs) (\<lambda>v.
        andThen (rowExprs_loop env tableName tcs argsIn argPos rest) (\<lambda>(es, as, k). ret (''?'' # es, v # as, k)))
      else let n = countPlaceholders expr in
        if argPos + n > length argsIn then compatError ''ON DUPLICATE KEY UPDATE values row has too few arguments''
        else andThen (rowExprs_loop env tableName tcs argsIn (argPos + n) rest) (\<lambda>(es, as, k).
               ret (expr # es, gslice argsIn argPos (argPos + n) @ as, k)))"

definition evaluateUpsertRow ::
    "'d env \<Rightarrow> string \<Rightarrow> string list \<Rightarrow> sqliteTableColumn list \<Rightarrow> mysqlUpsertRow \<Rightarrow> ('d world, goValue list) io" where
  "evaluateUpsertRow env tableName columns tcs row =
     (if length (rowExprs row) \<noteq> length columns then
        compatError (''ON DUPLICATE KEY UPDATE values row has '' @ itoa (length (rowExprs row)) @ '' values for '' @
          itoa (length columns) @ '' columns'')
      else if isPlaceholderOnlyUpsertRow row then ret (rowArgs row)
      else andThen (rowExprs_loop env tableName tcs (rowArgs row) 0 (zip (rowExprs row) columns)) (\<lambda>(es, as, k).
        if k \<noteq> length (rowArgs row) then compatError ''ON DUPLICATE KEY UPDATE values row has unused arguments''
        else andThen (fromGo (translateSQL (''SELECT '' @ Join es '', ''))) (\<lambda>query.
          andThen (querySQLite env query as) (\<lambda>rs.
            case Rows rs of
              [vs] \<Rightarrow> ret vs
            | _ \<Rightarrow> compatError ''ON DUPLICATE KEY UPDATE values row did not evaluate to one row''))))"

subsection \<open>Literals\<close>

fun parseFixedDigits_loop :: "nat \<Rightarrow> string \<Rightarrow> nat option" where
  "parseFixedDigits_loop out [] = Some out"
| "parseFixedDigits_loop out (c # cs) =
     (if c < CHR ''0'' \<or> c > CHR ''9'' then None else parseFixedDigits_loop (out * 10 + (of_char c - 48)) cs)"

definition parseFixedDigits :: "string \<Rightarrow> nat option" where
  "parseFixedDigits v = (if v = [] then None else parseFixedDigits_loop 0 v)"

definition splitMySQLDateLiteral :: "string \<Rightarrow> (string \<times> string) option" where
  "splitMySQLDateLiteral v =
     (if length v < 10 then None
      else let date = take 10 v in
        if date ! 4 \<noteq> CHR ''-'' \<or> date ! 7 \<noteq> CHR ''-'' then None
        else (case (parseFixedDigits (gslice date 0 4), parseFixedDigits (gslice date 5 7), parseFixedDigits (gslice date 8 10)) of
            (Some year, Some month, Some day) \<Rightarrow>
              if year > 9999 \<or> month > 12 \<or> day > 31 then None
              else if length v = 10 then Some (date, [])
              else if v ! 10 \<noteq> CHR '' '' \<and> v ! 10 \<noteq> CHR ''T'' then None
              else Some (date, drop 11 v)
          | _ \<Rightarrow> None))"

definition hasZeroMySQLDatePart :: "string \<Rightarrow> bool" where
  "hasZeroMySQLDatePart date = (gslice date 0 4 = ''0000'' \<or> gslice date 5 7 = ''00'' \<or> gslice date 8 10 = ''00'')"

definition isMySQLTimeLiteral :: "string \<Rightarrow> bool" where
  "isMySQLTimeLiteral v =
     (if length v < 8 then False
      else if v ! 2 \<noteq> CHR '':'' \<or> v ! 5 \<noteq> CHR '':'' then False
      else (case (parseFixedDigits (gslice v 0 2), parseFixedDigits (gslice v 3 5), parseFixedDigits (gslice v 6 8)) of
          (Some hour, Some minute, Some second) \<Rightarrow>
            if hour > 23 \<or> minute > 59 \<or> second > 59 then False
            else if length v = 8 then True
            else if v ! 8 \<noteq> CHR ''.'' \<or> length (drop 9 v) = 0 \<or> length (drop 9 v) > 6 then False
            else parseFixedDigits (drop 9 v) \<noteq> None
        | _ \<Rightarrow> False))"

definition isMySQLZeroDateLiteral :: "string \<Rightarrow> bool" where
  "isMySQLZeroDateLiteral v =
     (case splitMySQLDateLiteral v of
        None \<Rightarrow> False
      | Some (date, rest) \<Rightarrow>
          if \<not> hasZeroMySQLDatePart date then False else if rest = [] then True else isMySQLTimeLiteral rest)"

definition dateTimeLayouts :: "string list" where
  "dateTimeLayouts = [''2006-01-02T15:04:05.999999999Z07:00'', ''2006-01-02 15:04:05.999999'', ''2006-01-02 15:04:05'', ''2006-01-02'', ''15:04:05'']"

definition isMySQLDateTimeLiteral :: "goStd \<Rightarrow> string \<Rightarrow> bool" where
  "isMySQLDateTimeLiteral s v =
     (if v = [] then False else list_ex (\<lambda>layout. parseLayout s (ascii layout) (ascii v) \<noteq> None) dateTimeLayouts)"

subsection \<open>Column types\<close>

definition stringLikeValue :: "goValue \<Rightarrow> bytes option" where
  "stringLikeValue v = (case v of GoString b \<Rightarrow> Some b | GoBytes b \<Rightarrow> Some b | _ \<Rightarrow> None)"

definition mysqlCharacterColumnLength :: "(string \<Rightarrow> int option) \<Rightarrow> string \<Rightarrow> int option" where
  "mysqlCharacterColumnLength scan columnType =
     (let upper = ToUpper (TrimSpace columnType) in
      if \<not> HasPrefix upper ''VARCHAR('' \<and> \<not> HasPrefix upper ''CHAR('' then None
      else (case IndexByte upper (CHR ''('') of
          None \<Rightarrow> None
        | Some open \<Rightarrow> (case IndexByte (drop (open + 1) upper) (CHR '')'') of
            None \<Rightarrow> None
          | Some close \<Rightarrow> (case scan (gslice upper (open + 1) (open + 1 + close)) of
              None \<Rightarrow> None
            | Some n \<Rightarrow> if n < 0 then None else Some n))))"

definition isMySQLDateTimeType :: "string \<Rightarrow> bool" where
  "isMySQLDateTimeType columnType =
     (let upper = ToUpper (TrimSpace columnType) in Contains upper ''DATE'' \<or> Contains upper ''TIME'')"

subsection \<open>The checks\<close>

text \<open>\<open>len([]rune(text))\<close>: an invalid byte is a rune of its own.\<close>

function runeCount :: "string \<Rightarrow> nat" where
  "runeCount s = (if s = [] then 0 else Suc (runeCount (drop (snd (decodeRune s)) s)))"
  by pat_completeness auto
termination
proof (relation "measure length", goal_cases)
  case 1 show ?case by simp
next
  case (2 s)
  then show ?case using decodeRune_size [of s] by (simp add: Suc_le_eq)
qed

declare runeCount.simps [simp del]

definition columnText :: "string \<Rightarrow> nat \<Rightarrow> string" where
  "columnText name rowNumber = ''column '' @ [sq] @ name @ [sq] @ '' at row '' @ itoa rowNumber"

definition checkLength :: "(string \<Rightarrow> int option) \<Rightarrow> sqliteTableColumn \<Rightarrow> bytes \<Rightarrow> nat \<Rightarrow> mysqlError option" where
  "checkLength scan column text rowNumber =
     (case mysqlCharacterColumnLength scan (tcType column) of
        None \<Rightarrow> None
      | Some maxLength \<Rightarrow>
          if int (runeCount (textOf text)) > maxLength then
            Some (errPacket 1406 ''22001'' (''Data too long for '' @ columnText (tcName column) rowNumber))
          else None)"

definition checkInteger :: "sqliteTableColumn \<Rightarrow> bytes \<Rightarrow> nat \<Rightarrow> mysqlError option" where
  "checkInteger column text rowNumber =
     (if isMySQLIntegerType (tcType column) \<and> \<not> isIntegerLiteral (trimCell text) then
        Some (errPacket 1366 ''HY000''
          (''Incorrect integer value: '' @ [sq] @ textOf text @ [sq] @ '' for '' @ columnText (tcName column) rowNumber))
      else None)"

definition checkDateTime :: "goStd \<Rightarrow> bool \<Rightarrow> sqliteTableColumn \<Rightarrow> bytes \<Rightarrow> nat \<Rightarrow> mysqlError option" where
  "checkDateTime s allowZeroDates column text rowNumber =
     (if isMySQLDateTimeType (tcType column) \<and> \<not> isMySQLDateTimeLiteral s (textOf (trimCell text)) \<and>
         \<not> (allowZeroDates \<and> isMySQLZeroDateLiteral (textOf (trimCell text))) then
        Some (errPacket 1292 ''22007''
          (''Incorrect datetime value: '' @ [sq] @ textOf text @ [sq] @ '' for '' @ columnText (tcName column) rowNumber))
      else None)"

fun firstError :: "mysqlError option list \<Rightarrow> mysqlError option" where
  "firstError [] = None"
| "firstError (Some e # r) = Some e"
| "firstError (None # r) = firstError r"

definition validateMySQLColumnValue ::
    "goStd \<Rightarrow> (string \<Rightarrow> int option) \<Rightarrow> sqliteTableColumn list \<Rightarrow> string \<Rightarrow> goValue \<Rightarrow> nat \<Rightarrow> bool \<Rightarrow> mysqlError option" where
  "validateMySQLColumnValue s scan columns columnName v rowNumber allowZeroDates =
     (if v = GoNil then None
      else (case findSQLiteTableColumn columns columnName of
          None \<Rightarrow> None
        | Some column \<Rightarrow> (case stringLikeValue v of
            None \<Rightarrow> None
          | Some text \<Rightarrow> firstError [checkLength scan column text rowNumber, checkInteger column text rowNumber,
                                       checkDateTime s allowZeroDates column text rowNumber])))"

definition columnValueOk :: "'d env \<Rightarrow> sqliteTableColumn list \<Rightarrow> string \<Rightarrow> goValue \<Rightarrow> nat \<Rightarrow> ('d world, unit) io" where
  "columnValueOk env columns columnName v rowNumber =
     (case validateMySQLColumnValue (std env) (sscan env) columns columnName v rowNumber (AllowZeroDates (compat env)) of
        Some e \<Rightarrow> fail (Mysql e)
      | None \<Rightarrow> ret ())"

subsection \<open>INSERT and UPDATE statements\<close>

definition insertValuesParts :: "string \<Rightarrow> (string \<times> string list \<times> nat) option" where
  "insertValuesParts query = do {
     p1 \<leftarrow> consumeKeyword query 0 ''INSERT'';
     p2 \<leftarrow> consumeKeyword query p1 ''INTO'';
     (tableName, p3) \<leftarrow> readSQLNameToken query p2;
     let columnsStart = skipSQLSpaces query p3;
     (if columnsStart \<ge> length query \<or> query ! columnsStart \<noteq> CHR ''('' then None else Some ());
     columnsEnd \<leftarrow> parenthesizedSQLSpan query columnsStart;
     let columns = map unquoteSQLWord (filter (\<lambda>item. item \<noteq> [])
           (map TrimSpace (splitSQLTopLevelList (gslice query (columnsStart + 1) (columnsEnd - 1)))));
     p4 \<leftarrow> consumeEither query columnsEnd ''VALUES'' ''VALUE'';
     Some (tableName, columns, p4) }"

text \<open>The rows in order; a row that cannot be evaluated ends the checks without an error.\<close>

fun validateRows :: "'d env \<Rightarrow> string \<Rightarrow> string list \<Rightarrow> sqliteTableColumn list \<Rightarrow> nat \<Rightarrow> mysqlUpsertRow list \<Rightarrow> ('d world, unit) io" where
  "validateRows env tableName columns tcs rowIndex [] = ret ()"
| "validateRows env tableName columns tcs rowIndex (row # rows) =
     andThen (attempt (evaluateUpsertRow env tableName columns tcs row)) (\<lambda>r.
       case r of
         Inl _ \<Rightarrow> ret ()
       | Inr vs \<Rightarrow>
           andThen (forEach (\<lambda>_ (column, v). columnValueOk env tcs column v (rowIndex + 1)) () (zip columns vs))
             (\<lambda>_. validateRows env tableName columns tcs (rowIndex + 1) rows))"

definition validateMySQLInsertValues :: "'d env \<Rightarrow> string \<Rightarrow> goValue list \<Rightarrow> ('d world, unit) io" where
  "validateMySQLInsertValues env query args =
     (case insertValuesParts query of
        None \<Rightarrow> ret ()
      | Some (tableName, columns, pos) \<Rightarrow>
          andThen (tableColumns env tableName) (\<lambda>tcs.
            case parseMySQLValuesRows query pos args 0 of
              None \<Rightarrow> ret ()
            | Some (rows, _) \<Rightarrow> validateRows env tableName columns tcs 0 rows))"

text \<open>Where the assignments end: at \<open>WHERE\<close>, whatever its bracket depth, or with the text.\<close>

function where_loop :: "string \<Rightarrow> nat \<Rightarrow> nat" where
  "where_loop query i =
     (if i \<ge> length query then length query
      else (case skipSpan query i of
          Some e \<Rightarrow> where_loop query e
        | None \<Rightarrow> (case readSQLIdentifier query i of
            Some (word, e) \<Rightarrow> if EqualFold word ''WHERE'' then i else where_loop query e
          | None \<Rightarrow> where_loop query (i + 1))))"
  by pat_completeness auto
termination
  by (relation "measure (\<lambda>(s, i). length s - i)") (auto simp: termination_simp dest: skipSpan_bounds readSQLIdentifier_bounds)

declare where_loop.simps [simp del]

definition evaluateValidationExpr :: "'d env \<Rightarrow> string \<Rightarrow> ('d world, goValue option) io" where
  "evaluateValidationExpr env expr =
     andThen (fromGo (translateSQL (TrimSpace expr))) (\<lambda>translated.
     andThen (attempt (querySQLite env (''SELECT '' @ translated) [])) (\<lambda>r.
       ret (case r of Inl _ \<Rightarrow> None | Inr rs \<Rightarrow> singleValue rs)))"

fun validateAssignments :: "'d env \<Rightarrow> sqliteTableColumn list \<Rightarrow> goValue list \<Rightarrow> nat \<Rightarrow> string list \<Rightarrow> ('d world, unit) io" where
  "validateAssignments env tcs args argPos [] = ret ()"
| "validateAssignments env tcs args argPos (assignment # rest) =
     (case topLevelEqualIndex assignment of
        None \<Rightarrow> validateAssignments env tcs args (argPos + countPlaceholders assignment) rest
      | Some eq \<Rightarrow>
          let column = unquoteSQLWord (TrimSpace (take eq assignment)); expr = drop (eq + 1) assignment; n = countPlaceholders expr
          in andThen
               (if n = 1 \<and> isBarePlaceholderExpr expr \<and> argPos < length args then columnValueOk env tcs column (args ! argPos) 1
                else if n = 0 then
                  andThen (evaluateValidationExpr env expr) (\<lambda>v. case v of None \<Rightarrow> ret () | Some x \<Rightarrow> columnValueOk env tcs column x 1)
                else ret ())
               (\<lambda>_. validateAssignments env tcs args (argPos + n) rest))"

definition updateParts :: "string \<Rightarrow> (string \<times> string) option" where
  "updateParts query = do {
     p1 \<leftarrow> consumeKeyword query 0 ''UPDATE'';
     (tableName, p2) \<leftarrow> readSQLNameToken query p1;
     setStart \<leftarrow> consumeKeyword query p2 ''SET'';
     Some (tableName, gslice query setStart (where_loop query setStart)) }"

definition validateMySQLUpdateValues :: "'d env \<Rightarrow> string \<Rightarrow> goValue list \<Rightarrow> ('d world, unit) io" where
  "validateMySQLUpdateValues env query args =
     (case updateParts query of
        None \<Rightarrow> ret ()
      | Some (tableName, assignments) \<Rightarrow>
          andThen (tableColumns env tableName) (\<lambda>tcs. validateAssignments env tcs args 0 (splitSQLTopLevelList assignments)))"

definition validateMySQLWriteValues :: "'d env \<Rightarrow> string \<Rightarrow> goValue list \<Rightarrow> ('d world, unit) io" where
  "validateMySQLWriteValues env query args =
     (if WriteValidation (compat env) \<noteq> ''strict'' then ret ()
      else let trimmed = TrimSpace query; upper = ToUpper (normalizeSQL trimmed) in
        if trimmed = [] then ret ()
        else if HasPrefix upper ''INSERT INTO '' then validateMySQLInsertValues env trimmed args
        else if HasPrefix upper ''UPDATE '' then validateMySQLUpdateValues env trimmed args
        else ret ())"

end
