(* ===== verification/Insert_Exec.thy ===== *)
theory Insert_Exec
  imports Write_Validation
begin

text \<open>
  Execution of statements (\<open>execSQLite\<close>, \<open>execSQLiteStatements\<close> in \<open>pkg/mysqlmock/protocol.go\<close>) and of the inserts that SQLite
  cannot do alone (\<open>pkg/mysqlmock/upsert.go\<close>): \<open>ON DUPLICATE KEY UPDATE\<close>, \<open>INSERT IGNORE\<close>, \<open>REPLACE\<close> and plain inserts with
  defaults or generated values, row by row.
\<close>

unbundle bit_operations_syntax

subsection \<open>Statements\<close>

definition isSchemaChangingQuery :: "string \<Rightarrow> bool" where
  "isSchemaChangingQuery sqlText =
     (let upper = ToUpper (normalizeSQL sqlText) in
      list_ex (HasPrefix upper)
        [''CREATE TABLE '', ''CREATE TEMPORARY TABLE '', ''CREATE TEMP TABLE '', ''CREATE VIEW '', ''CREATE INDEX '',
         ''CREATE UNIQUE INDEX '', ''ALTER TABLE '', ''RENAME TABLE '', ''DROP TABLE '', ''DROP VIEW '', ''DROP INDEX ''])"

definition uint64NonNegative :: "64 word \<Rightarrow> 64 word" where
  "uint64NonNegative n = (if sint n < 0 then 0 else n)"

definition noResult :: okResult where
  "noResult = \<lparr> AffectedRows = 0, LastInsertID = 0, Warnings = 0 \<rparr>"

definition execSQLite :: "'d env \<Rightarrow> string \<Rightarrow> goValue list \<Rightarrow> ('d world, okResult) io" where
  "execSQLite env query args =
     andThen (putState (\<lambda>w. if EqualFold (TrimSpace query) ''BEGIN'' then w\<lparr> sess := setFlag serverStatusInTrans (sess w) \<rparr> else w)) (\<lambda>_.
     andThen (validateMySQLWriteValues env query args) (\<lambda>_.
     andThen (execContext env query args) (\<lambda>(affected, lastID).
     andThen (putState (\<lambda>w. if isSchemaChangingQuery query then bumpSchemaVersion w else w)) (\<lambda>_.
     let result = \<lparr> AffectedRows = uint64NonNegative affected, LastInsertID = uint64NonNegative lastID, Warnings = 0 \<rparr> in
     andThen (recordMySQLAutoIncrementAllocation env query result) (\<lambda>_. ret result)))))"

definition execSQLiteStatements :: "'d env \<Rightarrow> string list \<Rightarrow> goValue list \<Rightarrow> ('d world, okResult) io" where
  "execSQLiteStatements env statements args =
     (case statements of
        [] \<Rightarrow> ret noResult
      | [query] \<Rightarrow> execSQLite env query args
      | _ \<Rightarrow>
          if args \<noteq> [] then fail (Mysql (errPacket 1105 ''HY000'' ''Unsupported parameterized multi-statement translation''))
          else forEach (\<lambda>result query. if TrimSpace query = [] then ret result else execSQLite env query []) noResult statements)"

subsection \<open>Rows by their id\<close>

text \<open>\<open>reflect.DeepEqual\<close> on the values SQLite returns: floats are compared as numbers.\<close>

definition isNaN64 :: "64 word \<Rightarrow> bool" where
  "isNaN64 w = (drop_bit 52 w AND 0x7FF = 0x7FF \<and> w AND (2 ^ 52 - 1) \<noteq> 0)"

fun deepEqual :: "goValue \<Rightarrow> goValue \<Rightarrow> bool" where
  "deepEqual (GoFloat (F64 a)) (GoFloat (F64 b)) =
     (\<not> isNaN64 a \<and> \<not> isNaN64 b \<and> (a = b \<or> (push_bit 1 a = 0 \<and> push_bit 1 b = 0)))"
| "deepEqual v w = (v = w)"

definition deepEqualRow :: "goValue list \<Rightarrow> goValue list \<Rightarrow> bool" where
  "deepEqualRow xs ys = list_all2 deepEqual xs ys"

definition fetchRowByRowID :: "'d env \<Rightarrow> string \<Rightarrow> 64 word \<Rightarrow> ('d world, goValue list) io" where
  "fetchRowByRowID env tableName rowID =
     andThen (querySQLite env (''SELECT * FROM '' @ quoteIdent (unquoteSQLWord tableName) @ '' WHERE rowid = ?'') [GoInt64 rowID])
       (\<lambda>rs. case Rows rs of [row] \<Rightarrow> ret row
         | _ \<Rightarrow> compatError (''rowid '' @ textOf (formatInt rowID) @ '' was not found''))"

text \<open>The row ids of a conflict query in order, each once.\<close>

definition addRowID :: "(string \<Rightarrow> int option) \<Rightarrow> 64 word list \<Rightarrow> goValue list \<Rightarrow> ('w, 64 word list) io" where
  "addRowID scan ids row =
     (case row of
        [] \<Rightarrow> ret ids
      | v # _ \<Rightarrow> (case int64Value scan v of
          None \<Rightarrow> fail (Driver ''cannot convert value to int64'')
        | Some i \<Rightarrow> ret (if word_of_int i \<in> set ids then ids else ids @ [word_of_int i])))"

definition findConflictRowIDs :: "'d env \<Rightarrow> string \<Rightarrow> string list \<Rightarrow> goValue list \<Rightarrow> ('d world, 64 word list) io" where
  "findConflictRowIDs env tableName columns vs =
     andThen (uniqueKeys env tableName)
       (forEach (\<lambda>ids key. case conflictQuery tableName (valueByColumn columns vs) (ukColumns key) of
            None \<Rightarrow> ret ids
          | Some (query, args) \<Rightarrow> andThen (querySQLite env query args) (\<lambda>rs. forEach (addRowID (sscan env)) ids (Rows rs))) [])"

definition findConflictRowID :: "'d env \<Rightarrow> string \<Rightarrow> string list \<Rightarrow> goValue list \<Rightarrow> ('d world, 64 word) io" where
  "findConflictRowID env tableName columns vs =
     andThen (findConflictRowIDs env tableName columns vs) (\<lambda>ids. case ids of
         i # _ \<Rightarrow> ret i
       | [] \<Rightarrow> compatError ''ON DUPLICATE KEY UPDATE conflict row was not found'')"

definition autoIncrementColumn :: "sqliteTableColumn list \<Rightarrow> sqliteTableColumn option" where
  "autoIncrementColumn columns = List.find (\<lambda>c. tcPK c = 1 \<and> Contains (ToUpper (tcType c)) ''INT'') columns"

definition autoIncrementValue :: "'d env \<Rightarrow> string \<Rightarrow> 64 word \<Rightarrow> ('d world, (64 word) option) io" where
  "autoIncrementValue env tableName rowID =
     andThen (attempt (tableColumns env tableName)) (\<lambda>r. case r of
         Inl _ \<Rightarrow> ret None
       | Inr columns \<Rightarrow> (case autoIncrementColumn columns of
           None \<Rightarrow> ret None
         | Some column \<Rightarrow>
             andThen (attempt (querySQLite env (''SELECT '' @ quoteIdent (tcName column) @ '' FROM '' @
                 quoteIdent (unquoteSQLWord tableName) @ '' WHERE rowid = ?'') [GoInt64 rowID])) (\<lambda>q. ret (case q of
                 Inl _ \<Rightarrow> None
               | Inr rs \<Rightarrow> (case singleValue rs of
                   None \<Rightarrow> None
                 | Some v \<Rightarrow> (case int64Value (sscan env) v of
                     None \<Rightarrow> None
                   | Some i \<Rightarrow> if i < 0 then None else Some (word_of_int i)))))))"

subsection \<open>Inserting a row\<close>

text \<open>Affected rows, last insert id and warnings of the rows so far.\<close>

record insertTotals =
  totAffected :: "64 word"
  totLastID :: "64 word"
  totWarnings :: "16 word"

definition noTotals :: insertTotals where
  "noTotals = \<lparr> totAffected = 0, totLastID = 0, totWarnings = 0 \<rparr>"

text \<open>The columns and values of a row with implicit defaults and the generated value.\<close>

definition prepareInsertRow ::
    "'d env \<Rightarrow> string \<Rightarrow> string list \<Rightarrow> sqliteTableColumn list \<Rightarrow> mysqlUpsertRow \<Rightarrow>
     ('d world, string list \<times> goValue list \<times> mysqlAutoIncrementInsertValue) io" where
  "prepareInsertRow env tableName columns tcs row =
     andThen (evaluateUpsertRow env tableName columns tcs row) (\<lambda>vs.
       let (insertCols, insertVals) = applyImplicitDefaultInsertValues (ImplicitDefaults (compat env)) tcs columns vs in
       applyMySQLAutoIncrementInsertValue env tableName tcs insertCols insertVals)"

text \<open>After a row has been inserted: its value is recorded, the first id of the statement kept.\<close>

definition rowInserted :: "string \<Rightarrow> mysqlAutoIncrementInsertValue \<Rightarrow> okResult \<Rightarrow> insertTotals \<Rightarrow> ('d world, insertTotals) io" where
  "rowInserted tableName ai result t =
     andThen (putState (\<lambda>w. if aiValue ai \<noteq> 0 then snd (recordAllocation tableName (aiValue ai) w) else w)) (\<lambda>_.
       ret (t\<lparr> totAffected := totAffected t + 1,
               totLastID := (if aiGenerated ai \<and> aiValue ai \<noteq> 0 \<and> totLastID t = 0 then aiValue ai
                 else if LastInsertID result \<noteq> 0 \<and> totLastID t = 0 then LastInsertID result else totLastID t) \<rparr>))"

definition totalsResult :: "insertTotals \<Rightarrow> okResult" where
  "totalsResult t = \<lparr> AffectedRows = totAffected t, LastInsertID = totLastID t, Warnings = totWarnings t \<rparr>"

definition upsertRow :: "'d env \<Rightarrow> mysqlUpsertStatement \<Rightarrow> string list \<Rightarrow> sqliteTableColumn list \<Rightarrow> insertTotals \<Rightarrow> mysqlUpsertRow \<Rightarrow>
    ('d world, insertTotals) io" where
  "upsertRow env stmt columns tcs t row = (let table = upTableName stmt in
     andThen (prepareInsertRow env table columns tcs row) (\<lambda>(cols, vs, ai).
     andThen (attempt (execSQLite env (buildSQLiteInsert table cols) vs)) (\<lambda>r. case r of
         Inr result \<Rightarrow> rowInserted table ai result t
       | Inl err \<Rightarrow>
           if \<not> isSQLiteUniqueConstraint err then fail err
           else
             andThen (findConflictRowID env table cols vs) (\<lambda>rowID.
             andThen (fetchRowByRowID env table rowID) (\<lambda>rowBefore.
             andThen (fromGo (buildSQLiteUpsertUpdate table cols vs (upValueAlias stmt) (upUpdateSQL stmt) (upUpdateArgs stmt) rowID))
               (\<lambda>built. case built of
                  Inl e \<Rightarrow> fail (Mysql (updateMessage e))
                | Inr (updateSQL, updateArgs) \<Rightarrow>
                    andThen (execSQLite env updateSQL updateArgs) (\<lambda>_.
                    andThen (fetchRowByRowID env table rowID) (\<lambda>afterwards.
                    andThen (autoIncrementValue env table rowID) (\<lambda>id'.
                      ret (t\<lparr> totAffected := (if deepEqualRow rowBefore afterwards then totAffected t else totAffected t + 2),
                              totLastID := (case id' of Some i \<Rightarrow> if i \<noteq> 0 \<and> totLastID t = 0 then i else totLastID t
                                             | None \<Rightarrow> totLastID t) \<rparr>))))))))))"

text \<open>The columns of the statement, or all columns of the table when it names none.\<close>

definition statementColumns :: "'d env \<Rightarrow> string \<Rightarrow> string list \<Rightarrow> ('d world, string list) io" where
  "statementColumns env tableName columns = (if columns = [] then insertColumns env tableName else ret columns)"

definition cachedUpsert :: "string \<Rightarrow> goValue list \<Rightarrow> ('d world, mysqlUpsertStatement option) io" where
  "cachedUpsert sqlText args w =
     (case parseMySQLUpsertStatementCached (upsertCache w) sqlText args of (r, c) \<Rightarrow>
        ((case r of Inl e \<Rightarrow> Inl (Mysql (upsertMessage e)) | Inr s \<Rightarrow> Inr s), w\<lparr> upsertCache := c \<rparr>))"

definition cachedInsert :: "string \<Rightarrow> goValue list \<Rightarrow> ('d world, mysqlInsertStatement option) io" where
  "cachedInsert sqlText args w =
     (case parseMySQLInsertStatementCached (insertCache w) sqlText args of (r, c) \<Rightarrow> (Inr r, w\<lparr> insertCache := c \<rparr>))"

text \<open>\<open>None\<close>: not handled here.\<close>

definition execMySQLUpsert :: "'d env \<Rightarrow> string \<Rightarrow> goValue list \<Rightarrow> ('d world, okResult option) io" where
  "execMySQLUpsert env sqlText args =
     andThen (cachedUpsert sqlText args) (\<lambda>parsed. case parsed of
         None \<Rightarrow> ret None
       | Some stmt \<Rightarrow>
           andThen (statementColumns env (upTableName stmt) (upColumns stmt)) (\<lambda>columns.
           andThen (tableColumns env (upTableName stmt)) (\<lambda>tcs.
           andThen (forEach (upsertRow env stmt columns tcs) noTotals (upRows stmt)) (\<lambda>t. ret (Some (totalsResult t))))))"

definition plainInsertRow :: "'d env \<Rightarrow> string \<Rightarrow> string list \<Rightarrow> sqliteTableColumn list \<Rightarrow> insertTotals \<Rightarrow> mysqlUpsertRow \<Rightarrow>
    ('d world, insertTotals) io" where
  "plainInsertRow env table columns tcs t row =
     andThen (prepareInsertRow env table columns tcs row) (\<lambda>(cols, vs, ai).
     andThen (execSQLite env (buildSQLiteInsert table cols) vs) (\<lambda>result. rowInserted table ai result t))"

definition insertIgnoreRow :: "'d env \<Rightarrow> string \<Rightarrow> string list \<Rightarrow> sqliteTableColumn list \<Rightarrow> insertTotals \<Rightarrow> mysqlUpsertRow \<Rightarrow>
    ('d world, insertTotals) io" where
  "insertIgnoreRow env table columns tcs t row =
     andThen (prepareInsertRow env table columns tcs row) (\<lambda>(cols, vs, ai).
     andThen (attempt (execSQLite env (buildSQLiteInsert table cols) vs)) (\<lambda>r. case r of
         Inr result \<Rightarrow> rowInserted table ai result t
       | Inl err \<Rightarrow> if \<not> isSQLiteUniqueConstraint err then fail err else ret (t\<lparr> totWarnings := totWarnings t + 1 \<rparr>)))"

definition replaceRow :: "'d env \<Rightarrow> string \<Rightarrow> string list \<Rightarrow> sqliteTableColumn list \<Rightarrow> insertTotals \<Rightarrow> mysqlUpsertRow \<Rightarrow>
    ('d world, insertTotals) io" where
  "replaceRow env table columns tcs t row =
     andThen (prepareInsertRow env table columns tcs row) (\<lambda>(cols, vs, ai).
     andThen (findConflictRowIDs env table cols vs) (\<lambda>ids.
     andThen (forEach (\<lambda>t' rowID.
         andThen (execSQLite env (''DELETE FROM '' @ quoteIdent (unquoteSQLWord table) @ '' WHERE rowid = ?'') [GoInt64 rowID])
           (\<lambda>_. ret (t'\<lparr> totAffected := totAffected t' + 1 \<rparr>))) t ids) (\<lambda>t1.
     andThen (execSQLite env (buildSQLiteInsert table cols) vs) (\<lambda>result. rowInserted table ai result t1))))"

definition execMySQLInsertCompatibility :: "'d env \<Rightarrow> string \<Rightarrow> goValue list \<Rightarrow> ('d world, okResult option) io" where
  "execMySQLInsertCompatibility env sqlText args =
     andThen (cachedInsert sqlText args) (\<lambda>parsed. case parsed of
         None \<Rightarrow> ret None
       | Some stmt \<Rightarrow> let table = inTableName stmt in
           andThen (statementColumns env table (inColumns stmt)) (\<lambda>columns.
           andThen (tableColumns env table) (\<lambda>tcs.
           andThen (getState (\<lambda>w. needsMySQLAutoIncrementInsertCompatibility (mdata w) tcs table)) (\<lambda>numbered.
             let rows = (\<lambda>step. andThen (forEach (step env table columns tcs) noTotals (inRows stmt)) (\<lambda>t. ret (Some (totalsResult t))))
             in if \<not> inIgnore stmt \<and> \<not> inReplace stmt then
                  (if ImplicitDefaults (compat env) \<or> insertStatementUsesDefaultValues stmt \<or> numbered then rows plainInsertRow
                   else ret None)
                else if inIgnore stmt then rows insertIgnoreRow
                else rows replaceRow))))"

end
