(* ===== verification/Information_Schema.thy ===== *)
theory Information_Schema
  imports Insert_Exec
begin

text \<open>
  The \<open>information_schema\<close> tables (\<open>pkg/mysqlmock/information_schema.go\<close>): which queries ask for them and how much of them a
  query needs, how they are filled from SQLite's catalogue under a savepoint, and the cached results.

  A new line and a tab in the SQL texts are \<open>nl\<close> and \<open>tab\<close>.
\<close>

subsection \<open>Recognising the queries\<close>

definition tab :: char where "tab = CHR 0x09"

definition sqlLines :: "string list \<Rightarrow> string" where
  "sqlLines ls = Join ls [nl]"

definition unquotedUpper :: "string \<Rightarrow> string" where
  "unquotedUpper upper = filter (\<lambda>c. c \<noteq> bq \<and> c \<noteq> dq) upper"

definition isInformationSchemaQuery :: "string \<Rightarrow> bool" where
  "isInformationSchemaQuery upperSQL = Contains (unquotedUpper upperSQL) ''INFORMATION_SCHEMA.''"

definition informationSchemaReferencesSchemata :: "string \<Rightarrow> bool" where
  "informationSchemaReferencesSchemata sqlText =
     (let normalized = Join (Fields (unquotedUpper (ToUpper sqlText))) '' '' in
      Contains normalized ''INFORMATION_SCHEMA.SCHEMATA'' \<or> Contains normalized ''INFORMATION_SCHEMA . SCHEMATA'')"

definition isKnownInformationSchemaTable :: "string \<Rightarrow> bool" where
  "isKnownInformationSchemaTable table =
     (table \<in> {''schemata'', ''tables'', ''columns'', ''key_column_usage'', ''statistics'', ''table_constraints'',
                ''referential_constraints'', ''check_constraints''})"

definition isInformationSchemaResultCacheable :: "string \<Rightarrow> bool" where
  "isInformationSchemaResultCacheable sqlText =
     (\<not> list_ex (containsSQLIdentifier sqlText)
        [''CONNECTION_ID'', ''CURRENT_DATE'', ''CURRENT_TIME'', ''CURRENT_TIMESTAMP'', ''CURRENT_USER'', ''LAST_INSERT_ID'',
         ''NOW'', ''RAND'', ''RANDOM'', ''ROW_COUNT'', ''UNIX_TIMESTAMP'', ''USER'', ''UUID''])"

definition informationSchemaTableNameArg :: "goValue list \<Rightarrow> nat \<Rightarrow> string option" where
  "informationSchemaTableNameArg args index =
     (if index \<ge> length args then None
      else (case args ! index of
          GoString b \<Rightarrow> if b = [] then None else Some (textOf b)
        | GoBytes b \<Rightarrow> if b = [] then None else Some (textOf b)
        | _ \<Rightarrow> None))"

text \<open>A literal in single quotes or a comment at \<open>i\<close>; double quotes are read as names here.\<close>

definition literalOrComment :: "string \<Rightarrow> nat \<Rightarrow> nat option" where
  "literalOrComment sqlText i = (if sqlText ! i = sq then quotedSQLSpan sqlText i else sqlCommentSpan sqlText i)"

lemma literalOrComment_bounds [scan_bounds]: "literalOrComment s i = Some e \<Longrightarrow> i < e \<and> e \<le> length s"
  by (auto simp: literalOrComment_def dest: quotedSQLSpan_bounds sqlCommentSpan_bounds split: if_splits)

text \<open>The value behind \<open>TABLE_NAME =\<close>.\<close>

definition tableNameValue :: "string \<Rightarrow> goValue list \<Rightarrow> nat \<Rightarrow> string option" where
  "tableNameValue sqlText args valueStart =
     (if valueStart \<ge> length sqlText then None
      else if sqlText ! valueStart = CHR ''?'' then
        informationSchemaTableNameArg args (countPlaceholders (take valueStart sqlText))
      else if sqlText ! valueStart = sq \<or> sqlText ! valueStart = dq then
        (case quotedSQLSpan sqlText valueStart of
           None \<Rightarrow> None
         | Some valueEnd \<Rightarrow> Some (unquoteSQLWord (gslice sqlText valueStart valueEnd)))
      else None)"

text \<open>\<open>Inl\<close>: why the whole schema is needed.\<close>

function target_loop :: "string \<Rightarrow> goValue list \<Rightarrow> nat \<Rightarrow> string + string" where
  "target_loop sqlText args i =
     (if i \<ge> length sqlText then Inl ''no_table_name_filter''
      else (case literalOrComment sqlText i of
          Some e \<Rightarrow> target_loop sqlText args e
        | None \<Rightarrow> (case readSQLNameToken sqlText i of
            None \<Rightarrow> target_loop sqlText args (i + 1)
          | Some (name, e) \<Rightarrow>
              if \<not> EqualFold (unquoteSQLWord name) ''TABLE_NAME'' then target_loop sqlText args e
              else let nxt = skipSQLSpaces sqlText e in
                if nxt \<ge> length sqlText \<or> sqlText ! nxt \<noteq> CHR ''='' then target_loop sqlText args e
                else (case tableNameValue sqlText args (skipSQLSpaces sqlText (nxt + 1)) of
                    None \<Rightarrow> Inl ''unsupported_table_filter''
                  | Some tableName \<Rightarrow> Inr tableName))))"
  by pat_completeness auto
termination
  by (relation "measure (\<lambda>(s, _, i). length s - i)")
    (auto simp: termination_simp dest: literalOrComment_bounds readSQLNameToken_bounds)

declare target_loop.simps [simp del]

definition informationSchemaTargetTable :: "string \<Rightarrow> goValue list \<Rightarrow> string + string" where
  "informationSchemaTargetTable sqlText args =
     (if containsSQLIdentifier sqlText ''OR'' then Inl ''contains_or''
      else if informationSchemaReferencesSchemata sqlText then Inl ''references_schemata''
      else target_loop sqlText args 0)"

lemma behind_name_measure [termination_simp]:
  assumes "readSQLNameToken s i = Some (n, e)" "\<not> length s \<le> skipSQLSpaces s e"
  shows "length s - Suc (skipSQLSpaces s e) < length s - i"
  using readSQLNameToken_bounds [OF assms(1)] skipSQLSpaces_ge [of e s] assms(2) by linarith

lemma second_name_measure [termination_simp]:
  assumes "readSQLNameToken s i = Some (n, e)" "readSQLNameToken s (Suc (skipSQLSpaces s e)) = Some (m, f)"
  shows "length s - f < length s - i"
  using readSQLNameToken_bounds [OF assms(1)] readSQLNameToken_bounds [OF assms(2)] skipSQLSpaces_ge [of e s] by linarith

text \<open>The known tables a query names, in the order it names them.\<close>

function referenced_loop :: "string \<Rightarrow> nat \<Rightarrow> string list" where
  "referenced_loop sqlText i =
     (if i \<ge> length sqlText then []
      else (case literalOrComment sqlText i of
          Some e \<Rightarrow> referenced_loop sqlText e
        | None \<Rightarrow> (case readSQLNameToken sqlText i of
            None \<Rightarrow> referenced_loop sqlText (i + 1)
          | Some (name, e) \<Rightarrow>
              if \<not> EqualFold (unquoteSQLWord name) ''information_schema'' then referenced_loop sqlText e
              else let dot = skipSQLSpaces sqlText e in
                if dot \<ge> length sqlText \<or> sqlText ! dot \<noteq> CHR ''.'' then referenced_loop sqlText e
                else (case readSQLNameToken sqlText (dot + 1) of
                    None \<Rightarrow> referenced_loop sqlText (dot + 1)
                  | Some (tableToken, tableEnd) \<Rightarrow>
                      let table = ToLower (unquoteSQLWord tableToken) in
                      (if isKnownInformationSchemaTable table then [table] else []) @ referenced_loop sqlText tableEnd))))"
  by pat_completeness auto
termination
  by (relation "measure (\<lambda>(s, i). length s - i)")
    (auto simp: termination_simp dest: literalOrComment_bounds readSQLNameToken_bounds)

declare referenced_loop.simps [simp del]

definition informationSchemaReferencedTables :: "string \<Rightarrow> string list" where
  "informationSchemaReferencedTables sqlText = referenced_loop sqlText 0"

datatype informationSchemaRefreshScope = ScopeFull | ScopeSchemata | ScopeTableList

definition informationSchemaBroadRefreshScope :: "string \<Rightarrow> informationSchemaRefreshScope" where
  "informationSchemaBroadRefreshScope sqlText =
     (let refs = informationSchemaReferencedTables sqlText in
      if refs = [] then ScopeFull
      else if list_ex (\<lambda>table. table \<noteq> ''schemata'' \<and> table \<noteq> ''tables'') refs then ScopeFull
      else if ''tables'' \<in> set refs then ScopeTableList
      else if ''schemata'' \<in> set refs then ScopeSchemata
      else ScopeFull)"

text \<open>\<open>DATABASE()\<close> and \<open>SCHEMA()\<close> become the current database.\<close>

function rewrite_loop :: "string \<Rightarrow> string \<Rightarrow> nat \<Rightarrow> string" where
  "rewrite_loop sqlText dbName i =
     (if i \<ge> length sqlText then []
      else (case skipSpan sqlText i of
          Some e \<Rightarrow> gslice sqlText i e @ rewrite_loop sqlText dbName e
        | None \<Rightarrow> (case readSQLIdentifier sqlText i of
            None \<Rightarrow> sqlText ! i # rewrite_loop sqlText dbName (i + 1)
          | Some (ident, e) \<Rightarrow>
              (case (if ToUpper ident = ''DATABASE'' \<or> ToUpper ident = ''SCHEMA'' then consumeEmptyCall sqlText e else None) of
                 Some nxt \<Rightarrow> sqlStringLiteral dbName @ rewrite_loop sqlText dbName nxt
               | None \<Rightarrow> ident @ rewrite_loop sqlText dbName e))))"
  by pat_completeness auto
termination
  by (relation "measure (\<lambda>(s, _, i). length s - i)")
    (auto simp: termination_simp dest!: skipSpan_bounds readSQLIdentifier_bounds consumeEmptyCall_bounds split: if_splits)

declare rewrite_loop.simps [simp del]

definition rewriteInformationSchemaSQL :: "string \<Rightarrow> string \<Rightarrow> string" where
  "rewriteInformationSchemaSQL sqlText dbName = rewrite_loop sqlText dbName 0"

subsection \<open>Values of the columns\<close>

definition normalizeReferentialAction :: "string \<Rightarrow> string" where
  "normalizeReferentialAction v0 = (let v = TrimSpace v0 in if v = [] then ''NO ACTION'' else ToUpper v)"

definition normalizeMatchOption :: "string \<Rightarrow> string" where
  "normalizeMatchOption v0 = (let v = TrimSpace v0 in if v = [] \<or> EqualFold v ''NONE'' then ''NONE'' else ToUpper v)"

text \<open>\<open>strings.ReplaceAll(s, qq, q)\<close> for a doubled byte.\<close>

fun undouble :: "char \<Rightarrow> string \<Rightarrow> string" where
  "undouble q (a # b # s) = (if a = q \<and> b = q then q # undouble q s else a # undouble q (b # s))"
| "undouble q s = s"

definition unquoteSQLStringLiteral :: "string \<Rightarrow> string option" where
  "unquoteSQLStringLiteral v0 =
     (let v = TrimSpace v0 in
      if length v < 2 then None
      else if v ! (length v - 1) \<noteq> v ! 0 then None
      else if v ! 0 = sq \<or> v ! 0 = dq then Some (undouble (v ! 0) (gslice v 1 (length v - 1)))
      else None)"

definition mysqlColumnDefaultMetadataValue :: "string \<Rightarrow> goValue" where
  "mysqlColumnDefaultMetadataValue defaultSQL =
     (let v = TrimSpace defaultSQL in
      if EqualFold v ''NULL'' then GoNil
      else (case unquoteSQLStringLiteral v of Some u \<Rightarrow> GoString (ascii u) | None \<Rightarrow> GoString (ascii v)))"

text \<open>The data type and the column type.\<close>

definition informationSchemaColumnTypes :: "string \<Rightarrow> string \<times> string" where
  "informationSchemaColumnTypes declaredType =
     (let columnType = ToLower (TrimSpace declaredType);
          d = takeWhile (\<lambda>c. c \<noteq> CHR '' '' \<and> c \<noteq> CHR ''('') columnType;
          dataType =
            (if Contains d ''int'' then ''integer''
             else if d = ''real'' \<or> d = ''float'' \<or> d = ''double'' then ''double''
             else if d = ''numeric'' \<or> d = ''decimal'' then ''decimal''
             else if Contains d ''char'' \<or> d = ''clob'' \<or> d = ''text'' then ''text''
             else if Contains d ''blob'' then ''blob'' else d)
      in if columnType = [] then ([], []) else (dataType, columnType))"

definition text' :: "string \<Rightarrow> goValue" where "text' s = GoString (ascii s)"
definition textOrNull :: "string \<Rightarrow> goValue" where "textOrNull s = (if s = [] then GoNil else text' s)"
definition int' :: "int \<Rightarrow> goValue" where "int' i = GoInt (word_of_int i)"

subsection \<open>Writing rows\<close>

text \<open>The current database of the connection, which every row carries.\<close>

definition dbOf :: "'d world \<Rightarrow> goValue" where "dbOf w = text' (currentDB (sess w))"

text \<open>A statement with its error wrapped; the arguments may depend on the state.\<close>

definition wrapError :: "string \<Rightarrow> ('w, 'a) io \<Rightarrow> ('w, 'a) io" where
  "wrapError context m w = (case m w of (Inl e, w') \<Rightarrow> (Inl (wrap context e), w') | (Inr x, w') \<Rightarrow> (Inr x, w'))"

definition execWrapped :: "'d env \<Rightarrow> string \<Rightarrow> string \<Rightarrow> ('d world \<Rightarrow> goValue list) \<Rightarrow> ('d world, unit) io" where
  "execWrapped env context query args =
     andThen (getState args) (\<lambda>as. andThen (wrapError context (execContext env query as)) (\<lambda>_. ret ()))"

definition infoInsert :: "string \<Rightarrow> string list \<Rightarrow> string \<Rightarrow> string" where
  \<open>infoInsert table columns vals =
     sqlLines ([[], ''INSERT INTO "information_schema"."'' @ table @ ''"''] @ columns @ [''VALUES'', ''  ('' @ vals @ '')''])\<close>

definition insertInformationSchemaSchemata :: "'d env \<Rightarrow> ('d world, unit) io" where
  \<open>insertInformationSchemaSchemata env =
     andThen (getState (\<lambda>w. currentDB (sess w))) (\<lambda>dbName.
       execWrapped env (''insert information_schema.schemata row for '' @ dbName)
         (infoInsert ''schemata'' [''  (CATALOG_NAME, SCHEMA_NAME, DEFAULT_CHARACTER_SET_NAME, DEFAULT_COLLATION_NAME)''] (sq # ''def'' @ sq # '', ?, ?, ?''))
         (\<lambda>w. [dbOf w, text' (characterSetConnection (sess w)), text' (collationConnection (sess w))]))\<close>

definition insertInformationSchemaTable :: "'d env \<Rightarrow> string \<Rightarrow> string \<Rightarrow> ('d world, unit) io" where
  \<open>insertInformationSchemaTable env tableName sqliteType =
     execWrapped env (''insert information_schema.tables row for '' @ tableName)
       (infoInsert ''tables'' [''  (TABLE_CATALOG, TABLE_SCHEMA, TABLE_NAME, TABLE_TYPE, ENGINE, TABLE_COMMENT)'']
          (sq # ''def'' @ sq # '', ?, ?, ?, '' @ sq # ''SQLite'' @ sq # '', '' @ [sq, sq]))
       (\<lambda>w. [dbOf w, text' tableName, text' (if sqliteType = ''view'' then ''VIEW'' else ''BASE TABLE'')])\<close>

definition insertInformationSchemaTableConstraint :: "'d env \<Rightarrow> string \<Rightarrow> string \<Rightarrow> string \<Rightarrow> ('d world, unit) io" where
  "insertInformationSchemaTableConstraint env constraintName tableName constraintType =
     execWrapped env (''insert information_schema.table_constraints row for '' @ tableName @ ''.'' @ constraintName)
       (infoInsert ''table_constraints''
          [''  (CONSTRAINT_CATALOG, CONSTRAINT_SCHEMA, CONSTRAINT_NAME, TABLE_SCHEMA,'', ''   TABLE_NAME, CONSTRAINT_TYPE)'']
          (sq # ''def'' @ sq # '', ?, ?, ?, ?, ?''))
       (\<lambda>w. [dbOf w, text' constraintName, dbOf w, text' tableName, text' constraintType])"

definition insertInformationSchemaReferentialConstraint ::
    "'d env \<Rightarrow> string \<Rightarrow> string \<Rightarrow> string \<Rightarrow> string \<Rightarrow> string \<Rightarrow> string \<Rightarrow> ('d world, unit) io" where
  "insertInformationSchemaReferentialConstraint env constraintName tableName refTable onUpdate onDelete match =
     execWrapped env (''insert information_schema.referential_constraints row for '' @ tableName @ ''.'' @ constraintName)
       (infoInsert ''referential_constraints''
          [''  (CONSTRAINT_CATALOG, CONSTRAINT_SCHEMA, CONSTRAINT_NAME,'',
           ''   UNIQUE_CONSTRAINT_CATALOG, UNIQUE_CONSTRAINT_SCHEMA, UNIQUE_CONSTRAINT_NAME,'',
           ''   MATCH_OPTION, UPDATE_RULE, DELETE_RULE, TABLE_NAME, REFERENCED_TABLE_NAME)'']
          (sq # ''def'' @ sq # '', ?, ?, '' @ sq # ''def'' @ sq # '', ?, '' @ sq # ''PRIMARY'' @ sq # '', ?, ?, ?, ?, ?''))
       (\<lambda>w. [dbOf w, text' constraintName, dbOf w, text' (normalizeMatchOption match), text' (normalizeReferentialAction onUpdate),
             text' (normalizeReferentialAction onDelete), text' tableName, text' refTable])"

definition insertInformationSchemaKeyColumn ::
    "'d env \<Rightarrow> string \<Rightarrow> string \<Rightarrow> string \<Rightarrow> int \<Rightarrow> int option \<Rightarrow> string \<Rightarrow> string \<Rightarrow> ('d world, unit) io" where
  "insertInformationSchemaKeyColumn env constraintName tableName columnName ordinalPosition positionInUnique refTable refColumn =
     execWrapped env (''insert information_schema.key_column_usage row for '' @ tableName @ ''.'' @ columnName)
       (infoInsert ''key_column_usage''
          [''  (CONSTRAINT_CATALOG, CONSTRAINT_SCHEMA, CONSTRAINT_NAME, TABLE_SCHEMA,'',
           ''   TABLE_NAME, COLUMN_NAME, ORDINAL_POSITION, POSITION_IN_UNIQUE_CONSTRAINT,'',
           ''   REFERENCED_TABLE_SCHEMA, REFERENCED_TABLE_NAME, REFERENCED_COLUMN_NAME)'']
          (sq # ''def'' @ sq # '', ?, ?, ?, ?, ?, ?, ?, ?, ?, ?''))
       (\<lambda>w. [dbOf w, text' constraintName, dbOf w, text' tableName, text' columnName, int' ordinalPosition,
             (case positionInUnique of None \<Rightarrow> GoNil | Some p \<Rightarrow> int' p),
             (if refTable = [] then GoNil else dbOf w), textOrNull refTable,
             (if refTable = [] then GoNil else text' refColumn)])"

definition insertInformationSchemaStatisticWithMetadata ::
    "'d env \<Rightarrow> string \<Rightarrow> string \<Rightarrow> int \<Rightarrow> int \<Rightarrow> string \<Rightarrow> int option \<Rightarrow> string \<Rightarrow> string \<Rightarrow> ('d world, unit) io" where
  "insertInformationSchemaStatisticWithMetadata env tableName indexName nonUnique seqInIndex columnName subPart visible expression =
     execWrapped env (''insert information_schema.statistics row for '' @ tableName @ ''.'' @ columnName)
       (infoInsert ''statistics''
          [''  (TABLE_CATALOG, TABLE_SCHEMA, TABLE_NAME, NON_UNIQUE, INDEX_SCHEMA,'',
           ''   INDEX_NAME, SEQ_IN_INDEX, COLUMN_NAME, INDEX_TYPE, SUB_PART, VISIBLE, EXPRESSION)'']
          (sq # ''def'' @ sq # '', ?, ?, ?, ?, ?, ?, ?, '' @ sq # ''BTREE'' @ sq # '', ?, ?, ?''))
       (\<lambda>w. [dbOf w, text' tableName, int' nonUnique, dbOf w, text' indexName, int' seqInIndex, textOrNull columnName,
             (case subPart of None \<Rightarrow> GoNil | Some n \<Rightarrow> int' n), text' (if visible = [] then ''YES'' else visible), textOrNull expression])"

definition insertInformationSchemaStatistic :: "'d env \<Rightarrow> string \<Rightarrow> string \<Rightarrow> int \<Rightarrow> int \<Rightarrow> string \<Rightarrow> ('d world, unit) io" where
  "insertInformationSchemaStatistic env tableName indexName nonUnique seqInIndex columnName =
     insertInformationSchemaStatisticWithMetadata env tableName indexName nonUnique seqInIndex columnName None ''YES'' []"

subsection \<open>The facts of a table\<close>

text \<open>A row of \<open>PRAGMA table_info\<close>: position, name, type, not null, default, primary key.\<close>

definition scanColumnRow :: "goStd \<Rightarrow> goValue list \<Rightarrow> (int \<times> string \<times> string \<times> int \<times> string option \<times> int) option" where
  "scanColumnRow s row =
     (case row of
        [cid, name, type, notNull, dflt, pk] \<Rightarrow> do {
          c \<leftarrow> scanInt s cid; n \<leftarrow> scanString s name; t \<leftarrow> scanString s type; nn \<leftarrow> scanInt s notNull; p \<leftarrow> scanInt s pk;
          Some (c, n, t, nn, scanNullString s dflt, p) }
      | _ \<Rightarrow> None)"

text \<open>A query whose rows are scanned and handled one by one.\<close>

definition forRows ::
    "'d env \<Rightarrow> string \<Rightarrow> string \<Rightarrow> string \<Rightarrow> (goStd \<Rightarrow> goValue list \<Rightarrow> 'r option) \<Rightarrow> ('a \<Rightarrow> 'r \<Rightarrow> ('d world, 'a) io) \<Rightarrow> 'a \<Rightarrow> ('d world, 'a) io" where
  "forRows env listContext scanContext query scan handle acc =
     andThen (wrapError listContext (queryContext env query [])) (\<lambda>rows.
     andThen (forEach (\<lambda>acc' row. andThen (wrapError scanContext (orScanError (scan (std env) row))) (handle acc')) acc (rowValues rows)) (\<lambda>result.
     andThen (wrapError listContext (rowsErr rows)) (\<lambda>_. ret result)))"

definition pragma :: "string \<Rightarrow> string \<Rightarrow> string" where
  "pragma name arg = ''PRAGMA main.'' @ name @ ''('' @ quoteIdent arg @ '')''"

definition insertInformationSchemaPrimaryKeys :: "'d env \<Rightarrow> string \<Rightarrow> ('d world, unit) io" where
  "insertInformationSchemaPrimaryKeys env tableName =
     andThen (forRows env (''list sqlite primary keys for information_schema.'' @ tableName)
       (''scan sqlite primary key for information_schema.'' @ tableName) (pragma ''table_info'' tableName) scanColumnRow
       (\<lambda>found (_, columnName, _, _, _, pk).
          if pk = 0 then ret found
          else andThen (if found then ret () else insertInformationSchemaTableConstraint env ''PRIMARY'' tableName ''PRIMARY KEY'') (\<lambda>_.
               andThen (insertInformationSchemaKeyColumn env ''PRIMARY'' tableName columnName pk None [] []) (\<lambda>_.
               andThen (insertInformationSchemaStatistic env tableName ''PRIMARY'' 0 pk columnName) (\<lambda>_. ret True)))) False)
       (\<lambda>_. ret ())"

definition boolInt :: "bool \<Rightarrow> int" where "boolInt b = (if b then 1 else 0)"

text \<open>Names are looked up in the index metadata in the order \<open>keys\<close> of its map.\<close>

definition scanIndexInfo :: "goStd \<Rightarrow> goValue list \<Rightarrow> (int \<times> string option) option" where
  "scanIndexInfo s row =
     (case row of
        [seqno, cid, name] \<Rightarrow> do { n \<leftarrow> scanInt s seqno; _ \<leftarrow> scanInt s cid; Some (n, scanNullString s name) }
      | _ \<Rightarrow> None)"

definition indexColumnMetadata :: "mysqlIndexMetadata option \<Rightarrow> int \<Rightarrow> mysqlIndexColumnMetadata" where
  "indexColumnMetadata m seqno =
     (case m of
        None \<Rightarrow> noIndexColumn
      | Some x \<Rightarrow> if seqno < int (length (ixColumns x)) then ixColumns x ! nat seqno else noIndexColumn)"

definition insertIndexColumn ::
    "'d env \<Rightarrow> string \<Rightarrow> string \<Rightarrow> int \<Rightarrow> mysqlIndexMetadata option \<Rightarrow> string \<Rightarrow> int \<times> string option \<Rightarrow> ('d world, unit) io" where
  "insertIndexColumn env tableName indexName uniq m visible row =
     (case row of (seqno, columnName) \<Rightarrow>
        let cm = indexColumnMetadata m seqno;
            insertName' = (if icColumnName cm \<noteq> [] then icColumnName cm else (case columnName of Some n \<Rightarrow> n | None \<Rightarrow> []))
        in if columnName = None \<and> icExpression cm = [] then ret ()
           else andThen
             (if uniq \<noteq> 0 \<and> insertName' \<noteq> [] then
                insertInformationSchemaKeyColumn env indexName tableName insertName' (seqno + 1) None [] []
              else ret ()) (\<lambda>_.
             insertInformationSchemaStatisticWithMetadata env tableName indexName (boolInt (uniq = 0)) (seqno + 1) insertName'
               (icSubPart cm) visible (icExpression cm)))"

definition insertInformationSchemaIndexColumns ::
    "'d env \<Rightarrow> string list \<Rightarrow> string \<Rightarrow> string \<Rightarrow> string \<Rightarrow> int \<Rightarrow> ('d world, unit) io" where
  "insertInformationSchemaIndexColumns env keys tableName sqliteName indexName uniq =
     andThen (getState (\<lambda>w. lookupMySQLIndexMetadataBySQLiteName keys (mdata w) tableName sqliteName)) (\<lambda>m.
       let visible = (case m of Some x \<Rightarrow> if ixVisible x \<noteq> [] then ixVisible x else ''YES'' | None \<Rightarrow> ''YES'') in
       forRows env (''list sqlite index columns for information_schema.'' @ tableName @ ''.'' @ indexName)
         (''scan sqlite index column for information_schema.'' @ tableName @ ''.'' @ indexName) (pragma ''index_info'' sqliteName)
         scanIndexInfo (\<lambda>_ row. insertIndexColumn env tableName indexName uniq m visible row) ())"

definition insertInformationSchemaIndexes :: "'d env \<Rightarrow> string list \<Rightarrow> string \<Rightarrow> ('d world, unit) io" where
  "insertInformationSchemaIndexes env keys tableName =
     forRows env (''list sqlite indexes for information_schema.'' @ tableName)
       (''scan sqlite index for information_schema.'' @ tableName) (pragma ''index_list'' tableName) scanIndexEntry
       (\<lambda>_ (sqliteName, uniq, origin).
          if sqliteName = [] then ret ()
          else andThen (getState (\<lambda>w. lookupMySQLIndexMetadataBySQLiteName keys (mdata w) tableName sqliteName)) (\<lambda>m.
            let indexName = (case m of Some x \<Rightarrow> ixIndexName x | None \<Rightarrow> sqliteName) in
            andThen (if uniq \<noteq> 0 \<and> origin \<noteq> ''pk'' then insertInformationSchemaTableConstraint env indexName tableName ''UNIQUE''
                     else ret ()) (\<lambda>_.
            insertInformationSchemaIndexColumns env keys tableName sqliteName indexName uniq))) ()"

text \<open>A row of \<open>PRAGMA foreign_key_list\<close>.\<close>

record foreignKeyRow =
  fkId :: int
  fkSeq :: int
  fkRefTable :: string
  fkFrom :: string
  fkTo :: string
  fkOnUpdate :: string
  fkOnDelete :: string
  fkMatch :: string

definition scanForeignKey :: "goStd \<Rightarrow> goValue list \<Rightarrow> foreignKeyRow option" where
  "scanForeignKey s row =
     (case row of
        [i, sq', rt, f, t, u, d, m] \<Rightarrow> do {
          i' \<leftarrow> scanInt s i; q \<leftarrow> scanInt s sq'; rt' \<leftarrow> scanString s rt; f' \<leftarrow> scanString s f; t' \<leftarrow> scanString s t;
          u' \<leftarrow> scanString s u; d' \<leftarrow> scanString s d; m' \<leftarrow> scanString s m;
          Some \<lparr> fkId = i', fkSeq = q, fkRefTable = rt', fkFrom = f', fkTo = t', fkOnUpdate = u', fkOnDelete = d', fkMatch = m' \<rparr> }
      | _ \<Rightarrow> None)"

definition itoaInt :: "int \<Rightarrow> string" where
  "itoaInt i = (if i < 0 then CHR ''-'' # itoa (nat (- i)) else itoa (nat i))"

definition insertInformationSchemaForeignKeys :: "'d env \<Rightarrow> string \<Rightarrow> ('d world, unit) io" where
  "insertInformationSchemaForeignKeys env tableName =
     andThen (forRows env (''list sqlite foreign keys for information_schema.'' @ tableName)
       (''scan sqlite foreign key for information_schema.'' @ tableName) (pragma ''foreign_key_list'' tableName) scanForeignKey
       (\<lambda>inserted r.
          let constraintName = ''fk_'' @ tableName @ ''_'' @ itoaInt (fkId r) in
          andThen (if fkId r \<in> set inserted then ret inserted
            else andThen (insertInformationSchemaTableConstraint env constraintName tableName ''FOREIGN KEY'') (\<lambda>_.
                 andThen (insertInformationSchemaReferentialConstraint env constraintName tableName (fkRefTable r) (fkOnUpdate r)
                   (fkOnDelete r) (fkMatch r)) (\<lambda>_. ret (fkId r # inserted)))) (\<lambda>inserted'.
          andThen (insertInformationSchemaKeyColumn env constraintName tableName (fkFrom r) (fkSeq r + 1) (Some (fkSeq r + 1))
            (fkRefTable r) (fkTo r)) (\<lambda>_. ret inserted'))) [])
       (\<lambda>_. ret ())"

definition insertColumnRow ::
    "'d env \<Rightarrow> string \<Rightarrow> string \<Rightarrow> int \<times> string \<times> string \<times> int \<times> string option \<times> int \<Rightarrow> ('d world, unit) io" where
  "insertColumnRow env tableName createSQL row =
     (case row of (cid, columnName, declaredType, notNull, dflt, pk) \<Rightarrow>
        let (dataType, columnType) = informationSchemaColumnTypes declaredType in
        execWrapped env (''insert information_schema.columns row for '' @ tableName @ ''.'' @ columnName)
          (infoInsert ''columns''
             [''  (TABLE_CATALOG, TABLE_SCHEMA, TABLE_NAME, COLUMN_NAME, ORDINAL_POSITION,'',
              ''   COLUMN_DEFAULT, IS_NULLABLE, DATA_TYPE, COLUMN_TYPE, COLUMN_KEY, EXTRA)'']
             (sq # ''def'' @ sq # '', ?, ?, ?, ?, ?, ?, ?, ?, ?, ?''))
          (\<lambda>w. [dbOf w, text' tableName, text' columnName, int' (cid + 1),
                (case dflt of None \<Rightarrow> GoNil | Some d \<Rightarrow> mysqlColumnDefaultMetadataValue d),
                text' (if notNull \<noteq> 0 \<or> pk \<noteq> 0 then ''NO'' else ''YES''), text' dataType, text' columnType,
                text' (if pk \<noteq> 0 then ''PRI'' else []),
                text' (if pk \<noteq> 0 \<and> Contains (ToUpper createSQL) ''AUTOINCREMENT'' then ''auto_increment'' else [])]))"

definition insertInformationSchemaColumns :: "'d env \<Rightarrow> string \<Rightarrow> string \<Rightarrow> ('d world, unit) io" where
  "insertInformationSchemaColumns env tableName createSQL =
     forRows env (''list sqlite columns for information_schema.'' @ tableName)
       (''scan sqlite column for information_schema.'' @ tableName) (pragma ''table_info'' tableName) scanColumnRow
       (\<lambda>_ row. insertColumnRow env tableName createSQL row) ()"

definition insertInformationSchemaKeys :: "'d env \<Rightarrow> string list \<Rightarrow> string \<Rightarrow> ('d world, unit) io" where
  "insertInformationSchemaKeys env keys tableName =
     andThen (insertInformationSchemaPrimaryKeys env tableName) (\<lambda>_.
     andThen (insertInformationSchemaIndexes env keys tableName) (\<lambda>_.
     insertInformationSchemaForeignKeys env tableName))"

definition onStats :: "(statsStore \<Rightarrow> statsStore) \<Rightarrow> ('d world, unit) io" where
  "onStats f = putState (\<lambda>w. w\<lparr> stats := f (stats w) \<rparr>)"

definition insertInformationSchemaTableMetadata :: "'d env \<Rightarrow> string list \<Rightarrow> string \<Rightarrow> string \<Rightarrow> string \<Rightarrow> ('d world, unit) io" where
  "insertInformationSchemaTableMetadata env keys tableName tableType createSQL =
     andThen (insertInformationSchemaTable env tableName tableType) (\<lambda>_.
     andThen (insertInformationSchemaColumns env tableName createSQL) (\<lambda>_.
     andThen (insertInformationSchemaKeys env keys tableName) (\<lambda>_.
     onStats recordInformationSchemaTableLoaded)))"

subsection \<open>The schema tables\<close>

definition infoTable :: "string \<Rightarrow> string list \<Rightarrow> string" where
  \<open>infoTable name columns =
     ''CREATE TABLE IF NOT EXISTS "information_schema"."'' @ name @ ''" ('' @ nl #
     Join (map (\<lambda>c. tab # tab # tab # c) columns) ('','' @ [nl]) @ nl # tab # tab # '')''\<close>

definition infoTables :: "string list" where
  "infoTables =
     [infoTable ''schemata''
        [''CATALOG_NAME TEXT'', ''SCHEMA_NAME TEXT'', ''DEFAULT_CHARACTER_SET_NAME TEXT'', ''DEFAULT_COLLATION_NAME TEXT''],
      infoTable ''tables''
        [''TABLE_CATALOG TEXT'', ''TABLE_SCHEMA TEXT'', ''TABLE_NAME TEXT'', ''TABLE_TYPE TEXT'', ''ENGINE TEXT'', ''TABLE_COMMENT TEXT''],
      infoTable ''columns''
        [''TABLE_CATALOG TEXT'', ''TABLE_SCHEMA TEXT'', ''TABLE_NAME TEXT'', ''COLUMN_NAME TEXT'', ''ORDINAL_POSITION INTEGER'',
         ''COLUMN_DEFAULT TEXT'', ''IS_NULLABLE TEXT'', ''DATA_TYPE TEXT'', ''COLUMN_TYPE TEXT'', ''COLUMN_KEY TEXT'', ''EXTRA TEXT''],
      infoTable ''key_column_usage''
        [''CONSTRAINT_CATALOG TEXT'', ''CONSTRAINT_SCHEMA TEXT'', ''CONSTRAINT_NAME TEXT'', ''TABLE_SCHEMA TEXT'', ''TABLE_NAME TEXT'',
         ''COLUMN_NAME TEXT'', ''ORDINAL_POSITION INTEGER'', ''POSITION_IN_UNIQUE_CONSTRAINT INTEGER'',
         ''REFERENCED_TABLE_SCHEMA TEXT'', ''REFERENCED_TABLE_NAME TEXT'', ''REFERENCED_COLUMN_NAME TEXT''],
      infoTable ''statistics''
        [''TABLE_CATALOG TEXT'', ''TABLE_SCHEMA TEXT'', ''TABLE_NAME TEXT'', ''NON_UNIQUE INTEGER'', ''INDEX_SCHEMA TEXT'',
         ''INDEX_NAME TEXT'', ''SEQ_IN_INDEX INTEGER'', ''COLUMN_NAME TEXT'', ''INDEX_TYPE TEXT'', ''SUB_PART INTEGER'',
         ''VISIBLE TEXT'', ''EXPRESSION TEXT''],
      infoTable ''table_constraints''
        [''CONSTRAINT_CATALOG TEXT'', ''CONSTRAINT_SCHEMA TEXT'', ''CONSTRAINT_NAME TEXT'', ''TABLE_SCHEMA TEXT'', ''TABLE_NAME TEXT'',
         ''CONSTRAINT_TYPE TEXT''],
      infoTable ''referential_constraints''
        [''CONSTRAINT_CATALOG TEXT'', ''CONSTRAINT_SCHEMA TEXT'', ''CONSTRAINT_NAME TEXT'', ''UNIQUE_CONSTRAINT_CATALOG TEXT'',
         ''UNIQUE_CONSTRAINT_SCHEMA TEXT'', ''UNIQUE_CONSTRAINT_NAME TEXT'', ''MATCH_OPTION TEXT'', ''UPDATE_RULE TEXT'',
         ''DELETE_RULE TEXT'', ''TABLE_NAME TEXT'', ''REFERENCED_TABLE_NAME TEXT''],
      infoTable ''check_constraints''
        [''CONSTRAINT_CATALOG TEXT'', ''CONSTRAINT_SCHEMA TEXT'', ''CONSTRAINT_NAME TEXT'', ''CHECK_CLAUSE TEXT'']]"

definition infoIndex :: "string \<Rightarrow> string \<Rightarrow> string list \<Rightarrow> string" where
  \<open>infoIndex name table columns =
     ''CREATE INDEX IF NOT EXISTS "information_schema"."idx_information_schema_'' @ name @ ''" ON "'' @ table @ ''" ('' @
     Join columns '', '' @ '')''\<close>

definition infoIndexes :: "string list" where
  "infoIndexes =
     [infoIndex ''tables_name'' ''tables'' [''TABLE_SCHEMA'', ''TABLE_NAME''],
      infoIndex ''columns_table'' ''columns'' [''TABLE_SCHEMA'', ''TABLE_NAME'', ''ORDINAL_POSITION''],
      infoIndex ''columns_name'' ''columns'' [''TABLE_SCHEMA'', ''TABLE_NAME'', ''COLUMN_NAME''],
      infoIndex ''statistics_column'' ''statistics'' [''TABLE_SCHEMA'', ''TABLE_NAME'', ''COLUMN_NAME'', ''INDEX_NAME'', ''NON_UNIQUE''],
      infoIndex ''statistics_table'' ''statistics'' [''TABLE_SCHEMA'', ''TABLE_NAME'', ''INDEX_NAME'', ''SEQ_IN_INDEX''],
      infoIndex ''key_column_usage_table'' ''key_column_usage'' [''TABLE_SCHEMA'', ''TABLE_NAME'', ''COLUMN_NAME''],
      infoIndex ''table_constraints_table'' ''table_constraints'' [''TABLE_SCHEMA'', ''TABLE_NAME'', ''CONSTRAINT_NAME''],
      infoIndex ''referential_constraints_table'' ''referential_constraints'' [''CONSTRAINT_SCHEMA'', ''TABLE_NAME'', ''CONSTRAINT_NAME'']]"

definition createInformationSchemaTables :: "'d env \<Rightarrow> ('d world, unit) io" where
  "createInformationSchemaTables env =
     andThen (forEach (\<lambda>_ stmt. execWrapped env ''create information_schema table'' stmt (\<lambda>_. [])) () infoTables) (\<lambda>_.
     forEach (\<lambda>_ stmt. execWrapped env ''create information_schema index'' stmt (\<lambda>_. [])) () infoIndexes)"

text \<open>The rows of \<open>PRAGMA database_list\<close> up to the attached schema: whether it is there.\<close>

fun attached_loop :: "goStd \<Rightarrow> goValue list list \<Rightarrow> bool option" where
  "attached_loop s [] = Some False"
| "attached_loop s (row # rows) =
     (case row of
        [i, name, file] \<Rightarrow>
          (case (scanInt s i, scanString s name, scanString s file) of
             (Some _, Some n, Some _) \<Rightarrow> if EqualFold n ''information_schema'' then Some True else attached_loop s rows
           | _ \<Rightarrow> None)
      | _ \<Rightarrow> None)"

definition ensureInformationSchemaAttached :: "'d env \<Rightarrow> ('d world, unit) io" where
  \<open>ensureInformationSchemaAttached env =
     andThen (wrapError ''list sqlite databases'' (queryContext env ''PRAGMA database_list'' [])) (\<lambda>rows.
     andThen (wrapError ''scan sqlite database'' (orScanError (attached_loop (std env) (rowValues rows)))) (\<lambda>found.
       if found then ret ()
       else andThen (wrapError ''list sqlite databases'' (rowsErr rows)) (\<lambda>_.
         execWrapped env ''attach information_schema''
           (''ATTACH DATABASE '' @ sqlStringLiteral (infoDSN env) @ '' AS "information_schema"'') (\<lambda>_. []))))\<close>

definition prepareInformationSchema :: "'d env \<Rightarrow> ('d world, unit) io" where
  "prepareInformationSchema env = andThen (ensureInformationSchemaAttached env) (\<lambda>_. createInformationSchemaTables env)"

definition deleteInfo :: "string \<Rightarrow> string" where
  \<open>deleteInfo table = ''DELETE FROM "information_schema".'' @ quoteIdent table\<close>

definition clearInformationSchema :: "'d env \<Rightarrow> ('d world, unit) io" where
  "clearInformationSchema env =
     forEach (\<lambda>_ table. execWrapped env (''clear information_schema.'' @ table) (deleteInfo table) (\<lambda>_. [])) ()
       [''schemata'', ''tables'', ''columns'', ''key_column_usage'', ''statistics'', ''table_constraints'',
        ''referential_constraints'', ''check_constraints'']"

definition clearInformationSchemaTable :: "'d env \<Rightarrow> string \<Rightarrow> ('d world, unit) io" where
  "clearInformationSchemaTable env tableName =
     forEach (\<lambda>_ (table, schemaColumn). execWrapped env (''clear information_schema.'' @ table @ '' rows for '' @ tableName)
         (deleteInfo table @ '' WHERE '' @ schemaColumn @ '' = ? AND TABLE_NAME = ?'') (\<lambda>w. [dbOf w, text' tableName])) ()
       [(''tables'', ''TABLE_SCHEMA''), (''columns'', ''TABLE_SCHEMA''), (''key_column_usage'', ''TABLE_SCHEMA''),
        (''statistics'', ''TABLE_SCHEMA''), (''table_constraints'', ''TABLE_SCHEMA''),
        (''referential_constraints'', ''CONSTRAINT_SCHEMA'')]"

definition refreshInformationSchemaSchemata :: "'d env \<Rightarrow> ('d world, unit) io" where
  "refreshInformationSchemaSchemata env =
     andThen (execWrapped env ''clear information_schema.schemata'' (deleteInfo ''schemata'') (\<lambda>_. []))
       (\<lambda>_. insertInformationSchemaSchemata env)"

subsection \<open>Refreshing under a savepoint\<close>

definition infoSavepoint :: "string \<Rightarrow> string" where
  "infoSavepoint verb = verb @ '' mysqlmock_information_schema_refresh''"

text \<open>A statement whose outcome is ignored.\<close>

definition execIgnored :: "'d env \<Rightarrow> string \<Rightarrow> 'd world \<Rightarrow> 'd world" where
  "execIgnored env query w = snd (execContext env query [] w)"

definition withInformationSchemaRefreshBatch :: "'d env \<Rightarrow> ('d world, 'a) io \<Rightarrow> ('d world, 'a) io" where
  "withInformationSchemaRefreshBatch env refresh =
     andThen (execWrapped env ''start information_schema refresh batch'' (infoSavepoint ''SAVEPOINT'') (\<lambda>_. [])) (\<lambda>_.
       onError
         (andThen refresh (\<lambda>x.
          andThen (execWrapped env ''release information_schema refresh batch'' (infoSavepoint ''RELEASE SAVEPOINT'') (\<lambda>_. []))
            (\<lambda>_. ret x)))
         (\<lambda>w. execIgnored env (infoSavepoint ''RELEASE SAVEPOINT'') (execIgnored env (infoSavepoint ''ROLLBACK TO SAVEPOINT'') w)))"

definition onInfo :: "(informationSchemaCache \<Rightarrow> informationSchemaCache) \<Rightarrow> ('d world, unit) io" where
  "onInfo f = putState (\<lambda>w. w\<lparr> infoSchema := f (infoSchema w) \<rparr>)"

text \<open>The two or three columns of \<open>sqlite_master\<close> the refreshes read.\<close>

definition scanMaster :: "goStd \<Rightarrow> goValue list \<Rightarrow> (string \<times> string \<times> string) option" where
  "scanMaster s row =
     (case row of
        [t, n, c] \<Rightarrow> do { t' \<leftarrow> scanString s t; n' \<leftarrow> scanString s n;
                         Some (t', n', (case scanNullString s c of None \<Rightarrow> [] | Some x \<Rightarrow> x)) }
      | [t, n] \<Rightarrow> do { t' \<leftarrow> scanString s t; n' \<leftarrow> scanString s n; Some (t', n', []) }
      | _ \<Rightarrow> None)"

definition masterQuery :: "string \<Rightarrow> string list \<Rightarrow> string" where
  "masterQuery columns conditions =
     sqlLines ([[], ''SELECT '' @ columns, ''FROM main.sqlite_master'',
       ''WHERE type IN ('' @ sq # ''table'' @ sq # '', '' @ sq # ''view'' @ sq # '')''] @ conditions)"

definition notInternal :: string where "notInternal = ''  AND name NOT LIKE '' @ sq # ''sqlite_%'' @ [sq]"

definition refreshInformationSchema :: "'d env \<Rightarrow> string list \<Rightarrow> ('d world, unit) io" where
  "refreshInformationSchema env keys =
     andThen (getState schemaVersion) (\<lambda>version.
     andThen (prepareInformationSchema env) (\<lambda>_.
     andThen (getState (\<lambda>w. hasFullRefresh (infoSchema w) version)) (\<lambda>fresh.
       if fresh then onStats recordInformationSchemaFullRefreshCacheHit
       else andThen (withInformationSchemaRefreshBatch env
           (andThen (clearInformationSchema env) (\<lambda>_.
            andThen (refreshInformationSchemaSchemata env) (\<lambda>_.
            forRows env ''list sqlite tables for information_schema'' ''scan sqlite table for information_schema''
              (masterQuery ''type, name, sql'' [notInternal, ''ORDER BY name'']) scanMaster
              (\<lambda>_ (tableType, tableName, createSQL). insertInformationSchemaTableMetadata env keys tableName tableType createSQL) ())))) (\<lambda>_.
         andThen (onStats recordInformationSchemaFullRefresh) (\<lambda>_. onInfo (markFullRefresh version))))))"

definition refreshInformationSchemaSchemataOnly :: "'d env \<Rightarrow> ('d world, unit) io" where
  "refreshInformationSchemaSchemataOnly env =
     andThen (getState schemaVersion) (\<lambda>version.
     andThen (prepareInformationSchema env) (\<lambda>_.
     andThen (getState (\<lambda>w. hasSchemataRefresh (infoSchema w) version)) (\<lambda>fresh.
       if fresh then ret ()
       else andThen (withInformationSchemaRefreshBatch env (refreshInformationSchemaSchemata env))
              (\<lambda>_. onInfo (markSchemataRefresh version)))))"

definition refreshInformationSchemaTableList :: "'d env \<Rightarrow> ('d world, unit) io" where
  "refreshInformationSchemaTableList env =
     andThen (getState schemaVersion) (\<lambda>version.
     andThen (prepareInformationSchema env) (\<lambda>_.
     andThen (getState (\<lambda>w. hasTableListRefresh (infoSchema w) version)) (\<lambda>fresh.
       if fresh then ret ()
       else andThen (withInformationSchemaRefreshBatch env
           (andThen (refreshInformationSchemaSchemata env) (\<lambda>_.
            andThen (execWrapped env ''clear information_schema.tables'' (deleteInfo ''tables'') (\<lambda>_. [])) (\<lambda>_.
            forRows env ''list sqlite tables for information_schema'' ''scan sqlite table for information_schema''
              (masterQuery ''type, name'' [notInternal, ''ORDER BY name'']) scanMaster
              (\<lambda>_ (tableType, tableName, _).
                 andThen (insertInformationSchemaTable env tableName tableType) (\<lambda>_. onStats recordInformationSchemaTableLoaded)) ()))))
         (\<lambda>_. onInfo (markTableListRefresh version)))))"

definition informationSchemaCachedTableExists :: "'d env \<Rightarrow> string \<Rightarrow> ('d world, bool) io" where
  \<open>informationSchemaCachedTableExists env tableName =
     andThen (getState dbOf) (\<lambda>d.
     andThen (queryContext env
         (sqlLines [[], ''SELECT COUNT(*)'', ''FROM "information_schema"."tables"'', ''WHERE TABLE_SCHEMA = ?'', ''  AND TABLE_NAME = ?''])
         [d, text' tableName]) (\<lambda>rows.
       case rowValues rows of
         [] \<Rightarrow> andThen (rowsErr rows) (\<lambda>_. fail (Driver ''sql: no rows in result set''))
       | [v] # _ \<Rightarrow> andThen (orScanError (scanInt (std env) v)) (\<lambda>count. ret (count > 0))
       | _ \<Rightarrow> fail scanError))\<close>

text \<open>The type and text of one table; \<open>None\<close>: there is no such table.\<close>

definition loadTable :: "'d env \<Rightarrow> string \<Rightarrow> ('d world, (string \<times> string) option) io" where
  "loadTable env tableName =
     wrapError (''load sqlite table for information_schema.'' @ tableName)
       (andThen (queryContext env (masterQuery ''type, sql'' [''  AND name = ?'', notInternal]) [text' tableName]) (\<lambda>rows.
          case rowValues rows of
            [] \<Rightarrow> andThen (rowsErr rows) (\<lambda>_. ret None)
          | [t, c] # _ \<Rightarrow> andThen (orScanError (scanString (std env) t)) (\<lambda>tableType.
              ret (Some (tableType, (case scanNullString (std env) c of None \<Rightarrow> [] | Some x \<Rightarrow> x))))
          | _ \<Rightarrow> fail scanError))"

definition refreshInformationSchemaTable :: "'d env \<Rightarrow> string list \<Rightarrow> string \<Rightarrow> ('d world, bool) io" where
  "refreshInformationSchemaTable env keys tableName =
     andThen (getState schemaVersion) (\<lambda>version.
     andThen (prepareInformationSchema env) (\<lambda>_.
     andThen (getState (\<lambda>w. (cachedTableExists (infoSchema w) tableName version, hasFullRefresh (infoSchema w) version))) (\<lambda>(known, fresh).
       case known of
         Some there \<Rightarrow> andThen (onStats recordInformationSchemaTargetTableCacheHit) (\<lambda>_. ret there)
       | None \<Rightarrow>
           if fresh then andThen (onStats recordInformationSchemaTargetTableCacheHit) (\<lambda>_. informationSchemaCachedTableExists env tableName)
           else andThen (withInformationSchemaRefreshBatch env
               (andThen (refreshInformationSchemaSchemata env) (\<lambda>_.
                andThen (clearInformationSchemaTable env tableName) (\<lambda>_.
                andThen (loadTable env tableName) (\<lambda>found. case found of
                    None \<Rightarrow> ret False
                  | Some (tableType, createSQL) \<Rightarrow>
                      andThen (insertInformationSchemaTableMetadata env keys tableName tableType createSQL) (\<lambda>_. ret True)))))) (\<lambda>there.
             andThen (onStats (recordInformationSchemaTargetTableRefresh there)) (\<lambda>_.
             andThen (onInfo (markTable tableName version there)) (\<lambda>_. ret there))))))"

definition refreshInformationSchemaForQuery :: "'d env \<Rightarrow> string list \<Rightarrow> string \<Rightarrow> ('d world, unit) io" where
  "refreshInformationSchemaForQuery env keys sqlText =
     (case informationSchemaBroadRefreshScope sqlText of
        ScopeSchemata \<Rightarrow> refreshInformationSchemaSchemataOnly env
      | ScopeTableList \<Rightarrow> refreshInformationSchemaTableList env
      | ScopeFull \<Rightarrow> refreshInformationSchema env keys)"

subsection \<open>Answering a query\<close>

definition cachedTranslation :: "string \<Rightarrow> ('d world, string) io" where
  "cachedTranslation sqlText w =
     (case translateSQLCached (sqlCache w) sqlText of
        None \<Rightarrow> (Inl Panicked, w)
      | Some (translated, c) \<Rightarrow> (Inr translated, w\<lparr> sqlCache := c \<rparr>))"

definition queryInformationSchemaText :: "'d env \<Rightarrow> string list \<Rightarrow> string \<Rightarrow> bool \<Rightarrow> goValue list \<Rightarrow> ('d world, queryReply) io" where
  "queryInformationSchemaText env keys sqlText stream args =
     (let target = informationSchemaTargetTable sqlText args; cacheable = isInformationSchemaResultCacheable sqlText in
      andThen (onStats (case target of Inr _ \<Rightarrow> recordInformationSchemaQuery True [] | Inl why \<Rightarrow> recordInformationSchemaQuery False why)) (\<lambda>_.
      andThen (getState (\<lambda>w. (schemaVersion w, currentDB (sess w)))) (\<lambda>(version, dbName).
      andThen (cachedTranslation (rewriteInformationSchemaSQL sqlText dbName)) (\<lambda>query.
      let cacheKey = informationSchemaQueryCacheKey (fmtArg env) dbName query args in
      andThen (getState (\<lambda>w. if cacheable then queryResult (infoSchema w) cacheKey version else None)) (\<lambda>cached.
        case cached of
          Some rs \<Rightarrow> ret (Materialized rs)
        | None \<Rightarrow>
            andThen (case target of
                Inr tableName \<Rightarrow> andThen (refreshInformationSchemaTable env keys tableName) (\<lambda>_. ret ())
              | Inl _ \<Rightarrow> refreshInformationSchemaForQuery env keys sqlText) (\<lambda>_.
            if \<not> cacheable then querySQLiteText env query stream args
            else andThen (querySQLite env query args) (\<lambda>result.
              andThen (onInfo (markQueryResult cacheKey version result)) (\<lambda>_. ret (Materialized result)))))))))"

end
