(* ===== verification/Show_Compat.thy ===== *)
theory Show_Compat
  imports Information_Schema
begin

text \<open>
  The \<open>SHOW\<close> statements (\<open>pkg/mysqlmock/active_record_compat.go\<close>): how they are read, the \<open>LIKE\<close> matcher of their
  patterns, and the results built from SQLite's catalogue and the schema caches.
\<close>

subsection \<open>Reading the statements\<close>

definition isShowFullFieldsQuery :: "string \<Rightarrow> bool" where
  "isShowFullFieldsQuery upperSQL =
     (HasPrefix upperSQL ''SHOW FULL FIELDS FROM '' \<or> HasPrefix upperSQL ''SHOW FULL COLUMNS FROM '' \<or>
      HasPrefix upperSQL ''SHOW FIELDS FROM '' \<or> HasPrefix upperSQL ''SHOW COLUMNS FROM '')"

definition isShowCreateTableQuery :: "string \<Rightarrow> bool" where
  "isShowCreateTableQuery upperSQL = HasPrefix upperSQL ''SHOW CREATE TABLE ''"

definition isShowKeysQuery :: "string \<Rightarrow> bool" where
  "isShowKeysQuery upperSQL =
     (HasPrefix upperSQL ''SHOW KEYS FROM '' \<or> HasPrefix upperSQL ''SHOW INDEX FROM '' \<or> HasPrefix upperSQL ''SHOW INDEXES FROM '')"

definition readSQLValueToken :: "string \<Rightarrow> nat \<Rightarrow> (string \<times> nat) option" where
  "readSQLValueToken sqlText pos0 =
     (let pos = skipSQLSpaces sqlText pos0 in
      case consumeSQLValue sqlText pos of None \<Rightarrow> None | Some e \<Rightarrow> Some (gslice sqlText pos e, e))"

text \<open>The table and the pattern; no \<open>LIKE\<close> is the empty pattern.\<close>

definition parseShowFullFields :: "string \<Rightarrow> (string \<times> string) option" where
  "parseShowFullFields sqlText = do {
     p1 \<leftarrow> consumeKeyword sqlText 0 ''SHOW'';
     let p2 = consumeOptional sqlText p1 ''FULL'';
     p3 \<leftarrow> consumeEither sqlText p2 ''FIELDS'' ''COLUMNS'';
     p4 \<leftarrow> consumeKeyword sqlText p3 ''FROM'';
     (tableName, p5) \<leftarrow> readSQLQualifiedName sqlText p4;
     (case consumeKeyword sqlText p5 ''LIKE'' of
        None \<Rightarrow> Some (tableName, [])
      | Some p6 \<Rightarrow> map_option (\<lambda>(v, _). (tableName, unquoteSQLWord v)) (readSQLValueToken sqlText p6)) }"

definition parseShowCreateTable :: "string \<Rightarrow> string option" where
  "parseShowCreateTable sqlText = do {
     p1 \<leftarrow> consumeKeyword sqlText 0 ''SHOW'';
     p2 \<leftarrow> consumeKeyword sqlText p1 ''CREATE'';
     p3 \<leftarrow> consumeKeyword sqlText p2 ''TABLE'';
     map_option fst (readSQLQualifiedName sqlText p3) }"

definition parseShowKeys :: "string \<Rightarrow> string option" where
  "parseShowKeys sqlText = do {
     p1 \<leftarrow> consumeKeyword sqlText 0 ''SHOW'';
     p2 \<leftarrow> (case consumeEither sqlText p1 ''KEYS'' ''INDEX'' of Some p \<Rightarrow> Some p | None \<Rightarrow> consumeKeyword sqlText p1 ''INDEXES'');
     p3 \<leftarrow> consumeKeyword sqlText p2 ''FROM'';
     map_option fst (readSQLQualifiedName sqlText p3) }"

subsection \<open>LIKE\<close>

definition equalASCIIFoldByte :: "char \<Rightarrow> char \<Rightarrow> bool" where
  "equalASCIIFoldByte a b = (lower_byte a = lower_byte b)"

text \<open>Where a run of percent signs ends.\<close>

function percent_end :: "string \<Rightarrow> nat \<Rightarrow> nat" where
  "percent_end pattern p =
     (if p < length pattern \<and> pattern ! p = CHR ''%'' then percent_end pattern (p + 1) else p)"
  by pat_completeness auto
termination by (relation "measure (\<lambda>(s, p). length s - p)") auto

declare percent_end.simps [simp del]

lemma percent_end_ge: "p \<le> percent_end pattern p"
  by (induction pattern p rule: percent_end.induct) (subst percent_end.simps, auto)

lemma percent_end_gt: "p < length pattern \<Longrightarrow> pattern ! p = CHR ''%'' \<Longrightarrow> p < percent_end pattern p"
  by (subst percent_end.simps) (use percent_end_ge [of "p + 1" pattern] in simp)

function sqlLikeMatchAt :: "string \<Rightarrow> string \<Rightarrow> nat \<Rightarrow> nat \<Rightarrow> bool" where
  "sqlLikeMatchAt v pattern valuePos patternPos =
     (if patternPos \<ge> length pattern then valuePos = length v
      else if pattern ! patternPos = CHR ''%'' then
        (let p = percent_end pattern patternPos in
         if p = length pattern then True
         else list_ex (\<lambda>i. sqlLikeMatchAt v pattern i p) [valuePos..<Suc (length v)])
      else if pattern ! patternPos = CHR ''_'' then
        (if valuePos \<ge> length v then False else sqlLikeMatchAt v pattern (valuePos + 1) (patternPos + 1))
      else
        (if valuePos \<ge> length v \<or> \<not> equalASCIIFoldByte (v ! valuePos) (pattern ! patternPos) then False
         else sqlLikeMatchAt v pattern (valuePos + 1) (patternPos + 1)))"
  by pat_completeness auto
termination
  by (relation "measure (\<lambda>(v, s, i, p). length s - p)") (auto intro!: diff_less_mono2 simp: percent_end_gt not_le)

declare sqlLikeMatchAt.simps [simp del]

definition sqlLikeMatch :: "string \<Rightarrow> string \<Rightarrow> bool" where
  "sqlLikeMatch v pattern = sqlLikeMatchAt v pattern 0 0"

text \<open>What a pattern means: a percent sign stands for any text, an underscore for any byte, other bytes for themselves in either case.\<close>

fun likes :: "string \<Rightarrow> string \<Rightarrow> bool" where
  "likes v [] = (v = [])"
| "likes v (c # p) =
     (if c = CHR ''%'' then (\<exists>a b. v = a @ b \<and> likes b p)
      else (case v of [] \<Rightarrow> False | x # xs \<Rightarrow> (c = CHR ''_'' \<or> lower_byte x = lower_byte c) \<and> likes xs p))"

lemma percent_end_run:
  "p \<le> length pattern \<Longrightarrow> percent_end pattern p \<le> length pattern \<and>
   drop p pattern = replicate (percent_end pattern p - p) (CHR ''%'') @ drop (percent_end pattern p) pattern"
proof (induction pattern p rule: percent_end.induct)
  case (1 pattern p)
  show ?case
  proof (cases "p < length pattern \<and> pattern ! p = CHR ''%''")
    case True
    then have e: "percent_end pattern p = percent_end pattern (p + 1)" by (subst percent_end.simps) simp
    have "drop p pattern = CHR ''%'' # drop (p + 1) pattern" using True by (simp add: Cons_nth_drop_Suc [symmetric])
    moreover have "p + 1 \<le> percent_end pattern (p + 1)" by (rule percent_end_ge)
    then have "percent_end pattern (p + 1) - p = Suc (percent_end pattern (p + 1) - (p + 1))" by simp
    ultimately show ?thesis using 1 True by (simp add: e)
  next
    case False
    then have "percent_end pattern p = p" by (subst percent_end.simps) auto
    with 1 show ?thesis by simp
  qed
qed

lemma likes_percent: "likes v (CHR ''%'' # p) = (\<exists>i \<le> length v. likes (drop i v) p)"
proof
  assume "likes v (CHR ''%'' # p)"
  then obtain a b where "v = a @ b" "likes b p" by auto
  then show "\<exists>i \<le> length v. likes (drop i v) p" by (intro exI [of _ "length a"]) simp
next
  assume "\<exists>i \<le> length v. likes (drop i v) p"
  then obtain i where "likes (drop i v) p" by auto
  then show "likes v (CHR ''%'' # p)" by simp (metis append_take_drop_id)
qed

lemma likes_percents: "likes v (replicate (Suc n) (CHR ''%'') @ p) = likes v (CHR ''%'' # p)"
proof (induction n arbitrary: v)
  case (Suc n)
  have "likes v (replicate (Suc (Suc n)) (CHR ''%'') @ p) = (\<exists>i \<le> length v. likes (drop i v) (CHR ''%'' # p))"
    using Suc.IH by (simp only: replicate_Suc append_Cons likes_percent)
  also have "\<dots> = likes v (CHR ''%'' # p)"
  proof
    assume "\<exists>i \<le> length v. likes (drop i v) (CHR ''%'' # p)"
    then obtain i j where "i \<le> length v" "j \<le> length v - i" "likes (drop (i + j) v) p"
      by (auto simp only: likes_percent length_drop drop_drop add.commute)
    then show "likes v (CHR ''%'' # p)" unfolding likes_percent by (intro exI [of _ "i + j"]) simp
  next
    assume "likes v (CHR ''%'' # p)"
    then show "\<exists>i \<le> length v. likes (drop i v) (CHR ''%'' # p)" by (intro exI [of _ 0]) simp
  qed
  finally show ?case .
qed simp

lemma sqlLikeMatchAt_likes:
  "i \<le> length v \<Longrightarrow> j \<le> length pattern \<Longrightarrow> sqlLikeMatchAt v pattern i j = likes (drop i v) (drop j pattern)"
proof (induction v pattern i j rule: sqlLikeMatchAt.induct)
  case (1 v pattern i j)
  show ?case
  proof (cases "j < length pattern")
    case False
    then show ?thesis using 1 by (subst sqlLikeMatchAt.simps) auto
  next
    case True
    then have d: "drop j pattern = pattern ! j # drop (Suc j) pattern" by (simp add: Cons_nth_drop_Suc)
    show ?thesis
    proof (cases "pattern ! j = CHR ''%''")
      case pct: True
      let ?p = "percent_end pattern j"
      have run: "?p \<le> length pattern" "drop j pattern = replicate (?p - j) (CHR ''%'') @ drop ?p pattern" and gt: "j < ?p"
        using percent_end_run [of j pattern] percent_end_gt [OF True pct] True by simp_all
      have r: "likes (drop i v) (drop j pattern) = likes (drop i v) (CHR ''%'' # drop ?p pattern)"
      proof -
        have "?p - j = Suc (?p - j - 1)" using gt by simp
        with run(2) have "drop j pattern = replicate (Suc (?p - j - 1)) (CHR ''%'') @ drop ?p pattern" by simp
        then show ?thesis by (simp only: likes_percents)
      qed
      show ?thesis
      proof (cases "?p = length pattern")
        case end': True
        have "likes (drop i v) (drop j pattern)" unfolding r likes_percent
          by (intro exI [of _ "length v - i"]) (simp add: end' 1)
        with True pct end' show ?thesis by (subst sqlLikeMatchAt.simps) simp
      next
        case False
        have "sqlLikeMatchAt v pattern i j = list_ex (\<lambda>k. sqlLikeMatchAt v pattern k ?p) [i..<Suc (length v)]"
          using True pct False by (subst sqlLikeMatchAt.simps) (simp add: Let_def)
        also have "\<dots> = (\<exists>k \<in> {i..<Suc (length v)}. likes (drop k v) (drop ?p pattern))"
        proof -
          have "sqlLikeMatchAt v pattern k ?p = likes (drop k v) (drop ?p pattern)" if "k \<in> {i..<Suc (length v)}" for k
          proof -
            have "k \<in> set [i..<Suc (length v)]" "k \<le> length v" using that by (simp_all only: set_upt) simp
            with "1.IH"(1) [of ?p k] True pct False run(1) show ?thesis by (simp only: not_le not_False_eq_True simp_thms)
          qed
          then show ?thesis by (simp only: list_ex_iff set_upt cong: bex_cong)
        qed
        also have "\<dots> = (\<exists>n \<le> length (drop i v). likes (drop n (drop i v)) (drop ?p pattern))"
        proof
          assume "\<exists>k \<in> {i..<Suc (length v)}. likes (drop k v) (drop ?p pattern)"
          then obtain k where "i \<le> k" "k \<le> length v" "likes (drop k v) (drop ?p pattern)" by auto
          then show "\<exists>n \<le> length (drop i v). likes (drop n (drop i v)) (drop ?p pattern)"
            by (intro exI [of _ "k - i"]) simp
        next
          assume "\<exists>n \<le> length (drop i v). likes (drop n (drop i v)) (drop ?p pattern)"
          then obtain n where "n \<le> length v - i" "likes (drop (i + n) v) (drop ?p pattern)" by (auto simp: add.commute)
          then show "\<exists>k \<in> {i..<Suc (length v)}. likes (drop k v) (drop ?p pattern)" using "1.prems"
            by (intro bexI [of _ "i + n"]) auto
        qed
        finally show ?thesis by (simp only: r likes_percent)
      qed
    next
      case np: False
      show ?thesis
      proof (cases "i < length v")
        case iv: True
        then have dv: "drop i v = v ! i # drop (Suc i) v" by (simp add: Cons_nth_drop_Suc)
        have IH: "pattern ! j = CHR ''_'' \<or> equalASCIIFoldByte (v ! i) (pattern ! j) \<Longrightarrow>
            sqlLikeMatchAt v pattern (i + 1) (j + 1) = likes (drop (Suc i) v) (drop (Suc j) pattern)"
          using "1.IH"(2,3) True np iv by auto
        show ?thesis using True np iv IH
          by (subst sqlLikeMatchAt.simps) (auto simp: d dv equalASCIIFoldByte_def)
      next
        case False
        then show ?thesis using True np by (subst sqlLikeMatchAt.simps) (simp add: d)
      qed
    qed
  qed
qed

text \<open>
  C27: the \<open>LIKE\<close> matcher, with its backtracking over positions and its skipping of repeated percent signs, ends on every
  value and pattern and accepts exactly the texts that \<open>LIKE\<close> without an escape character accepts.
\<close>

theorem sqlLikeMatch_correct: "sqlLikeMatch v pattern = likes v pattern"
  by (simp add: sqlLikeMatch_def sqlLikeMatchAt_likes)

subsection \<open>SHOW TABLES\<close>

text \<open>Errors of the server itself: the configured error for unsupported statements is an argument.\<close>

definition noSuchTable :: "string \<Rightarrow> ('d world, 'a) io" where
  "noSuchTable tableName w =
     (Inl (Mysql (errPacket 1146 ''42S02'' (''Table '' @ [sq] @ currentDB (sess w) @ ''.'' @ tableName @ [sq] @ '' doesn'' @ [sq] @ ''t exist''))), w)"

definition showTables :: "'d env \<Rightarrow> ('d world, resultSet) io" where
  "showTables env =
     andThen (querySQLite env (''SELECT name FROM sqlite_master WHERE type = '' @ sq # ''table'' @ sq # '' AND name NOT LIKE '' @
         sq # ''sqlite_%'' @ sq # '' ORDER BY name'') []) (\<lambda>rs.
       getState (\<lambda>w. case Columns rs of
           [c] \<Rightarrow> rs\<lparr> Columns := [c\<lparr> Name := ascii (''Tables_in_'' @ currentDB (sess w)) \<rparr>] \<rparr>
         | _ \<Rightarrow> rs))"

subsection \<open>SHOW FULL FIELDS\<close>

record showFullFieldColumn =
  sfName :: string
  sfDataType :: string
  sfColumnType :: string
  sfIsNullable :: string
  sfColumnKey :: string
  sfDefaultVal :: goValue
  sfExtra :: string

definition varColumn :: "string \<Rightarrow> resultColumn" where
  "varColumn name = \<lparr> Name = ascii name, Type = fieldTypeVarString, ZeroFillWidth = 0 \<rparr>"

definition showFullFieldsResultColumns :: "resultColumn list" where
  "showFullFieldsResultColumns =
     map varColumn [''Field'', ''Type'', ''Collation'', ''Null'', ''Key'', ''Default'', ''Extra'', ''Privileges'', ''Comment'']"

definition columnUsesTextCollation :: "string \<Rightarrow> string \<Rightarrow> bool" where
  "columnUsesTextCollation dataType columnType =
     (dataType = ''text'' \<or> dataType = ''varchar'' \<or> dataType = ''char'' \<or> Contains columnType ''char'')"

definition showFullFieldColumnKey :: "string \<Rightarrow> string" where
  "showFullFieldColumnKey columnName = ToLower columnName"

definition showColumnOf :: "string \<Rightarrow> int \<times> string \<times> string \<times> int \<times> string option \<times> int \<Rightarrow> showFullFieldColumn" where
  "showColumnOf createSQL row =
     (case row of (cid, columnName, declaredType, notNull, dflt, pk) \<Rightarrow>
        let (dataType, columnType) = informationSchemaColumnTypes declaredType in
        \<lparr> sfName = columnName, sfDataType = dataType, sfColumnType = columnType,
          sfIsNullable = (if notNull \<noteq> 0 \<or> pk \<noteq> 0 then ''NO'' else ''YES''),
          sfColumnKey = (if pk \<noteq> 0 then ''PRI'' else []),
          sfDefaultVal = (case dflt of None \<Rightarrow> GoNil | Some d \<Rightarrow> mysqlColumnDefaultMetadataValue d),
          sfExtra = (if pk \<noteq> 0 \<and> Contains (ToUpper createSQL) ''AUTOINCREMENT'' then ''auto_increment'' else []) \<rparr>)"

definition showFullFieldColumns :: "'d env \<Rightarrow> string \<Rightarrow> string \<Rightarrow> ('d world, showFullFieldColumn list) io" where
  "showFullFieldColumns env tableName createSQL =
     andThen (queryContext env (pragma ''table_info'' tableName) []) (\<lambda>rows.
     andThen (orScanError (mapOption (scanColumnRow (std env)) (rowValues rows))) (\<lambda>columns.
     andThen (rowsErr rows) (\<lambda>_. ret (map (showColumnOf createSQL) columns))))"

text \<open>The key mark of a column after one more index column.\<close>

definition markKey :: "int \<Rightarrow> string option \<Rightarrow> string" where
  "markKey uniq current =
     (let c = (case current of None \<Rightarrow> [] | Some k \<Rightarrow> k) in
      if c = ''PRI'' \<or> c = ''UNI'' then c else if uniq \<noteq> 0 then ''UNI'' else if c = [] then ''MUL'' else c)"

definition addIndexColumnKey ::
    "mysqlIndexMetadata option \<Rightarrow> int \<Rightarrow> (string \<rightharpoonup> string) \<Rightarrow> int \<times> string option \<Rightarrow> (string \<rightharpoonup> string)" where
  "addIndexColumnKey m uniq keys row =
     (case row of (seqno, columnName) \<Rightarrow>
        let mn = icColumnName (indexColumnMetadata m seqno);
            name = (if mn \<noteq> [] then mn else (case columnName of Some n \<Rightarrow> n | None \<Rightarrow> []))
        in if name = [] then keys
           else keys(showFullFieldColumnKey name \<mapsto> markKey uniq (keys (showFullFieldColumnKey name))))"

definition addShowFullFieldIndexKeys ::
    "'d env \<Rightarrow> string list \<Rightarrow> (string \<rightharpoonup> string) \<Rightarrow> string \<Rightarrow> string \<Rightarrow> int \<Rightarrow> ('d world, string \<rightharpoonup> string) io" where
  "addShowFullFieldIndexKeys env keyOrder keys tableName sqliteName uniq =
     andThen (getState (\<lambda>w. lookupMySQLIndexMetadataBySQLiteName keyOrder (mdata w) tableName sqliteName)) (\<lambda>m.
     andThen (queryContext env (pragma ''index_info'' sqliteName) []) (\<lambda>rows.
     andThen (orScanError (mapOption (scanIndexInfo (std env)) (rowValues rows))) (\<lambda>cols.
     andThen (rowsErr rows) (\<lambda>_. ret (foldl (addIndexColumnKey m uniq) keys cols)))))"

definition showFullFieldIndexKeys :: "'d env \<Rightarrow> string list \<Rightarrow> string \<Rightarrow> ('d world, string \<rightharpoonup> string) io" where
  "showFullFieldIndexKeys env keyOrder tableName =
     andThen (queryContext env (pragma ''index_list'' tableName) []) (\<lambda>rows.
     andThen (forEach (\<lambda>keys row. andThen (orScanError (scanIndexEntry (std env) row)) (\<lambda>(name, uniq, _).
         if name = [] then ret keys else addShowFullFieldIndexKeys env keyOrder keys tableName name uniq)) Map.empty (rowValues rows)) (\<lambda>keys.
     andThen (rowsErr rows) (\<lambda>_. ret keys)))"

definition showFieldRow :: "string \<Rightarrow> (string \<rightharpoonup> string) \<Rightarrow> showFullFieldColumn \<Rightarrow> goValue list" where
  "showFieldRow collation keys column =
     [text' (sfName column), text' (sfColumnType column),
      (if columnUsesTextCollation (sfDataType column) (sfColumnType column) then text' collation else GoNil),
      text' (sfIsNullable column),
      text' (case keys (showFullFieldColumnKey (sfName column)) of
               Some k \<Rightarrow> if sfColumnKey column \<noteq> ''PRI'' then k else sfColumnKey column
             | None \<Rightarrow> sfColumnKey column),
      sfDefaultVal column, text' (sfExtra column), text' ''select,insert,update,references'', text' []]"

definition showFullFieldsDirect :: "'d env \<Rightarrow> string list \<Rightarrow> string \<Rightarrow> string \<Rightarrow> ('d world, resultSet) io" where
  "showFullFieldsDirect env keyOrder tableName likePattern =
     andThen (queryNullString env (masterQuery ''sql'' [''  AND name = ?'', notInternal]) [text' tableName]) (\<lambda>found. case found of
         None \<Rightarrow> noSuchTable tableName
       | Some createSQL \<Rightarrow>
           andThen (showFullFieldColumns env tableName (case createSQL of Some t \<Rightarrow> t | None \<Rightarrow> [])) (\<lambda>columns.
           andThen (showFullFieldIndexKeys env keyOrder tableName) (\<lambda>keys.
           andThen (getState (\<lambda>w. collationConnection (sess w))) (\<lambda>collation.
             ret \<lparr> Columns = showFullFieldsResultColumns,
                   Rows = map (showFieldRow collation keys)
                     (filter (\<lambda>column. likePattern = [] \<or> sqlLikeMatch (sfName column) likePattern) columns) \<rparr>))))"

definition showFullFields :: "'d env \<Rightarrow> (string \<Rightarrow> mysqlError) \<Rightarrow> string list \<Rightarrow> string \<Rightarrow> ('d world, resultSet) io" where
  "showFullFields env refuse keyOrder sqlText =
     andThen (onStats recordShowFullFieldsQuery) (\<lambda>_. case parseShowFullFields sqlText of
         None \<Rightarrow> fail (Mysql (refuse sqlText))
       | Some (tableName, likePattern) \<Rightarrow>
           andThen (getState (\<lambda>w. (schemaVersion w, currentDB (sess w), collationConnection (sess w),
               showFullFieldsResult (infoSchema w) (currentDB (sess w)) tableName likePattern (collationConnection (sess w)) (schemaVersion w))))
             (\<lambda>(version, dbName, collation, cached). case cached of
                Some rs \<Rightarrow> ret rs
              | None \<Rightarrow> andThen (showFullFieldsDirect env keyOrder tableName likePattern) (\<lambda>result.
                  andThen (onInfo (markShowFullFieldsResult dbName tableName likePattern collation version result)) (\<lambda>_. ret result))))"

subsection \<open>SHOW CREATE TABLE and SHOW KEYS\<close>

definition compatVars :: "'d env \<Rightarrow> string \<rightharpoonup> string" where
  "compatVars env = (case Variables (compat env) of None \<Rightarrow> Map.empty | Some m \<Rightarrow> m)"

definition mysqlShowCreateTableSQL :: "(string \<rightharpoonup> string) \<Rightarrow> session \<Rightarrow> string \<Rightarrow> string" where
  "mysqlShowCreateTableSQL vars s createSQL =
     (if TrimSpace createSQL = [] then createSQL
      else if Contains (ToUpper createSQL) '' ENGINE='' then createSQL
      else let charset = (case compatVariable vars s ''character_set_database'' of
                 Some c \<Rightarrow> if c = [] then characterSetConnection s else c | None \<Rightarrow> characterSetConnection s);
               collation = (case compatVariable vars s ''collation_database'' of
                 Some c \<Rightarrow> if c = [] then collationConnection s else c | None \<Rightarrow> collationConnection s)
           in createSQL @ '' ENGINE=InnoDB DEFAULT CHARSET='' @ charset @ '' COLLATE='' @ collation)"

definition showCreateTable :: "'d env \<Rightarrow> (string \<Rightarrow> mysqlError) \<Rightarrow> string \<Rightarrow> ('d world, resultSet) io" where
  "showCreateTable env refuse sqlText =
     andThen (onStats recordShowCreateTableQuery) (\<lambda>_. case parseShowCreateTable sqlText of
         None \<Rightarrow> fail (Mysql (refuse sqlText))
       | Some tableName \<Rightarrow>
           andThen (queryNullString env (masterQuery ''sql'' [''  AND name = ?'']) [text' tableName]) (\<lambda>found. case found of
               None \<Rightarrow> noSuchTable tableName
             | Some createSQL \<Rightarrow> getState (\<lambda>w.
                 let createText = (case lookupMySQLTableDDL (mdata w) tableName of
                       Some ddl \<Rightarrow> ddl
                     | None \<Rightarrow> (case createSQL of
                         Some t \<Rightarrow> mysqlShowCreateTableSQL (compatVars env) (sess w) t
                       | None \<Rightarrow> []))
                 in \<lparr> Columns = map varColumn [''Table'', ''Create Table''], Rows = [[text' tableName, text' createText]] \<rparr>)))"

definition showKeysQuery :: string where
  \<open>showKeysQuery = sqlLines
     [[], ''SELECT'', ''  s.TABLE_NAME AS "Table",'', ''  s.NON_UNIQUE AS "Non_unique",'', ''  s.INDEX_NAME AS "Key_name",'',
      ''  s.SEQ_IN_INDEX AS "Seq_in_index",'', ''  s.COLUMN_NAME AS "Column_name",'',
      ''  '' @ sq # ''A'' @ sq # '' AS "Collation",'', ''  NULL AS "Cardinality",'', ''  s.SUB_PART AS "Sub_part",'',
      ''  NULL AS "Packed",'',
      ''  CASE WHEN c.IS_NULLABLE = '' @ sq # ''YES'' @ sq # '' THEN '' @ sq # ''YES'' @ sq # '' ELSE '' @ sq # sq # '' END AS "Null",'',
      ''  s.INDEX_TYPE AS "Index_type",'', ''  '' @ sq # sq # '' AS "Comment",'', ''  '' @ sq # sq # '' AS "Index_comment",'',
      ''  COALESCE(s.VISIBLE, '' @ sq # ''YES'' @ sq # '') AS "Visible",'', ''  s.EXPRESSION AS "Expression"'',
      ''FROM "information_schema"."statistics" s'', ''LEFT JOIN "information_schema"."columns" c'',
      ''  ON c.TABLE_SCHEMA = s.TABLE_SCHEMA'', '' AND c.TABLE_NAME = s.TABLE_NAME'', '' AND c.COLUMN_NAME = s.COLUMN_NAME'',
      ''WHERE s.TABLE_SCHEMA = ?'', ''  AND s.TABLE_NAME = ?'', ''ORDER BY'',
      ''  CASE WHEN s.INDEX_NAME = '' @ sq # ''PRIMARY'' @ sq # '' THEN 0 ELSE 1 END,'', ''  s.INDEX_NAME,'', ''  s.SEQ_IN_INDEX'']\<close>

definition showKeys :: "'d env \<Rightarrow> (string \<Rightarrow> mysqlError) \<Rightarrow> string list \<Rightarrow> string \<Rightarrow> ('d world, resultSet) io" where
  "showKeys env refuse keyOrder sqlText =
     andThen (onStats recordShowKeysQuery) (\<lambda>_. case parseShowKeys sqlText of
         None \<Rightarrow> fail (Mysql (refuse sqlText))
       | Some tableName \<Rightarrow>
           andThen (refreshInformationSchemaTable env keyOrder tableName) (\<lambda>there.
             if \<not> there then noSuchTable tableName
             else andThen (getState dbOf) (\<lambda>d. querySQLite env showKeysQuery [d, text' tableName])))"

end
