(* ===== verification/Router.thy ===== *)
theory Router
  imports Show_Compat Rules Stmt_Machine Ddl_Compat
begin

text \<open>
  How a statement is answered (\<open>executeQuery\<close> in \<open>pkg/mysqlmock/protocol.go\<close>): the rules first, then what the server answers
  itself, then SQLite; transactions and \<open>AUTO_INCREMENT\<close>; what is recorded of it. The switch of the code is the function
  \<open>classify\<close> and the bodies of its cases are \<open>perform\<close>.
\<close>

text \<open>
  The server's configuration and what Go leaves open: \<open>sprint\<close> is \<open>fmt.Sprint\<close>, \<open>goQuote\<close> \<open>strconv.Quote\<close>, the three orders
  are the ones in which Go ranges over its maps, and the two \<open>describe\<close> functions give the texts of the errors that the
  model keeps as data.
\<close>

record 'd server =
  engine :: "'d env"
  mysqlVersion :: string
  configuredRules :: "preparedRule list"
  unsupportedConfig :: UnsupportedConfig
  sprint :: "ruleAny \<Rightarrow> bytes"
  goQuote :: "string \<Rightarrow> string"
  indexKeys :: "metadata \<Rightarrow> string list"
  restoreKeys :: "(string \<rightharpoonup> string) \<Rightarrow> string list"
  variableNames :: "(string \<rightharpoonup> string) \<Rightarrow> string list"
  describeRule :: "rule_error \<Rightarrow> string"
  describeCodec :: "codec_error \<Rightarrow> string"

definition serverVariables :: "'d server \<Rightarrow> string \<rightharpoonup> string" where
  "serverVariables srv = compatVars (engine srv)"

subsection \<open>What is recorded\<close>

definition logQueryEvent :: "string \<Rightarrow> string \<Rightarrow> string \<Rightarrow> string \<Rightarrow> 'd world \<Rightarrow> 'd world" where
  "logQueryEvent command route sqlText normalized w =
     w\<lparr> stats := recordQuery command route normalized (stats w),
        diagnostics := logQuery \<lparr> evEvent = ''query'', evConnectionID = connectionID (sess w), evCommand = command,
          evRoute = route, evDatabase = currentDB (sess w), evSQL = sqlText, evNormalizedSQL = normalized,
          evSuggestion = [] \<rparr> (diagnostics w) \<rparr>"

definition normalizedUnsupportedConfig :: "UnsupportedConfig \<Rightarrow> UnsupportedConfig" where
  "normalizedUnsupportedConfig cfg = unsupportedDefaults cfg"

definition unsupportedError :: "'d server \<Rightarrow> string \<Rightarrow> mysqlError" where
  "unsupportedError srv sqlText = (let cfg = normalizedUnsupportedConfig (unsupportedConfig srv) in
     errPacket (unCode cfg) (unState cfg) (unMessage cfg @ '': '' @ sqlText))"

definition unsupportedSelectVariable :: "string \<Rightarrow> (string \<times> string) option" where
  "unsupportedSelectVariable normalizedSQL =
     (let expr = TrimSuffix (TrimSpace (TrimPrefix (TrimSpace normalizedSQL) ''SELECT'')) '';'' in
      if \<not> HasPrefix (TrimSpace expr) ''@@'' then None
      else let name = TrimPrefix (TrimPrefix (ToLower (TrimPrefix (TrimSpace expr) ''@@'')) ''session.'') ''global.'' in
        if name = [] then None else Some (expr, name))"

definition suggestionHead :: "string \<Rightarrow> string list" where
  "suggestionHead quoted =
     [''Suggested rule:'', ''  - name: generated unsupported query'', ''    request:'', ''      match: exact'',
      ''      sql: '' @ quoted, ''    response:'']"

definition suggestVariableRule :: "'d server \<Rightarrow> UnsupportedQuery \<Rightarrow> string option" where
  "suggestVariableRule srv u =
     (case unsupportedSelectVariable (unNormalizedSQL u) of
        None \<Rightarrow> None
      | Some (expr, name) \<Rightarrow>
          let v = (case serverVariables srv name of None \<Rightarrow> ''TODO'' | Some c \<Rightarrow> c) in
          Some (sqlLines (suggestionHead (goQuote srv (unNormalizedSQL u)) @
            [''      type: result_set'', ''      columns:'', ''        - name: '' @ goQuote srv expr, ''          type: VARCHAR'',
             ''      rows:'', ''        - ['' @ goQuote srv v @ '']''])))"

definition suggestedErrorRule :: "'d server \<Rightarrow> string \<Rightarrow> string" where
  "suggestedErrorRule srv sqlText = (let cfg = normalizedUnsupportedConfig (unsupportedConfig srv) in
     sqlLines (suggestionHead (goQuote srv sqlText) @
       [''      type: error'', ''      code: '' @ itoa (unat (unCode cfg)),
        ''      sql_state: '' @ goQuote srv (fixedSQLState (unState cfg)), ''      message: '' @ goQuote srv (unMessage cfg)]))"

definition suggestedRule :: "'d server \<Rightarrow> UnsupportedQuery \<Rightarrow> string" where
  "suggestedRule srv u = (case suggestVariableRule srv u of Some s \<Rightarrow> s | None \<Rightarrow> suggestedErrorRule srv (unSQL u))"

text \<open>The server's \<open>recordUnsupported\<close>; it counts and stores the statement and logs it as a query.\<close>

definition recordUnsupportedQuery :: "'d server \<Rightarrow> UnsupportedQuery \<Rightarrow> 'd world \<Rightarrow> 'd world" where
  "recordUnsupportedQuery srv u0 w =
     (let u1 = u0\<lparr> unNormalizedSQL := orDefault (unNormalizedSQL u0) (normalizeSQL (unSQL u0)),
                   unRouteStage := orDefault (unRouteStage u0) ''unsupported'',
                   unCommand := orDefault (unCommand u0) ''COM_QUERY'' \<rparr>;
          u = u1\<lparr> unSuggestion := suggestedRule srv u1 \<rparr>
      in w\<lparr> stats := recordQuery (unCommand u) (unRouteStage u) (unNormalizedSQL u) (recordUnsupportedCount (stats w)),
            diagnostics := logQuery \<lparr> evEvent = ''query'', evConnectionID = unConnectionID u, evCommand = unCommand u,
              evRoute = unRouteStage u, evDatabase = unCurrentDB u, evSQL = unSQL u, evNormalizedSQL = unNormalizedSQL u,
              evSuggestion = unSuggestion u \<rparr> (logUnsupported u (diagnostics w)) \<rparr>)"

definition recordUnsupported :: "'d server \<Rightarrow> string \<Rightarrow> string \<Rightarrow> string \<Rightarrow> string \<Rightarrow> 'd world \<Rightarrow> 'd world" where
  "recordUnsupported srv command sqlText normalized routeStage w =
     recordUnsupportedQuery srv \<lparr> unSQL = sqlText, unNormalizedSQL = normalized, unConnectionID = connectionID (sess w),
       unCommand = command, unCurrentDB = currentDB (sess w), unRouteStage = routeStage, unSuggestion = [] \<rparr> w"

subsection \<open>Kinds of statements\<close>

definition isReadQuery :: "string \<Rightarrow> bool" where
  "isReadQuery upper = (HasPrefix upper ''SELECT '' \<or> upper = ''SELECT'' \<or> HasPrefix upper ''WITH '' \<or> HasPrefix upper ''PRAGMA '')"

definition isRuntimeSchemaChangingQuery :: "string \<Rightarrow> bool" where
  "isRuntimeSchemaChangingQuery upper = list_ex (HasPrefix upper)
     [''CREATE TABLE '', ''CREATE TEMPORARY TABLE '', ''CREATE TEMP TABLE '', ''CREATE INDEX '', ''CREATE UNIQUE INDEX '',
      ''ALTER TABLE '', ''RENAME TABLE '', ''DROP DATABASE '', ''DROP SCHEMA '', ''DROP TABLE '', ''DROP INDEX '']"

definition isWriteQuery :: "string \<Rightarrow> bool" where
  "isWriteQuery upper = list_ex (HasPrefix upper)
     [''INSERT '', ''UPDATE '', ''DELETE '', ''REPLACE '', ''CREATE TABLE '', ''CREATE TEMPORARY TABLE '', ''CREATE TEMP TABLE '',
      ''CREATE INDEX '', ''CREATE UNIQUE INDEX '', ''ALTER TABLE '', ''RENAME TABLE '', ''DROP TABLE '', ''DROP DATABASE '',
      ''DROP SCHEMA '', ''DROP INDEX '']"

definition isRuntimeSchemaChangingStatement :: "string \<Rightarrow> bool" where
  "isRuntimeSchemaChangingStatement sqlText =
     (case splitSQLStatements sqlText of
        [statement] \<Rightarrow> isRuntimeSchemaChangingQuery (ToUpper (normalizeSQL statement))
      | _ \<Rightarrow> False)"

datatype statementKind =
    SetNames | SetAutocommit | SetTransaction | SetVariables
  | SelectVersion string | AdvisoryLock | SelectDatabase | SelectSchema | SelectUser | SelectCurrentUser
  | SelectConnectionID | SelectLastInsertID | SelectRowCount | SelectVersionVariable | SelectVariable
  | ShowVariables | ShowTables | ShowFullFields | ShowCreateTable | ShowKeys | InformationSchema | CreateDatabase
  | Begin | Commit | Rollback | RollbackAndChain | RollbackToSavepoint | Savepoint
  | ReadQuery | WriteQuery | UnsupportedStatement

text \<open>The conditions of the switch and of the two tests behind it, in their order.\<close>

definition classify :: "string \<Rightarrow> statementKind" where
  "classify trimmed = (let upper = ToUpper (normalizeSQL trimmed) in
     if HasPrefix upper ''SET NAMES '' then SetNames
     else if HasPrefix upper ''SET AUTOCOMMIT'' then SetAutocommit
     else if HasPrefix upper ''SET TRANSACTION '' then SetTransaction
     else if HasPrefix upper ''SET '' then SetVariables
     else case selectVersionColumnName trimmed of Some column \<Rightarrow> SelectVersion column | None \<Rightarrow>
       if isAdvisoryLockQuery upper then AdvisoryLock
       else if upper = ''SELECT DATABASE()'' then SelectDatabase
       else if upper = ''SELECT SCHEMA()'' then SelectSchema
       else if upper = ''SELECT USER()'' then SelectUser
       else if upper = ''SELECT CURRENT_USER()'' \<or> upper = ''SELECT CURRENT_USER'' then SelectCurrentUser
       else if upper = ''SELECT CONNECTION_ID()'' then SelectConnectionID
       else if upper = ''SELECT LAST_INSERT_ID()'' then SelectLastInsertID
       else if upper = ''SELECT ROW_COUNT()'' then SelectRowCount
       else if upper = ''SELECT @@VERSION'' \<or> upper = ''SELECT @@SESSION.VERSION'' \<or> upper = ''SELECT @@GLOBAL.VERSION''
         then SelectVersionVariable
       else if HasPrefix upper ''SELECT @@'' then SelectVariable
       else if upper = ''SHOW VARIABLES'' then ShowVariables
       else if upper = ''SHOW TABLES'' then ShowTables
       else if isShowFullFieldsQuery upper then ShowFullFields
       else if isShowCreateTableQuery upper then ShowCreateTable
       else if isShowKeysQuery upper then ShowKeys
       else if isInformationSchemaQuery upper then InformationSchema
       else if isCreateDatabaseStatement trimmed then CreateDatabase
       else if upper = ''BEGIN'' \<or> upper = ''START TRANSACTION'' then Begin
       else if upper = ''COMMIT'' then Commit
       else if upper = ''ROLLBACK'' then Rollback
       else if upper = ''ROLLBACK AND CHAIN'' then RollbackAndChain
       else if HasPrefix upper ''ROLLBACK TO SAVEPOINT '' then RollbackToSavepoint
       else if HasPrefix upper ''SAVEPOINT '' \<or> HasPrefix upper ''RELEASE SAVEPOINT '' then Savepoint
       else if isReadQuery upper then ReadQuery
       else if isWriteQuery upper then WriteQuery
       else UnsupportedStatement)"

subsection \<open>Answers\<close>

datatype response =
    OK okResult
  | ResultRows resultSet
  | RowStream resultSet "string option"
  | Disconnect

fun responseOf :: "queryReply \<Rightarrow> response" where
  "responseOf (Materialized rs) = ResultRows rs"
| "responseOf (Streamed rs e) = RowStream rs e"

text \<open>A list or a mapping in a cell of a rule is written as \<open>fmt.Sprint\<close> prints it.\<close>

fun ruleCell :: "(ruleAny \<Rightarrow> bytes) \<Rightarrow> ruleAny \<Rightarrow> goValue" where
  "ruleCell print (RVal v) = v"
| "ruleCell print v = GoString (print v)"

definition ruleResponseIO :: "'d server \<Rightarrow> ruleAnswer \<Rightarrow> ('d world, response) io" where
  "ruleResponseIO srv answer =
     (case answer of
        RuleOK ok \<Rightarrow> ret (OK ok)
      | RuleRows columns rows \<Rightarrow> ret (ResultRows \<lparr> Columns = columns, Rows = map (map (ruleCell (sprint srv))) rows \<rparr>)
      | RuleErr e \<Rightarrow> fail (Mysql e)
      | RuleDisconnect _ \<Rightarrow> ret Disconnect
      | RuleBuildError e \<Rightarrow> fail (Driver (describeRule srv e)))"

text \<open>\<open>Some\<close>: a rule answers. The delays of a rule are not modelled.\<close>

definition tryRules :: "'d server \<Rightarrow> string \<Rightarrow> goValue list \<Rightarrow> ('d world, (ruleAnswer + rule_error) option) io" where
  "tryRules srv sqlText args w =
     (case executeRule (sprint srv) (configuredRules srv) sqlText (map RVal args) (ruleUsed w) of
        Inl e \<Rightarrow> (Inr (Some (Inr e)), w)
      | Inr (answer, used) \<Rightarrow> (Inr (map_option (Inl \<circ> snd) answer), w\<lparr> ruleUsed := used \<rparr>))"


subsection \<open>Transactions\<close>

definition restoreSequences :: "'d server \<Rightarrow> ('d world, unit) io" where
  "restoreSequences srv =
     andThen (getState (\<lambda>w. restoreKeys srv (restoreTables w))) (restoreMySQLAutoIncrementSequences (engine srv))"

definition clearInTrans :: "'d world \<Rightarrow> 'd world" where
  "clearInTrans w = w\<lparr> sess := clearFlag serverStatusInTrans (sess w) \<rparr>"

definition runCommit :: "'d server \<Rightarrow> ('d world, okResult) io" where
  "runCommit srv =
     andThen (execSQLite (engine srv) ''COMMIT'' []) (\<lambda>resp.
     andThen (putState (clearInTrans \<circ> clearMySQLAutoIncrementRestoreTables)) (\<lambda>_. ret resp))"

text \<open>The flag is cleared also when a counter could not be restored; the tables to restore are then kept.\<close>

definition runRollback :: "'d server \<Rightarrow> ('d world, okResult) io" where
  "runRollback srv =
     andThen (execSQLite (engine srv) ''ROLLBACK'' []) (\<lambda>resp.
     andThen (attempt (restoreSequences srv)) (\<lambda>restored.
     andThen (putState clearInTrans) (\<lambda>_. case restored of
         Inl e \<Rightarrow> fail e
       | Inr _ \<Rightarrow> andThen (putState clearMySQLAutoIncrementRestoreTables) (\<lambda>_. ret resp))))"

definition runRollbackAndChain :: "'d server \<Rightarrow> ('d world, okResult) io" where
  "runRollbackAndChain srv =
     andThen (execSQLite (engine srv) ''ROLLBACK'' []) (\<lambda>_.
     andThen (putState clearInTrans) (\<lambda>_.
     andThen (restoreSequences srv) (\<lambda>_.
     andThen (putState clearMySQLAutoIncrementRestoreTables) (\<lambda>_.
       execSQLite (engine srv) ''BEGIN'' []))))"

definition runRollbackToSavepoint :: "'d server \<Rightarrow> string \<Rightarrow> ('d world, okResult) io" where
  "runRollbackToSavepoint srv trimmed =
     andThen (execSQLite (engine srv) trimmed []) (\<lambda>resp. andThen (restoreSequences srv) (\<lambda>_. ret resp))"

subsection \<open>SET and system variables\<close>

definition execSetVariables :: "'d server \<Rightarrow> string \<Rightarrow> ('d world, okResult) io" where
  "execSetVariables srv trimmed =
     andThen (getState (\<lambda>w. setVariables (serverVariables srv) trimmed (sess w))) (\<lambda>(s, sent).
     andThen (putState (\<lambda>w. fold (execIgnored (engine srv)) sent (w\<lparr> sess := s \<rparr>))) (\<lambda>_. ret noResult))"

definition onSession :: "(session \<Rightarrow> session) \<Rightarrow> ('d world, okResult) io" where
  "onSession f = andThen (putState (\<lambda>w. w\<lparr> sess := f (sess w) \<rparr>)) (\<lambda>_. ret noResult)"

text \<open>\<open>selectVariable\<close> logs by itself: an unknown variable is recorded as unsupported instead.\<close>

definition runSelectVariable :: "'d server \<Rightarrow> string \<Rightarrow> string \<Rightarrow> string \<Rightarrow> ('d world, response) io" where
  "runSelectVariable srv command sqlText normalized =
     andThen (getState (\<lambda>w. selectVariable (serverVariables srv) (sess w) normalized)) (\<lambda>found. case found of
         None \<Rightarrow> andThen (putState (recordUnsupported srv command sqlText normalized ''compat''))
             (\<lambda>_. fail (Mysql (unsupportedError srv normalized)))
       | Some rs \<Rightarrow> andThen (putState (logQueryEvent command ''compat'' sqlText normalized)) (\<lambda>_. ret (ResultRows rs)))"

definition runAdvisoryLock :: "string \<Rightarrow> ('d world, response) io" where
  "runAdvisoryLock trimmed w =
     (case advisoryLockResult trimmed (sess w) (locks w) of (rs, ls) \<Rightarrow> (Inr (ResultRows rs), w\<lparr> locks := ls \<rparr>))"

subsection \<open>Writes\<close>

definition cachedStatements :: "string \<Rightarrow> ('d world, string list) io" where
  "cachedStatements sqlText w =
     (case translateSQLStatementsCached (stmtsCache w) sqlText of
        None \<Rightarrow> (Inl Panicked, w)
      | Some (translated, c) \<Rightarrow> (Inr translated, w\<lparr> stmtsCache := c \<rparr>))"

text \<open>What a statement that SQLite has executed changes in the metadata of the server.\<close>

definition recordStatementMetadata :: "'d env \<Rightarrow> string \<Rightarrow> 'd world \<Rightarrow> 'd world" where
  "recordStatementMetadata env sqlText w =
     w\<lparr> mdata := invalidateMySQLTableDDLForStatement sqlText
          (recordMySQLTableDDL sqlText (recordMySQLColumnMetadata (sscan env) sqlText (recordMySQLIndexMetadata sqlText (mdata w)))) \<rparr>"

definition execTranslated :: "'d env \<Rightarrow> string \<Rightarrow> goValue list \<Rightarrow> ('d world, okResult) io" where
  "execTranslated env trimmed args =
     andThen (cachedStatements trimmed) (\<lambda>texts.
     andThen (execSQLiteStatements env texts args) (\<lambda>resp.
     andThen (putState (recordStatementMetadata env trimmed)) (\<lambda>_. ret resp)))"

definition runInsertOrWrite :: "'d env \<Rightarrow> string \<Rightarrow> string \<Rightarrow> goValue list \<Rightarrow> ('d world, okResult) io" where
  "runInsertOrWrite env upper trimmed args =
     andThen (if HasPrefix upper ''INSERT '' then execMySQLUpsert env trimmed args else ret None) (\<lambda>upserted.
       case upserted of Some resp \<Rightarrow> ret resp | None \<Rightarrow>
     andThen (if HasPrefix upper ''INSERT '' \<or> HasPrefix upper ''REPLACE '' then execMySQLInsertCompatibility env trimmed args
              else ret None) (\<lambda>inserted.
       case inserted of Some resp \<Rightarrow> ret resp | None \<Rightarrow> execTranslated env trimmed args))"

definition runWrite :: "'d server \<Rightarrow> string \<Rightarrow> string \<Rightarrow> string \<Rightarrow> goValue list \<Rightarrow> ('d world, response) io" where
  "runWrite srv command sqlText trimmed args =
     (let normalized = normalizeSQL trimmed; upper = ToUpper normalized;
          log = (\<lambda>route. putState (logQueryEvent command route sqlText normalized)) in
      if execMySQLDDLCompatibility trimmed \<or> isRuntimeSchemaChangingStatement trimmed then
        andThen (log ''compat'') (\<lambda>_. ret (OK noResult))
      else if isRuntimeSchemaChangingQuery upper then
        andThen (putState (recordUnsupported srv command sqlText normalized ''runtime_schema_change_multi_statement''))
          (\<lambda>_. fail (Mysql (unsupportedError srv sqlText)))
      else andThen (log ''sqlite'') (\<lambda>_.
        andThen (runInsertOrWrite (engine srv) upper trimmed args) (\<lambda>resp. ret (OK resp))))"

subsection \<open>executeQuery\<close>

text \<open>What the server answers from the session, in the cases that only read it.\<close>

fun sessionAnswer :: "'d server \<Rightarrow> session \<Rightarrow> statementKind \<Rightarrow> resultSet option" where
  "sessionAnswer srv s (SelectVersion column) = Some (oneRow column (GoString (ascii (mysqlVersion srv))))"
| "sessionAnswer srv s SelectDatabase = Some (oneRow ''DATABASE()'' (GoString (ascii (currentDB s))))"
| "sessionAnswer srv s SelectSchema = Some (oneRow ''SCHEMA()'' (GoString (ascii (currentDB s))))"
| "sessionAnswer srv s SelectUser = Some (oneRow ''USER()'' (GoString (ascii (currentUser s))))"
| "sessionAnswer srv s SelectCurrentUser = Some (oneRow ''CURRENT_USER()'' (GoString (ascii (currentUser s))))"
| "sessionAnswer srv s SelectConnectionID = Some (oneRow ''CONNECTION_ID()'' (GoUint32 (connectionID s)))"
| "sessionAnswer srv s SelectLastInsertID = Some (oneRow ''LAST_INSERT_ID()'' (GoUint64 (lastInsertID s)))"
| "sessionAnswer srv s SelectRowCount = Some (oneRow ''ROW_COUNT()'' (GoInt64 (lastAffectedRows s)))"
| "sessionAnswer srv s SelectVersionVariable = Some (oneRow ''@@version'' (GoString (ascii (mysqlVersion srv))))"
| "sessionAnswer srv s ShowVariables =
     Some (showVariables (variableNames srv (compatVariables (serverVariables srv) s)) (serverVariables srv) s)"
| "sessionAnswer srv s _ = None"

text \<open>The route under which a kind is logged before it runs; the other kinds log by themselves.\<close>

fun routeOf :: "statementKind \<Rightarrow> string option" where
  "routeOf SelectVariable = None"
| "routeOf WriteQuery = None"
| "routeOf UnsupportedStatement = None"
| "routeOf kind = Some (if kind \<in> {Begin, Commit, Rollback, RollbackAndChain, RollbackToSavepoint, Savepoint, ReadQuery}
     then ''sqlite'' else ''compat'')"

abbreviation okIO :: "('d world, okResult) io \<Rightarrow> ('d world, response) io" where
  "okIO m \<equiv> andThen m (\<lambda>ok. ret (OK ok))"

abbreviation rowsIO :: "('d world, resultSet) io \<Rightarrow> ('d world, response) io" where
  "rowsIO m \<equiv> andThen m (\<lambda>rs. ret (ResultRows rs))"

abbreviation queryIO :: "('d world, queryReply) io \<Rightarrow> ('d world, response) io" where
  "queryIO m \<equiv> andThen m (\<lambda>q. ret (responseOf q))"

text \<open>The order of the index metadata is the one at the time the case is entered.\<close>

definition inIndexOrder :: "'d server \<Rightarrow> (string list \<Rightarrow> ('d world, 'a) io) \<Rightarrow> ('d world, 'a) io" where
  "inIndexOrder srv f = andThen (getState (\<lambda>w. indexKeys srv (mdata w))) f"

definition perform ::
    "'d server \<Rightarrow> string \<Rightarrow> string \<Rightarrow> string \<Rightarrow> goValue list \<Rightarrow> statementKind \<Rightarrow> ('d world, response) io" where
  "perform srv command sqlText trimmed args kind =
     (let env = engine srv; normalized = normalizeSQL trimmed; upper = ToUpper normalized in
      case kind of
        SetNames \<Rightarrow> okIO (andThen (onSession (setNames (serverVariables srv) normalized)) (\<lambda>_. execSetVariables srv trimmed))
      | SetAutocommit \<Rightarrow> okIO (onSession (setAutocommit upper))
      | SetTransaction \<Rightarrow> ret (OK noResult)
      | SetVariables \<Rightarrow> okIO (execSetVariables srv trimmed)
      | AdvisoryLock \<Rightarrow> runAdvisoryLock trimmed
      | SelectVariable \<Rightarrow> runSelectVariable srv command sqlText normalized
      | ShowTables \<Rightarrow> rowsIO (showTables env)
      | ShowFullFields \<Rightarrow> rowsIO (inIndexOrder srv (\<lambda>keys. showFullFields env (unsupportedError srv) keys trimmed))
      | ShowCreateTable \<Rightarrow> rowsIO (showCreateTable env (unsupportedError srv) trimmed)
      | ShowKeys \<Rightarrow> rowsIO (inIndexOrder srv (\<lambda>keys. showKeys env (unsupportedError srv) keys trimmed))
      | InformationSchema \<Rightarrow>
          queryIO (inIndexOrder srv (\<lambda>keys. queryInformationSchemaText env keys trimmed (command = ''COM_QUERY'') args))
      | CreateDatabase \<Rightarrow> ret (OK noResult)
      | Begin \<Rightarrow> okIO (execSQLite env ''BEGIN'' [])
      | Commit \<Rightarrow> okIO (runCommit srv)
      | Rollback \<Rightarrow> okIO (runRollback srv)
      | RollbackAndChain \<Rightarrow> okIO (runRollbackAndChain srv)
      | RollbackToSavepoint \<Rightarrow> okIO (runRollbackToSavepoint srv trimmed)
      | Savepoint \<Rightarrow> okIO (execSQLite env trimmed [])
      | ReadQuery \<Rightarrow> queryIO (andThen (cachedTranslation trimmed) (\<lambda>query. querySQLiteText env query (command = ''COM_QUERY'') args))
      | WriteQuery \<Rightarrow> runWrite srv command sqlText trimmed args
      | UnsupportedStatement \<Rightarrow> andThen (putState (recordUnsupported srv command sqlText normalized ''unsupported''))
          (\<lambda>_. fail (Mysql (unsupportedError srv sqlText)))
      | _ \<Rightarrow> andThen (getState (\<lambda>w. sessionAnswer srv (sess w) kind)) (\<lambda>answer. case answer of
            Some rs \<Rightarrow> ret (ResultRows rs) | None \<Rightarrow> fail Panicked))"

definition executeQuery :: "'d server \<Rightarrow> string \<Rightarrow> string \<Rightarrow> goValue list \<Rightarrow> ('d world, response) io" where
  "executeQuery srv command sqlText args =
     (let trimmed = TrimSpace sqlText; normalized = normalizeSQL trimmed;
          log = (\<lambda>route. putState (logQueryEvent command route sqlText normalized)) in
      if trimmed = [] then fail (Mysql (errPacket 1105 ''HY000'' ''Unsupported query: empty SQL''))
      else andThen (tryRules srv sqlText args) (\<lambda>matched. case matched of
          Some (Inl answer) \<Rightarrow> andThen (log ''rules'') (\<lambda>_. ruleResponseIO srv answer)
        | Some (Inr e) \<Rightarrow> andThen (log ''rules'') (\<lambda>_. fail (Driver (describeRule srv e)))
        | None \<Rightarrow>
            andThen (case routeOf (classify trimmed) of Some route \<Rightarrow> log route | None \<Rightarrow> ret ()) (\<lambda>_.
            perform srv command sqlText trimmed args (classify trimmed))))"

text \<open>The last case of \<open>perform\<close> never panics: the kinds it is left with are the ones the session answers.\<close>

lemma sessionAnswer_complete:
  "kind \<in> {SelectVersion c, SelectDatabase, SelectSchema, SelectUser, SelectCurrentUser, SelectConnectionID,
     SelectLastInsertID, SelectRowCount, SelectVersionVariable, ShowVariables} \<Longrightarrow> sessionAnswer srv s kind \<noteq> None"
  by auto

subsection \<open>Replies\<close>

definition recordResponse :: "response \<Rightarrow> session \<Rightarrow> session" where
  "recordResponse resp s =
     (case resp of OK ok \<Rightarrow> recordResult (ReplyOK ok) s | ResultRows rs \<Rightarrow> recordResult (ReplyRows rs) s
      | RowStream rs _ \<Rightarrow> recordResult (ReplyRows rs) s | Disconnect \<Rightarrow> s)"

text \<open>The packets written, and the error that ends the connection, if there is one.\<close>

type_synonym written = "packet list \<times> string option"

definition errReply :: "mysqlError \<Rightarrow> written" where
  "errReply e = ([(1, errPayload e)], None)"

definition unknownResponse :: mysqlError where
  "unknownResponse = errPacket 1105 ''HY000'' ''Unsupported query response''"

definition textReply :: "goStd \<Rightarrow> session \<Rightarrow> response \<Rightarrow> written" where
  "textReply s c resp =
     (case resp of
        OK ok \<Rightarrow> ([(1, okPayload (statusFlags c) ok)], None)
      | ResultRows rs \<Rightarrow> (writeResultSet s (clientCaps c) (statusFlags c) (ascii (currentDB c)) 1 (Columns rs) (Rows rs), None)
      | RowStream rs failure \<Rightarrow>
          writeSQLiteTextResultSet s (clientCaps c) (statusFlags c) (ascii (currentDB c)) 1 (Columns rs) (Rows rs) failure
      | Disconnect \<Rightarrow> ([], Some ''rule disconnect''))"

text \<open>A reply to \<open>COM_STMT_EXECUTE\<close>. A row that cannot be encoded is found before anything is written.\<close>

definition binaryReply :: "'d server \<Rightarrow> session \<Rightarrow> response \<Rightarrow> written" where
  "binaryReply srv c resp =
     (case resp of
        OK ok \<Rightarrow> ([(1, okPayload (statusFlags c) ok)], None)
      | ResultRows rs \<Rightarrow>
          (case writeBinaryResultSet (std (engine srv)) (clientCaps c) (statusFlags c) (ascii (currentDB c)) 1 (Columns rs) (Rows rs) of
             Inl e \<Rightarrow> errReply (errPacket 1105 ''HY000'' (describeCodec srv e))
           | Inr packets \<Rightarrow> (packets, None))
      | RowStream _ _ \<Rightarrow> errReply unknownResponse
      | Disconnect \<Rightarrow> ([], Some ''rule disconnect''))"

definition answerStatement ::
    "'d server \<Rightarrow> (session \<Rightarrow> response \<Rightarrow> written) \<Rightarrow> string \<Rightarrow> string \<Rightarrow> goValue list \<Rightarrow> ('d world, written) io" where
  "answerStatement srv reply command sqlText args w =
     (case executeQuery srv command sqlText args w of
        (Inl Panicked, w') \<Rightarrow> (Inl Panicked, w')
      | (Inl (Mysql e), w') \<Rightarrow> (Inr (errReply e), w')
      | (Inl (Driver msg), w') \<Rightarrow>
          (Inr (errReply (connMapSQLiteError (WriteValidation (compat (engine srv))) sqlText msg)),
           if isSQLiteSyntaxError msg then recordUnsupported srv command sqlText (normalizeSQL sqlText) ''sqlite'' w' else w')
      | (Inr resp, w') \<Rightarrow> let s = recordResponse resp (sess w') in (Inr (reply s resp), w'\<lparr> sess := s \<rparr>))"

definition handleQuery :: "'d server \<Rightarrow> string \<Rightarrow> ('d world, written) io" where
  "handleQuery srv sqlText = answerStatement srv (textReply (std (engine srv))) ''COM_QUERY'' sqlText []"

end
