(* ===== verification/Serve.thy ===== *)
theory Serve
  imports Router
begin

text \<open>
  A client's connection from the handshake to its end (\<open>serve\<close> in \<open>pkg/mysqlmock/protocol.go\<close>, \<open>handleStmtExecute\<close> in
  \<open>pkg/mysqlmock/prepared.go\<close>, the end of \<open>handleNetConn\<close> in \<open>pkg/mysqlmock/server.go\<close>). The client is the list of the packets it
  sends, without their headers; the list's end is the end of the connection. Splitting and numbering packets on the
  wire is in \<open>Wire_Bytes\<close>.
\<close>

unbundle bit_operations_syntax

subsection \<open>Commands\<close>

definition commandQuit :: byte where "commandQuit = 0x01"
definition commandInitDB :: byte where "commandInitDB = 0x02"
definition commandQuery :: byte where "commandQuery = 0x03"
definition commandPing :: byte where "commandPing = 0x0e"
definition commandStmtPrepare :: byte where "commandStmtPrepare = 0x16"
definition commandStmtExecute :: byte where "commandStmtExecute = 0x17"
definition commandStmtSendLong :: byte where "commandStmtSendLong = 0x18"
definition commandStmtClose :: byte where "commandStmtClose = 0x19"
definition commandStmtReset :: byte where "commandStmtReset = 0x1a"
definition commandResetConn :: byte where "commandResetConn = 0x1f"

text \<open>The statements of the connection beside the rest of its state, and how a command leaves the connection.\<close>

type_synonym 'd connection = "stmtConn \<times> 'd world"

datatype commandEnd = GoesOn | Quits | Breaks string

definition onWorld :: "('d world, written) io \<Rightarrow> ('d connection, packet list \<times> commandEnd) io" where
  "onWorld m c =
     (case m (snd c) of
        (Inl e, w) \<Rightarrow> (Inl e, (fst c, w))
      | (Inr (packets, failure), w) \<Rightarrow>
          (Inr (packets, (case failure of None \<Rightarrow> GoesOn | Some e \<Rightarrow> Breaks e)), (fst c, w)))"

definition replyWith :: "packet list \<Rightarrow> ('d connection, packet list \<times> commandEnd) io" where
  "replyWith packets = ret (packets, GoesOn)"

definition okReply :: "('d connection, packet list \<times> commandEnd) io" where
  "okReply c = (Inr ([(1, okPayload (statusFlags (sess (snd c))) noResult)], GoesOn), c)"

definition errAnswer :: "mysqlError \<Rightarrow> ('d connection, packet list \<times> commandEnd) io" where
  "errAnswer e = replyWith [(1, errPayload e)]"

definition runStmtExecute :: "'d server \<Rightarrow> bytes \<Rightarrow> ('d connection, packet list \<times> commandEnd) io" where
  "runStmtExecute srv payload c =
     (case handleStmtExecute (std (engine srv)) payload (fst c) of (stmts, step) \<Rightarrow>
        (case step of
           ExecMalformed \<Rightarrow> errAnswer (errPacket 1105 ''HY000'' ''Malformed COM_STMT_EXECUTE packet'')
         | ExecUnknown stmtID \<Rightarrow> errAnswer (unknownStatement stmtID)
         | ExecArgs e \<Rightarrow> errAnswer (errPacket 1105 ''HY000'' (describeCodec srv e))
         | ExecRun sqlText args \<Rightarrow> onWorld (answerStatement srv (binaryReply srv) ''COM_STMT_EXECUTE'' sqlText args))
        (stmts, snd c))"

text \<open>\<open>0x%02x\<close>.\<close>

definition hexByte :: "byte \<Rightarrow> string" where
  "hexByte b = ''0x'' @ [snapshotJSONHex ! unat (drop_bit 4 b), snapshotJSONHex ! unat (b AND 0xF)]"

definition serveCommand :: "'d server \<Rightarrow> bytes \<Rightarrow> ('d connection, packet list \<times> commandEnd) io" where
  "serveCommand srv payload c =
     (case payload of
        [] \<Rightarrow> (Inr ([], Breaks ''empty command packet''), c)
      | command # body \<Rightarrow> let (stmts, w) = c; s = sess w in
          if command = commandQuit then (Inr ([], Quits), c)
          else if command = commandPing \<or> command = commandResetConn then okReply c
          else if command = commandInitDB then okReply (stmts, w\<lparr> sess := s\<lparr> currentDB := textOf body \<rparr> \<rparr>)
          else if command = commandQuery then onWorld (handleQuery srv (textOf body)) c
          else if command = commandStmtPrepare then
            (let (stmts', packets) = handleStmtPrepare (clientCaps s) (statusFlags s) (ascii (currentDB s)) (textOf body) stmts
             in replyWith packets (stmts', w))
          else if command = commandStmtExecute then runStmtExecute srv body c
          else if command = commandStmtSendLong then
            (let (stmts', ok) = handleStmtSendLongData body stmts
             in (Inr ([], if ok then GoesOn else Breaks ''malformed COM_STMT_SEND_LONG_DATA packet''), (stmts', w)))
          else if command = commandStmtClose then (Inr ([], GoesOn), (handleStmtClose body stmts, w))
          else if command = commandStmtReset then
            (let (stmts', packets) = handleStmtReset (statusFlags s) body stmts in replyWith packets (stmts', w))
          else errAnswer (errPacket 1105 ''HY000'' (''Unsupported MySQL command: '' @ hexByte command)) c)"

fun serveLoop :: "'d server \<Rightarrow> bytes list \<Rightarrow> ('d connection, packet list list \<times> commandEnd) io" where
  "serveLoop srv [] = ret ([], Breaks ''EOF'')"
| "serveLoop srv (payload # rest) =
     andThen (serveCommand srv payload) (\<lambda>(packets, how).
       if how = GoesOn then andThen (serveLoop srv rest) (\<lambda>(replies, how'). ret (packets # replies, how'))
       else ret ([packets], how))"

fun handshakeErrorText :: "handshake_error \<Rightarrow> string" where
  "handshakeErrorText MalformedHandshake = ''malformed handshake response''"
| "handshakeErrorText Protocol41Required = ''CLIENT_PROTOCOL_41 is required''"
| "handshakeErrorText MalformedProtocol41 = ''malformed protocol 41 handshake response''"

definition serve :: "'d server \<Rightarrow> bytes list \<Rightarrow> ('d connection, packet list list \<times> commandEnd) io" where
  "serve srv payloads c =
     (let greeting = [(0, handshakePayload (mysqlVersion srv) (sess (snd c)))] in
      case payloads of
        [] \<Rightarrow> (Inr ([greeting], Breaks ''EOF''), c)
      | response # rest \<Rightarrow>
          (case readHandshakeResponse response (sess (snd c)) of (s, failure) \<Rightarrow>
             let c' = (fst c, (snd c)\<lparr> sess := s \<rparr>) in
             case failure of
               Some e \<Rightarrow> (Inr ([greeting, [(2, errPayload (errPacket 1105 ''HY000'' (handshakeErrorText e)))]],
                   Breaks (handshakeErrorText e)), c')
             | None \<Rightarrow> andThen (serveLoop srv rest) (\<lambda>(replies, how).
                 ret (greeting # [(2, okPayload (statusFlags s) noResult)] # replies, how)) c'))"

text \<open>
  The part of \<open>handleNetConn\<close> from the point where the database is ready: the session starts fresh on the server's shared
  state, and its locks are released at the end, also after a panic.
\<close>

definition runConnection :: "'d server \<Rightarrow> 32 word \<Rightarrow> bytes list \<Rightarrow> ('d world, packet list list \<times> commandEnd) io" where
  "runConnection srv cid payloads w0 =
     (let w = w0\<lparr> sess := newSession (serverVariables srv) cid, restoreTables := Map.empty \<rparr> in
      case serve srv payloads (stmtInit, w) of (r, (_, w')) \<Rightarrow>
        (r, w'\<lparr> locks := releaseAllAdvisoryLocks cid (locks w') \<rparr>))"

end
