(* ===== verification/Server_Reset.thy ===== *)
theory Server_Reset
  imports Serve
begin

text \<open>
  The server's database: setting it up from the configured schema and seed data, and \<open>Reset\<close>
  (\<open>pkg/mysqlmock/server.go\<close>). The database here is the one behind the connection the server keeps for itself.
\<close>

text \<open>A row of seed data is a Go map, here the list of its entries; so is a block, by table.\<close>

type_synonym seedBlock = "(string \<times> (string \<times> goValue) list list) list"

record preparedSchemaStatement =
  psOriginal :: string
  psTranslated :: "string list"

text \<open>The configured files are read by \<open>readSchemaFile\<close> and \<open>readSeedFile\<close>, which give the error's text or what is in the file.\<close>

record backendSetup =
  schemaFiles :: "string list"
  schemaTexts :: "string list"
  readSchemaFile :: "string \<Rightarrow> string + string"
  seedFiles :: "SeedFileConfig list"
  readSeedFile :: "SeedFileConfig \<Rightarrow> string + seedBlock"
  seedConfigured :: seedBlock

subsection \<open>Prepared schema and seed\<close>

definition prepareSchemaStatement :: "string \<Rightarrow> preparedSchemaStatement go" where
  "prepareSchemaStatement stmt =
     (case translateSQLStatements stmt of
        None \<Rightarrow> None
      | Some translated \<Rightarrow>
          Some \<lparr> psOriginal = stmt, psTranslated = filter (\<lambda>item. TrimSpace item \<noteq> []) translated \<rparr>)"

definition prepareText :: "preparedSchemaStatement list \<Rightarrow> string \<Rightarrow> ('w, preparedSchemaStatement list) io" where
  "prepareText prepared stmt =
     (if TrimSpace stmt = [] then ret prepared
      else andThen (fromGo (prepareSchemaStatement stmt)) (\<lambda>p. ret (prepared @ [p])))"

definition loadSchemaFileStatements :: "backendSetup \<Rightarrow> string \<Rightarrow> ('w, string list) io" where
  "loadSchemaFileStatements cfg path =
     (case readSchemaFile cfg path of
        Inl e \<Rightarrow> fail (Driver (''read schema file '' @ path @ '': '' @ e))
      | Inr text \<Rightarrow> ret (schemaStatementsFromDump text))"

text \<open>The prepared statements are kept after the first time; the configuration does not change, so they are computed here each time.\<close>

definition preparedSchemaStatements :: "backendSetup \<Rightarrow> ('w, preparedSchemaStatement list) io" where
  "preparedSchemaStatements cfg =
     andThen (forEach (\<lambda>prepared path. andThen (loadSchemaFileStatements cfg path) (forEach prepareText prepared)) [] (schemaFiles cfg))
       (\<lambda>prepared. forEach prepareText prepared (schemaTexts cfg))"

definition preparedSeedBlocks :: "backendSetup \<Rightarrow> ('w, seedBlock list) io" where
  "preparedSeedBlocks cfg =
     andThen (forEach (\<lambda>blocks f. case readSeedFile cfg f of
           Inl e \<Rightarrow> fail (Driver (''read seed file '' @ seedPath f @ '': '' @ e))
         | Inr block \<Rightarrow> ret (blocks @ [block])) [] (seedFiles cfg))
       (\<lambda>blocks. ret (if seedConfigured cfg \<noteq> [] then blocks @ [seedConfigured cfg] else blocks))"

subsection \<open>Applying them\<close>

definition applyPreparedSchemaStatement :: "'d env \<Rightarrow> preparedSchemaStatement \<Rightarrow> ('d world, unit) io" where
  "applyPreparedSchemaStatement env stmt =
     andThen (forEach (\<lambda>_ translated. execWrapped env ''apply schema'' translated (\<lambda>_. [])) () (psTranslated stmt)) (\<lambda>_.
       putState (\<lambda>w. w\<lparr> mdata := recordMySQLTableDDL (psOriginal stmt)
         (recordMySQLColumnMetadata (sscan env) (psOriginal stmt) (recordMySQLIndexMetadata (psOriginal stmt) (mdata w))) \<rparr>))"

definition applySchema :: "'d env \<Rightarrow> backendSetup \<Rightarrow> ('d world, unit) io" where
  "applySchema env cfg = andThen (preparedSchemaStatements cfg) (forEach (\<lambda>_. applyPreparedSchemaStatement env) ())"

text \<open>\<open>sort.Strings\<close> of the keys of a map.\<close>

definition sortedKeys :: "(string \<times> 'a) list \<Rightarrow> string list" where
  "sortedKeys m = foldr insertName (map fst m) []"

definition applySeedRow :: "'d env \<Rightarrow> string \<Rightarrow> (string \<times> goValue) list \<Rightarrow> ('d world, unit) io" where
  "applySeedRow env table row =
     (if row = [] then ret ()
      else let cols = sortedKeys row in
        execWrapped env (''apply seed for table '' @ table)
          (''INSERT INTO '' @ quoteIdent table @ '' ('' @ joinQuoted cols @ '') VALUES ('' @ Join (map (\<lambda>_. ''?'') cols) '', '' @ '')'')
          (\<lambda>_. map (\<lambda>c. the (map_of row c)) cols))"

definition applySeedRows :: "'d env \<Rightarrow> seedBlock \<Rightarrow> ('d world, unit) io" where
  "applySeedRows env seed =
     forEach (\<lambda>_ table. forEach (\<lambda>_. applySeedRow env table) () (the (map_of seed table))) () (sortedKeys seed)"

definition applySeed :: "'d env \<Rightarrow> backendSetup \<Rightarrow> ('d world, unit) io" where
  "applySeed env cfg = andThen (preparedSeedBlocks cfg) (forEach (\<lambda>_. applySeedRows env) ())"

text \<open>\<open>fn\<close> in a transaction of its own, rolled back when it fails or panics.\<close>

definition withSQLiteTransaction :: "'d env \<Rightarrow> string \<Rightarrow> ('d world, unit) io \<Rightarrow> ('d world, unit) io" where
  "withSQLiteTransaction env label fn =
     andThen (execWrapped env (''begin '' @ label @ '' transaction'') ''BEGIN IMMEDIATE'' (\<lambda>_. [])) (\<lambda>_.
       onError (andThen fn (\<lambda>_. execWrapped env (''commit '' @ label @ '' transaction'') ''COMMIT'' (\<lambda>_. [])))
         (execIgnored env ''ROLLBACK''))"

subsection \<open>Emptying the database\<close>

definition scanObject :: "goStd \<Rightarrow> goValue list \<Rightarrow> (string \<times> string) option" where
  "scanObject s row =
     (case row of [t, n] \<Rightarrow> do { t' \<leftarrow> scanString s t; n' \<leftarrow> scanString s n; Some (t', n') } | _ \<Rightarrow> None)"

definition scanName :: "goStd \<Rightarrow> goValue list \<Rightarrow> string option" where
  "scanName s row = (case row of [n] \<Rightarrow> scanString s n | _ \<Rightarrow> None)"

definition notInternalLine :: string where
  "notInternalLine = ''  AND name NOT LIKE '' @ sq # ''sqlite_%'' @ [sq]"

definition sqliteObjectsQuery :: string where
  "sqliteObjectsQuery = sqlLines
     [[], ''SELECT type, name'', ''FROM sqlite_master'',
      ''WHERE type IN ('' @ sq # ''trigger'' @ sq # '', '' @ sq # ''view'' @ sq # '', '' @ sq # ''table'' @ sq # '')'', notInternalLine,
      ''ORDER BY CASE type'', ''  WHEN '' @ sq # ''trigger'' @ sq # '' THEN 0'', ''  WHEN '' @ sq # ''view'' @ sq # '' THEN 1'',
      ''  ELSE 2'', ''END, name'']"

definition sqliteTablesQuery :: string where
  "sqliteTablesQuery = sqlLines
     [[], ''SELECT name'', ''FROM sqlite_master'', ''WHERE type = '' @ sq # ''table'' @ [sq], notInternalLine, ''ORDER BY name'']"

definition sqliteTriggersQuery :: string where
  "sqliteTriggersQuery = sqlLines
     [[], ''SELECT name'', ''FROM sqlite_master'', ''WHERE type = '' @ sq # ''trigger'' @ [sq], notInternalLine, ''LIMIT 1'']"

definition sqliteSequenceQuery :: string where
  "sqliteSequenceQuery = ''SELECT name FROM sqlite_master WHERE type = '' @ sq # ''table'' @ sq # '' AND name = '' @ sq # ''sqlite_sequence'' @ [sq]"

definition listRows :: "'d env \<Rightarrow> string \<Rightarrow> string \<Rightarrow> string \<Rightarrow> (goValue list \<Rightarrow> 'a option) \<Rightarrow> ('d world, 'a list) io" where
  "listRows env listing scanning query scan =
     andThen (wrapError listing (queryContext env query [])) (\<lambda>rows.
     andThen (wrapError scanning (orScanError (mapOption scan (rowValues rows)))) (\<lambda>found.
     andThen (wrapError listing (rowsErr rows)) (\<lambda>_. ret found)))"

definition dropStatement :: "string \<times> string \<Rightarrow> string option" where
  "dropStatement obj =
     (case obj of (type, name) \<Rightarrow>
        if type = ''trigger'' then Some (''DROP TRIGGER IF EXISTS '' @ quoteIdent name)
        else if type = ''view'' then Some (''DROP VIEW IF EXISTS '' @ quoteIdent name)
        else if type = ''table'' then Some (''DROP TABLE IF EXISTS '' @ quoteIdent name)
        else None)"

definition dropSQLiteObjects :: "'d env \<Rightarrow> ('d world, unit) io" where
  "dropSQLiteObjects env =
     andThen (listRows env ''list sqlite objects for reset'' ''scan sqlite object for reset'' sqliteObjectsQuery (scanObject (std env)))
       (forEach (\<lambda>_ obj. case dropStatement obj of
           None \<Rightarrow> ret ()
         | Some stmt \<Rightarrow> execWrapped env (''drop sqlite '' @ fst obj @ '' '' @ snd obj @ '' for reset'') stmt (\<lambda>_. [])) ())"

definition deleteSQLiteTableRows :: "'d env \<Rightarrow> ('d world, unit) io" where
  "deleteSQLiteTableRows env =
     andThen (listRows env ''list sqlite tables for reset'' ''scan sqlite table for reset'' sqliteTablesQuery (scanName (std env)))
       (forEach (\<lambda>_ table. execWrapped env (''delete sqlite table '' @ table @ '' for reset'')
           (''DELETE FROM '' @ quoteIdent table) (\<lambda>_. [])) ())"

text \<open>\<open>QueryRow(...).Scan\<close> into a text: whether there is a row, or the error.\<close>

definition rowExists :: "'d env \<Rightarrow> string \<Rightarrow> string \<Rightarrow> ('d world, bool) io" where
  "rowExists env context query =
     wrapError context (andThen (queryContext env query []) (\<lambda>rows.
       case rowValues rows of
         [] \<Rightarrow> andThen (rowsErr rows) (\<lambda>_. ret False)
       | row # _ \<Rightarrow> andThen (orScanError (scanName (std env) row)) (\<lambda>_. ret True)))"

definition resetSQLiteSequences :: "'d env \<Rightarrow> ('d world, unit) io" where
  "resetSQLiteSequences env =
     andThen (rowExists env ''lookup sqlite_sequence for reset'' sqliteSequenceQuery) (\<lambda>there.
       if there then execWrapped env ''reset sqlite_sequence'' ''DELETE FROM sqlite_sequence'' (\<lambda>_. []) else ret ())"

definition canResetBackendData :: "'d env \<Rightarrow> ('d world, bool) io" where
  "canResetBackendData env =
     andThen (rowExists env ''lookup sqlite triggers for reset'' sqliteTriggersQuery) (\<lambda>there. ret (\<not> there))"

subsection \<open>Reset\<close>

text \<open>The first phase runs with foreign keys off, and they are on again after it, however it ends.\<close>

definition withoutForeignKeys :: "'d env \<Rightarrow> ('d world, unit) io \<Rightarrow> ('d world, unit) io" where
  "withoutForeignKeys env phase =
     andThen (execWrapped env ''disable foreign keys for reset'' ''PRAGMA foreign_keys = OFF'' (\<lambda>_. [])) (\<lambda>_.
     andThen (attempt phase) (\<lambda>r. case r of
         Inl e \<Rightarrow> andThen (putState (execIgnored env ''PRAGMA foreign_keys = ON'')) (\<lambda>_. fail e)
       | Inr _ \<Rightarrow> execWrapped env ''enable foreign keys for reset'' ''PRAGMA foreign_keys = ON'' (\<lambda>_. [])))"

definition setUp :: "'d env \<Rightarrow> backendSetup \<Rightarrow> ('d world, unit) io" where
  "setUp env cfg = andThen (applySchema env cfg) (\<lambda>_. applySeed env cfg)"

definition resetBackendFull :: "'d env \<Rightarrow> backendSetup \<Rightarrow> ('d world, unit) io" where
  "resetBackendFull env cfg =
     andThen (withoutForeignKeys env (withSQLiteTransaction env ''reset drop'' (dropSQLiteObjects env)))
       (\<lambda>_. withSQLiteTransaction env ''reset setup'' (setUp env cfg))"

definition resetBackendData :: "'d env \<Rightarrow> backendSetup \<Rightarrow> ('d world, unit) io" where
  "resetBackendData env cfg =
     andThen (withoutForeignKeys env (withSQLiteTransaction env ''reset data''
         (andThen (deleteSQLiteTableRows env) (\<lambda>_. resetSQLiteSequences env))))
       (\<lambda>_. withSQLiteTransaction env ''reset seed'' (applySeed env cfg))"

text \<open>\<open>base\<close> is \<open>baseSchemaVersion\<close>; its new value is the result.\<close>

definition resetServer :: "'d env \<Rightarrow> backendSetup \<Rightarrow> 64 word \<Rightarrow> ('d world, 64 word) io" where
  "resetServer env cfg base =
     andThen (canResetBackendData env) (\<lambda>dataOnly.
     andThen (getState (\<lambda>w. schemaVersion w = base \<and> dataOnly)) (\<lambda>only.
     andThen (if only then resetBackendData env cfg
              else andThen (putState (\<lambda>w. w\<lparr> mdata := noMetadata, autoInc := Map.empty \<rparr>)) (\<lambda>_.
                andThen (resetBackendFull env cfg) (\<lambda>_. putState bumpSchemaVersion))) (\<lambda>_.
     andThen (getState (\<lambda>w. if only then base else schemaVersion w)) (\<lambda>base'.
     andThen (putState (\<lambda>w. w\<lparr> diagnostics := resetDiagnostics (diagnostics w), ruleUsed := {}, autoInc := Map.empty,
         stats := recordReset (if only then ''data_only'' else ''full'') (stats w) \<rparr>)) (\<lambda>_. ret base')))))"

end
