(* ===== verification/Frame.thy ===== *)
theory Frame
  imports Server_Reset
begin

text \<open>
  What running statements leaves alone. \<open>keeps R m\<close> says that the states before and after the computation \<open>m\<close> are related
  by \<open>R\<close>, however \<open>m\<close> ends; for a preorder it follows along the structure of \<open>m\<close>. \<open>ends Q m\<close> speaks of the value it gives.
\<close>

named_theorems keeps

definition keeps :: "('w \<Rightarrow> 'w \<Rightarrow> bool) \<Rightarrow> ('w, 'a) io \<Rightarrow> bool" where
  "keeps R m = (\<forall>w. R w (snd (m w)))"

lemma keepsD: "keeps R m \<Longrightarrow> m w = (r, w') \<Longrightarrow> R w w'"
  by (metis keeps_def snd_conv)

lemma keeps_if [keeps]: "keeps R a \<Longrightarrow> keeps R b \<Longrightarrow> keeps R (if c then a else b)"
  by simp

lemma keeps_option [keeps]:
  "keeps R a \<Longrightarrow> (\<And>x. keeps R (f x)) \<Longrightarrow> keeps R (case v of None \<Rightarrow> a | Some x \<Rightarrow> f x)"
  by (cases v) simp_all

lemma keeps_prod [keeps]: "(\<And>x y. keeps R (f x y)) \<Longrightarrow> keeps R (case p of (x, y) \<Rightarrow> f x y)"
  by (cases p) simp

lemma keeps_list [keeps]:
  "keeps R a \<Longrightarrow> (\<And>x xs. keeps R (f x xs)) \<Longrightarrow> keeps R (case v of [] \<Rightarrow> a | x # xs \<Rightarrow> f x xs)"
  by (cases v) simp_all

lemma keeps_sum [keeps]:
  "(\<And>x. keeps R (f x)) \<Longrightarrow> (\<And>y. keeps R (g y)) \<Longrightarrow> keeps R (case v of Inl x \<Rightarrow> f x | Inr y \<Rightarrow> g y)"
  by (cases v) simp_all

lemma keeps_bool [keeps]: "keeps R a \<Longrightarrow> keeps R b \<Longrightarrow> keeps R (case v of True \<Rightarrow> a | False \<Rightarrow> b)"
  by (cases v) simp_all

lemma keeps_let [keeps]: "keeps R (f v) \<Longrightarrow> keeps R (Let v f)"
  by simp

text \<open>\<open>ends Q m\<close>: the value with which \<open>m\<close> ends, when it does not fail, satisfies \<open>Q\<close>.\<close>

named_theorems ends

definition ends :: "('a \<Rightarrow> bool) \<Rightarrow> ('w, 'a) io \<Rightarrow> bool" where
  "ends Q m = (\<forall>w x w'. m w = (Inr x, w') \<longrightarrow> Q x)"

lemma endsD: "ends Q m \<Longrightarrow> m w = (Inr x, w') \<Longrightarrow> Q x"
  unfolding ends_def by blast

lemma andThen_ok:
  "andThen m f w = (Inr y, w') \<longleftrightarrow> (\<exists>x v. m w = (Inr x, v) \<and> f x v = (Inr y, w'))"
  by (auto simp: andThen_def split: prod.splits sum.splits)

lemma ends_ret: "Q x \<Longrightarrow> ends Q (ret x)"
  by (simp add: ends_def ret_def)

lemma ends_fail [ends]: "ends Q (fail e)"
  by (simp add: ends_def fail_def)

lemma ends_andThen:
  assumes "ends P m" "\<And>x. P x \<Longrightarrow> ends Q (f x)"
  shows "ends Q (andThen m f)"
  unfolding ends_def
proof (intro allI impI)
  fix w y w' assume "andThen m f w = (Inr y, w')"
  then obtain x v where "m w = (Inr x, v)" "f x v = (Inr y, w')" by (auto simp: andThen_def split: prod.splits sum.splits)
  then show "Q y" using endsD [OF assms(2) [OF endsD [OF assms(1)]]] by metis
qed

lemma ends_then [ends]: "(\<And>x. ends Q (f x)) \<Longrightarrow> ends Q (andThen m f)"
  by (auto simp: ends_def andThen_def split: prod.splits sum.splits)

lemma ends_if [ends]: "ends Q a \<Longrightarrow> ends Q b \<Longrightarrow> ends Q (if c then a else b)"
  by simp

lemma ends_prod [ends]: "(\<And>x y. ends Q (f x y)) \<Longrightarrow> ends Q (case p of (x, y) \<Rightarrow> f x y)"
  by (cases p) simp

lemma ends_sum [ends]: "(\<And>x. ends Q (f x)) \<Longrightarrow> (\<And>y. ends Q (g y)) \<Longrightarrow> ends Q (case v of Inl x \<Rightarrow> f x | Inr y \<Rightarrow> g y)"
  by (cases v) simp_all

lemma ends_option [ends]: "ends Q a \<Longrightarrow> (\<And>x. ends Q (f x)) \<Longrightarrow> ends Q (case v of None \<Rightarrow> a | Some x \<Rightarrow> f x)"
  by (cases v) simp_all

text \<open>A loop over rows, with a property of the totals after each number of rows.\<close>

lemma ends_forEach:
  assumes "\<And>acc x n. P n acc \<Longrightarrow> ends (P (Suc n)) (f acc x)" "P n acc"
  shows "ends (P (n + length xs)) (forEach f acc xs)"
  using assms(2)
proof (induction xs arbitrary: acc n)
  case Nil
  then show ?case by (simp add: ends_ret)
next
  case (Cons x xs)
  have "ends (P (Suc n + length xs)) (forEach f acc' xs)" if "P (Suc n) acc'" for acc' using Cons.IH [OF that] .
  then show ?case unfolding forEach.simps by (simp add: ends_andThen [OF assms(1) [OF Cons.prems]])
qed

locale run_relation =
  fixes R :: "'w \<Rightarrow> 'w \<Rightarrow> bool"
  assumes refl_R: "R w w"
    and trans_R: "R a b \<Longrightarrow> R b c \<Longrightarrow> R a c"
begin

lemma ret: "keeps R (ret x)"
  by (simp add: keeps_def ret_def refl_R)

lemma fail: "keeps R (fail e)"
  by (simp add: keeps_def fail_def refl_R)

lemma getState: "keeps R (getState f)"
  by (simp add: keeps_def getState_def refl_R)

lemma fromGo: "keeps R (fromGo r)"
  by (simp add: fromGo_def ret fail split: option.splits)

lemma orScanError: "keeps R (orScanError r)"
  by (simp add: orScanError_def ret fail split: option.splits)

lemma rowsErr: "keeps R (rowsErr rows)"
  by (simp add: rowsErr_def ret fail split: option.splits)

lemma compatError: "keeps R (compatError msg)"
  by (simp add: compatError_def fail)

lemma putState: "(\<And>w. R w (f w)) \<Longrightarrow> keeps R (putState f)"
  by (simp add: keeps_def putState_def)

lemma andThen: "keeps R m \<Longrightarrow> (\<And>x. keeps R (f x)) \<Longrightarrow> keeps R (andThen m f)"
  unfolding keeps_def andThen_def
  by (auto split: prod.splits sum.splits) (metis snd_conv trans_R)+

lemma attempt: "keeps R m \<Longrightarrow> keeps R (attempt m)"
  unfolding keeps_def attempt_def
  by (auto split: prod.splits sum.splits connError.splits) (metis snd_conv)+

lemma onError: "keeps R m \<Longrightarrow> (\<And>w. R w (f w)) \<Longrightarrow> keeps R (onError m f)"
  unfolding keeps_def onError_def
  by (auto split: prod.splits sum.splits) (metis snd_conv trans_R)+

lemma wrapError: "keeps R m \<Longrightarrow> keeps R (wrapError c m)"
  unfolding keeps_def wrapError_def
  by (auto split: prod.splits sum.splits) (metis snd_conv)+

lemma forEach: "(\<And>acc x. keeps R (f acc x)) \<Longrightarrow> keeps R (forEach f acc xs)"
  by (induction xs arbitrary: acc) (simp_all add: ret andThen)

lemmas laws = ret fail getState fromGo orScanError rowsErr compatError putState andThen attempt onError wrapError forEach

end

subsection \<open>Computations that talk to SQLite\<close>

text \<open>
  What such a computation can do to the state, one assumption for each kind of change; the results kept of queries of the schema tables
  are not among them. A relation that allows these changes holds over all of them.
\<close>

locale engine_relation = run_relation R
  for R :: "'d world \<Rightarrow> 'd world \<Rightarrow> bool" +
  assumes of_db: "R w (w\<lparr> db := d \<rparr>)"
    and of_columns: "R w (w\<lparr> columnCache := c1 \<rparr>)" and of_keys: "R w (w\<lparr> uniqueCache := c2 \<rparr>)"
    and of_tables: "R w (w\<lparr> autoTables := c3 \<rparr>)" and of_restore: "R w (w\<lparr> restoreTables := c4 \<rparr>)"
    and of_inserts: "R w (w\<lparr> insertCache := c5 \<rparr>)" and of_upserts: "R w (w\<lparr> upsertCache := c6 \<rparr>)"
    and of_translations: "R w (w\<lparr> sqlCache := c7 \<rparr>)"
    and of_info: "informationSchemaCache.showFullFields c = informationSchemaCache.showFullFields (infoSchema w) \<Longrightarrow> queryResults c = queryResults (infoSchema w) \<Longrightarrow>
      R w (w\<lparr> infoSchema := c \<rparr>)"
    and of_bump: "R w (bumpSchemaVersion w)"
    and of_allocation: "R w (snd (recordAllocation t v w))"
    and of_flag: "R w (w\<lparr> sess := setFlag serverStatusInTrans (sess w) \<rparr>)"
    and of_stats: "queries (f (stats w)) = queries (stats w) \<Longrightarrow> unsupported (f (stats w)) = unsupported (stats w) \<Longrightarrow>
      R w (w\<lparr> stats := f (stats w) \<rparr>)"
begin

lemmas [keeps] = laws
lemmas of_cache = of_columns of_keys of_tables of_restore of_inserts of_upserts of_translations

lemma execContext [keeps]: "keeps R (execContext env query args)"
  by (simp add: keeps_def execContext_def of_db split: prod.splits)

lemma queryContext [keeps]: "keeps R (queryContext env query args)"
  by (simp add: keeps_def queryContext_def of_db split: prod.splits)

lemma markRestore: "R w (markMySQLAutoIncrementRestoreTable t w)"
  by (simp add: markMySQLAutoIncrementRestoreTable_def of_cache refl_R)

lemma recorded: "R w (let (b, w') = recordAllocation t v w in if b then markMySQLAutoIncrementRestoreTable t w' else w')"
  using of_allocation [of w t v] markRestore [of "snd (recordAllocation t v w)" t] trans_R
  by (auto split: prod.splits)

lemma if_rel: "R w a \<Longrightarrow> R w b \<Longrightarrow> R w (if c then a else b)"
  by simp

lemma onInfo_marks [keeps]:
  "keeps R (onInfo (markFullRefresh v))" "keeps R (onInfo (markSchemataRefresh v))" "keeps R (onInfo (markTableListRefresh v))"
  "keeps R (onInfo (markTable t v there))"
  by (simp_all add: keeps_def onInfo_def putState_def of_info markFullRefresh_def markSchemataRefresh_def markTableListRefresh_def
      markTable_def)

lemmas puts = of_cache of_bump refl_R of_allocation markRestore recorded if_rel

subsection \<open>Reading tables and running statements\<close>

lemma querySQLite [keeps]: "keeps R (querySQLite env q a)"
  by (unfold querySQLite_def; (rule keeps puts)+)

lemma querySQLiteText [keeps]: "keeps R (querySQLiteText env q b a)"
  by (unfold querySQLiteText_def; (rule keeps puts)+)

lemma tableColumns [keeps]: "keeps R (tableColumns env t)"
  by (unfold tableColumns_def; (rule keeps puts)+)

lemma insertColumns [keeps]: "keeps R (insertColumns env t)"
  by (unfold insertColumns_def; (rule keeps puts)+)

lemma indexColumns [keeps]: "keeps R (indexColumns env t)"
  by (unfold indexColumns_def; (rule keeps puts)+)

lemma uniqueKeys [keeps]: "keeps R (uniqueKeys env t)"
  by (unfold uniqueKeys_def; (rule keeps puts)+)

lemma allocation [keeps]: "keeps R (mysqlAutoIncrementAllocation t)"
  by (unfold mysqlAutoIncrementAllocation_def; (rule keeps puts)+)

lemma queryNullString [keeps]: "keeps R (queryNullString env q a)"
  by (unfold queryNullString_def; (rule keeps puts)+)

lemma queryNullInt [keeps]: "keeps R (queryNullInt env q)"
  by (unfold queryNullInt_def; (rule keeps puts)+)

lemma cacheAuto [keeps]: "keeps R (cacheSQLiteTableAutoincrement k v u)"
  by (unfold cacheSQLiteTableAutoincrement_def; (rule keeps puts)+)

lemma usesAuto [keeps]: "keeps R (sqliteTableUsesAutoincrement env t)"
  by (unfold sqliteTableUsesAutoincrement_def; (rule keeps puts)+)

lemma recordAuto [keeps]: "keeps R (recordMySQLAutoIncrementAllocation env q r)"
  by (unfold recordMySQLAutoIncrementAllocation_def; (rule keeps puts)+)

lemma atLeast [keeps]: "keeps R (setSQLiteSequenceAtLeast env t v)"
  by (unfold setSQLiteSequenceAtLeast_def; (rule keeps puts)+)

lemma restoreSequence [keeps]: "keeps R (restoreSequence env t)"
  by (unfold restoreSequence_def; (rule keeps puts)+)

lemma restore [keeps]: "keeps R (restoreMySQLAutoIncrementSequences env ks)"
  by (unfold restoreMySQLAutoIncrementSequences_def; (rule keeps puts)+)

lemma nextValue [keeps]: "keeps R (nextMySQLAutoIncrementValue env t c)"
  by (unfold nextMySQLAutoIncrementValue_def; (rule keeps puts)+)

lemma applyAuto [keeps]: "keeps R (applyMySQLAutoIncrementInsertValue env t tcs cs vs)"
  by (unfold applyMySQLAutoIncrementInsertValue_def; (rule keeps puts)+)

subsection \<open>Write validation\<close>

lemma defaultColumnValue [keeps]: "keeps R (defaultColumnValue a1 a2 a3 a4)"
  by (unfold defaultColumnValue_def; (rule keeps puts)+)

lemma rowExprs_loop [keeps]: "keeps R (rowExprs_loop env t tcs args pos es)"
proof (induction es arbitrary: pos)
  case Nil
  show ?case unfolding rowExprs_loop.simps by (rule keeps)
next
  case (Cons e es)
  obtain x c where e: "e = (x, c)" by (cases e)
  show ?case unfolding e rowExprs_loop.simps by (rule keeps Cons.IH)+
qed

lemma evaluateUpsertRow [keeps]: "keeps R (evaluateUpsertRow a1 a2 a3 a4 a5)"
  by (unfold evaluateUpsertRow_def; (rule keeps puts)+)

lemma columnValueOk [keeps]: "keeps R (columnValueOk a1 a2 a3 a4 a5)"
  by (unfold columnValueOk_def; (rule keeps puts)+)

lemma validateRows [keeps]: "keeps R (validateRows env t cs tcs i rows)"
proof (induction rows arbitrary: i)
  case Nil
  show ?case unfolding validateRows.simps by (rule keeps)
next
  case (Cons row rows)
  show ?case unfolding validateRows.simps by (rule keeps Cons.IH)+
qed

lemma validateMySQLInsertValues [keeps]: "keeps R (validateMySQLInsertValues a1 a2 a3)"
  by (unfold validateMySQLInsertValues_def; (rule keeps puts)+)

lemma evaluateValidationExpr [keeps]: "keeps R (evaluateValidationExpr a1 a2)"
  by (unfold evaluateValidationExpr_def; (rule keeps puts)+)

lemma validateAssignments [keeps]: "keeps R (validateAssignments env tcs args pos as)"
proof (induction as arbitrary: pos)
  case Nil
  show ?case unfolding validateAssignments.simps by (rule keeps)
next
  case (Cons a as)
  show ?case unfolding validateAssignments.simps by (rule keeps Cons.IH)+
qed

lemma validateMySQLUpdateValues [keeps]: "keeps R (validateMySQLUpdateValues a1 a2 a3)"
  by (unfold validateMySQLUpdateValues_def; (rule keeps puts)+)

lemma validateMySQLWriteValues [keeps]: "keeps R (validateMySQLWriteValues a1 a2 a3)"
  by (unfold validateMySQLWriteValues_def; (rule keeps puts)+)

subsection \<open>Inserts\<close>

lemma execSQLite [keeps]: "keeps R (execSQLite a1 a2 a3)"
  by (unfold execSQLite_def; (rule keeps puts of_flag)+)

lemma execSQLiteStatements [keeps]: "keeps R (execSQLiteStatements a1 a2 a3)"
  by (unfold execSQLiteStatements_def; (rule keeps puts)+)

lemma fetchRowByRowID [keeps]: "keeps R (fetchRowByRowID a1 a2 a3)"
  by (unfold fetchRowByRowID_def; (rule keeps puts)+)

lemma addRowID [keeps]: "keeps R (addRowID a1 a2 a3)"
  by (unfold addRowID_def; (rule keeps puts)+)

lemma findConflictRowIDs [keeps]: "keeps R (findConflictRowIDs a1 a2 a3 a4)"
  by (unfold findConflictRowIDs_def; (rule keeps puts)+)

lemma findConflictRowID [keeps]: "keeps R (findConflictRowID a1 a2 a3 a4)"
  by (unfold findConflictRowID_def; (rule keeps puts)+)

lemma autoIncrementValue [keeps]: "keeps R (autoIncrementValue a1 a2 a3)"
  by (unfold autoIncrementValue_def; (rule keeps puts)+)

lemma prepareInsertRow [keeps]: "keeps R (prepareInsertRow a1 a2 a3 a4 a5)"
  by (unfold prepareInsertRow_def; (rule keeps puts)+)

lemma rowInserted [keeps]: "keeps R (rowInserted a1 a2 a3 a4)"
  by (unfold rowInserted_def; (rule keeps puts)+)

lemma upsertRow [keeps]: "keeps R (upsertRow a1 a2 a3 a4 a5 a6)"
  by (unfold upsertRow_def; (rule keeps puts)+)

lemma statementColumns [keeps]: "keeps R (statementColumns a1 a2 a3)"
  by (unfold statementColumns_def; (rule keeps puts)+)

lemma cachedUpsert [keeps]: "keeps R (cachedUpsert q args)"
  by (simp add: keeps_def cachedUpsert_def of_cache split: prod.splits)

lemma cachedInsert [keeps]: "keeps R (cachedInsert q args)"
  by (simp add: keeps_def cachedInsert_def of_cache split: prod.splits)

lemma execMySQLUpsert [keeps]: "keeps R (execMySQLUpsert a1 a2 a3)"
  by (unfold execMySQLUpsert_def; (rule keeps puts)+)

lemma plainInsertRow [keeps]: "keeps R (plainInsertRow a1 a2 a3 a4 a5 a6)"
  by (unfold plainInsertRow_def; (rule keeps puts)+)

lemma insertIgnoreRow [keeps]: "keeps R (insertIgnoreRow a1 a2 a3 a4 a5 a6)"
  by (unfold insertIgnoreRow_def; (rule keeps puts)+)

lemma replaceRow [keeps]: "keeps R (replaceRow a1 a2 a3 a4 a5 a6)"
  by (unfold replaceRow_def; (rule keeps puts)+)

lemma execMySQLInsertCompatibility [keeps]: "keeps R (execMySQLInsertCompatibility a1 a2 a3)"
  by (unfold execMySQLInsertCompatibility_def; (rule keeps puts)+)

subsection \<open>Schema tables and SHOW\<close>

lemma onStats [keeps]: "keeps R (onStats (onMetadata f))"
  by (unfold onStats_def, rule putState, rule of_stats) (simp_all add: onMetadata_def)

lemmas metadata_counters = recordInformationSchemaQuery_def recordShowFullFieldsQuery_def recordShowCreateTableQuery_def
  recordShowKeysQuery_def recordInformationSchemaTargetTableCacheHit_def recordInformationSchemaTargetTableRefresh_def
  recordInformationSchemaFullRefreshCacheHit_def recordInformationSchemaFullRefresh_def recordInformationSchemaTableLoaded_def

lemma execIgnored: "R w (execIgnored env q w)"
  by (simp add: execIgnored_def execContext [unfolded keeps_def, rule_format])

lemma execIgnored_twice: "R w (execIgnored env q' (execIgnored env q w))"
  using execIgnored trans_R by blast

lemma execWrapped [keeps]: "keeps R (execWrapped a1 a2 a3 a4)"
  by (unfold execWrapped_def; (rule keeps puts)+)

lemma insertInformationSchemaSchemata [keeps]: "keeps R (insertInformationSchemaSchemata a1)"
  by (unfold insertInformationSchemaSchemata_def; (rule keeps puts)+)

lemma insertInformationSchemaTable [keeps]: "keeps R (insertInformationSchemaTable a1 a2 a3)"
  by (unfold insertInformationSchemaTable_def; (rule keeps puts)+)

lemma insertInformationSchemaTableConstraint [keeps]: "keeps R (insertInformationSchemaTableConstraint a1 a2 a3 a4)"
  by (unfold insertInformationSchemaTableConstraint_def; (rule keeps puts)+)

lemma insertInformationSchemaReferentialConstraint [keeps]: "keeps R (insertInformationSchemaReferentialConstraint a1 a2 a3 a4 a5 a6 a7)"
  by (unfold insertInformationSchemaReferentialConstraint_def; (rule keeps puts)+)

lemma insertInformationSchemaKeyColumn [keeps]: "keeps R (insertInformationSchemaKeyColumn a1 a2 a3 a4 a5 a6 a7 a8)"
  by (unfold insertInformationSchemaKeyColumn_def; (rule keeps puts)+)

lemma insertInformationSchemaStatisticWithMetadata [keeps]: "keeps R (insertInformationSchemaStatisticWithMetadata a1 a2 a3 a4 a5 a6 a7 a8 a9)"
  by (unfold insertInformationSchemaStatisticWithMetadata_def; (rule keeps puts)+)

lemma insertInformationSchemaStatistic [keeps]: "keeps R (insertInformationSchemaStatistic a1 a2 a3 a4 a5 a6)"
  by (unfold insertInformationSchemaStatistic_def; (rule keeps puts)+)

lemma forRows [keeps]: "(\<And>acc row. keeps R (h acc row)) \<Longrightarrow> keeps R (forRows env l c q s h a)"
  by (unfold forRows_def; (rule keeps puts | assumption)+)

lemma insertInformationSchemaPrimaryKeys [keeps]: "keeps R (insertInformationSchemaPrimaryKeys a1 a2)"
  by (unfold insertInformationSchemaPrimaryKeys_def; (rule keeps puts)+)

lemma insertIndexColumn [keeps]: "keeps R (insertIndexColumn a1 a2 a3 a4 a5 a6 a7)"
  by (unfold insertIndexColumn_def; (rule keeps puts)+)

lemma insertInformationSchemaIndexColumns [keeps]: "keeps R (insertInformationSchemaIndexColumns a1 a2 a3 a4 a5 a6)"
  by (unfold insertInformationSchemaIndexColumns_def; (rule keeps puts)+)

lemma insertInformationSchemaIndexes [keeps]: "keeps R (insertInformationSchemaIndexes a1 a2 a3)"
  by (unfold insertInformationSchemaIndexes_def; (rule keeps puts)+)

lemma insertInformationSchemaForeignKeys [keeps]: "keeps R (insertInformationSchemaForeignKeys a1 a2)"
  by (unfold insertInformationSchemaForeignKeys_def; (rule keeps puts)+)

lemma insertColumnRow [keeps]: "keeps R (insertColumnRow a1 a2 a3 a4)"
  by (unfold insertColumnRow_def; (rule keeps puts)+)

lemma insertInformationSchemaColumns [keeps]: "keeps R (insertInformationSchemaColumns a1 a2 a3)"
  by (unfold insertInformationSchemaColumns_def; (rule keeps puts)+)

lemma insertInformationSchemaKeys [keeps]: "keeps R (insertInformationSchemaKeys a1 a2 a3)"
  by (unfold insertInformationSchemaKeys_def; (rule keeps puts)+)

lemma insertInformationSchemaTableMetadata [keeps]: "keeps R (insertInformationSchemaTableMetadata a1 a2 a3 a4 a5)"
  by (unfold insertInformationSchemaTableMetadata_def metadata_counters if_distrib [of onStats] sum.case_distrib [of onStats]; (rule keeps puts)+)

lemma createInformationSchemaTables [keeps]: "keeps R (createInformationSchemaTables a1)"
  by (unfold createInformationSchemaTables_def; (rule keeps puts)+)

lemma ensureInformationSchemaAttached [keeps]: "keeps R (ensureInformationSchemaAttached a1)"
  by (unfold ensureInformationSchemaAttached_def; (rule keeps puts)+)

lemma prepareInformationSchema [keeps]: "keeps R (prepareInformationSchema a1)"
  by (unfold prepareInformationSchema_def; (rule keeps puts)+)

lemma clearInformationSchema [keeps]: "keeps R (clearInformationSchema a1)"
  by (unfold clearInformationSchema_def; (rule keeps puts)+)

lemma clearInformationSchemaTable [keeps]: "keeps R (clearInformationSchemaTable a1 a2)"
  by (unfold clearInformationSchemaTable_def; (rule keeps puts)+)

lemma refreshInformationSchemaSchemata [keeps]: "keeps R (refreshInformationSchemaSchemata a1)"
  by (unfold refreshInformationSchemaSchemata_def; (rule keeps puts)+)

lemma batch [keeps]: "keeps R m \<Longrightarrow> keeps R (withInformationSchemaRefreshBatch env m)"
  by (unfold withInformationSchemaRefreshBatch_def; (rule keeps execIgnored_twice | assumption)+)

lemma refreshInformationSchema [keeps]: "keeps R (refreshInformationSchema a1 a2)"
  by (unfold refreshInformationSchema_def metadata_counters if_distrib [of onStats] sum.case_distrib [of onStats]; (rule keeps puts)+)

lemma refreshInformationSchemaSchemataOnly [keeps]: "keeps R (refreshInformationSchemaSchemataOnly a1)"
  by (unfold refreshInformationSchemaSchemataOnly_def; (rule keeps puts)+)

lemma refreshInformationSchemaTableList [keeps]: "keeps R (refreshInformationSchemaTableList a1)"
  by (unfold refreshInformationSchemaTableList_def metadata_counters if_distrib [of onStats] sum.case_distrib [of onStats]; (rule keeps puts)+)

lemma informationSchemaCachedTableExists [keeps]: "keeps R (informationSchemaCachedTableExists a1 a2)"
  by (unfold informationSchemaCachedTableExists_def; (rule keeps puts)+)

lemma loadTable [keeps]: "keeps R (loadTable a1 a2)"
  by (unfold loadTable_def; (rule keeps puts)+)

lemma refreshInformationSchemaTable [keeps]: "keeps R (refreshInformationSchemaTable a1 a2 a3)"
  by (unfold refreshInformationSchemaTable_def metadata_counters if_distrib [of onStats] sum.case_distrib [of onStats]; (rule keeps puts)+)

lemma refreshInformationSchemaForQuery [keeps]: "keeps R (refreshInformationSchemaForQuery a1 a2 a3)"
  by (unfold refreshInformationSchemaForQuery_def, cases "informationSchemaBroadRefreshScope a3") (simp_all add: keeps)

lemma cachedTranslation [keeps]: "keeps R (cachedTranslation q)"
  by (simp add: keeps_def cachedTranslation_def of_cache refl_R split: option.splits prod.splits)

lemma noSuchTable [keeps]: "keeps R (noSuchTable t)"
  by (simp add: keeps_def noSuchTable_def refl_R)

lemma showTables [keeps]: "keeps R (showTables a1)"
  by (unfold showTables_def; (rule keeps puts)+)

lemma showFullFieldColumns [keeps]: "keeps R (showFullFieldColumns a1 a2 a3)"
  by (unfold showFullFieldColumns_def; (rule keeps puts)+)

lemma addShowFullFieldIndexKeys [keeps]: "keeps R (addShowFullFieldIndexKeys a1 a2 a3 a4 a5 a6)"
  by (unfold addShowFullFieldIndexKeys_def; (rule keeps puts)+)

lemma showFullFieldIndexKeys [keeps]: "keeps R (showFullFieldIndexKeys a1 a2 a3)"
  by (unfold showFullFieldIndexKeys_def; (rule keeps puts)+)

lemma showFullFieldsDirect [keeps]: "keeps R (showFullFieldsDirect a1 a2 a3 a4)"
  by (unfold showFullFieldsDirect_def; (rule keeps puts)+)

lemma showCreateTable [keeps]: "keeps R (showCreateTable a1 a2 a3)"
  by (unfold showCreateTable_def metadata_counters; (rule keeps puts)+)

lemma showKeys [keeps]: "keeps R (showKeys a1 a2 a3 a4)"
  by (unfold showKeys_def metadata_counters; (rule keeps puts)+)

end

subsection \<open>The frame of the engine\<close>

text \<open>
  Computations that talk to SQLite change of the server's state at most the counters, the caches, and the largest
  \<open>AUTO_INCREMENT\<close> values, which only grow; of the session only the transaction flag.
\<close>

definition grows :: "(string \<rightharpoonup> 64 word) \<Rightarrow> (string \<rightharpoonup> 64 word) \<Rightarrow> bool" where
  "grows m m' = (\<forall>t. allocated m t \<le> allocated m' t)"

definition engineFrame :: "'d world \<Rightarrow> 'd world \<Rightarrow> bool" where
  "engineFrame w w' =
     (diagnostics w' = diagnostics w \<and> ruleUsed w' = ruleUsed w \<and> locks w' = locks w \<and> mdata w' = mdata w \<and>
      queries (stats w') = queries (stats w) \<and> unsupported (stats w') = unsupported (stats w) \<and>
      (sess w')\<lparr> statusFlags := 0 \<rparr> = (sess w)\<lparr> statusFlags := 0 \<rparr> \<and>
      (hasFlag serverStatusInTrans (sess w) \<longrightarrow> hasFlag serverStatusInTrans (sess w')) \<and>
      (hasFlag serverStatusAutocommit (sess w') = hasFlag serverStatusAutocommit (sess w)) \<and>
      grows (autoInc w) (autoInc w'))"

lemma grows_trans: "grows a b \<Longrightarrow> grows b c \<Longrightarrow> grows a c"
  unfolding grows_def using order_trans by blast

lemma recordAllocation_grows: "grows (autoInc w) (autoInc (snd (recordAllocation t v w)))"
  by (auto simp: recordAllocation_def grows_def allocated_def split: option.splits)

interpretation frame: engine_relation engineFrame
proof
  show "engineFrame a c" if "engineFrame a b" "engineFrame b c" for a b c :: "'d world"
    using that grows_trans [of "autoInc a" "autoInc b" "autoInc c"] unfolding engineFrame_def by simp
  show "engineFrame w (snd (recordAllocation t v w))" for w :: "'d world" and t v
    using recordAllocation_grows [of w t v] by (simp add: engineFrame_def recordAllocation_def)
  show "engineFrame w (w\<lparr> sess := setFlag serverStatusInTrans (sess w) \<rparr>)" for w :: "'d world"
    by (simp add: engineFrame_def grows_def) (simp add: setFlag_def)
qed (simp_all add: engineFrame_def grows_def bumpSchemaVersion_def recordSchemaChange_def)

lemma frame_onInfo [keeps]: "keeps engineFrame (onInfo f)"
  by (simp add: keeps_def onInfo_def putState_def engineFrame_def grows_def)

lemma frame_queryInformationSchemaText [keeps]: "keeps engineFrame (queryInformationSchemaText a1 a2 a3 a4 a5)"
  by (unfold queryInformationSchemaText_def frame.metadata_counters if_distrib [of onStats] sum.case_distrib [of onStats]; (rule keeps frame.puts)+)

lemma frame_showFullFields [keeps]: "keeps engineFrame (showFullFields a1 a2 a3 a4)"
  by (unfold showFullFields_def frame.metadata_counters; (rule keeps frame.puts)+)


end
