(* ===== verification/Example_Engine.thy ===== *)
theory Example_Engine
  imports Frame
begin

text \<open>
  The state of a server that has just been made, and, for closed examples, a server and an engine that refuses everything.
\<close>

text \<open>\<open>New\<close>: nothing is recorded, cached or allocated; the session is that of a new connection.\<close>

definition newWorld :: "'d \<Rightarrow> (string \<rightharpoonup> string) \<Rightarrow> 32 word \<Rightarrow> 'd world" where
  "newWorld d vars cid =
     \<lparr> db = d, sess = newSession vars cid, restoreTables = Map.empty, mdata = noMetadata, autoInc = Map.empty, schemaVersion = 0,
       columnCache = Map.empty, uniqueCache = Map.empty, autoTables = Map.empty, insertCache = emptyCache,
       upsertCache = emptyCache, infoSchema = newInformationSchemaCache, locks = Map.empty, sqlCache = emptyCache,
       stmtsCache = emptyCache, stats = newStats, diagnostics = \<lparr> unsupportedLog = [], queryLog = [] \<rparr>, ruleUsed = {} \<rparr>"

definition exampleCompat :: CompatConfig where
  "exampleCompat = \<lparr> Profile = ''mysql'', AllowZeroDates = False, ImplicitDefaults = False, WriteValidation = ''strict'', Variables = None \<rparr>"

definition refusingEnv :: "unit env" where
  "refusingEnv = \<lparr> Exec = (\<lambda>_ _ d. (Inl ''no such table: t'', d)), Query = (\<lambda>_ _ d. (Inl ''no such table: t'', d)), std = exampleStd,
     sscan = (\<lambda>_. None), compat = exampleCompat, infoDSN = [], fmtArg = (\<lambda>_. []) \<rparr>"

definition exampleServer :: "'d env \<Rightarrow> 'd server" where
  "exampleServer env = \<lparr> engine = env, mysqlVersion = ''8.0.36-mock'', configuredRules = [],
     unsupportedConfig = \<lparr> unType = ''error'', unCode = 1105, unState = ''HY000'', unMessage = ''Unsupported query'' \<rparr>,
     sprint = (\<lambda>_. []), goQuote = (\<lambda>s. dq # s @ [dq]), indexKeys = (\<lambda>_. []), restoreKeys = (\<lambda>_. []), variableNames = (\<lambda>_. []),
     describeRule = (\<lambda>_. []), describeCodec = (\<lambda>_. []) \<rparr>"

end
