(* ===== verification/Route_Properties.thy ===== *)
theory Route_Properties
  imports Example_Engine
begin

text \<open>
  Properties of the routing of statements: what is recorded, what a client reads back, which statements reach SQLite.
\<close>

subsection \<open>The frame of a statement\<close>

text \<open>
  Between the records of two statements the log and the counters stand still, the results of the last statement are kept, the
  largest \<open>AUTO_INCREMENT\<close> values only grow, and no other connection's advisory locks are touched.
\<close>

definition othersLocks :: "32 word \<Rightarrow> advisoryLockStore \<Rightarrow> advisoryLockStore \<Rightarrow> bool" where
  "othersLocks cid l l' = (\<forall>name h. h \<noteq> cid \<longrightarrow> (l' name = Some h) = (l name = Some h))"

lemma othersLocks_refl [simp]: "othersLocks cid l l"
  by (simp add: othersLocks_def)

lemma othersLocks_trans: "othersLocks cid a b \<Longrightarrow> othersLocks cid b c \<Longrightarrow> othersLocks cid a c"
  by (simp add: othersLocks_def)

lemma othersLocks_advisory: "othersLocks (connectionID s) l (snd (advisoryLockResult q s l))"
  by (auto simp: othersLocks_def advisoryLockResult_def getAdvisoryLock_def releaseAdvisoryLock_def Let_def split: option.splits)

definition routeFrame :: "'d world \<Rightarrow> 'd world \<Rightarrow> bool" where
  "routeFrame w w' =
     (diagnostics w' = diagnostics w \<and> queries (stats w') = queries (stats w) \<and> unsupported (stats w') = unsupported (stats w) \<and>
      connectionID (sess w') = connectionID (sess w) \<and> lastInsertID (sess w') = lastInsertID (sess w) \<and>
      lastAffectedRows (sess w') = lastAffectedRows (sess w) \<and> othersLocks (connectionID (sess w)) (locks w) (locks w') \<and> grows (autoInc w) (autoInc w'))"

interpretation route: run_relation routeFrame
proof
  show "routeFrame w w" for w :: "'d world" by (simp add: routeFrame_def grows_def)
  show "routeFrame a c" if "routeFrame a b" "routeFrame b c" for a b c :: "'d world"
    using that grows_trans [of "autoInc a" "autoInc b" "autoInc c"]
      othersLocks_trans [of "connectionID (sess a)" "locks a" "locks b" "locks c"] unfolding routeFrame_def by simp
qed

lemmas [keeps] = route.laws

lemma engine_route: "engineFrame w w' \<Longrightarrow> routeFrame w w'"
  unfolding engineFrame_def routeFrame_def by (cases "sess w"; cases "sess w'") auto

lemma keeps_mono: "keeps R m \<Longrightarrow> (\<And>w w'. R w w' \<Longrightarrow> S w w') \<Longrightarrow> keeps S m"
  by (simp add: keeps_def)

lemma keeps_engine: "keeps engineFrame m \<Longrightarrow> keeps routeFrame m"
  using keeps_mono engine_route by blast


lemma route_of_engine [keeps]:
  "keeps routeFrame (execSQLite env q args)" "keeps routeFrame (restoreMySQLAutoIncrementSequences env ks)"
  "keeps routeFrame (showTables env)" "keeps routeFrame (showFullFields env refuse ks q)" "keeps routeFrame (showCreateTable env refuse q)"
  "keeps routeFrame (showKeys env refuse ks q)" "keeps routeFrame (queryInformationSchemaText env ks q b args)"
  "keeps routeFrame (cachedTranslation q)" "keeps routeFrame (querySQLiteText env q b args)"
  "keeps routeFrame (execMySQLUpsert env q args)" "keeps routeFrame (execMySQLInsertCompatibility env q args)"
  "keeps routeFrame (execSQLiteStatements env qs args)"
  by (rule keeps_engine, rule keeps)+

text \<open>The identity of the session and the results of its last statement.\<close>

definition lastResult :: "session \<Rightarrow> 32 word \<times> 64 word \<times> 64 word" where
  "lastResult s = (connectionID s, lastInsertID s, lastAffectedRows s)"

lemma route_session:
  "lastResult s = lastResult (sess w) \<Longrightarrow> routeFrame w (w\<lparr> sess := s \<rparr>)"
  by (simp add: routeFrame_def grows_def lastResult_def)

lemma lastResult_kept [simp]:
  "lastResult (setFlag f s) = lastResult s" "lastResult (clearFlag f s) = lastResult s"
  "lastResult (setAutocommit q s) = lastResult s" "lastResult (resetCharacterSetState vars s) = lastResult s"
  "lastResult (setNames vars q s) = lastResult s"
  by (simp_all add: lastResult_def setFlag_def clearFlag_def setAutocommit_def resetCharacterSetState_def setNames_def Let_def
      split: option.splits)

lemma setVariable_lastResult: "lastResult (fst (setVariable vars a st)) = lastResult (fst st)"
  by (cases st) (simp add: setVariable_def lastResult_def resetCharacterSetState_def Let_def split: option.splits prod.splits)

lemma setVariables_lastResult [simp]: "lastResult (fst (setVariables vars q s)) = lastResult s"
proof -
  have "lastResult (fst (fold (setVariable vars) as st)) = lastResult (fst st)" for as st
    by (induction as arbitrary: st) (simp_all add: setVariable_lastResult)
  then show ?thesis by (simp add: setVariables_def)
qed

lemma route_ignored: "routeFrame w (fold (execIgnored env) qs w)"
proof (induction qs arbitrary: w)
  case Nil
  show ?case by (simp add: route.refl_R)
next
  case (Cons q qs)
  have "routeFrame w (execIgnored env q w)" using frame.execIgnored engine_route by blast
  then show ?case using Cons.IH [of "execIgnored env q w"] route.trans_R by simp blast
qed

lemma route_clear: "routeFrame w (clearInTrans w)" "routeFrame w (clearMySQLAutoIncrementRestoreTables w)"
  "routeFrame w ((clearInTrans \<circ> clearMySQLAutoIncrementRestoreTables) w)"
  by (simp_all add: routeFrame_def grows_def clearInTrans_def clearMySQLAutoIncrementRestoreTables_def clearFlag_def)

lemma route_transactions [keeps]:
  "keeps routeFrame (restoreSequences srv)" "keeps routeFrame (runCommit srv)" "keeps routeFrame (runRollback srv)"
  "keeps routeFrame (runRollbackAndChain srv)" "keeps routeFrame (runRollbackToSavepoint srv q)"
proof -
  show r [keeps]: "keeps routeFrame (restoreSequences srv)" by (unfold restoreSequences_def; (rule keeps)+)
  show "keeps routeFrame (runCommit srv)" by (unfold runCommit_def; (rule keeps route_clear)+)
  show "keeps routeFrame (runRollback srv)" by (unfold runRollback_def; (rule keeps r route_clear)+)
  show "keeps routeFrame (runRollbackAndChain srv)" by (unfold runRollbackAndChain_def; (rule keeps r route_clear)+)
  show "keeps routeFrame (runRollbackToSavepoint srv q)" by (unfold runRollbackToSavepoint_def; (rule keeps r)+)
qed

lemma route_session_statements [keeps]:
  "(\<And>s. lastResult (f s) = lastResult s) \<Longrightarrow> keeps routeFrame (onSession f)"
  "keeps routeFrame (execSetVariables srv q)"
  "keeps routeFrame (runAdvisoryLock q)"
proof -
  show "keeps routeFrame (onSession f)" if "\<And>s. lastResult (f s) = lastResult s"
    unfolding onSession_def by (rule keeps route_session that)+
  show "keeps routeFrame (execSetVariables srv q)"
    unfolding keeps_def
  proof
    fix w :: "'b world"
    let ?sv = "setVariables (serverVariables srv) q (sess w)"
    have "snd (execSetVariables srv q w) = fold (execIgnored (engine srv)) (snd ?sv) (w\<lparr> sess := fst ?sv \<rparr>)"
      by (simp add: execSetVariables_def andThen_def getState_def putState_def ret_def split: prod.splits)
    then show "routeFrame w (snd (execSetVariables srv q w))"
      using route.trans_R [OF route_session route_ignored, of "fst ?sv" w "engine srv" "snd ?sv"] by simp
  qed
  show "keeps routeFrame (runAdvisoryLock q)"
    using othersLocks_advisory by (auto simp: keeps_def runAdvisoryLock_def routeFrame_def grows_def split: prod.splits) (metis snd_conv)
qed

lemma route_writes [keeps]:
  "keeps routeFrame (execTranslated env q args)" "keeps routeFrame (runInsertOrWrite env u q args)"
proof -
  have c [keeps]: "keeps routeFrame (cachedStatements q)" for q
    by (simp add: keeps_def cachedStatements_def routeFrame_def grows_def split: option.splits prod.splits)
  have m: "routeFrame w (recordStatementMetadata env q w)" for w
    by (simp add: routeFrame_def grows_def recordStatementMetadata_def)
  show t [keeps]: "keeps routeFrame (execTranslated env q args)" by (unfold execTranslated_def; (rule keeps c m)+)
  show "keeps routeFrame (runInsertOrWrite env u q args)" by (unfold runInsertOrWrite_def; (rule keeps t)+)
qed

lemma route_tryRules: "routeFrame w (snd (tryRules srv q args w))"
  by (simp add: tryRules_def routeFrame_def grows_def split: sum.splits prod.splits)

lemma tryRules_returns: "\<exists>m v. tryRules srv q args w = (Inr m, v)"
  by (cases "executeRule (sprint srv) (configuredRules srv) q (map RVal args) (ruleUsed w)")
    (auto simp: tryRules_def split: prod.splits)

lemma route_perform:
  assumes "kind \<noteq> SelectVariable" "kind \<noteq> WriteQuery" "kind \<noteq> UnsupportedStatement"
  shows "keeps routeFrame (perform srv command sqlText trimmed args kind)"
  using assms
  by (cases kind) (simp_all only: perform_def Let_def statementKind.case inIndexOrder_def simp_thms,
    (rule keeps lastResult_kept)+)


subsection \<open>One record for each statement\<close>

text \<open>One query event for the statement is added, at most one unsupported statement, and the counters count them.\<close>

definition recordedOnce :: "string \<Rightarrow> string \<Rightarrow> 'd world \<Rightarrow> 'd world \<Rightarrow> bool" where
  "recordedOnce command sqlText w w' =
     (let new = queryLog (diagnostics w'); refused = unsupportedLog (diagnostics w');
          us = drop (length (unsupportedLog (diagnostics w))) refused in
      new \<noteq> [] \<and> butlast new = queryLog (diagnostics w) \<and>
      evSQL (last new) = sqlText \<and> evCommand (last new) = command \<and> evConnectionID (last new) = connectionID (sess w) \<and>
      prefix (unsupportedLog (diagnostics w)) refused \<and> length us \<le> 1 \<and> list_all (\<lambda>u. unSQL u = sqlText) us \<and>
      Total (queries (stats w')) = Total (queries (stats w)) + 1 \<and>
      unsupported (stats w') = unsupported (stats w) + of_nat (length us))"

lemma recorded_log: "recordedOnce command sqlText w (logQueryEvent command route sqlText normalized w)"
  by (simp add: recordedOnce_def Let_def logQueryEvent_def logQuery_def recordQuery_def)

lemma recorded_unsupported:
  "command \<noteq> [] \<Longrightarrow> recordedOnce command sqlText w (recordUnsupported srv command sqlText normalized stage w)"
  by (simp add: recordedOnce_def Let_def recordUnsupported_def recordUnsupportedQuery_def logQuery_def logUnsupported_def
      recordQuery_def recordUnsupportedCount_def orDefault_def)

lemma recorded_before: "routeFrame v w \<Longrightarrow> recordedOnce command sqlText w w' \<Longrightarrow> recordedOnce command sqlText v w'"
  by (simp add: recordedOnce_def routeFrame_def)

lemma recorded_after: "recordedOnce command sqlText v w \<Longrightarrow> routeFrame w w' \<Longrightarrow> recordedOnce command sqlText v w'"
  by (simp add: recordedOnce_def routeFrame_def)

lemma records_then:
  "keeps (recordedOnce command sqlText) m \<Longrightarrow> (\<And>x. keeps routeFrame (f x)) \<Longrightarrow> keeps (recordedOnce command sqlText) (andThen m f)"
  unfolding keeps_def andThen_def
  by (auto split: prod.splits sum.splits) (metis snd_conv recorded_after)+

lemma records_put: "(\<And>w. recordedOnce command sqlText w (f w)) \<Longrightarrow> keeps (recordedOnce command sqlText) (putState f)"
  by (simp add: keeps_def putState_def)

lemma records_get: "(\<And>x. keeps R (f x)) \<Longrightarrow> keeps R (andThen (getState g) f)"
  by (simp add: keeps_def andThen_def getState_def)

lemmas records = records_then records_put records_get recorded_log recorded_unsupported

lemma records_selectVariable:
  "command \<noteq> [] \<Longrightarrow> keeps (recordedOnce command sqlText) (runSelectVariable srv command sqlText normalized)"
  unfolding runSelectVariable_def by (rule records keeps | assumption)+

lemma records_write: "command \<noteq> [] \<Longrightarrow> keeps (recordedOnce command sqlText) (runWrite srv command sqlText trimmed args)"
  unfolding runWrite_def Let_def by (rule records keeps | assumption)+

lemma keeps_ret_then: "andThen (ret x) f = f x"
  by (simp add: fun_eq_iff andThen_def ret_def)

lemma records_perform:
  assumes "command \<noteq> []"
  shows "keeps (recordedOnce command sqlText)
     (andThen (case routeOf kind of Some route \<Rightarrow> putState (logQueryEvent command route sqlText normalized) | None \<Rightarrow> ret ())
        (\<lambda>_. perform srv command sqlText trimmed args kind))"
proof (cases "kind \<in> {SelectVariable, WriteQuery, UnsupportedStatement}")
  case True
  then have "keeps (recordedOnce command sqlText) (perform srv command sqlText trimmed args kind)"
    using assms records_selectVariable records_write
    by (auto simp: perform_def Let_def intro!: records keeps)
  then show ?thesis using True by (auto simp: keeps_ret_then)
next
  case False
  then obtain route where "routeOf kind = Some route" by (cases kind) auto
  then show ?thesis using route_perform [of kind] False by (auto intro!: records)
qed



end
