(* ===== verification/Connection_Frame.thy ===== *)
theory Connection_Frame
  imports Route_Properties
begin

text \<open>
  From statements to connections: a relation that holds over everything a statement does between its records, and over the records
  themselves, holds over whole statements; one that holds also over changes of the session, from one end of a connection to
  the other, whatever the client sends.
\<close>

locale statement_relation = run_relation R
  for R :: "'d world \<Rightarrow> 'd world \<Rightarrow> bool" +
  assumes of_route: "routeFrame w w' \<Longrightarrow> R w w'"
    and of_log: "R w (logQueryEvent command route sqlText normalized w)"
    and of_unsupported: "R w (recordUnsupported srv command sqlText normalized stage w)"
begin

lemma statement: "keeps routeFrame m \<Longrightarrow> keeps R m"
  by (simp add: keeps_def of_route)

lemma perform: "keeps R (perform srv command sqlText trimmed args kind)"
proof (cases "kind \<in> {SelectVariable, WriteQuery, UnsupportedStatement}")
  case False
  then show ?thesis using route_perform statement by blast
next
  case True
  have "keeps R (runSelectVariable srv command sqlText normalized)" for normalized
    unfolding runSelectVariable_def by (rule keeps laws of_log of_unsupported)+
  moreover have "keeps R (runInsertOrWrite env u q args)" for env :: "'d env" and u q args
    by (rule statement, rule keeps)
  then have "keeps R (runWrite srv command sqlText trimmed args)"
    unfolding runWrite_def Let_def by (auto intro!: keeps laws of_log of_unsupported)
  ultimately show ?thesis using True by (auto simp: perform_def Let_def intro!: keeps laws of_log of_unsupported)
qed

lemma executeQuery: "keeps R (executeQuery srv command sqlText args)"
proof -
  have t: "keeps R (tryRules srv sqlText args)"
    unfolding keeps_def using of_route [OF route_tryRules] by blast
  have r: "keeps R (ruleResponseIO srv a)" for a
    by (cases a) (simp_all add: ruleResponseIO_def laws)
  show ?thesis unfolding executeQuery_def Let_def by (rule keeps laws perform t r of_log)+
qed

end

lemma connectionID_recordResponse [simp]: "connectionID (recordResponse resp s) = connectionID s"
  by (simp add: recordResponse_def recordResult_def Let_def split: response.split)

lemma readHandshakeResponse_connectionID: "connectionID (fst (readHandshakeResponse p s)) = connectionID s"
  by (simp add: readHandshakeResponse_def Let_def split: option.split)

locale connection_relation = statement_relation R
  for R :: "'d world \<Rightarrow> 'd world \<Rightarrow> bool" +
  assumes of_session: "connectionID s = connectionID (sess w) \<Longrightarrow> R w (w\<lparr> sess := s \<rparr>)"
begin

lemma answerStatement: "keeps R (answerStatement srv reply command sqlText args)"
  unfolding keeps_def
proof
  fix w
  obtain r v where e: "executeQuery srv command sqlText args w = (r, v)" by fastforce
  have "R w v" using executeQuery e by (rule keepsD)
  moreover have "R v (snd (answerStatement srv reply command sqlText args w))"
    unfolding answerStatement_def e prod.case
    by (cases r; (cases "projl r")?) (auto simp: Let_def of_unsupported refl_R intro!: of_session split: connError.split)
  ultimately show "R w (snd (answerStatement srv reply command sqlText args w))" by (rule trans_R)
qed

end

text \<open>The same relation on the second part of a connection's state.\<close>

definition onConnection :: "('d world \<Rightarrow> 'd world \<Rightarrow> bool) \<Rightarrow> 'd connection \<Rightarrow> 'd connection \<Rightarrow> bool" where
  "onConnection R c c' = R (snd c) (snd c')"

sublocale connection_relation \<subseteq> conn: run_relation "onConnection R"
  by unfold_locales (auto simp: onConnection_def intro: refl_R trans_R)

context connection_relation begin

lemma onWorld: "keeps R m \<Longrightarrow> keeps (onConnection R) (onWorld m)"
  by (auto simp: keeps_def onWorld_def onConnection_def split: prod.splits sum.splits) (metis snd_conv)+

lemma runStmtExecute: "keeps (onConnection R) (runStmtExecute srv payload)"
  unfolding keeps_def
proof
  fix c :: "'d connection"
  have "onConnection R (x, snd c) (snd (onWorld (Router.answerStatement srv (binaryReply srv) cmd q args) (x, snd c)))" for x cmd q args
    using onWorld answerStatement unfolding keeps_def by blast
  then show "onConnection R c (snd (Serve.runStmtExecute srv payload c))"
    by (auto simp: runStmtExecute_def onConnection_def errAnswer_def replyWith_def ret_def refl_R split: prod.splits execStep.splits)
qed

lemma serveCommand: "keeps (onConnection R) (serveCommand srv payload)"
  unfolding keeps_def
proof
  fix c :: "'d connection"
  obtain stmts w where c: "c = (stmts, w)" by (cases c)
  have q: "onConnection R c (snd (Serve.onWorld (handleQuery srv q) c))" for q
    using onWorld answerStatement unfolding keeps_def handleQuery_def by blast
  have e: "onConnection R c (snd (Serve.runStmtExecute srv b c))" for b
    using runStmtExecute unfolding keeps_def by blast
  show "onConnection R c (snd (Serve.serveCommand srv payload c))"
    using q e unfolding c
    by (cases payload)
      (auto simp: serveCommand_def Let_def okReply_def errAnswer_def replyWith_def ret_def onConnection_def refl_R of_session
        split: prod.splits)
qed

lemma serveLoop: "keeps (onConnection R) (serveLoop srv payloads)"
proof (induction payloads)
  case Nil
  show ?case unfolding serveLoop.simps by (rule conn.laws)
next
  case (Cons p ps)
  show ?case unfolding serveLoop.simps by (rule keeps conn.laws serveCommand Cons.IH)+
qed

lemma serve: "keeps (onConnection R) (serve srv payloads)"
  unfolding keeps_def
proof
  fix c :: "'d connection"
  show "onConnection R c (snd (Serve.serve srv payloads c))"
  proof (cases payloads)
    case Nil
    then show ?thesis by (simp add: serve_def conn.refl_R)
  next
    case (Cons p ps)
    obtain s f where h: "readHandshakeResponse p (sess (snd c)) = (s, f)" by fastforce
    let ?c = "(fst c, (snd c)\<lparr> sess := s \<rparr>)"
    have h': "onConnection R c ?c"
      using readHandshakeResponse_connectionID [of p "sess (snd c)"] h by (simp add: onConnection_def of_session)
    let ?rest = "andThen (Serve.serveLoop srv ps) (\<lambda>(replies, how).
      ret ([(0, handshakePayload (mysqlVersion srv) (sess (snd c)))] # [(2, okPayload (statusFlags s) noResult)] # replies, how))"
    have "keeps (onConnection R) ?rest" by (rule keeps conn.laws serveLoop)+
    then have r: "onConnection R ?c (snd (?rest ?c))" unfolding keeps_def by blast
    show ?thesis
      using h' conn.trans_R [OF h' r] by (cases f) (simp_all add: Cons serve_def h)
  qed
qed

end

end
