(* ===== verification/Auto_Increment_Properties.thy ===== *)
theory Auto_Increment_Properties
  imports Connection_Frame
begin

text \<open>
  Values of \<open>AUTO_INCREMENT\<close> columns are not given out twice, whatever happens between two inserts: the server's own
  record of the largest value only grows, also over rollbacks, and a generated value is larger than it.
\<close>

subsection \<open>The record grows\<close>

definition growing :: "'d world \<Rightarrow> 'd world \<Rightarrow> bool" where
  "growing w w' = grows (autoInc w) (autoInc w')"

interpretation growing: connection_relation growing
  by unfold_locales
    (auto simp: growing_def grows_def routeFrame_def logQueryEvent_def recordUnsupported_def recordUnsupportedQuery_def Let_def
      intro: order_trans)

subsection \<open>Generated values\<close>

lemma uint_suc: "(b :: 64 word) < 2 ^ 63 - 1 \<Longrightarrow> uint (b + 1) = uint b + 1"
  by (simp add: word_less_def uint_word_ariths)

lemma uint_max: "uint (if (a :: 64 word) > b then a else b) = max (uint b) (uint a)"
  by (simp add: word_less_def max_def)

lemma nextAfter_greater:
  assumes "nextAfter mx alloc = Some v"
  shows "alloc < v"
proof -
  define base0 where "base0 = (case mx of Some n \<Rightarrow> if n > 0 then word_of_int n else 0 | None \<Rightarrow> (0 :: 64 word))"
  define base where "base = (if alloc > base0 then alloc else base0)"
  have v: "v = base + 1" and small: "base < 2 ^ 63 - 1"
    using assms unfolding nextAfter_def base0_def [symmetric] base_def [symmetric] Let_def by (auto split: if_splits)
  then show ?thesis using uint_suc [OF small] uint_max [of alloc base0] by (simp add: base_def word_less_def)
qed

lemma next_value_greater:
  assumes "nextMySQLAutoIncrementValue env t c w = (Inr v, w')"
  shows "allocated (autoInc w) t < v"
proof -
  obtain mx w1 where q: "queryNullInt env (''SELECT MAX('' @ quoteIdent (unquoteSQLWord c) @ '') FROM '' @ quoteIdent (unquoteSQLWord t)) w
      = (Inr mx, w1)" and n: "nextAfter mx (allocated (autoInc w1) t) = Some v"
    using assms
    by (auto simp: nextMySQLAutoIncrementValue_def andThen_ok mysqlAutoIncrementAllocation_def getState_def ret_def fail_def
        split: option.splits)
  have "keeps engineFrame (queryNullInt env q)" for q by (rule keeps)
  then have "engineFrame w w1" using q by (rule keepsD)
  then have "allocated (autoInc w) t \<le> allocated (autoInc w1) t" by (simp add: engineFrame_def grows_def)
  then show ?thesis using nextAfter_greater [OF n] by simp
qed

lemma generated_value_greater:
  assumes "applyMySQLAutoIncrementInsertValue env t tcs cols vs w = (Inr (cols', vs', ai), w')" "aiGenerated ai"
  shows "allocated (autoInc w) t < aiValue ai"
  using assms
  by (auto simp: applyMySQLAutoIncrementInsertValue_def andThen_ok getState_def ret_def noInsertValue_def
      dest: next_value_greater split: option.splits if_splits)

lemma inserted_value_recorded:
  assumes "rowInserted t ai result tot w = (r, w')" "aiValue ai \<noteq> 0" "t \<noteq> []"
  shows "aiValue ai \<le> allocated (autoInc w') t"
proof -
  have "w' = snd (recordAllocation t (aiValue ai) w)"
    using assms by (auto simp: rowInserted_def andThen_def putState_def ret_def)
  then show ?thesis using assms(2,3) by (auto simp: recordAllocation_def allocated_def)
qed


lemma uint_positive: "0 < sint (n :: 64 word) \<Longrightarrow> uint n = sint n"
  using uint_sint [of n] sint_lt [of n] by (simp add: take_bit_int_eq_self)

text \<open>An engine that does what it is told and finds no row in any table.\<close>

definition emptyEnv :: "unit env" where
  "emptyEnv = refusingEnv\<lparr> Exec := (\<lambda>_ _ d. (Inr (0, 0), d)),
     Query := (\<lambda>_ _ d. (Inr \<lparr> rowNames = [''m''], rowTypes = None, rowValues = [[GoNil]], rowError = None \<rparr>, d)) \<rparr>"

definition numberedWorld :: "unit world" where
  "numberedWorld = (newWorld () Map.empty 1)\<lparr> mdata := noMetadata\<lparr> autoIncrementColumns := [''t'' \<mapsto>
     \<lparr> cmTableName = ''t'', cmColumnName = ''id'', cmZeroFillWidth = 0, cmAutoIncrement = True \<rparr>] \<rparr> \<rparr>"

definition afterReset :: "unit world" where
  "afterReset = snd (snd (serveLoop (exampleServer emptyEnv) [[commandResetConn], commandInitDB # ascii ''shop'']
     (stmtInit, snd (rowInserted ''t'' \<lparr> aiValue = 41, aiGenerated = True \<rparr> noResult noTotals numberedWorld))))"


text \<open>
  C25: the next value and its overflow. From the largest value in the column, an \<open>int64\<close> or none, and the largest recorded value,
  the next value is the larger of the two plus one, within the signed 64-bit range; no value is generated exactly when that
  range is used up.
\<close>

theorem next_value_bounds:
  "nextAfter (map_option sint m) alloc =
     (let base = max (case m of Some n \<Rightarrow> max (sint (n :: 64 word)) 0 | None \<Rightarrow> 0) (uint alloc) in
      if base < 2 ^ 63 - 1 then Some (word_of_int (base + 1)) else None)"
proof -
  define b0 where "b0 = (case map_option sint m of Some n \<Rightarrow> if n > 0 then word_of_int n else 0 | None \<Rightarrow> (0 :: 64 word))"
  define b where "b = (if alloc > b0 then alloc else b0)"
  have "uint b0 = (case m of Some n \<Rightarrow> max (sint n) 0 | None \<Rightarrow> 0)"
    using uint_positive by (auto simp: b0_def split: option.split)
  then have u: "uint b = max (case m of Some n \<Rightarrow> max (sint n) 0 | None \<Rightarrow> 0) (uint alloc)"
    unfolding b_def uint_max by simp
  have "nextAfter (map_option sint m) alloc = (if b \<ge> 2 ^ 63 - 1 then None else Some (b + 1))"
    by (simp add: nextAfter_def b0_def b_def Let_def)
  also have "\<dots> = (if uint b < 2 ^ 63 - 1 then Some (word_of_int (uint b + 1)) else None)"
    by (simp add: word_le_def not_le)
  finally show ?thesis unfolding u Let_def .
qed

end
