(* ===== verification/Insert_Properties.thy ===== *)
theory Insert_Properties
  imports Route_Properties
begin

text \<open>
  What the inserts that the server runs row by row report to the client: the affected rows and the warnings as functions of
  what happened to the rows.
\<close>

subsection \<open>Counting rows\<close>

text \<open>\<open>n\<close> rows so far, \<open>i\<close> inserted, \<open>u\<close> updated, the rest left as they were.\<close>

definition upsertCounts :: "nat \<Rightarrow> insertTotals \<Rightarrow> bool" where
  "upsertCounts n t = (\<exists>i u. i + u \<le> n \<and> totAffected t = of_nat (i + 2 * u) \<and> totWarnings t = 0)"

definition ignoreCounts :: "nat \<Rightarrow> insertTotals \<Rightarrow> bool" where
  "ignoreCounts n t = (\<exists>i. i \<le> n \<and> totAffected t = of_nat i \<and> totWarnings t = of_nat (n - i))"

definition plainCounts :: "nat \<Rightarrow> insertTotals \<Rightarrow> bool" where
  "plainCounts n t = (totAffected t = of_nat n \<and> totWarnings t = 0)"

definition replaceCounts :: "nat \<Rightarrow> insertTotals \<Rightarrow> bool" where
  "replaceCounts n t = (\<exists>deleted. totAffected t = of_nat (n + deleted) \<and> totWarnings t = 0)"

lemma counts_start [simp]: "upsertCounts 0 noTotals" "ignoreCounts 0 noTotals" "plainCounts 0 noTotals" "replaceCounts 0 noTotals"
  unfolding upsertCounts_def ignoreCounts_def plainCounts_def replaceCounts_def noTotals_def
  by (auto intro!: exI [of _ 0])

lemma upsertCounts_inserted:
  "upsertCounts n t \<Longrightarrow> totAffected t' = totAffected t + 1 \<Longrightarrow> totWarnings t' = totWarnings t \<Longrightarrow> upsertCounts (Suc n) t'"
  unfolding upsertCounts_def by (elim exE, rule_tac x = "Suc i" in exI, rule_tac x = u in exI) simp

lemma upsertCounts_updated:
  "upsertCounts n t \<Longrightarrow> totAffected t' = totAffected t + 2 \<Longrightarrow> totWarnings t' = totWarnings t \<Longrightarrow> upsertCounts (Suc n) t'"
  unfolding upsertCounts_def by (elim exE, rule_tac x = i in exI, rule_tac x = "Suc u" in exI) simp

lemma upsertCounts_same:
  "upsertCounts n t \<Longrightarrow> totAffected t' = totAffected t \<Longrightarrow> totWarnings t' = totWarnings t \<Longrightarrow> upsertCounts (Suc n) t'"
  unfolding upsertCounts_def by (metis le_SucI)

lemma rowInserted_counts:
  "(\<And>t'. totAffected t' = totAffected t + 1 \<Longrightarrow> totWarnings t' = totWarnings t \<Longrightarrow> Q t') \<Longrightarrow> ends Q (rowInserted table ai result t)"
  unfolding rowInserted_def by (rule ends ends_ret)+ simp

lemma upsert_rowInserted: "upsertCounts n t \<Longrightarrow> ends (upsertCounts (Suc n)) (rowInserted table ai result t)"
  by (rule rowInserted_counts) (rule upsertCounts_inserted)

lemma upsertRow_counts:
  assumes "upsertCounts n t"
  shows "ends (upsertCounts (Suc n)) (upsertRow env stmt columns tcs t row)"
  unfolding upsertRow_def Let_def
  by (rule ends upsert_rowInserted [OF assms] ends_ret
      | simp add: upsertCounts_updated [OF assms] upsertCounts_same [OF assms])+

lemma plainRow_counts: "plainCounts n t \<Longrightarrow> ends (plainCounts (Suc n)) (plainInsertRow env table columns tcs t row)"
  unfolding plainInsertRow_def by (rule ends rowInserted_counts)+ (simp add: plainCounts_def)

lemma ignoreRow_counts:
  assumes "ignoreCounts n t"
  shows "ends (ignoreCounts (Suc n)) (insertIgnoreRow env table columns tcs t row)"
proof -
  obtain i where i: "i \<le> n" "totAffected t = of_nat i" "totWarnings t = of_nat (n - i)"
    using assms by (auto simp: ignoreCounts_def)
  have "ignoreCounts (Suc n) t'" if "totAffected t' = totAffected t + 1" "totWarnings t' = totWarnings t" for t'
    unfolding ignoreCounts_def using i that by (intro exI [of _ "Suc i"]) simp
  moreover have "ignoreCounts (Suc n) (t\<lparr> totWarnings := totWarnings t + 1 \<rparr>)"
    unfolding ignoreCounts_def using i by (intro exI [of _ i]) (simp add: Suc_diff_le)
  ultimately show ?thesis
    unfolding insertIgnoreRow_def by (auto intro!: ends rowInserted_counts ends_ret)
qed

lemma replaceCounts_deleted: "replaceCounts n t \<Longrightarrow> replaceCounts n (t\<lparr> totAffected := totAffected t + 1 \<rparr>)"
  unfolding replaceCounts_def by (elim exE, rule_tac x = "Suc deleted" in exI) simp

lemma replace_rowInserted: "replaceCounts n t \<Longrightarrow> ends (replaceCounts (Suc n)) (rowInserted table ai result t)"
  by (rule rowInserted_counts) (auto simp: replaceCounts_def)

lemma ends_loop: "(\<And>acc x. P acc \<Longrightarrow> ends P (f acc x)) \<Longrightarrow> P acc \<Longrightarrow> ends P (forEach f acc xs)"
  using ends_forEach [of "\<lambda>_. P"] by blast

lemma replaceRow_counts:
  assumes "replaceCounts n t"
  shows "ends (replaceCounts (Suc n)) (replaceRow env table columns tcs t row)"
proof -
  have d: "ends (replaceCounts n) (forEach (\<lambda>t' rowID.
         andThen (execSQLite env (''DELETE FROM '' @ quoteIdent (unquoteSQLWord table) @ '' WHERE rowid = ?'') [GoInt64 rowID])
           (\<lambda>_. ret (t'\<lparr> totAffected := totAffected t' + 1 \<rparr>))) t ids)" for ids
    using assms by (intro ends_loop ends ends_ret replaceCounts_deleted)
  have i: "ends (replaceCounts (Suc n)) (andThen (execSQLite env q vs) (\<lambda>result. rowInserted table ai result t1))"
    if "replaceCounts n t1" for q vs ai t1
    by (intro ends replace_rowInserted that)
  show ?thesis
    unfolding replaceRow_def by (rule ends_then, rule ends_prod, rule ends_prod, rule ends_then, rule ends_andThen [OF d], rule i)
qed

subsection \<open>The reported result\<close>

definition upsertOf :: "string \<Rightarrow> goValue list \<Rightarrow> 'd world \<Rightarrow> mysqlUpsertStatement option" where
  "upsertOf sqlText args w = (case fst (cachedUpsert sqlText args w) of Inr s \<Rightarrow> s | Inl _ \<Rightarrow> None)"

definition insertOf :: "string \<Rightarrow> goValue list \<Rightarrow> 'd world \<Rightarrow> mysqlInsertStatement option" where
  "insertOf sqlText args w = (case fst (cachedInsert sqlText args w) of Inr s \<Rightarrow> s | Inl _ \<Rightarrow> None)"


definition insertCounts :: "mysqlInsertStatement \<Rightarrow> nat \<Rightarrow> insertTotals \<Rightarrow> bool" where
  "insertCounts stmt = (if inIgnore stmt then ignoreCounts else if inReplace stmt then replaceCounts else plainCounts)"


text \<open>An engine with one table \<open>t (id INTEGER PRIMARY KEY)\<close> whose only row has the id 1.\<close>

definition oneRowEnv :: "unit env" where
  "oneRowEnv = refusingEnv\<lparr>
     Exec := (\<lambda>q _ d. (if HasPrefix q ''INSERT'' then Inl ''UNIQUE constraint failed: t.id'' else Inr (1, 0), d)),
     Query := (\<lambda>q _ d. (Inr \<lparr> rowNames = [''id''], rowTypes = None,
       rowValues = (if HasPrefix q ''PRAGMA main.table_info'' then
           [[GoInt64 0, GoString (ascii ''id''), GoString (ascii ''INTEGER''), GoInt64 0, GoNil, GoInt64 1]]
         else if HasPrefix q ''PRAGMA'' then [] else [[GoInt64 1]]), rowError = None \<rparr>, d)) \<rparr>"

definition upsertText :: string where
  "upsertText = ''INSERT INTO t (id) VALUES (?) ON DUPLICATE KEY UPDATE id = id''"



end
