(* ===== verification/Statement_Properties.thy ===== *)
theory Statement_Properties
  imports Connection_Frame
begin

text \<open>
  What a client can rely on across statements: statements that would change the schema never run, the results of the last
  statement can be asked for, every command is answered, and the end of a connection frees its locks and no others.
\<close>

subsection \<open>Schema changes\<close>

lemma schema_change_kinds:
  assumes "isRuntimeSchemaChangingQuery (ToUpper (normalizeSQL trimmed))" "selectVersionColumnName trimmed = None"
  shows "classify trimmed = (if isInformationSchemaQuery (ToUpper (normalizeSQL trimmed)) then InformationSchema
     else if isCreateDatabaseStatement trimmed then CreateDatabase else WriteQuery)"
proof -
  define u where "u = ToUpper (normalizeSQL trimmed)"
  obtain p rest where u: "u = p @ rest" and p: "p \<in> set
     [''CREATE TABLE '', ''CREATE TEMPORARY TABLE '', ''CREATE TEMP TABLE '', ''CREATE INDEX '', ''CREATE UNIQUE INDEX '',
      ''ALTER TABLE '', ''RENAME TABLE '', ''DROP DATABASE '', ''DROP SCHEMA '', ''DROP TABLE '', ''DROP INDEX '']"
    using assms(1) unfolding u_def [symmetric] isRuntimeSchemaChangingQuery_def list_ex_iff HasPrefix_def prefix_def by blast
  have w: "isWriteQuery u" and r: "\<not> isReadQuery u"
    using p unfolding u by (auto simp: isWriteQuery_def isReadQuery_def HasPrefix_def)
  have n: "\<not> HasPrefix u ''SET NAMES ''" "\<not> HasPrefix u ''SET AUTOCOMMIT''" "\<not> HasPrefix u ''SET TRANSACTION ''"
    "\<not> HasPrefix u ''SET ''" "\<not> isAdvisoryLockQuery u" "\<not> HasPrefix u ''SELECT @@''" "\<not> isShowFullFieldsQuery u"
    "\<not> isShowCreateTableQuery u" "\<not> isShowKeysQuery u" "\<not> HasPrefix u ''ROLLBACK TO SAVEPOINT ''"
    "\<not> HasPrefix u ''SAVEPOINT ''" "\<not> HasPrefix u ''RELEASE SAVEPOINT ''"
    using p unfolding u
    by (auto simp: isAdvisoryLockQuery_def isShowFullFieldsQuery_def isShowCreateTableQuery_def isShowKeysQuery_def HasPrefix_def)
  have m: "u \<noteq> ''SELECT DATABASE()''" "u \<noteq> ''SELECT SCHEMA()''" "u \<noteq> ''SELECT USER()''" "u \<noteq> ''SELECT CURRENT_USER()''"
    "u \<noteq> ''SELECT CURRENT_USER''" "u \<noteq> ''SELECT CONNECTION_ID()''" "u \<noteq> ''SELECT LAST_INSERT_ID()''" "u \<noteq> ''SELECT ROW_COUNT()''"
    "u \<noteq> ''SELECT @@VERSION''" "u \<noteq> ''SELECT @@SESSION.VERSION''" "u \<noteq> ''SELECT @@GLOBAL.VERSION''" "u \<noteq> ''SHOW VARIABLES''"
    "u \<noteq> ''SHOW TABLES''" "u \<noteq> ''BEGIN''" "u \<noteq> ''START TRANSACTION''" "u \<noteq> ''COMMIT''" "u \<noteq> ''ROLLBACK''" "u \<noteq> ''ROLLBACK AND CHAIN''"
    using p unfolding u by auto
  show ?thesis
    using assms(2) unfolding classify_def Let_def u_def [symmetric] by (simp add: n m w r)
qed

lemma select_version_kind:
  assumes "isRuntimeSchemaChangingQuery (ToUpper (normalizeSQL trimmed))" "selectVersionColumnName trimmed = Some c"
  shows "classify trimmed = SelectVersion c"
  using assms by (auto simp: classify_def Let_def isRuntimeSchemaChangingQuery_def HasPrefix_def prefix_def)

text \<open>Only what is recorded of the statement, and which rules have answered, can have changed.\<close>

definition nothingRun :: "'d world \<Rightarrow> 'd world \<Rightarrow> bool" where
  "nothingRun w w' = (w' = w\<lparr> stats := stats w', diagnostics := diagnostics w', ruleUsed := ruleUsed w' \<rparr>)"

interpretation nothing: run_relation nothingRun
proof
  show "nothingRun w w" for w :: "'d world" by (simp add: nothingRun_def)
  show "nothingRun a c" if "nothingRun a b" "nothingRun b c" for a b c :: "'d world"
    using that by (cases a; cases b; cases c) (simp add: nothingRun_def)
qed

lemma nothing_recorded:
  "nothingRun w (logQueryEvent command route sqlText normalized w)" "nothingRun w (recordUnsupported srv command sqlText normalized stage w)"
  by (simp_all add: nothingRun_def logQueryEvent_def recordUnsupported_def recordUnsupportedQuery_def Let_def)

lemma nothing_tryRules: "keeps nothingRun (tryRules srv sqlText args)"
  by (auto simp: keeps_def nothingRun_def tryRules_def split: sum.splits prod.splits)

lemma nothing_perform:
  assumes "isRuntimeSchemaChangingQuery (ToUpper (normalizeSQL trimmed))" "\<not> isInformationSchemaQuery (ToUpper (normalizeSQL trimmed))"
  shows "keeps nothingRun (perform srv command sqlText trimmed args (classify trimmed))"
proof (cases "selectVersionColumnName trimmed")
  case None
  then show ?thesis
    using assms(1,2) by (auto simp: schema_change_kinds perform_def Let_def runWrite_def keeps_ret_then intro!: keeps nothing.laws nothing_recorded)
next
  case (Some c)
  then show ?thesis
    using assms(1) by (auto simp: select_version_kind perform_def Let_def intro!: keeps nothing.laws)
qed

text \<open>
  C2: schema changes are not carried out. Whatever the engine is, a statement that a client sends and that, in upper case and with
  its white space collapsed, starts with one of the words of a schema change (\<open>CREATE TABLE\<close>, \<open>ALTER TABLE\<close>,
  \<open>DROP TABLE\<close> and the others), also with further statements behind it, leaves the database, the session and all the
  server's metadata as they are: at most it is recorded and rules are used up. This holds for texts that do not mention
  \<open>information_schema.\<close>, see \<open>schema_text_taken_for_query\<close>.
\<close>

theorem schema_changes_not_run:
  assumes "isRuntimeSchemaChangingQuery (ToUpper (normalizeSQL (TrimSpace sqlText)))"
    and "\<not> isInformationSchemaQuery (ToUpper (normalizeSQL (TrimSpace sqlText)))"
    and "executeQuery srv command sqlText args w = (r, w')"
  shows "w' = w\<lparr> stats := stats w', diagnostics := diagnostics w', ruleUsed := ruleUsed w' \<rparr>"
proof -
  have r: "keeps nothingRun (ruleResponseIO srv a)" for a
    by (cases a) (simp_all add: ruleResponseIO_def nothing.laws)
  have "keeps nothingRun (executeQuery srv command sqlText args)"
    unfolding executeQuery_def Let_def
    by (rule keeps nothing.laws nothing_tryRules nothing_recorded nothing_perform [OF assms(1,2)] r)+
  then have "nothingRun w w'" using assms(3) by (rule keepsD)
  then show ?thesis by (simp add: nothingRun_def)
qed

text \<open>An engine that keeps the texts it is given.\<close>

definition tracingEnv :: "string list env" where
  "tracingEnv = \<lparr> Exec = (\<lambda>q _ d. (Inr (0, 0), d @ [q])),
     Query = (\<lambda>q _ d. (Inr \<lparr> rowNames = [''m''], rowTypes = None, rowValues = [], rowError = None \<rparr>, d @ [q])), std = exampleStd,
     sscan = (\<lambda>_. None), compat = exampleCompat, infoDSN = [], fmtArg = (\<lambda>_. []) \<rparr>"

theorem schema_changes_not_run_witness:
  "db (snd (executeQuery (exampleServer tracingEnv) ''COM_QUERY'' ''drop  table t; select 1'' [] (newWorld [] Map.empty 1))) = []"
proof -
  let ?w = "newWorld [] Map.empty 1 :: string list world" and ?q = "''drop  table t; select 1''"
  let ?u = "ToUpper (normalizeSQL (TrimSpace ?q))"
  have u: "isRuntimeSchemaChangingQuery ?u" "\<not> isInformationSchemaQuery ?u" by code_simp+
  obtain r w' where e: "executeQuery (exampleServer tracingEnv) ''COM_QUERY'' ?q [] ?w = (r, w')" by fastforce
  show ?thesis
    using arg_cong [OF schema_changes_not_run [OF u e], of db] unfolding e by (simp add: newWorld_def)
qed



subsection \<open>The results of the last statement\<close>

definition sameLast :: "'d world \<Rightarrow> 'd world \<Rightarrow> bool" where
  "sameLast w w' = (lastResult (sess w') = lastResult (sess w))"

interpretation lastKept: statement_relation sameLast
  by unfold_locales
    (auto simp: sameLast_def routeFrame_def lastResult_def logQueryEvent_def recordUnsupported_def recordUnsupportedQuery_def Let_def)

lemma no_rules: "configuredRules srv = [] \<Longrightarrow> tryRules srv q args w = (Inr None, w)"
  by (simp add: tryRules_def executeRule_def matchRule_def)

lemma ask_last:
  assumes "configuredRules srv = []"
  shows "fst (executeQuery srv command ''SELECT ROW_COUNT()'' args w) =
      Inr (ResultRows (oneRow ''ROW_COUNT()'' (GoInt64 (lastAffectedRows (sess w)))))"
    and "fst (executeQuery srv command ''SELECT LAST_INSERT_ID()'' args w) =
      Inr (ResultRows (oneRow ''LAST_INSERT_ID()'' (GoUint64 (lastInsertID (sess w)))))"
proof -
  have t: "TrimSpace ''SELECT ROW_COUNT()'' = ''SELECT ROW_COUNT()''" "classify ''SELECT ROW_COUNT()'' = SelectRowCount"
    "TrimSpace ''SELECT LAST_INSERT_ID()'' = ''SELECT LAST_INSERT_ID()''" "classify ''SELECT LAST_INSERT_ID()'' = SelectLastInsertID"
    by code_simp+
  show "fst (executeQuery srv command ''SELECT ROW_COUNT()'' args w) =
      Inr (ResultRows (oneRow ''ROW_COUNT()'' (GoInt64 (lastAffectedRows (sess w)))))"
    "fst (executeQuery srv command ''SELECT LAST_INSERT_ID()'' args w) =
      Inr (ResultRows (oneRow ''LAST_INSERT_ID()'' (GoUint64 (lastInsertID (sess w)))))"
    by (simp_all add: executeQuery_def t Let_def andThen_def no_rules assms perform_def putState_def getState_def ret_def
        logQueryEvent_def)
qed

text \<open>
  C13: the results of a statement can be asked for. When no rules are configured and a statement is answered, by text or by binary
  protocol, with OK, then \<open>SELECT ROW_COUNT()\<close> gives the affected rows of that answer, and
  \<open>SELECT LAST_INSERT_ID()\<close> its insert id, or, when that is zero, what it gave before; after a
  statement with rows \<open>ROW_COUNT()\<close> is -1, after a failed statement both are as before.
\<close>

theorem last_result_reads_back:
  assumes "configuredRules srv = []"
    and "fst (executeQuery srv command sqlText args w) = res" "res \<noteq> Inl Panicked" "res \<noteq> Inr Disconnect"
    and "answerStatement srv reply command sqlText args w = (a, w')"
  shows "fst (executeQuery srv command' ''SELECT ROW_COUNT()'' args' w') = Inr (ResultRows (oneRow ''ROW_COUNT()''
      (GoInt64 (case res of Inr (OK ok) \<Rightarrow> AffectedRows ok | Inr _ \<Rightarrow> - 1 | Inl _ \<Rightarrow> lastAffectedRows (sess w)))))
    \<and> fst (executeQuery srv command' ''SELECT LAST_INSERT_ID()'' args' w') = Inr (ResultRows (oneRow ''LAST_INSERT_ID()''
      (GoUint64 (case res of Inr (OK ok) \<Rightarrow> if LastInsertID ok \<noteq> 0 then LastInsertID ok else lastInsertID (sess w)
         | _ \<Rightarrow> lastInsertID (sess w)))))"
proof -
  obtain v where e: "executeQuery srv command sqlText args w = (res, v)" using assms(2) by (metis prod.collapse)
  have v: "lastAffectedRows (sess v) = lastAffectedRows (sess w)" "lastInsertID (sess v) = lastInsertID (sess w)"
    using keepsD [OF lastKept.executeQuery e] by (simp_all add: sameLast_def lastResult_def)
  have u: "sess (recordUnsupported srv command sqlText n st v) = sess v" for n st
    by (simp add: recordUnsupported_def recordUnsupportedQuery_def Let_def)
  have "lastAffectedRows (sess w') = (case res of Inr (OK ok) \<Rightarrow> AffectedRows ok | Inr _ \<Rightarrow> - 1 | Inl _ \<Rightarrow> lastAffectedRows (sess w)) \<and>
    lastInsertID (sess w') = (case res of Inr (OK ok) \<Rightarrow> if LastInsertID ok \<noteq> 0 then LastInsertID ok else lastInsertID (sess w)
         | _ \<Rightarrow> lastInsertID (sess w))"
    using assms(3-5) v u
    by (auto simp: answerStatement_def e recordResponse_def recordResult_def Let_def
        split: sum.splits connError.splits response.splits if_splits)
  then show ?thesis by (simp add: ask_last [OF assms(1)])
qed

theorem last_result_reads_back_witness:
  "fst (executeQuery (exampleServer refusingEnv) ''COM_QUERY'' ''SELECT ROW_COUNT()'' []
     (snd (answerStatement (exampleServer refusingEnv) (textReply exampleStd) ''COM_QUERY'' ''SELECT LAST_INSERT_ID()'' []
        (newWorld () Map.empty 1)))) = Inr (ResultRows (oneRow ''ROW_COUNT()'' (GoInt64 (- 1))))"
proof -
  let ?w = "newWorld () Map.empty 1 :: unit world" and ?srv = "exampleServer refusingEnv"
  have r: "configuredRules ?srv = []" by (simp add: exampleServer_def)
  obtain a w' where e: "answerStatement ?srv (textReply exampleStd) ''COM_QUERY'' ''SELECT LAST_INSERT_ID()'' [] ?w = (a, w')" by fastforce
  show ?thesis
    using last_result_reads_back [OF r ask_last(2) [OF r] _ _ e] unfolding e by simp
qed

subsection \<open>Every command is answered\<close>

text \<open>At least one packet, and the packets are numbered from 1.\<close>

definition answered :: "packet list \<Rightarrow> bool" where
  "answered packets = (packets \<noteq> [] \<and> map fst packets = map (\<lambda>k. 1 + of_nat k) [0..<length packets])"

lemma answered_numbered: "ps \<noteq> [] \<Longrightarrow> answered (numbered 1 ps)"
  by (cases ps) (simp_all add: answered_def fst_numbered del: numbered.simps upt_Suc, simp)

lemma answered_one [simp]: "answered [(1, payload)]"
  by (simp add: answered_def)

lemma answered_resultSet: "answered (resultSetPackets caps flags d 1 columns rows)"
  unfolding resultSetPackets_numbered by (rule answered_numbered) (simp add: resultSetPayloads_def Let_def)

lemma text_stream_packets:
  "writeSQLiteTextResultSet s caps flags d seq columns rows None = (writeResultSet s caps flags d seq columns rows, None)"
  by (simp add: writeSQLiteTextResultSet_def writeResultSet_def resultSetPackets_def split: prod.split)

lemma text_stream_failed:
  "writeSQLiteTextResultSet s caps flags d seq columns rows (Some e) \<noteq> (packets, None)"
  by (simp add: writeSQLiteTextResultSet_def split: prod.split)

lemma text_answered: "textReply s c resp = (packets, None) \<Longrightarrow> answered packets"
proof (cases resp)
  case (RowStream rs failure)
  then show "textReply s c resp = (packets, None) \<Longrightarrow> answered packets"
    by (cases failure) (auto simp: textReply_def text_stream_packets text_stream_failed writeResultSet_def answered_resultSet)
qed (auto simp: textReply_def writeResultSet_def answered_resultSet)

lemma binary_answered: "binaryReply srv c resp = (packets, None) \<Longrightarrow> answered packets"
  by (cases resp) (auto simp: binaryReply_def errReply_def writeBinaryResultSet_def answered_resultSet map_sum_def split: sum.splits)

lemma prepare_answered: "answered (snd (handleStmtPrepare caps flags d sqlText c))"
proof (cases "countPlaceholders sqlText > 0xFFFF")
  case True
  then show ?thesis by (simp add: handleStmtPrepare_def)
next
  case False
  let ?n = "countPlaceholders sqlText"
  have "snd (handleStmtPrepare caps flags d sqlText c) =
      numbered 1 (map snd (snd (handleStmtPrepare caps flags d sqlText c)))"
    using False by (simp add: handleStmtPrepare_def Let_def numbered_append columnDefinitionTerminator_def)
  moreover have "snd (handleStmtPrepare caps flags d sqlText c) \<noteq> []"
    using False by (simp add: handleStmtPrepare_def Let_def)
  ultimately show ?thesis using answered_numbered by (metis map_is_Nil_conv)
qed

lemma answerStatement_written:
  assumes "\<And>c resp packets. reply c resp = (packets, None) \<Longrightarrow> answered packets"
  shows "case fst (answerStatement srv reply command sqlText args w) of
     Inl e \<Rightarrow> e = Panicked | Inr (packets, failure) \<Rightarrow> failure = None \<longrightarrow> answered packets"
  using assms
  by (auto simp: answerStatement_def errReply_def Let_def split: prod.splits sum.splits connError.splits)

definition wellAnswered :: "connError + packet list \<times> commandEnd \<Rightarrow> bool" where
  "wellAnswered r = (case r of Inl e \<Rightarrow> e = Panicked | Inr (packets, how) \<Rightarrow> how \<noteq> Quits \<and> (how = GoesOn \<longrightarrow> answered packets))"

lemma onWorld_written:
  assumes "\<And>w. case fst (m w) of Inl e \<Rightarrow> e = Panicked | Inr (packets, failure) \<Rightarrow> failure = None \<longrightarrow> answered packets"
  shows "wellAnswered (fst (onWorld m c))"
  using assms [of "snd c"] by (auto simp: wellAnswered_def onWorld_def split: prod.splits sum.splits option.splits)

lemma reset_answered: "answered (snd (handleStmtReset flags payload c))"
  by (simp add: handleStmtReset_def Let_def split: option.split)

text \<open>What a command gives; two commands have no reply.\<close>

definition commandServed :: "bytes \<Rightarrow> connError + packet list \<times> commandEnd \<Rightarrow> bool" where
  "commandServed payload r =
     (case r of Inl e \<Rightarrow> e = Panicked
      | Inr (packets, GoesOn) \<Rightarrow>
          if hd payload = commandStmtSendLong \<or> hd payload = commandStmtClose then packets = [] else answered packets
      | Inr (_, Quits) \<Rightarrow> hd payload = commandQuit
      | Inr (_, Breaks _) \<Rightarrow> payload = [] \<or> hd payload \<in> {commandQuery, commandStmtExecute, commandStmtSendLong})"

lemma serveCommand_served:
  assumes "serveCommand srv payload c = (r, c')"
  shows "commandServed payload r"
proof (cases payload)
  case Nil
  then show ?thesis using assms by (auto simp: commandServed_def serveCommand_def)
next
  case (Cons command body)
  note codes = commandQuit_def commandPing_def commandResetConn_def commandInitDB_def commandQuery_def commandStmtPrepare_def
    commandStmtExecute_def commandStmtSendLong_def commandStmtClose_def commandStmtReset_def
  have q: "wellAnswered (fst (onWorld (handleQuery srv q) c))" for q
    unfolding handleQuery_def by (rule onWorld_written, rule answerStatement_written, rule text_answered)
  have e: "wellAnswered (fst (runStmtExecute srv b c))" for b
  proof -
    have "wellAnswered (fst (onWorld (answerStatement srv (binaryReply srv) ''COM_STMT_EXECUTE'' q args) c))" for c q args
      by (rule onWorld_written, rule answerStatement_written, rule binary_answered)
    then show ?thesis
      by (auto simp: runStmtExecute_def errAnswer_def replyWith_def ret_def wellAnswered_def [of "Inr x" for x] split: prod.split execStep.split)
  qed
  show ?thesis
    using assms q [of "textOf body"] e [of body] prepare_answered reset_answered unfolding Cons
    by (auto simp: commandServed_def serveCommand_def Let_def okReply_def errAnswer_def replyWith_def ret_def codes wellAnswered_def
        split: prod.splits sum.splits commandEnd.splits if_splits) (metis snd_conv)+
qed



text \<open>
  C12: the command loop of a connection ends, and answers in order. For every finite list of packets a client sends, the
  loop stops after at most one round for each, by a quit, by an error that closes the connection, or because the client is
  gone (unless a panic ends the process); each round before the last answered its own packet as that command must be answered.
\<close>

theorem connection_loop_ends:
  assumes "serveLoop srv payloads c = (r, c')"
  shows "case r of Inl e \<Rightarrow> e = Panicked
     | Inr (replies, how) \<Rightarrow> how \<noteq> GoesOn \<and> length replies \<le> length payloads \<and>
         (\<forall>k < length replies - 1. commandServed (payloads ! k) (Inr (replies ! k, GoesOn)))"
  using assms
proof (induction payloads arbitrary: c r c')
  case Nil
  then show ?case by (auto simp: ret_def)
next
  case (Cons p ps)
  obtain r1 c1 where one: "serveCommand srv p c = (r1, c1)" by (rule prod.exhaust)
  note served = serveCommand_served [OF one]
  show ?case
  proof (cases r1)
    case (Inl e)
    then show ?thesis using Cons.prems served by (auto simp: andThen_def one commandServed_def)
  next
    case (Inr x)
    obtain packets how where x: "x = (packets, how)" by (cases x)
    show ?thesis
    proof (cases "how = GoesOn")
      case False
      then show ?thesis using Cons.prems by (auto simp: andThen_def one Inr x ret_def)
    next
      case True
      obtain r2 c2 where rest: "serveLoop srv ps c1 = (r2, c2)" by (rule prod.exhaust)
      show ?thesis
        using Cons.prems Cons.IH [OF rest] served
        by (auto simp: andThen_def one Inr x True rest ret_def nth_Cons' split: sum.splits prod.splits)
    qed
  qed
qed


theorem connection_loop_ends_witness:
  "case fst (serveLoop (exampleServer refusingEnv) [[commandPing], [commandQuit], [commandPing]] (stmtInit, newWorld () Map.empty 1)) of
     Inr (replies, how) \<Rightarrow> how = Quits \<and> length replies = 2 \<and> answered (replies ! 0) | _ \<Rightarrow> False"
proof -
  let ?ps = "[[commandPing], [commandQuit], [commandPing]]" and ?c = "(stmtInit, newWorld () Map.empty 1 :: unit world)"
  have g: "case fst (serveLoop (exampleServer refusingEnv) ?ps ?c) of
      Inr (replies, how) \<Rightarrow> how = Quits \<and> length replies = 2 | _ \<Rightarrow> False" by code_simp
  have n: "commandPing \<noteq> commandStmtSendLong" "commandPing \<noteq> commandStmtClose" by code_simp+
  obtain r c' where e: "serveLoop (exampleServer refusingEnv) ?ps ?c = (r, c')" by (rule prod.exhaust)
  show ?thesis
    using connection_loop_ends [OF e] g n unfolding e
    by (auto simp: commandServed_def split: sum.splits prod.splits)
qed

subsection \<open>The end of a connection\<close>

definition lockFrame :: "'d world \<Rightarrow> 'd world \<Rightarrow> bool" where
  "lockFrame w w' = (connectionID (sess w') = connectionID (sess w) \<and> othersLocks (connectionID (sess w)) (locks w) (locks w'))"

interpretation locksKept: connection_relation lockFrame
proof
  show "lockFrame a c" if "lockFrame a b" "lockFrame b c" for a b c :: "'d world"
    using that othersLocks_trans [of "connectionID (sess a)" "locks a" "locks b" "locks c"] unfolding lockFrame_def by simp
qed (auto simp: lockFrame_def routeFrame_def logQueryEvent_def recordUnsupported_def recordUnsupportedQuery_def Let_def)

text \<open>
  C6: the end of a connection frees its advisory locks and no others. However a connection ends (quit, error, broken
  packet or panic) and whatever it did, afterwards no name is locked by it, and every lock of another
  connection is as it was when it began.
\<close>

theorem connection_end_frees_locks:
  assumes "runConnection srv cid payloads w = (r, w')"
  shows "locks w' = (\<lambda>name. if locks w name = Some cid then None else locks w name)"
proof -
  let ?w = "w\<lparr> sess := newSession (serverVariables srv) cid, restoreTables := Map.empty \<rparr>"
  obtain stmts v where s: "serve srv payloads (stmtInit, ?w) = (r, (stmts, v))" and w': "w' = v\<lparr> locks := releaseAllAdvisoryLocks cid (locks v) \<rparr>"
    using assms by (auto simp: runConnection_def Let_def split: prod.splits)
  have "othersLocks cid (locks w) (locks v)"
    using keepsD [OF locksKept.serve s] by (simp add: onConnection_def lockFrame_def newSession_def)
  then show ?thesis
    unfolding w' by (auto simp: releaseAllAdvisoryLocks_def othersLocks_def fun_eq_iff) (metis not_Some_eq)+
qed

theorem connection_end_frees_locks_witness:
  "locks (snd (runConnection (exampleServer refusingEnv) 7 [[], [commandPing]]
     ((newWorld () Map.empty 1)\<lparr> locks := [''a'' \<mapsto> 7, ''b'' \<mapsto> 8] \<rparr>))) = [''b'' \<mapsto> 8]"
proof -
  let ?w = "(newWorld () Map.empty 1)\<lparr> locks := [''a'' \<mapsto> 7, ''b'' \<mapsto> 8] \<rparr> :: unit world"
  obtain r w' where e: "runConnection (exampleServer refusingEnv) 7 [[], [commandPing]] ?w = (r, w')" by fastforce
  show ?thesis using connection_end_frees_locks [OF e] unfolding e by (auto simp: fun_eq_iff)
qed

end
