(* ===== verification/Transactions.thy ===== *)
theory Transactions
  imports Connection_Frame
begin

text \<open>
  Transactions: the flag the server reports to the client follows the transaction of the engine. SQLite is an argument, and what
  is relied on of it is \<open>transactional\<close>.
\<close>

subsection \<open>What is relied on\<close>

definition transactionWords :: "string list" where
  "transactionWords = [''BEGIN'', ''COMMIT'', ''END'', ''ROLLBACK'', ''SAVEPOINT'', ''RELEASE'']"

definition isTransactionText :: "string \<Rightarrow> bool" where
  "isTransactionText q = list_ex (HasPrefix (ToUpper (TrimSpace q))) transactionWords"

text \<open>
  \<open>tx\<close>: a transaction is open. \<open>BEGIN\<close> opens one and fails inside one; \<open>COMMIT\<close> and \<open>ROLLBACK\<close> fail outside one and, when they
  succeed, end it; a \<open>COMMIT\<close> or \<open>ROLLBACK\<close> that fails leaves it open; no other text opens or ends one. (SQLite documents
  automatic rollbacks for a full disk, a lack of memory and input/output errors; those are excluded here.)
\<close>

definition transactional :: "'d env \<Rightarrow> ('d \<Rightarrow> bool) \<Rightarrow> bool" where
  "transactional env tx =
     ((\<forall>d r d'. Exec env ''BEGIN'' [] d = (r, d') \<longrightarrow> tx d' \<and> (tx d \<longleftrightarrow> (\<exists>e. r = Inl e))) \<and>
      (\<forall>q d r d'. q \<in> {''COMMIT'', ''ROLLBACK''} \<longrightarrow> Exec env q [] d = (r, d') \<longrightarrow>
         (if tx d then tx d' \<longleftrightarrow> (\<exists>e. r = Inl e) else \<not> tx d' \<and> (\<exists>e. r = Inl e))) \<and>
      (\<forall>q args d. \<not> isTransactionText q \<longrightarrow> tx (snd (Exec env q args d)) = tx d \<and> tx (snd (Query env q args d)) = tx d))"

lemmas begin_law = transactional_def [THEN iffD1, THEN conjunct1, rule_format]
lemmas end_law = transactional_def [THEN iffD1, THEN conjunct2, THEN conjunct1, rule_format]

subsection \<open>The abstract transactions\<close>

text \<open>A statement, whether it is answered without an error, and whether a transaction is open before and after it.\<close>

inductive txStep :: "statementKind \<Rightarrow> bool \<Rightarrow> bool \<Rightarrow> bool \<Rightarrow> bool" where
  opened: "txStep Begin True False True"
| nested: "txStep Begin False True True"
| committed: "txStep Commit True True False"
| rolledBack: "txStep Rollback ok True False"
| chained: "txStep RollbackAndChain True True True"
| chainBroken: "txStep RollbackAndChain False True False"
| refused: "kind \<in> {Commit, Rollback, RollbackAndChain} \<Longrightarrow> txStep kind False True True"
| noTransaction: "kind \<in> {Commit, Rollback, RollbackAndChain} \<Longrightarrow> txStep kind False False False"

inductive_cases begin_closedE: "txStep Begin ok False after"

definition inStep :: "('d \<Rightarrow> bool) \<Rightarrow> 'd world \<Rightarrow> bool" where
  "inStep tx w = (hasFlag serverStatusInTrans (sess w) = tx (db w))"

definition isOk :: "'e + 'a \<Rightarrow> bool" where
  "isOk r = (case r of Inl _ \<Rightarrow> False | Inr _ \<Rightarrow> True)"

subsection \<open>Statements that leave the transaction alone\<close>

definition keepsTx :: "('d \<Rightarrow> bool) \<Rightarrow> 'd world \<Rightarrow> 'd world \<Rightarrow> bool" where
  "keepsTx tx w w' = (tx (db w') = tx (db w) \<and> statusFlags (sess w') = statusFlags (sess w))"

interpretation txKept: run_relation "keepsTx tx" for tx
  by unfold_locales (auto simp: keepsTx_def)

lemma keepsTx_query: "transactional env tx \<Longrightarrow> \<not> isTransactionText q \<Longrightarrow> keeps (keepsTx tx) (queryContext env q args)"
  by (auto simp: keeps_def queryContext_def keepsTx_def transactional_def split: prod.split) (metis snd_conv)+

lemma keepsTx_exec: "transactional env tx \<Longrightarrow> \<not> isTransactionText q \<Longrightarrow> keeps (keepsTx tx) (execContext env q args)"
  by (auto simp: keeps_def execContext_def keepsTx_def transactional_def split: prod.split) (metis snd_conv)+

lemma keepsTx_uses: "transactional env tx \<Longrightarrow> keeps (keepsTx tx) (sqliteTableUsesAutoincrement env t)"
proof -
  assume t: "transactional env tx"
  have q: "\<not> isTransactionText (nl # ''SELECT sql'' @ nl # ''FROM main.sqlite_master'' @ nl # ''WHERE type = '' @ sq # ''table'' @ sq # nl # ''  AND name = ?'')"
    by code_simp
  have c: "keepsTx tx w (w\<lparr> autoTables := m \<rparr>)" for w m
    by (simp add: keepsTx_def)
  have n: "keeps (keepsTx tx) (queryNullString env q' args)" if "\<not> isTransactionText q'" for q' args
    unfolding queryNullString_def by (rule keeps txKept.laws keepsTx_query [OF t] that)+
  show ?thesis
    unfolding sqliteTableUsesAutoincrement_def cacheSQLiteTableAutoincrement_def Let_def
    by (rule keeps txKept.laws n [OF q] c)+
qed

lemma keepsTx_restore: "transactional (engine srv) tx \<Longrightarrow> keeps (keepsTx tx) (restoreSequences srv)"
proof -
  assume t: "transactional (engine srv) tx"
  have q: "\<not> isTransactionText (nl # ''UPDATE sqlite_sequence'' @ nl # ''SET seq = CASE WHEN seq < ? THEN ? ELSE seq END'' @ nl # ''WHERE name = ?'')"
    "\<not> isTransactionText (nl # ''INSERT OR IGNORE INTO sqlite_sequence (name, seq)'' @ nl # ''VALUES (?, ?)'')"
    by code_simp+
  have s: "keeps (keepsTx tx) (setSQLiteSequenceAtLeast (engine srv) n v)" for n v
    unfolding setSQLiteSequenceAtLeast_def Let_def by (rule keeps txKept.laws keepsTx_exec [OF t] q)+
  show ?thesis
    unfolding restoreSequences_def restoreMySQLAutoIncrementSequences_def restoreSequence_def mysqlAutoIncrementAllocation_def
    by (rule keeps txKept.laws keepsTx_uses [OF t] s)+
qed

subsection \<open>The texts of transactions\<close>

lemma exec_transaction_text:
  assumes "q \<in> {''BEGIN'', ''COMMIT'', ''ROLLBACK''}"
  shows "execSQLite env q [] w =
    (let w1 = (if q = ''BEGIN'' then w\<lparr> sess := setFlag serverStatusInTrans (sess w) \<rparr> else w); (r, d) = Exec env q [] (db w) in
     (case r of Inl msg \<Rightarrow> Inl (Driver msg)
      | Inr (affected, lastID) \<Rightarrow>
          Inr \<lparr> AffectedRows = uint64NonNegative affected, LastInsertID = uint64NonNegative lastID, Warnings = 0 \<rparr>,
      w1\<lparr> db := d \<rparr>))"
proof -
  have b: "EqualFold (TrimSpace q) ''BEGIN'' = (q = ''BEGIN'')" "\<not> isSchemaChangingQuery q" "parseInsertTargetTable q = None"
    "\<not> HasPrefix (ToUpper (normalizeSQL (TrimSpace q))) ''INSERT INTO ''" "\<not> HasPrefix (ToUpper (normalizeSQL (TrimSpace q))) ''UPDATE ''"
    using assms by (elim insertE emptyE; simp; code_simp)+
  have v: "validateMySQLWriteValues env q [] = ret ()"
    using b(4,5) by (simp add: validateMySQLWriteValues_def Let_def)
  have n: "recordMySQLAutoIncrementAllocation env q res = ret ()" for res
    using b(3) by (simp add: recordMySQLAutoIncrementAllocation_def)
  obtain r d where e: "Exec env q [] (db w) = (r, d)" by fastforce
  show ?thesis
  proof (cases "q = ''BEGIN''")
    case True
    then show ?thesis using b(1,2) v n e
      by (cases r) (simp_all add: execSQLite_def andThen_def putState_def execContext_def ret_def Let_def split: prod.split)
  next
    case False
    then show ?thesis using b(2) v n e
      by (cases r) (simp_all add: execSQLite_def andThen_def putState_def b(1) execContext_def ret_def Let_def split: prod.split)
  qed
qed

lemma clearInTrans_in: "inStep tx (clearInTrans w) = (\<not> tx (db w))" "db (clearInTrans w) = db w"
  "\<not> hasFlag serverStatusInTrans (sess (clearInTrans w))"
  by (simp_all add: inStep_def clearInTrans_def)

lemma kept_in: "keepsTx tx w w' \<Longrightarrow> inStep tx w' = inStep tx w"
  by (simp add: keepsTx_def inStep_def hasFlag_def)

lemma begin_step:
  assumes "transactional env tx" "inStep tx w" "execSQLite env ''BEGIN'' [] w = (r, w')"
  shows "inStep tx w' \<and> txStep Begin (isOk r) (tx (db w)) (tx (db w'))"
proof -
  obtain x d where e: "Exec env ''BEGIN'' [] (db w) = (x, d)" by fastforce
  have "tx d \<and> (tx (db w) \<longleftrightarrow> (\<exists>m. x = Inl m))" by (rule begin_law [OF assms(1) e])
  moreover have "w' = w\<lparr> sess := setFlag serverStatusInTrans (sess w), db := d \<rparr>" "isOk r = (\<forall>m. x \<noteq> Inl m)"
    using assms(3) by (cases x; force simp: exec_transaction_text e Let_def isOk_def split: prod.splits)+
  ultimately show ?thesis by (cases "tx (db w)") (auto simp: inStep_def opened nested)
qed

lemma end_text:
  assumes "transactional env tx" "q \<in> {''COMMIT'', ''ROLLBACK''}" "execSQLite env q [] w = (r, w')"
  shows "sess w' = sess w \<and> (if isOk r then tx (db w) \<and> \<not> tx (db w') else tx (db w') = tx (db w))"
proof -
  obtain x d where e: "Exec env q [] (db w) = (x, d)" by fastforce
  have "if tx (db w) then tx d \<longleftrightarrow> (\<exists>m. x = Inl m) else \<not> tx d \<and> (\<exists>m. x = Inl m)"
    by (rule end_law [OF assms(1,2) e])
  moreover have "w' = w\<lparr> db := d \<rparr>" "isOk r = (\<forall>m. x \<noteq> Inl m)"
    using assms(2,3) by (cases x; force simp: exec_transaction_text e Let_def isOk_def split: prod.splits)+
  ultimately show ?thesis by (cases "tx (db w)") auto
qed

subsection \<open>The statements\<close>

lemma andThen_cases:
  assumes "andThen m f w = (r, w')"
  obtains (failed) e where "m w = (Inl e, w')" "r = Inl e" | (went) x v where "m w = (Inr x, v)" "f x v = (r, w')"
  using assms by (auto simp: andThen_def split: prod.splits sum.splits)

lemma isOk_simps [simp]: "isOk (Inl e) = False" "isOk (Inr x)"
  by (simp_all add: isOk_def)

lemma commit_step:
  assumes "transactional (engine srv) tx" "inStep tx w" "runCommit srv w = (r, w')"
  shows "inStep tx w' \<and> txStep Commit (isOk r) (tx (db w)) (tx (db w'))"
  using assms(3) unfolding runCommit_def
proof (cases rule: andThen_cases)
  case (failed e)
  then show ?thesis
    using end_text [OF assms(1) _ failed(1)] assms(2) by (cases "tx (db w)") (auto simp: inStep_def refused noTransaction)
next
  case (went resp v)
  have "w' = (clearInTrans \<circ> clearMySQLAutoIncrementRestoreTables) v" "r = Inr resp"
    using went(2) by (auto simp: andThen_def putState_def ret_def)
  then show ?thesis
    using end_text [OF assms(1) _ went(1)] by (simp add: clearInTrans_in clearMySQLAutoIncrementRestoreTables_def committed)
qed

lemma rollback_step:
  assumes t: "transactional (engine srv) tx" and "inStep tx w" "runRollback srv w = (r, w')" "r \<noteq> Inl Panicked"
  shows "inStep tx w' \<and> txStep Rollback (isOk r) (tx (db w)) (tx (db w'))"
  using assms(3) unfolding runRollback_def
proof (cases rule: andThen_cases)
  case (failed e)
  then show ?thesis
    using end_text [OF t _ failed(1)] assms(2) by (cases "tx (db w)") (auto simp: inStep_def refused noTransaction)
next
  case (went resp v)
  have v: "tx (db w)" "\<not> tx (db v)" "sess v = sess w" using end_text [OF t _ went(1)] by simp_all
  have k: "keeps (keepsTx tx) (attempt (restoreSequences srv))" by (rule txKept.laws keepsTx_restore [OF t])+
  show ?thesis
    using went(2)
  proof (cases rule: andThen_cases)
    case (failed e)
    have "e = Panicked" using failed(1) by (auto simp: attempt_def split: prod.splits sum.splits connError.splits)
    then show ?thesis using failed(2) assms(4) by simp
  next
    case (went x u)
    have "\<not> tx (db u)" using keepsD [OF k went(1)] v by (simp add: keepsTx_def)
    then show ?thesis
      using went(2) v by (auto simp: andThen_def putState_def ret_def fail_def clearInTrans_in clearMySQLAutoIncrementRestoreTables_def
          inStep_def rolledBack split: sum.splits)
  qed
qed

lemma chain_step:
  assumes t: "transactional (engine srv) tx" and "inStep tx w" "runRollbackAndChain srv w = (r, w')"
  shows "inStep tx w' \<and> txStep RollbackAndChain (isOk r) (tx (db w)) (tx (db w'))"
  using assms(3) unfolding runRollbackAndChain_def
proof (cases rule: andThen_cases)
  case (failed e)
  then show ?thesis
    using end_text [OF t _ failed(1)] assms(2) by (cases "tx (db w)") (auto simp: inStep_def refused noTransaction)
next
  case (went resp v)
  have v: "tx (db w)" "\<not> tx (db v)" using end_text [OF t _ went(1)] by simp_all
  let ?u = "clearInTrans v"
  have u: "inStep tx ?u" "\<not> tx (db ?u)" using v by (simp_all add: clearInTrans_in)
  have k: "keeps (keepsTx tx) (restoreSequences srv)" by (rule keepsTx_restore [OF t])
  have "andThen (restoreSequences srv) (\<lambda>_. andThen (putState clearMySQLAutoIncrementRestoreTables)
      (\<lambda>_. execSQLite (engine srv) ''BEGIN'' [])) ?u = (r, w')"
    using went(2) by (simp add: andThen_def [of "putState clearInTrans"] putState_def)
  then show ?thesis
  proof (cases rule: andThen_cases)
    case (failed e)
    then show ?thesis using keepsD [OF k failed(1)] kept_in [OF keepsD [OF k failed(1)]] u v by (simp add: keepsTx_def chainBroken)
  next
    case (went x y)
    let ?z = "clearMySQLAutoIncrementRestoreTables y"
    have "execSQLite (engine srv) ''BEGIN'' [] ?z = (r, w')"
      using went(2) by (simp add: andThen_def putState_def)
    moreover have "inStep tx ?z" "\<not> tx (db ?z)"
      using keepsD [OF k went(1)] kept_in [OF keepsD [OF k went(1)]] u
      by (simp_all add: keepsTx_def inStep_def clearMySQLAutoIncrementRestoreTables_def)
    ultimately have "inStep tx w'" "txStep Begin (isOk r) False (tx (db w'))" using begin_step [OF t, of ?z r w'] by simp_all
    from this(2) have "isOk r" "tx (db w')" by (auto elim: begin_closedE)
    then show ?thesis using v(1) \<open>inStep tx w'\<close> by (simp add: chained)
  qed
qed


text \<open>An engine that only knows whether a transaction is open.\<close>

definition switchEnv :: "bool env" where
  "switchEnv = \<lparr> Exec = (\<lambda>q args d.
       if args = [] \<and> q = ''BEGIN'' then (if d then Inl ''cannot start a transaction within a transaction'' else Inr (0, 0), True)
       else if args = [] \<and> q \<in> {''COMMIT'', ''ROLLBACK''} then (if d then Inr (0, 0) else Inl ''no transaction is active'', False)
       else (Inr (0, 0), d)),
     Query = (\<lambda>q _ d. (Inr \<lparr> rowNames = [''m''], rowTypes = None, rowValues = [], rowError = None \<rparr>, d)), std = exampleStd,
     sscan = (\<lambda>_. None), compat = exampleCompat, infoDSN = [], fmtArg = (\<lambda>_. []) \<rparr>"

lemma switch_transactional: "transactional switchEnv (\<lambda>d. d)"
proof -
  have "isTransactionText q" if "q \<in> {''BEGIN'', ''COMMIT'', ''ROLLBACK''}" for q
    using that by (elim insertE emptyE; simp; code_simp)
  then show ?thesis by (auto simp: transactional_def switchEnv_def)
qed


end
