(* ===== verification/Result_Types.thy ===== *)
theory Result_Types
  imports Connection_Frame
begin

text \<open>
  The type of result sets: every row has a value for each column, which the encoders of rows rely on (\<open>binaryRow\<close> indexes the
  columns by the position in the row). It holds of every answer, also of the ones kept from earlier queries.
\<close>

definition rectangular :: "resultSet \<Rightarrow> bool" where
  "rectangular rs = list_all (\<lambda>row. length row = length (Columns rs)) (Rows rs)"

text \<open>\<open>database/sql\<close> scans one value for each column name.\<close>

definition rectangularEngine :: "'d env \<Rightarrow> bool" where
  "rectangularEngine env =
     (\<forall>q args d rows d'. Query env q args d = (Inr rows, d') \<longrightarrow> list_all (\<lambda>row. length row = length (rowNames rows)) (rowValues rows))"

subsection \<open>Kept results\<close>

definition cachedAll :: "('v \<Rightarrow> bool) \<Rightarrow> 'v cache \<Rightarrow> bool" where
  "cachedAll P c = list_all (P \<circ> snd) (entries c)"

lemma cachedAll_evict: "cachedAll P c \<Longrightarrow> cachedAll P (evict limit c)"
proof (induction limit c rule: evict.induct)
  case (1 limit c)
  have d: "cachedAll P c \<Longrightarrow> list_all (P \<circ> snd) (AList.delete k (entries c))" for k
    by (auto simp: cachedAll_def list_all_iff AList.delete_eq)
  show ?case
    by (subst evict.simps) (use 1 d in \<open>auto simp: cachedAll_def Let_def split: list.splits\<close>)
qed

lemma cachedAll_update: "list_all (P \<circ> snd) es \<Longrightarrow> P v \<Longrightarrow> list_all (P \<circ> snd) (AList.update k v es)"
  by (induction es) auto

lemma cachedAll_store: "cachedAll P c \<Longrightarrow> P v \<Longrightarrow> cachedAll P (cacheStore c k v)"
  using cachedAll_evict [of P c sqlTranslationCacheLimit]
  by (simp add: cacheStore_def Let_def cachedAll_def cachedAll_update)

lemma cachedAll_lookup: "cachedAll P c \<Longrightarrow> cacheLookup c k = Some v \<Longrightarrow> P v"
  by (auto simp: cachedAll_def cacheLookup_def list_all_iff dest!: map_of_SomeD)

abbreviation keptResults :: "informationSchemaResultSetCacheEntry cache \<Rightarrow> bool" where
  "keptResults \<equiv> cachedAll (\<lambda>e. rectangular (entryResult e))"

definition typedCaches :: "'d world \<Rightarrow> bool" where
  "typedCaches w = (keptResults (informationSchemaCache.showFullFields (infoSchema w)) \<and> keptResults (queryResults (infoSchema w)))"

lemma versionedLookup_rectangular: "keptResults c \<Longrightarrow> versionedLookup c k v = Some rs \<Longrightarrow> rectangular rs"
  by (auto simp: versionedLookup_def dest: cachedAll_lookup split: option.splits if_splits)

lemma versionedStore_kept: "keptResults c \<Longrightarrow> rectangular rs \<Longrightarrow> keptResults (versionedStore k v rs c)"
  by (simp add: versionedStore_def cachedAll_store)

lemma newWorld_typed: "typedCaches (newWorld d vars cid)"
  by (simp add: typedCaches_def newWorld_def newInformationSchemaCache_def cachedAll_def emptyCache_def)

definition typedKept :: "'d world \<Rightarrow> 'd world \<Rightarrow> bool" where
  "typedKept w w' = (typedCaches w \<longrightarrow> typedCaches w')"

interpretation typed: engine_relation typedKept
  by unfold_locales
    (auto simp: typedKept_def typedCaches_def bumpSchemaVersion_def newInformationSchemaCache_def cachedAll_def emptyCache_def
      recordAllocation_def)

lemma typed_same: "infoSchema w' = infoSchema w \<Longrightarrow> typedKept w w'"
  by (simp add: typedKept_def typedCaches_def)

subsection \<open>Answers with a property\<close>

text \<open>From a state with well-formed kept results, to such a state, with a value that satisfies \<open>Q\<close>.\<close>

named_theorems gives

definition gives :: "('a \<Rightarrow> bool) \<Rightarrow> ('d world, 'a) io \<Rightarrow> bool" where
  "gives Q m = (\<forall>w r w'. typedCaches w \<longrightarrow> m w = (r, w') \<longrightarrow> typedCaches w' \<and> (\<forall>x. r = Inr x \<longrightarrow> Q x))"

lemma givesD: "gives Q m \<Longrightarrow> typedCaches w \<Longrightarrow> m w = (r, w') \<Longrightarrow> typedCaches w'"
  "gives Q m \<Longrightarrow> typedCaches w \<Longrightarrow> m w = (Inr x, w') \<Longrightarrow> Q x"
  unfolding gives_def by blast+

lemma gives_ends: "keeps typedKept m \<Longrightarrow> ends Q m \<Longrightarrow> gives Q m"
  unfolding gives_def using keepsD [of typedKept m] endsD [of Q m] typedKept_def by blast

lemma gives_ret: "Q x \<Longrightarrow> gives Q (ret x)"
  by (simp add: gives_def ret_def)

lemma gives_fail [gives]: "gives Q (fail e)"
  by (simp add: gives_def fail_def)

lemma gives_andThen:
  assumes m: "gives P m" and f: "\<And>x. P x \<Longrightarrow> gives Q (f x)"
  shows "gives Q (andThen m f)"
  unfolding gives_def
proof (intro allI impI)
  fix w r w' assume w: "typedCaches w" and run: "andThen m f w = (r, w')"
  obtain r1 v where one: "m w = (r1, v)" by (rule prod.exhaust)
  show "typedCaches w' \<and> (\<forall>x. r = Inr x \<longrightarrow> Q x)"
  proof (cases r1)
    case (Inl e)
    then show ?thesis using run one givesD(1) [OF m w one] by (auto simp: andThen_def)
  next
    case (Inr x)
    have "gives Q (f x)" using f givesD(2) [OF m w] one Inr by blast
    then show ?thesis using run one Inr givesD [OF _ givesD(1) [OF m w one]] by (auto simp: andThen_def)
  qed
qed

lemma gives_then:
  assumes "keeps typedKept m" "\<And>x. gives Q (f x)"
  shows "gives Q (andThen m f)"
proof -
  have "gives (\<lambda>_. True) m" by (rule gives_ends [OF assms(1)]) (simp add: ends_def)
  then show ?thesis by (rule gives_andThen) (rule assms(2))
qed

lemma gives_get:
  assumes "\<And>w. typedCaches w \<Longrightarrow> gives Q (f (g w))"
  shows "gives Q (andThen (getState g) f)"
  unfolding gives_def
proof (intro allI impI)
  fix w r w' assume w: "typedCaches w" and "andThen (getState g) f w = (r, w')"
  then have "f (g w) w = (r, w')" by (simp add: andThen_def getState_def)
  with givesD [OF assms [OF w] w] show "typedCaches w' \<and> (\<forall>x. r = Inr x \<longrightarrow> Q x)" by blast
qed

lemma gives_if [gives]: "gives Q a \<Longrightarrow> gives Q b \<Longrightarrow> gives Q (if c then a else b)"
  by simp

lemma gives_prod [gives]: "(\<And>x y. gives Q (f x y)) \<Longrightarrow> gives Q (case p of (x, y) \<Rightarrow> f x y)"
  by (cases p) simp

lemma gives_option [gives]: "gives Q a \<Longrightarrow> (\<And>x. gives Q (f x)) \<Longrightarrow> gives Q (case v of None \<Rightarrow> a | Some x \<Rightarrow> f x)"
  by (cases v) simp_all

lemma gives_sum [gives]: "(\<And>x. gives Q (f x)) \<Longrightarrow> (\<And>y. gives Q (g y)) \<Longrightarrow> gives Q (case v of Inl x \<Rightarrow> f x | Inr y \<Rightarrow> g y)"
  by (cases v) simp_all

subsection \<open>Queries\<close>

lemma ends_query: "rectangularEngine env \<Longrightarrow>
    ends (\<lambda>rows. list_all (\<lambda>row. length row = length (rowNames rows)) (rowValues rows)) (queryContext env q args)"
  by (auto simp: ends_def queryContext_def rectangularEngine_def split: prod.splits sum.splits)

lemma rectangular_materialize:
  "list_all (\<lambda>row. length row = length columns) rows \<Longrightarrow> rectangular (materialize s columns rows)"
  using materialize_loop_rows [of columns rows s] by (auto simp: materialize_def rectangular_def split: prod.splits)

lemma ends_querySQLite:
  assumes "rectangularEngine env"
  shows "ends rectangular (querySQLite env q args)"
  unfolding querySQLite_def
proof (rule ends_andThen [OF ends_query [OF assms]], rule ends_then)
  fix rows :: sqliteRows assume "list_all (\<lambda>row. length row = length (rowNames rows)) (rowValues rows)"
  then show "ends rectangular (getState (\<lambda>w. materializeRows env (mdata w) q rows))"
    by (auto simp: ends_def getState_def materializeRows_def rectangular_materialize)
qed

fun replyRows :: "queryReply \<Rightarrow> resultSet" where
  "replyRows (Materialized rs) = rs"
| "replyRows (Streamed rs _) = rs"

lemma ends_querySQLiteText:
  assumes "rectangularEngine env"
  shows "ends (rectangular \<circ> replyRows) (querySQLiteText env q stream args)"
  unfolding querySQLiteText_def
proof (rule ends_andThen [OF ends_query [OF assms]])
  fix rows :: sqliteRows assume r: "list_all (\<lambda>row. length row = length (rowNames rows)) (rowValues rows)"
  let ?P = "\<lambda>(columns, b). length columns = length (rowNames rows)"
  have "ends ?P (getState (\<lambda>w. sqliteResultColumns (sscan env) (mdata w) q (rowNames rows) (rowTypes rows)))"
    by (auto simp: ends_def getState_def split: prod.splits) (metis fst_conv sqliteResultColumns_length)
  then show "ends (rectangular \<circ> replyRows)
     (andThen (getState (\<lambda>w. sqliteResultColumns (sscan env) (mdata w) q (rowNames rows) (rowTypes rows))) (\<lambda>(columns, streamable).
       if stream \<and> streamable then
         ret (Streamed \<lparr> Columns = columns, Rows = map (\<lambda>row. snd (nextRow (std env) False columns row)) (rowValues rows) \<rparr> (rowError rows))
       else andThen (rowsErr rows) (\<lambda>_. ret (Materialized (materialize (std env) columns (rowValues rows))))))"
  proof (rule ends_andThen)
    fix p :: "resultColumn list \<times> bool" assume p: "?P p"
    obtain columns b where [simp]: "p = (columns, b)" by (cases p)
    have "list_all (\<lambda>row. length row = length columns) (rowValues rows)" using p r by simp
    then show "ends (rectangular \<circ> replyRows) (case p of (columns, streamable) \<Rightarrow>
       if stream \<and> streamable then
         ret (Streamed \<lparr> Columns = columns, Rows = map (\<lambda>row. snd (nextRow (std env) False columns row)) (rowValues rows) \<rparr> (rowError rows))
       else andThen (rowsErr rows) (\<lambda>_. ret (Materialized (materialize (std env) columns (rowValues rows)))))"
      using rectangular_materialize [of columns "sqliteRows.rowValues rows" "std env"]
      by (auto intro!: ends_ret ends_then) (auto simp: rectangular_def list_all_iff)
  qed
qed

subsection \<open>SHOW and the schema tables\<close>

lemma rectangular_rows: "(\<And>row. row \<in> set rows \<Longrightarrow> length row = length columns) \<Longrightarrow> rectangular \<lparr> Columns = columns, Rows = rows \<rparr>"
  by (simp add: rectangular_def list_all_iff)

lemma ends_showTables: "rectangularEngine env \<Longrightarrow> ends rectangular (showTables env)"
  unfolding showTables_def
  by (rule ends_andThen [OF ends_querySQLite])
    (auto simp: ends_def getState_def rectangular_def split: list.splits)

lemma ends_showCreateTable: "ends rectangular (showCreateTable env refuse q)"
proof -
  have g: "ends rectangular (getState (\<lambda>w. \<lparr> Columns = map varColumn [c1, c2], Rows = [[v1 w, v2 w]] \<rparr>))" for c1 c2 and v1 v2 :: "'a world \<Rightarrow> goValue"
    by (simp add: ends_def getState_def rectangular_def)
  have n: "ends rectangular (noSuchTable t)" for t
    by (simp add: ends_def noSuchTable_def)
  show ?thesis
    unfolding showCreateTable_def Let_def by (rule ends g n)+
qed

lemma ends_showFullFieldsDirect: "ends rectangular (showFullFieldsDirect env ks t pattern)"
proof -
  have n: "ends rectangular (noSuchTable t)" for t
    by (simp add: ends_def noSuchTable_def)
  have r: "rectangular \<lparr> Columns = showFullFieldsResultColumns, Rows = map (showFieldRow collation keys) cs \<rparr>" for collation keys cs
    by (rule rectangular_rows) (auto simp: showFullFieldsResultColumns_def showFieldRow_def)
  show ?thesis
    unfolding showFullFieldsDirect_def by (rule ends n ends_ret r)+
qed

lemma gives_showFullFields: "gives rectangular (showFullFields env refuse ks q)"
proof -
  have s: "keeps typedKept (onStats recordShowFullFieldsQuery)"
    unfolding recordShowFullFieldsQuery_def by (rule keeps)
  have m: "gives rectangular (andThen (onInfo (markShowFullFieldsResult d t p c v rs)) (\<lambda>_. ret rs))" if "rectangular rs" for d t p c v rs
    using that by (auto simp: gives_def andThen_def onInfo_def putState_def ret_def typedCaches_def markShowFullFieldsResult_def versionedStore_kept)
  have k: "gives rectangular (case showFullFieldsResult (infoSchema w) d t p c v of Some rs \<Rightarrow> ret rs
      | None \<Rightarrow> andThen (showFullFieldsDirect env ks t p) (\<lambda>rs. andThen (onInfo (markShowFullFieldsResult d t p c v rs)) (\<lambda>_. ret rs)))"
    if "typedCaches w" for w d t p c v
  proof (cases "showFullFieldsResult (infoSchema w) d t p c v")
    case None
    have "gives rectangular (showFullFieldsDirect env ks t p)"
      by (rule gives_ends [OF _ ends_showFullFieldsDirect], rule keeps)
    then show ?thesis by (simp add: None gives_andThen m)
  next
    case (Some rs)
    then have "rectangular rs"
      using that versionedLookup_rectangular unfolding showFullFieldsResult_def typedCaches_def by blast
    then show ?thesis by (simp add: Some gives_ret)
  qed
  show ?thesis
    unfolding showFullFields_def
    by (rule gives_then [OF s], rule gives_option, rule gives_fail, rule gives_prod, rule gives_get) (simp add: k cong: option.case_cong)
qed

lemma gives_showKeys:
  assumes "rectangularEngine env"
  shows "gives rectangular (showKeys env refuse ks q)"
proof -
  have n: "ends rectangular (noSuchTable t)" for t
    by (simp add: ends_def noSuchTable_def)
  have "ends rectangular (showKeys env refuse ks q)"
    unfolding showKeys_def by (rule ends n ends_querySQLite [OF assms])+
  then show ?thesis by (rule gives_ends [rotated]) (rule keeps)
qed

lemma gives_queryInformationSchemaText:
  assumes "rectangularEngine env"
  shows "gives (rectangular \<circ> replyRows) (queryInformationSchemaText env ks q stream args)"
proof -
  have t: "gives (rectangular \<circ> replyRows) (querySQLiteText env query stream args)" for query
    by (rule gives_ends [OF _ ends_querySQLiteText [OF assms]], rule keeps)
  have m: "gives (rectangular \<circ> replyRows) (andThen (querySQLite env query args) (\<lambda>result.
      andThen (onInfo (markQueryResult k v result)) (\<lambda>_. ret (Materialized result))))" for query k v
  proof (rule gives_andThen [OF gives_ends [OF _ ends_querySQLite [OF assms]]], rule keeps)
    fix rs assume "rectangular rs"
    then show "gives (rectangular \<circ> replyRows) (andThen (onInfo (markQueryResult k v rs)) (\<lambda>_. ret (Materialized rs)))"
      by (auto simp: gives_def andThen_def onInfo_def putState_def ret_def typedCaches_def markQueryResult_def versionedStore_kept)
  qed
  have c: "gives (rectangular \<circ> replyRows) (case x of Some rs \<Rightarrow> ret (Materialized rs) | None \<Rightarrow> m')"
    if "\<And>rs. x = Some rs \<Longrightarrow> rectangular rs" "gives (rectangular \<circ> replyRows) m'" for x and m' :: "('a world, queryReply) io"
    using that by (cases x) (simp_all add: gives_ret)
  have r: "rectangular rs" if "typedCaches w" "(if b then queryResult (infoSchema w) k v else None) = Some rs" for w :: "'a world" and b k v rs
    using that versionedLookup_rectangular unfolding queryResult_def typedCaches_def by (auto split: if_splits)
  have s: "keeps typedKept (onStats (recordInformationSchemaQuery b why))" for b why
    unfolding recordInformationSchemaQuery_def by (rule keeps)
  have f: "keeps typedKept (case tgt of Inr tn \<Rightarrow> andThen (refreshInformationSchemaTable env ks tn) (\<lambda>_. ret ())
      | Inl _ \<Rightarrow> refreshInformationSchemaForQuery env ks q)" for tgt :: "string + string"
    by (rule keeps)+
  show ?thesis
    unfolding queryInformationSchemaText_def Let_def sum.case_distrib [of onStats]
  proof (rule gives_then, rule keeps_sum, rule s, rule s, rule gives_then, rule keeps, rule gives_prod, rule gives_then, rule keeps,
      rule gives_get, rule c)
  qed (rule r gives_then f gives_if t m | assumption)+
qed

subsection \<open>Statements\<close>

definition typedResponse :: "response \<Rightarrow> bool" where
  "typedResponse resp = (case resp of ResultRows rs \<Rightarrow> rectangular rs | RowStream rs _ \<Rightarrow> rectangular rs | _ \<Rightarrow> True)"

lemma typed_puts:
  "typedKept w (clearInTrans w)" "typedKept w (clearMySQLAutoIncrementRestoreTables w)"
  "typedKept w ((clearInTrans \<circ> clearMySQLAutoIncrementRestoreTables) w)"
  "typedKept w (w\<lparr> sess := s \<rparr>)" "typedKept w (recordStatementMetadata env q w)"
  "typedKept w (logQueryEvent command route q n w)" "typedKept w (recordUnsupported srv command q n stage w)"
  by (simp_all add: typed_same clearInTrans_def clearMySQLAutoIncrementRestoreTables_def recordStatementMetadata_def
      logQueryEvent_def recordUnsupported_def recordUnsupportedQuery_def Let_def)

lemma typed_ignored: "typedKept w (fold (execIgnored env) qs w)"
proof (induction qs arbitrary: w)
  case (Cons q qs)
  have "typedKept w (execIgnored env q w)" by (simp add: typed_same execIgnored_def execContext_def split: prod.split)
  then show ?case using Cons [of "execIgnored env q w"] typed.trans_R by simp blast
qed (simp add: typed.refl_R)

lemma typed_statements [keeps]:
  "keeps typedKept (restoreSequences srv)" "keeps typedKept (runCommit srv)" "keeps typedKept (runRollback srv)"
  "keeps typedKept (runRollbackAndChain srv)" "keeps typedKept (runRollbackToSavepoint srv q)" "keeps typedKept (onSession f)"
  "keeps typedKept (execSetVariables srv q)" "keeps typedKept (runAdvisoryLock q)" "keeps typedKept (cachedStatements q)"
proof -
  show r [keeps]: "keeps typedKept (restoreSequences srv)" by (unfold restoreSequences_def; (rule keeps)+)
  show "keeps typedKept (runCommit srv)" by (unfold runCommit_def; (rule keeps typed_puts)+)
  show "keeps typedKept (runRollback srv)" by (unfold runRollback_def; (rule keeps r typed_puts)+)
  show "keeps typedKept (runRollbackAndChain srv)" by (unfold runRollbackAndChain_def; (rule keeps r typed_puts)+)
  show "keeps typedKept (runRollbackToSavepoint srv q)" by (unfold runRollbackToSavepoint_def; (rule keeps r)+)
  show "keeps typedKept (onSession f)" by (unfold onSession_def; (rule keeps typed_puts)+)
  show "keeps typedKept (runAdvisoryLock q)" by (simp add: keeps_def runAdvisoryLock_def typed_same split: prod.splits)
  show "keeps typedKept (cachedStatements q)"
    by (simp add: keeps_def cachedStatements_def typed_same typed.refl_R split: option.splits prod.splits)
  have "typedKept w (fold (execIgnored env) qs (w\<lparr> sess := s \<rparr>))" for w :: "'a world" and env qs s
    using typed.trans_R typed_puts(4) typed_ignored by blast
  then show "keeps typedKept (execSetVariables srv q)"
    by (simp add: keeps_def execSetVariables_def andThen_def getState_def putState_def ret_def split: prod.splits)
qed

lemma typed_write [keeps]: "keeps typedKept (runWrite srv command sqlText trimmed args)"
proof -
  have t [keeps]: "keeps typedKept (execTranslated env q args)" for env :: "'a env" and q args
    by (unfold execTranslated_def; (rule keeps typed_puts)+)
  have i: "keeps typedKept (runInsertOrWrite env u q args)" for env :: "'a env" and u q args
    by (unfold runInsertOrWrite_def; (rule keeps t)+)
  show ?thesis unfolding runWrite_def Let_def by (rule keeps typed_puts i)+
qed

lemma gives_plain: "keeps typedKept m \<Longrightarrow> gives typedResponse (andThen m (\<lambda>x. ret (OK x)))"
  by (erule gives_then) (simp add: gives_ret typedResponse_def)

lemma gives_rows: "gives rectangular m \<Longrightarrow> gives typedResponse (andThen m (\<lambda>rs. ret (ResultRows rs)))"
  by (erule gives_andThen) (simp add: gives_ret typedResponse_def)

lemma gives_replies: "gives (rectangular \<circ> replyRows) m \<Longrightarrow> gives typedResponse (andThen m (\<lambda>q. ret (responseOf q)))"
proof (erule gives_andThen)
  fix q assume "(rectangular \<circ> replyRows) q"
  then show "gives typedResponse (ret (responseOf q))" by (cases q) (simp_all add: gives_ret typedResponse_def)
qed

lemma rectangular_oneRow [simp]: "rectangular (oneRow name v)"
  by (simp add: rectangular_def oneRow_def)

lemma sessionAnswer_rectangular: "sessionAnswer srv s kind = Some rs \<Longrightarrow> rectangular rs"
  by (cases kind) (auto simp: showVariables_def Let_def rectangular_def oneRow_def list_all_iff)

lemma gives_session: "gives typedResponse (andThen (getState (\<lambda>w. sessionAnswer srv (sess w) kind)) (\<lambda>found. case found of
    Some rs \<Rightarrow> ret (ResultRows rs) | None \<Rightarrow> fail Panicked))"
proof (rule gives_get)
  fix w
  show "gives typedResponse (case sessionAnswer srv (sess w) kind of Some rs \<Rightarrow> ret (ResultRows rs) | None \<Rightarrow> fail Panicked)"
    using sessionAnswer_rectangular [of srv "sess w" kind]
    by (cases "sessionAnswer srv (sess w) kind") (auto simp: typedResponse_def intro: gives_ret gives_fail)
qed

lemma gives_selectVariable: "gives typedResponse (runSelectVariable srv command sqlText n)"
  unfolding runSelectVariable_def
proof (rule gives_get)
  fix w
  show "gives typedResponse (case selectVariable (serverVariables srv) (sess w) n of
       None \<Rightarrow> andThen (putState (recordUnsupported srv command sqlText n ''compat'')) (\<lambda>_. fail (Mysql (unsupportedError srv n)))
     | Some rs \<Rightarrow> andThen (putState (logQueryEvent command ''compat'' sqlText n)) (\<lambda>_. ret (ResultRows rs)))"
    by (cases "selectVariable (serverVariables srv) (sess w) n")
      (auto simp: typedResponse_def selectVariable_def Let_def intro!: gives_then keeps typed_puts gives_ret gives_fail)
qed

lemma gives_write: "gives typedResponse (runWrite srv command sqlText trimmed args)"
proof (rule gives_ends)
  show "ends typedResponse (runWrite srv command sqlText trimmed args)"
    unfolding runWrite_def Let_def by (auto intro!: ends ends_ret simp: typedResponse_def)
qed (rule keeps)

lemma gives_lock: "gives typedResponse (runAdvisoryLock q)"
proof (rule gives_ends)
  show "ends typedResponse (runAdvisoryLock q)"
    by (auto simp: ends_def runAdvisoryLock_def typedResponse_def advisoryLockResult_def Let_def split: option.splits prod.splits if_splits)
qed (rule keeps)

lemma gives_perform:
  assumes e: "rectangularEngine (engine srv)"
  shows "gives typedResponse (perform srv command sqlText trimmed args kind)"
proof -
  have ok: "gives typedResponse (ret (OK x))" for x
    by (simp add: gives_ret typedResponse_def)
  have st: "gives rectangular (showTables (engine srv))"
    by (rule gives_ends [OF _ ends_showTables [OF e]], rule keeps)
  have sc: "gives rectangular (showCreateTable (engine srv) refuse q)" for refuse q
    by (rule gives_ends [OF _ ends_showCreateTable], rule keeps)
  have rd: "gives (rectangular \<circ> replyRows) (andThen (cachedTranslation q) (\<lambda>query. querySQLiteText (engine srv) query stream args))" for q stream
    by (rule gives_then, rule keeps, rule gives_ends [OF _ ends_querySQLiteText [OF e]], rule keeps)
  have un: "gives typedResponse (andThen (putState (recordUnsupported srv command sqlText n stage)) (\<lambda>_. fail x))" for n stage x
    by (rule gives_then, (rule keeps typed_puts)+, rule gives_fail)
  note parts = gives_plain gives_rows gives_replies ok st sc rd un gives_showFullFields gives_showKeys [OF e]
    gives_queryInformationSchemaText [OF e] gives_get gives_session gives_selectVariable gives_write gives_lock
  show ?thesis
    by (cases kind) (simp_all only: perform_def Let_def statementKind.case inIndexOrder_def,
      (rule parts keeps typed_puts)+)
qed

lemma gives_rule: "gives typedResponse (ruleResponseIO srv (ruleAnswerOf rule))"
proof (rule gives_ends)
  show "keeps typedKept (ruleResponseIO srv (ruleAnswerOf rule))"
    by (cases "ruleAnswerOf rule") (simp_all add: ruleResponseIO_def keeps)
  have "typedResponse resp" if "ruleResponseIO srv (ruleAnswerOf rule) w = (Inr resp, w')" for w :: "'a world" and resp w'
  proof (cases "ruleAnswerOf rule")
    case (RuleRows cols rows)
    then have "buildRuleResultSet (ruleResponse rule) = Inr (cols, rows)"
      by (auto simp: ruleAnswerOf_def Let_def split: if_splits sum.splits)
    from buildRuleResultSet_shape [OF this] that RuleRows show ?thesis
      by (auto simp: ruleResponseIO_def ret_def typedResponse_def rectangular_def list_all_iff)
  qed (use that in \<open>auto simp: ruleResponseIO_def ret_def fail_def typedResponse_def\<close>)
  then show "ends typedResponse (ruleResponseIO srv (ruleAnswerOf rule))" unfolding ends_def by blast
qed

lemma executeRule_answer:
  "executeRule print rules sqlText args used = Inr (Some (delay, ans), used') \<Longrightarrow> \<exists>rule. ans = ruleAnswerOf rule"
  by (cases "matchRule print rules sqlText args used") (auto simp: executeRule_def)

lemma ends_tryRules: "ends (\<lambda>m. \<forall>ans. m = Some (Inl ans) \<longrightarrow> (\<exists>rule. ans = ruleAnswerOf rule)) (tryRules srv sqlText args)"
  by (auto simp: ends_def tryRules_def dest: executeRule_answer split: sum.splits prod.splits)



end
