(* ===== verification/Sqlite_Functions.thy ===== *)
theory Sqlite_Functions
  imports Insert_Exec
begin

text \<open>
  The MySQL functions the server registers with SQLite (\<open>pkg/mysqlmock/sqlite_functions.go\<close>). Their arguments and results are
  the values of \<open>database/sql/driver\<close>: nil, integers, floats, booleans, texts, byte strings and times; floats are given by their
  IEEE bits. The clock, the random generators and the regular expressions of Go are the fields of \<open>goRuntime\<close>, and so is
  the conversion to an integer of a float outside the range, which Go leaves to the platform.
\<close>

unbundle bit_operations_syntax

record goRuntime =
  runtimeStd :: goStd
  timeNow :: goTime
  globalRandom :: "64 word"
  seededRandom :: "64 word \<Rightarrow> 64 word"
  regexpMatch :: "bytes \<Rightarrow> bytes \<Rightarrow> string + bool"
  hugeToInt :: "64 word \<Rightarrow> 64 word"

subsection \<open>Conversions\<close>

definition isInf64 :: "64 word \<Rightarrow> bool" where
  "isInf64 w = (drop_bit 52 w AND 0x7FF = 0x7FF \<and> w AND (2 ^ 52 - 1) = 0)"

text \<open>The number a finite float stands for, without its fraction.\<close>

definition truncFloat :: "64 word \<Rightarrow> int" where
  "truncFloat w =
     (let e = unat (drop_bit 52 w AND 0x7FF); f = uint (w AND (2 ^ 52 - 1));
          m = (if e = 0 then f else f + 2 ^ 52);
          n = (if e \<ge> 1075 then m * 2 ^ (e - 1075) else m div 2 ^ (1075 - max 1 e))
      in if bit w 63 then - n else n)"

text \<open>\<open>int64(v)\<close>\<close>

definition floatToInt :: "goRuntime \<Rightarrow> 64 word \<Rightarrow> 64 word" where
  "floatToInt rt w =
     (let n = truncFloat w in
      if isNaN64 w \<or> isInf64 w \<or> n < - (2 ^ 63) \<or> n \<ge> 2 ^ 63 then hugeToInt rt w else word_of_int n)"

definition floatEqual :: "64 word \<Rightarrow> 64 word \<Rightarrow> bool" where
  "floatEqual a b = (\<not> isNaN64 a \<and> \<not> isNaN64 b \<and> (a = b \<or> (push_bit 1 a = 0 \<and> push_bit 1 b = 0)))"

definition floatOne :: "64 word" where
  "floatOne = 0x3FF0000000000000"

text \<open>\<open>Format("2006-01-02 15:04:05.999999999")\<close> and \<open>Format("2006-01-02")\<close>\<close>

definition formatDate :: "goTime \<Rightarrow> bytes" where
  "formatDate t =
     (if t_year t < 0 then 45 # padded 4 (nat (- t_year t)) else padded 4 (nat (t_year t))) @
     [45] @ padded 2 (t_month t) @ [45] @ padded 2 (t_day t)"

definition formatTimeNanos :: "goTime \<Rightarrow> bytes" where
  "formatTimeNanos t =
     (let frac = rev (dropWhile (\<lambda>b. b = 48) (rev (padded 9 (t_nano t)))) in
      formatDate t @ [32] @ padded 2 (t_hour t) @ [58] @ padded 2 (t_minute t) @ [58] @ padded 2 (t_second t) @
      (if frac = [] then [] else 46 # frac))"

definition mysqlCompatIsString :: "goValue \<Rightarrow> bool" where
  "mysqlCompatIsString v = (case v of GoString _ \<Rightarrow> True | GoBytes _ \<Rightarrow> True | _ \<Rightarrow> False)"

definition mysqlCompatIsNumber :: "goValue \<Rightarrow> bool" where
  "mysqlCompatIsNumber v = (case v of GoInt64 _ \<Rightarrow> True | GoFloat (F64 _) \<Rightarrow> True | GoBool _ \<Rightarrow> True | _ \<Rightarrow> False)"

text \<open>Values of other types are no driver values; \<open>fmt.Sprint\<close> prints them as \<open>textValue\<close> does.\<close>

definition mysqlCompatString :: "goRuntime \<Rightarrow> goValue \<Rightarrow> bytes" where
  "mysqlCompatString rt v =
     (case v of
        GoNil \<Rightarrow> []
      | GoString s \<Rightarrow> s
      | GoBytes b \<Rightarrow> b
      | GoInt64 n \<Rightarrow> formatInt n
      | GoFloat (F64 f) \<Rightarrow> fmtFloat (runtimeStd rt) (F64 f)
      | GoBool b \<Rightarrow> if b then ascii ''1'' else ascii ''0''
      | GoTime t \<Rightarrow> formatTimeNanos t
      | _ \<Rightarrow> textValue (runtimeStd rt) v)"

definition mysqlCompatStringToFloat64 :: "goRuntime \<Rightarrow> bytes \<Rightarrow> 64 word" where
  "mysqlCompatStringToFloat64 rt s =
     (let t = trimBytes s in
      if t = [] then 0
      else (case parseFloat (runtimeStd rt) t of
          None \<Rightarrow> 0
        | Some f \<Rightarrow> if isNaN64 f \<or> isInf64 f then 0 else f))"

definition mysqlCompatStringToInt64 :: "goRuntime \<Rightarrow> bytes \<Rightarrow> 64 word" where
  "mysqlCompatStringToInt64 rt s =
     (let t = trimBytes s in
      if t = [] then 0
      else (case parseInt t of Inr n \<Rightarrow> n | Inl _ \<Rightarrow> floatToInt rt (mysqlCompatStringToFloat64 rt t)))"

definition mysqlCompatInt64 :: "goRuntime \<Rightarrow> goValue \<Rightarrow> 64 word" where
  "mysqlCompatInt64 rt v =
     (case v of
        GoInt64 n \<Rightarrow> n
      | GoFloat (F64 f) \<Rightarrow> if isNaN64 f \<or> isInf64 f then 0 else floatToInt rt f
      | GoBool b \<Rightarrow> if b then 1 else 0
      | _ \<Rightarrow> mysqlCompatStringToInt64 rt (mysqlCompatString rt v))"

definition mysqlCompatFloat64 :: "goRuntime \<Rightarrow> goValue \<Rightarrow> 64 word" where
  "mysqlCompatFloat64 rt v =
     (case v of
        GoInt64 n \<Rightarrow> i64toFloat (runtimeStd rt) n
      | GoFloat (F64 f) \<Rightarrow> f
      | GoBool b \<Rightarrow> if b then floatOne else 0
      | _ \<Rightarrow> mysqlCompatStringToFloat64 rt (mysqlCompatString rt v))"

subsection \<open>The functions\<close>

text \<open>An error's text or a value.\<close>

type_synonym scalar = "goRuntime \<Rightarrow> goValue list \<Rightarrow> string + goValue"

definition mysqlCharLengthFunction :: scalar where
  "mysqlCharLengthFunction rt args =
     (if args ! 0 = GoNil then Inr GoNil
      else Inr (GoInt64 (of_nat (runeCount (textOf (mysqlCompatString rt (args ! 0)))))))"

definition curdateFunction :: scalar where
  "curdateFunction rt args = Inr (GoString (formatDate (timeNow rt)))"

definition randFunction :: scalar where
  "randFunction rt args =
     (case args of
        [] \<Rightarrow> Inr (GoFloat (F64 (globalRandom rt)))
      | [v] \<Rightarrow> if v = GoNil then Inr GoNil else Inr (GoFloat (F64 (seededRandom rt (mysqlCompatInt64 rt v))))
      | _ \<Rightarrow> Inl ''RAND expects 0 or 1 arguments'')"

text \<open>\<open>strings.Split(list, ",")\<close>\<close>

fun splitCommas :: "bytes \<Rightarrow> bytes list" where
  "splitCommas [] = [[]]"
| "splitCommas (b # bs) =
     (if b = 44 then [] # splitCommas bs
      else (case splitCommas bs of [] \<Rightarrow> [[b]] | item # items \<Rightarrow> (b # item) # items))"

fun itemPosition :: "nat \<Rightarrow> bytes \<Rightarrow> bytes list \<Rightarrow> nat" where
  "itemPosition i needle [] = 0"
| "itemPosition i needle (item # items) = (if item = needle then i + 1 else itemPosition (i + 1) needle items)"

definition findInSetFunction :: scalar where
  "findInSetFunction rt args =
     (if args ! 0 = GoNil \<or> args ! 1 = GoNil then Inr GoNil
      else let needle = mysqlCompatString rt (args ! 0); list = mysqlCompatString rt (args ! 1) in
        if list = [] then Inr (GoInt64 0) else Inr (GoInt64 (of_nat (itemPosition 0 needle (splitCommas list)))))"

datatype mysqlFieldCompareMode = FieldCompareString | FieldCompareNumber | FieldCompareDouble

definition mysqlFieldComparisonMode :: "goValue list \<Rightarrow> mysqlFieldCompareMode" where
  "mysqlFieldComparisonMode args =
     (let vs = filter (\<lambda>v. v \<noteq> GoNil) args in
      if vs = [] then FieldCompareString
      else if list_all mysqlCompatIsString vs then FieldCompareString
      else if list_all mysqlCompatIsNumber vs then FieldCompareNumber
      else FieldCompareDouble)"

definition mysqlFieldEqual :: "goRuntime \<Rightarrow> mysqlFieldCompareMode \<Rightarrow> goValue \<Rightarrow> goValue \<Rightarrow> bool" where
  "mysqlFieldEqual rt mode l r =
     (case mode of
        FieldCompareString \<Rightarrow> mysqlCompatString rt l = mysqlCompatString rt r
      | _ \<Rightarrow> floatEqual (mysqlCompatFloat64 rt l) (mysqlCompatFloat64 rt r))"

text \<open>The arguments behind the first, with their positions.\<close>

fun field_loop :: "(goValue \<Rightarrow> bool) \<Rightarrow> nat \<Rightarrow> goValue list \<Rightarrow> nat" where
  "field_loop eq i [] = 0"
| "field_loop eq i (v # vs) = (if v \<noteq> GoNil \<and> eq v then i else field_loop eq (i + 1) vs)"

definition fieldFunction :: scalar where
  "fieldFunction rt args =
     (if length args < 2 then Inl ''FIELD expects at least 2 arguments''
      else if args ! 0 = GoNil then Inr (GoInt64 0)
      else Inr (GoInt64 (of_nat (field_loop (mysqlFieldEqual rt (mysqlFieldComparisonMode args) (args ! 0)) 1 (tl args)))))"

definition regexpFunction :: scalar where
  "regexpFunction rt args =
     (if args ! 0 = GoNil \<or> args ! 1 = GoNil then Inr GoNil
      else map_sum id (\<lambda>matched. GoInt64 (if matched then 1 else 0))
        (regexpMatch rt (mysqlCompatString rt (args ! 0)) (mysqlCompatString rt (args ! 1))))"

text \<open>
  The registered functions: the number of arguments SQLite insists on (-1: any), whether equal arguments give equal results, and
  the function. Registering a name twice is no error, any other failure ends the process.
\<close>

definition registerSQLiteMySQLFunctions :: "(string \<times> int \<times> bool \<times> scalar) list" where
  "registerSQLiteMySQLFunctions =
     [(''char_length'', 1, True, mysqlCharLengthFunction), (''character_length'', 1, True, mysqlCharLengthFunction),
      (''curdate'', 0, False, curdateFunction), (''rand'', - 1, False, randFunction), (''find_in_set'', 2, True, findInSetFunction),
      (''field'', - 1, True, fieldFunction), (''regexp'', 2, True, regexpFunction)]"

text \<open>A call from SQLite, which refuses a wrong number of arguments itself.\<close>

definition callSQLiteFunction :: "goRuntime \<Rightarrow> string \<Rightarrow> goValue list \<Rightarrow> (string + goValue) option" where
  "callSQLiteFunction rt name args =
     (case map_of registerSQLiteMySQLFunctions name of
        None \<Rightarrow> None
      | Some (n, _, f) \<Rightarrow> if n \<ge> 0 \<and> int (length args) \<noteq> n then None else Some (f rt args))"

subsection \<open>What they compute\<close>

lemma splitCommas_item: "44 \<notin> set item \<Longrightarrow> splitCommas item = [item]"
  by (induction item) auto

lemma splitCommas_append: "44 \<notin> set item \<Longrightarrow> splitCommas (item @ 44 # rest) = item # splitCommas rest"
  by (induction item) auto

fun joinCommas :: "bytes list \<Rightarrow> bytes" where
  "joinCommas [] = []"
| "joinCommas [item] = item"
| "joinCommas (item # items) = item @ 44 # joinCommas items"

lemma splitCommas_join: "items \<noteq> [] \<Longrightarrow> \<forall>item \<in> set items. 44 \<notin> set item \<Longrightarrow> splitCommas (joinCommas items) = items"
  by (induction items rule: joinCommas.induct) (auto simp: splitCommas_item splitCommas_append)

lemma itemPosition_nth:
  "k < length items \<Longrightarrow> items ! k = needle \<Longrightarrow> \<forall>j < k. items ! j \<noteq> needle \<Longrightarrow> itemPosition i needle items = i + k + 1"
proof (induction items arbitrary: i k)
  case (Cons item items)
  show ?case
  proof (cases k)
    case 0
    then show ?thesis using Cons.prems by simp
  next
    case (Suc j)
    have "\<forall>l < j. items ! l \<noteq> needle" using Cons.prems(3) Suc by auto
    with Cons.IH [of j "i + 1"] Cons.prems Suc show ?thesis by auto
  qed
qed simp

lemma itemPosition_absent: "needle \<notin> set items \<Longrightarrow> itemPosition i needle items = 0"
  by (induction items arbitrary: i) auto

text \<open>
  \<open>FIND_IN_SET\<close> undoes the comma-separated list. Of a list that was joined from items without commas and is not the empty
  text, the function gives the place, counted from 1, of the first item equal to the first argument, and 0 when none is.
\<close>

theorem find_in_set_correct:
  assumes "items \<noteq> []" "\<forall>item \<in> set items. 44 \<notin> set item" "joinCommas items \<noteq> []"
  shows "callSQLiteFunction rt ''find_in_set'' [GoString needle, GoString (joinCommas items)] =
     Some (Inr (GoInt64 (case find (\<lambda>k. items ! k = needle) [0..<length items] of None \<Rightarrow> 0 | Some k \<Rightarrow> of_nat k + 1)))"
proof -
  have "itemPosition 0 needle items = (case find (\<lambda>k. items ! k = needle) [0..<length items] of None \<Rightarrow> 0 | Some k \<Rightarrow> k + 1)"
  proof (cases "find (\<lambda>k. items ! k = needle) [0..<length items]")
    case None
    then have "needle \<notin> set items" by (auto simp: find_None_iff in_set_conv_nth)
    then show ?thesis by (simp add: None itemPosition_absent)
  next
    case (Some k)
    then have "k < length items" "items ! k = needle" "\<forall>j < k. items ! j \<noteq> needle"
      by (auto simp: find_Some_iff)
    then show ?thesis by (simp add: Some itemPosition_nth)
  qed
  then show ?thesis
    using assms by (simp add: callSQLiteFunction_def registerSQLiteMySQLFunctions_def findInSetFunction_def mysqlCompatString_def
        splitCommas_join split: option.split)
qed

definition exampleRuntime :: goRuntime where
  "exampleRuntime = \<lparr> runtimeStd = exampleStd, timeNow = zeroTime, globalRandom = 0, seededRandom = (\<lambda>s. s),
     regexpMatch = (\<lambda>_ _. Inr False), hugeToInt = (\<lambda>_. 2 ^ 63) \<rparr>"

theorem find_in_set_correct_witness:
  "callSQLiteFunction exampleRuntime ''find_in_set'' [GoString [99], GoString (joinCommas [[97], [98], [99]])] = Some (Inr (GoInt64 3))"
  using find_in_set_correct [of "[[97], [98], [99]]" exampleRuntime "[99]"] by (simp add: upt_rec)

end
