(* ===== verification/Startup.thy ===== *)
theory Startup
  imports Server_Reset Seed_Csv
begin

text \<open>
  From options and files to a server that can be started: \<open>New\<close>, its options, \<open>LoadConfigFile\<close> and the reading of
  schema and seed files (\<open>pkg/mysqlmock/server.go\<close>, \<open>pkg/mysqlmock/config.go\<close>). Reading a file and decoding YAML, JSON and
  CSV are the fields of \<open>loaders\<close>; each gives the error's text or what it has read.
\<close>

subsection \<open>Paths\<close>

text \<open>\<open>path/filepath\<close> on Unix.\<close>

definition IsAbs :: "string \<Rightarrow> bool" where
  "IsAbs path = HasPrefix path ''/''"

text \<open>The elements of the clean path so far are in \<open>out\<close>, the last one first.\<close>

fun cleanElements :: "bool \<Rightarrow> string list \<Rightarrow> string list \<Rightarrow> string list" where
  "cleanElements rooted [] out = rev out"
| "cleanElements rooted (p # ps) out =
     (if p = [] \<or> p = ''.'' then cleanElements rooted ps out
      else if p = ''..'' then
        (case out of
           [] \<Rightarrow> cleanElements rooted ps (if rooted then [] else [''..''])
         | q # qs \<Rightarrow> cleanElements rooted ps (if q = ''..'' then ''..'' # out else qs))
      else cleanElements rooted ps (p # out))"

definition Clean :: "string \<Rightarrow> string" where
  "Clean path =
     (let rooted = IsAbs path; body = Join (cleanElements rooted (SplitByte path (CHR ''/'')) []) ''/'' in
      if rooted then CHR ''/'' # body else if body = [] then ''.'' else body)"

definition joinPath :: "string \<Rightarrow> string \<Rightarrow> string" where
  "joinPath a b =
     (if a \<noteq> [] then Clean (a @ ''/'' @ b) else if b \<noteq> [] then Clean b else [])"

definition Dir :: "string \<Rightarrow> string" where
  "Dir path = Clean (rev (dropWhile (\<lambda>c. c \<noteq> CHR ''/'') (rev path)))"

text \<open>Where a configured file is: relative to the directory of the configuration file, or to the working directory.\<close>

definition resolvePath :: "string \<Rightarrow> string \<Rightarrow> string" where
  "resolvePath baseDir path =
     (if IsAbs path then path else joinPath (if baseDir = [] then ''.'' else baseDir) path)"

subsection \<open>Seed files\<close>

record loaders =
  readFile :: "string \<Rightarrow> string + string"
  yamlFields :: "string \<Rightarrow> string + (string \<rightharpoonup> bool)"
  yamlConfig :: "seedBlock Config \<Rightarrow> string \<Rightarrow> string + seedBlock Config"
  yamlWrapped :: "string \<Rightarrow> string + seedBlock option"
  yamlSeed :: "string \<Rightarrow> string + seedBlock option"
  jsonWrapped :: "string \<Rightarrow> string + seedBlock option"
  jsonSeed :: "string \<Rightarrow> string + seedBlock option"
  csvRecords :: "string \<Rightarrow> (nat + bytes list) list"
  csvErrorText :: "csv_error \<Rightarrow> string"
  loaderStd :: goStd
  compilePattern :: "string \<Rightarrow> (string \<Rightarrow> bool) option"

text \<open>
  A YAML or JSON file is first read as a document with the rows under \<open>seed\<close>; when that fails, or there is no \<open>seed\<close> or it is
  null (\<open>None\<close>), the document is the rows themselves, and the empty document is no rows.
\<close>

definition decodeSeedDocument :: "(string \<Rightarrow> string + seedBlock option) \<Rightarrow> (string \<Rightarrow> string + seedBlock option) \<Rightarrow> string \<Rightarrow> string + seedBlock" where
  "decodeSeedDocument wrapped plain text =
     (case wrapped text of
        Inr (Some seed) \<Rightarrow> Inr seed
      | _ \<Rightarrow> (case plain text of
            Inl e \<Rightarrow> Inl e
          | Inr None \<Rightarrow> Inr []
          | Inr (Some seed) \<Rightarrow> Inr seed))"

definition decodeYAMLSeedFile :: "loaders \<Rightarrow> string \<Rightarrow> string + seedBlock" where
  "decodeYAMLSeedFile ld = decodeSeedDocument (yamlWrapped ld) (yamlSeed ld)"

definition decodeJSONSeedFile :: "loaders \<Rightarrow> string \<Rightarrow> string + seedBlock" where
  "decodeJSONSeedFile ld = decodeSeedDocument (jsonWrapped ld) (jsonSeed ld)"

text \<open>The rows of a CSV file as entries: one for each column the row has.\<close>

definition rowEntries :: "bytes list \<Rightarrow> (bytes \<rightharpoonup> goValue) \<Rightarrow> (string \<times> goValue) list" where
  "rowEntries header row = List.map_filter (\<lambda>k. map_option (\<lambda>v. (textOf k, v)) (row k)) (remdups header)"

definition csvSeed :: "loaders \<Rightarrow> SeedFileConfig \<Rightarrow> string \<Rightarrow> string + seedBlock" where
  "csvSeed ld cfg text =
     (let reads = csvRecords ld text; header = (case reads of Inr h # _ \<Rightarrow> seedHeader h | _ \<Rightarrow> []) in
      map_sum (csvErrorText ld) (\<lambda>(table, rows). [(table, map (rowEntries header) rows)])
        (decodeCSVSeedFile (loaderStd ld) cfg reads))"

definition decodeSeedFileConfig :: "loaders \<Rightarrow> SeedFileConfig \<Rightarrow> string \<Rightarrow> string + seedBlock" where
  "decodeSeedFileConfig ld cfg text =
     (let format = seedFileFormat (seedPath cfg) (seedFormat cfg) in
      if format \<in> {''.yaml'', ''.yml'', []} then decodeYAMLSeedFile ld text
      else if format = ''.json'' then decodeJSONSeedFile ld text
      else if format = ''.csv'' then csvSeed ld cfg text
      else Inl (''unsupported seed file extension: '' @ format))"

definition noSeedFile :: "string \<Rightarrow> SeedFileConfig" where
  "noSeedFile path = \<lparr> seedPath = path, seedFormat = [], seedTable = [], NullValues = [], InferTypes = False \<rparr>"

definition loadSeedFileConfig :: "loaders \<Rightarrow> string \<Rightarrow> SeedFileConfig \<Rightarrow> string + seedBlock" where
  "loadSeedFileConfig ld baseDir cfg =
     (let resolved = resolvePath baseDir (seedPath cfg) in
      case readFile ld resolved of
        Inl e \<Rightarrow> Inl e
      | Inr text \<Rightarrow> decodeSeedFileConfig ld (cfg\<lparr> seedPath := resolved \<rparr>) text)"

text \<open>What the setting up of the database needs of a configuration.\<close>

definition setupOf :: "loaders \<Rightarrow> seedBlock Config \<Rightarrow> string \<Rightarrow> backendSetup" where
  "setupOf ld cfg baseDir =
     \<lparr> schemaFiles = SchemaFiles cfg, schemaTexts = Schema cfg,
       readSchemaFile = (\<lambda>path. readFile ld (resolvePath baseDir path)),
       seedFiles = map noSeedFile (SeedFiles cfg) @ SeedConfigs cfg,
       readSeedFile = loadSeedFileConfig ld baseDir,
       seedConfigured = (case Seed cfg of None \<Rightarrow> [] | Some seed \<Rightarrow> seed) \<rparr>"

subsection \<open>Configuration files\<close>

datatype start_error =
    LoadError string
  | FieldRequired string
  | BadConfig config_error
  | BadLogFormat string
  | RuleRejected rule_error

definition validateRequiredConfigFields :: "(string \<rightharpoonup> bool) \<Rightarrow> start_error option" where
  "validateRequiredConfigFields topLevel =
     map_option FieldRequired (find (\<lambda>field. topLevel field \<noteq> Some True) [''version'', ''server'', ''database''])"

text \<open>A configuration with the directory its files are relative to.\<close>

definition LoadConfigFile :: "loaders \<Rightarrow> string \<Rightarrow> start_error + seedBlock Config \<times> string" where
  "LoadConfigFile ld path =
     (case readFile ld path of
        Inl e \<Rightarrow> Inl (LoadError e)
      | Inr text \<Rightarrow> (case yamlFields ld text of
          Inl e \<Rightarrow> Inl (LoadError e)
        | Inr topLevel \<Rightarrow> (case validateRequiredConfigFields topLevel of
            Some e \<Rightarrow> Inl e
          | None \<Rightarrow> (case yamlConfig ld (DefaultConfig []) text of
              Inl e \<Rightarrow> Inl (LoadError e)
            | Inr decoded \<Rightarrow>
                let cfg = applyDefaults [] decoded in
                (case Validate (compilePattern ld) cfg of
                   Some e \<Rightarrow> Inl (BadConfig e)
                 | None \<Rightarrow> Inr (cfg, Dir path))))))"

subsection \<open>New\<close>

record serverOptions =
  optConfigFile :: string
  optConfig :: "(seedBlock Config \<times> string) option"
  optListen :: string
  optLogWriter :: bool
  optLogFormat :: string

definition noOptions :: serverOptions where
  "noOptions = \<lparr> optConfigFile = [], optConfig = None, optListen = [], optLogWriter = False, optLogFormat = [] \<rparr>"

definition ConfigFile :: "string \<Rightarrow> serverOptions \<Rightarrow> serverOptions" where
  "ConfigFile path opts = opts\<lparr> optConfigFile := path \<rparr>"

definition WithConfig :: "seedBlock Config \<times> string \<Rightarrow> serverOptions \<Rightarrow> serverOptions" where
  "WithConfig cfg opts = opts\<lparr> optConfig := Some cfg \<rparr>"

definition ListenOption :: "string \<Rightarrow> serverOptions \<Rightarrow> serverOptions" where
  "ListenOption addr opts = opts\<lparr> optListen := addr \<rparr>"

definition LogWriter :: "bool \<Rightarrow> serverOptions \<Rightarrow> serverOptions" where
  "LogWriter w opts = opts\<lparr> optLogWriter := w \<rparr>"

definition LogFormat :: "string \<Rightarrow> serverOptions \<Rightarrow> serverOptions" where
  "LogFormat format opts = opts\<lparr> optLogFormat := format \<rparr>"

text \<open>\<open>pointer\<close> is the server's address as \<open>%p\<close> prints it.\<close>

definition usesPrivateMemoryDB :: "seedBlock Config \<Rightarrow> bool" where
  "usesPrivateMemoryDB cfg = (dbMode (Backend cfg) = ''memory'' \<and> \<not> Shared (Backend cfg))"

definition sqliteDSN :: "string \<Rightarrow> seedBlock Config \<Rightarrow> string" where
  "sqliteDSN pointer cfg =
     (if dbMode (Backend cfg) = ''file'' then Path (Backend cfg)
      else if usesPrivateMemoryDB cfg then '':memory:''
      else ''file:mysqlmock_'' @ pointer @ ''?mode=memory&cache=shared'')"

definition informationSchemaDSN :: "string \<Rightarrow> string" where
  "informationSchemaDSN pointer = ''file:mysqlmock_information_schema_'' @ pointer @ ''?mode=memory&cache=shared''"

text \<open>The DSN clients use.\<close>

definition DSN :: "string \<Rightarrow> string" where
  "DSN addr = ''user:password@tcp('' @ addr @ '')/mysqlmock?interpolateParams=true&charset=utf8mb4&parseTime=true''"

record 'd configured =
  configuration :: "seedBlock Config"
  configuredServer :: "'d server"
  configuredSetup :: backendSetup
  logEnabled :: bool
  logFormat :: string
  serverPointer :: string

text \<open>The server with what it takes from the configuration; \<open>engine\<close> holds SQLite and the libraries.\<close>

definition serverOf :: "'d server \<Rightarrow> string \<Rightarrow> seedBlock Config \<Rightarrow> preparedRule list \<Rightarrow> 'd server" where
  "serverOf srv pointer cfg rules =
     srv\<lparr> engine := (engine srv)\<lparr> compat := Compat cfg, infoDSN := informationSchemaDSN pointer \<rparr>,
          mysqlVersion := MySQLVersion (Server cfg), configuredRules := rules, unsupportedConfig := Unsupported (Fallback cfg) \<rparr>"

text \<open>The configuration of the options: a value, a file or the default.\<close>

definition configOf :: "loaders \<Rightarrow> serverOptions \<Rightarrow> start_error + seedBlock Config \<times> string" where
  "configOf ld opts =
     (case optConfig opts of
        Some (cfg0, baseDir) \<Rightarrow>
          let cfg = applyDefaults [] cfg0 in
          (case Validate (compilePattern ld) cfg of Some e \<Rightarrow> Inl (BadConfig e) | None \<Rightarrow> Inr (cfg, baseDir))
      | None \<Rightarrow>
          if optConfigFile opts \<noteq> [] then LoadConfigFile ld (optConfigFile opts) else Inr (DefaultConfig [], []))"

text \<open>The options in the configuration: another address; connection ids start at 1, as they do after the defaults.\<close>

definition withOptions :: "serverOptions \<Rightarrow> seedBlock Config \<Rightarrow> seedBlock Config" where
  "withOptions opts cfg =
     cfg\<lparr> Server := (Server cfg)\<lparr> Listen := (if optListen opts \<noteq> [] then optListen opts else Listen (Server cfg)),
        ConnectionIDStart := (if ConnectionIDStart (Server cfg) = 0 then 1 else ConnectionIDStart (Server cfg)) \<rparr> \<rparr>"

definition New :: "loaders \<Rightarrow> 'd server \<Rightarrow> string \<Rightarrow> (serverOptions \<Rightarrow> serverOptions) list \<Rightarrow> start_error + 'd configured" where
  "New ld srv pointer options =
     (let opts = fold (\<lambda>opt. opt) options noOptions in
      case configOf ld opts of
        Inl e \<Rightarrow> Inl e
      | Inr (cfg0, baseDir) \<Rightarrow>
          let cfg = withOptions opts cfg0; format = orDefault (optLogFormat opts) ''text'' in
          if format \<noteq> ''text'' \<and> format \<noteq> ''json'' then Inl (BadLogFormat format)
          else (case prepareRules (compilePattern ld) (cfgRules cfg) of
              Inl e \<Rightarrow> Inl (RuleRejected e)
            | Inr rules \<Rightarrow>
                Inr \<lparr> configuration = cfg, configuredServer = serverOf srv pointer cfg rules, configuredSetup = setupOf ld cfg baseDir,
                   logEnabled = optLogWriter opts, logFormat = format, serverPointer = pointer \<rparr>))"

subsection \<open>A server that was made\<close>

lemma Validate_options: "Validate compile (withOptions opts cfg) = Validate compile cfg"
  by (simp add: Validate_def withOptions_def cong: option.case_cong)

lemma default_valid: "Validate compile (DefaultConfig noSeed) = None"
proof -
  have "lookupCompatProfile ''default'' \<noteq> None" "lookupWriteValidationMode ''strict'' \<noteq> None" "fixedSQLState ''HY000'' = ''HY000''"
    by code_simp+
  then show ?thesis by (simp add: Validate_def DefaultConfig_def orDefault_def)
qed

lemma configOf_valid: "configOf ld opts = Inr (cfg, baseDir) \<Longrightarrow> Validate (compilePattern ld) cfg = None"
  by (auto simp: configOf_def LoadConfigFile_def Let_def default_valid split: option.splits if_splits sum.splits)

text \<open>
  what \<open>New\<close> makes is in order. However a server is configured (by a value, a file or not at all, and whatever the options are), if \<open>New\<close>
  succeeds then the configuration in effect passes validation, the server answers by exactly its rules and states its version,
  connection ids do not start at 0, the last address option wins over the configuration, and the log format is one of the two.
\<close>

theorem new_server_valid:
  assumes "New ld srv pointer options = Inr c"
  shows "Validate (compilePattern ld) (configuration c) = None \<and>
    prepareRules (compilePattern ld) (cfgRules (configuration c)) = Inr (configuredRules (configuredServer c)) \<and>
    mysqlVersion (configuredServer c) = MySQLVersion (Server (configuration c)) \<and>
    ConnectionIDStart (Server (configuration c)) \<noteq> 0 \<and> logFormat c \<in> {''text'', ''json''} \<and>
    (let listen = optListen (fold (\<lambda>opt. opt) options noOptions) in listen = [] \<or> Listen (Server (configuration c)) = listen)"
proof -
  obtain cfg baseDir where cfg: "configOf ld (fold (\<lambda>opt. opt) options noOptions) = Inr (cfg, baseDir)"
    using assms by (auto simp: New_def Let_def split: sum.splits)
  let ?cfg = "withOptions (fold (\<lambda>opt. opt) options noOptions) cfg"
  obtain rules where rules: "prepareRules (compilePattern ld) (cfgRules ?cfg) = Inr rules"
    using assms cfg by (auto simp: New_def Let_def split: sum.splits if_splits)
  have c: "configuration c = ?cfg" "configuredServer c = serverOf srv pointer ?cfg rules" "logFormat c \<in> {''text'', ''json''}"
    using assms cfg rules by (auto simp: New_def Let_def split: if_splits)
  have "Validate (compilePattern ld) ?cfg = None" using configOf_valid [OF cfg] by (simp add: Validate_options)
  then show ?thesis
    using rules c by (auto simp: serverOf_def withOptions_def Let_def)
qed

definition exampleLoaders :: loaders where
  "exampleLoaders = \<lparr> readFile = (\<lambda>_. Inl ''no such file''), yamlFields = (\<lambda>_. Inr Map.empty), yamlConfig = (\<lambda>cfg _. Inr cfg),
     yamlWrapped = (\<lambda>_. Inr None), yamlSeed = (\<lambda>_. Inr None), jsonWrapped = (\<lambda>_. Inr None), jsonSeed = (\<lambda>_. Inr None),
     csvRecords = (\<lambda>_. []), csvErrorText = (\<lambda>_. []), loaderStd = exampleStd, compilePattern = (\<lambda>_. None) \<rparr>"

theorem new_server_valid_witness:
  "case New exampleLoaders srv [] [ListenOption ''127.0.0.1:3306'', LogFormat ''json''] of
     Inr c \<Rightarrow> Listen (Server (configuration c)) = ''127.0.0.1:3306'' \<and> logFormat c \<in> {''text'', ''json''} | Inl _ \<Rightarrow> False"
proof -
  let ?options = "[ListenOption ''127.0.0.1:3306'', LogFormat ''json'']"
  have o: "fold (\<lambda>opt. opt) ?options noOptions = noOptions\<lparr> optListen := ''127.0.0.1:3306'', optLogFormat := ''json'' \<rparr>"
    by (simp add: ListenOption_def LogFormat_def)
  obtain c where c: "New exampleLoaders srv [] ?options = Inr c"
    unfolding New_def Let_def o
    by (simp add: configOf_def noOptions_def orDefault_def withOptions_def DefaultConfig_def prepareRules_def)
  then show ?thesis using new_server_valid [OF c] unfolding o by (simp add: Let_def)
qed

end
