(* ===== verification/Lifecycle.thy ===== *)
theory Lifecycle
  imports Startup Snapshot_Json
begin

text \<open>
  The life of a server (\<open>Start\<close>, \<open>Close\<close>, \<open>openBackend\<close>, \<open>closeBackend\<close>, \<open>acceptLoop\<close>, \<open>handleNetConn\<close>, \<open>Reset\<close> and the log of
  \<open>pkg/mysqlmock/server.go\<close>): which of them may follow which, and what the server holds open. Opening and closing databases,
  connections to them and listeners are the fields of \<open>platform\<close>, on the same outside state that the engine works on;
  \<open>connectionEnv\<close> is the engine as the connection with a number sees it. The commands of a client's connection are
  carried out when the connection ends; the steps of different connections and of the other operations interleave.
\<close>

record 'd platform =
  openDatabase :: "string \<Rightarrow> 'd \<Rightarrow> (string + unit) \<times> 'd"
  openConnection :: "'d \<Rightarrow> (string + unit) \<times> 'd"
  netListen :: "string \<Rightarrow> 'd \<Rightarrow> (string + string) \<times> 'd"
  closeListener :: "'d \<Rightarrow> (string + unit) \<times> 'd"
  closeConnection :: "'d \<Rightarrow> (string + unit) \<times> 'd"
  closeDatabase :: "'d \<Rightarrow> (string + unit) \<times> 'd"
  connectionEnv :: "nat \<Rightarrow> 'd env \<Rightarrow> 'd env"

text \<open>The text of \<open>net.ErrClosed\<close>.\<close>

definition netErrClosed :: string where
  "netErrClosed = ''use of closed network connection''"

datatype resource = Database nat | Connection nat | Listener nat

text \<open>\<open>closeOnce\<close>: \<open>Close\<close> has not been called, is waiting for the connections to end (with the listener's error), or is over.\<close>

datatype closeState = NotClosed | Closing "connError + unit" | Closed

text \<open>
  The fields of the server and, in \<open>resources\<close>, what the process holds open; things opened are numbered. A connection is
  running with its number and its connection id.
\<close>

record 'd running =
  backend :: "'d world"
  resources :: "resource list"
  opened :: nat
  keptDatabase :: "nat option"
  keptConnection :: "nat option"
  keptListener :: "nat option"
  listenAddr :: string
  closeOnce :: closeState
  connections :: "(nat \<times> 32 word) list"
  nextConnectionID :: "32 word"
  baseSchemaVersion :: "64 word"
  logged :: "string list"

text \<open>A server that \<open>New\<close> has made, in an outside world where nothing of it is open.\<close>

definition newRunning :: "'d configured \<Rightarrow> 'd world \<Rightarrow> 'd running" where
  "newRunning c w =
     \<lparr> backend = w, resources = [], opened = 0, keptDatabase = None, keptConnection = None, keptListener = None, listenAddr = [],
       closeOnce = NotClosed, connections = [], nextConnectionID = ConnectionIDStart (Server (configuration c)),
       baseSchemaVersion = 0, logged = [] \<rparr>"

subsection \<open>Opening and closing\<close>

definition onBackend :: "('d world, 'a) io \<Rightarrow> ('d running, 'a) io" where
  "onBackend m s = (case m (backend s) of (r, w) \<Rightarrow> (r, s\<lparr> backend := w \<rparr>))"

definition outside :: "('d \<Rightarrow> (string + 'a) \<times> 'd) \<Rightarrow> ('d running, 'a) io" where
  "outside f = onBackend (\<lambda>w. case f (db w) of (r, d) \<Rightarrow> (map_sum Driver id r, w\<lparr> db := d \<rparr>))"

text \<open>Something that was opened gets the next number.\<close>

definition acquire :: "(nat \<Rightarrow> resource) \<Rightarrow> ('d \<Rightarrow> (string + 'a) \<times> 'd) \<Rightarrow> ('d running, nat \<times> 'a) io" where
  "acquire kind f =
     andThen (outside f) (\<lambda>x. andThen (getState opened) (\<lambda>n.
     andThen (putState (\<lambda>s. s\<lparr> resources := kind n # resources s, opened := n + 1 \<rparr>)) (\<lambda>_. ret (n, x))))"

text \<open>What is closed is no longer held, also when closing it reports an error.\<close>

definition release :: "resource \<Rightarrow> ('d \<Rightarrow> (string + unit) \<times> 'd) \<Rightarrow> ('d running, unit) io" where
  "release r f = andThen (putState (\<lambda>s. s\<lparr> resources := removeAll r (resources s) \<rparr>)) (\<lambda>_. outside f)"

text \<open>Work for the case that \<open>m\<close> fails; a panic ends the process instead.\<close>

definition onFailure :: "('s, 'a) io \<Rightarrow> ('s \<Rightarrow> 's) \<Rightarrow> ('s, 'a) io" where
  "onFailure m cleanup s =
     (case m s of (Inl Panicked, s') \<Rightarrow> (Inl Panicked, s') | (Inl e, s') \<Rightarrow> (Inl e, cleanup s') | (Inr x, s') \<Rightarrow> (Inr x, s'))"

definition dropConnection :: "'d platform \<Rightarrow> ('d running, unit) io" where
  "dropConnection plat s =
     (case keptConnection s of
        None \<Rightarrow> (Inr (), s)
      | Some k \<Rightarrow> release (Connection k) (closeConnection plat) (s\<lparr> keptConnection := None \<rparr>))"

definition dropDatabase :: "'d platform \<Rightarrow> ('d running, unit) io" where
  "dropDatabase plat s =
     (case keptDatabase s of
        None \<Rightarrow> (Inr (), s)
      | Some h \<Rightarrow> release (Database h) (closeDatabase plat) (s\<lparr> keptDatabase := None \<rparr>))"

text \<open>Both are closed; the first error is the result.\<close>

definition closeBackend :: "'d platform \<Rightarrow> ('d running, unit) io" where
  "closeBackend plat =
     andThen (attempt (dropConnection plat)) (\<lambda>r1. andThen (attempt (dropDatabase plat)) (\<lambda>r2.
       case r1 of Inl e \<Rightarrow> fail e | Inr _ \<Rightarrow> (case r2 of Inl e \<Rightarrow> fail e | Inr _ \<Rightarrow> ret ())))"

text \<open>
  \<open>openBackend\<close>: until the server keeps the database and its connection, a failure closes them, later it is \<open>closeBackend\<close>
  that does. The configured statements and seed data are read before the transaction that applies them.
\<close>

definition discard :: "'d platform \<Rightarrow> nat \<Rightarrow> 'd running \<Rightarrow> 'd running" where
  "discard plat h s = snd (release (Database h) (closeDatabase plat) s)"

definition discardBoth :: "'d platform \<Rightarrow> nat \<Rightarrow> nat \<Rightarrow> 'd running \<Rightarrow> 'd running" where
  "discardBoth plat h k s = discard plat h (snd (release (Connection k) (closeConnection plat) s))"

definition initialSetup :: "'d env \<Rightarrow> backendSetup \<Rightarrow> ('d world, unit) io" where
  "initialSetup env cfg =
     andThen (preparedSchemaStatements cfg) (\<lambda>_.
     andThen (preparedSeedBlocks cfg) (\<lambda>_.
       withSQLiteTransaction env ''initial setup'' (setUp env cfg)))"

definition openBackend :: "'d platform \<Rightarrow> 'd configured \<Rightarrow> ('d running, unit) io" where
  "openBackend plat c =
     andThen (acquire Database (openDatabase plat (sqliteDSN (serverPointer c) (configuration c)))) (\<lambda>(h, _).
     andThen (onFailure (acquire Connection (openConnection plat)) (discard plat h)) (\<lambda>(k, _).
     let env = connectionEnv plat k (engine (configuredServer c)) in
     andThen (onFailure (onBackend (andThen (execContext env ''PRAGMA foreign_keys = ON'' []) (\<lambda>_. prepareInformationSchema env)))
         (discardBoth plat h k)) (\<lambda>_.
     andThen (putState (\<lambda>s. s\<lparr> keptDatabase := Some h, keptConnection := Some k \<rparr>)) (\<lambda>_.
     andThen (onFailure (onBackend (initialSetup env (configuredSetup c))) (snd \<circ> closeBackend plat)) (\<lambda>_.
       putState (\<lambda>s. s\<lparr> baseSchemaVersion := schemaVersion (backend s) \<rparr>))))))"

subsection \<open>Start, Close and Reset\<close>

definition startServer :: "'d platform \<Rightarrow> 'd configured \<Rightarrow> ('d running, unit) io" where
  "startServer plat c s =
     (if keptListener s \<noteq> None then fail (Driver ''mysqlmock server already started'') s
      else andThen (openBackend plat c) (\<lambda>_.
        andThen (onFailure (acquire Listener (netListen plat (Listen (Server (configuration c))))) (snd \<circ> closeBackend plat)) (\<lambda>(l, addr).
          putState (\<lambda>s. s\<lparr> keptListener := Some l, listenAddr := addr \<rparr>))) s)"

text \<open>\<open>Close\<close> up to \<open>s.wg.Wait()\<close>, when it is called for the first time.\<close>

definition beginClose :: "'d platform \<Rightarrow> 'd running \<Rightarrow> 'd running" where
  "beginClose plat s =
     (case (case keptListener s of None \<Rightarrow> (Inr (), s) | Some l \<Rightarrow> release (Listener l) (closeListener plat) s) of
        (r, s') \<Rightarrow> s'\<lparr> closeOnce := Closing r \<rparr>)"

text \<open>The rest, which begins when no connection is running any more.\<close>

definition endClose :: "'d platform \<Rightarrow> connError + unit \<Rightarrow> ('d running, unit) io" where
  "endClose plat listenerResult =
     andThen (attempt (closeBackend plat)) (\<lambda>r.
     andThen (putState (\<lambda>s. s\<lparr> closeOnce := Closed \<rparr>)) (\<lambda>_.
       case (case listenerResult of Inl e \<Rightarrow> Inl e | Inr _ \<Rightarrow> r) of
         Inl e \<Rightarrow> if errorText e = netErrClosed then ret () else fail e
       | Inr _ \<Rightarrow> ret ()))"

definition resetRunning :: "'d platform \<Rightarrow> 'd configured \<Rightarrow> ('d running, unit) io" where
  "resetRunning plat c s =
     (case keptConnection s of
        None \<Rightarrow> fail (Driver ''mysqlmock server not started'') s
      | Some k \<Rightarrow>
          andThen (onBackend (resetServer (connectionEnv plat k (engine (configuredServer c))) (configuredSetup c) (baseSchemaVersion s)))
            (\<lambda>base. putState (\<lambda>s. s\<lparr> baseSchemaVersion := base \<rparr>)) s)"

text \<open>
  \<open>CheckConfigFile\<close> sets the database up and closes it again, for a server without rules that is never started. In file mode
  the database it sets up is the configured file.
\<close>

definition CheckConfigFile :: "'d platform \<Rightarrow> loaders \<Rightarrow> 'd server \<Rightarrow> string \<Rightarrow> string \<Rightarrow> 'd world \<Rightarrow> start_error + connError + unit" where
  "CheckConfigFile plat ld srv pointer path w =
     (case LoadConfigFile ld path of
        Inl e \<Rightarrow> Inl e
      | Inr (cfg, baseDir) \<Rightarrow>
          let c = \<lparr> configuration = cfg, configuredServer = serverOf srv pointer cfg [], configuredSetup = setupOf ld cfg baseDir,
                    logEnabled = False, logFormat = [], serverPointer = pointer \<rparr>
          in Inr (fst (andThen (openBackend plat c) (\<lambda>_. closeBackend plat) (newRunning c w))))"

subsection \<open>The log\<close>

text \<open>
  \<open>json.NewEncoder(w).Encode\<close> of the fields with their names, and the line end it writes; its strings are those of
  \<open>Snapshot_Json\<close>.
\<close>

definition jsonText :: "string \<Rightarrow> string" where
  "jsonText v = appendSnapshotJSONString [] v"

definition jsonLine :: "(string \<times> string) list \<Rightarrow> string" where
  "jsonLine members = CHR ''{'' # Join (map (\<lambda>(name, v). dq # name @ dq # '':'' @ v) members) '','' @ ''}'' @ [nl]"

definition logf :: "'d configured \<Rightarrow> string \<Rightarrow> 'd running \<Rightarrow> 'd running" where
  "logf c message s =
     (if \<not> logEnabled c then s
      else s\<lparr> logged := logged s @
        [if logFormat c = ''json'' then jsonLine [(''event'', jsonText ''log''), (''message'', jsonText message)] else message @ [nl]] \<rparr>)"

text \<open>What \<open>logQuery\<close> writes of an event; \<open>goQuote\<close> is the verb \<open>%q\<close>.\<close>

definition queryLine :: "'d configured \<Rightarrow> QueryEvent \<Rightarrow> string" where
  "queryLine c ev =
     (let quote = goQuote (configuredServer c);
          optional = (\<lambda>name v. if v = [] then [] else [(name, jsonText v)]) in
      if logFormat c = ''json'' then
        jsonLine ([(''event'', jsonText (evEvent ev)), (''connection_id'', itoa (unat (evConnectionID ev))),
            (''command'', jsonText (evCommand ev)), (''route'', jsonText (evRoute ev))] @ optional ''database'' (evDatabase ev) @
          [(''sql'', jsonText (evSQL ev))] @ optional ''normalized_sql'' (evNormalizedSQL ev) @ optional ''suggestion'' (evSuggestion ev))
      else
        ''connection='' @ itoa (unat (evConnectionID ev)) @ '' command='' @ evCommand ev @ '' route='' @ evRoute ev @
        '' database='' @ quote (evDatabase ev) @ '' sql='' @ quote (evSQL ev) @
        (if evNormalizedSQL ev \<noteq> [] \<and> evNormalizedSQL ev \<noteq> evSQL ev then '' normalized='' @ quote (evNormalizedSQL ev) else []) @
        (if evSuggestion ev \<noteq> [] then nl # evSuggestion ev else []) @ [nl])"

text \<open>The lines for the events that were recorded between two states.\<close>

definition logQueries :: "'d configured \<Rightarrow> 'd running \<Rightarrow> 'd running \<Rightarrow> 'd running" where
  "logQueries c s s' =
     (if \<not> logEnabled c then s'
      else s'\<lparr> logged := logged s' @
        map (queryLine c) (drop (length (queryLog (diagnostics (backend s)))) (queryLog (diagnostics (backend s')))) \<rparr>)"

subsection \<open>Connections\<close>

text \<open>
  The first part of \<open>handleNetConn\<close>: a connection of its own to the database, foreign keys, the set-up of a private database; then
  the connection gets its id. A failure is logged and ends it.
\<close>

definition acceptConnection :: "'d platform \<Rightarrow> 'd configured \<Rightarrow> 'd running \<Rightarrow> (connError + unit) \<times> 'd running" where
  "acceptConnection plat c s =
     (case acquire Connection (openConnection plat) s of
        (Inl Panicked, s1) \<Rightarrow> (Inl Panicked, s1)
      | (Inl e, s1) \<Rightarrow> (Inr (), logf c (''sqlite connection error: '' @ errorText e) s1)
      | (Inr (k, _), s1) \<Rightarrow>
          let env = connectionEnv plat k (engine (configuredServer c)) in
          (case onBackend (andThen (execContext env ''PRAGMA foreign_keys = ON'' []) (\<lambda>_.
                if usesPrivateMemoryDB (configuration c) then resetBackendFull env (configuredSetup c) else ret ())) s1 of
             (Inl Panicked, s2) \<Rightarrow> (Inl Panicked, s2)
           | (Inl e, s2) \<Rightarrow>
               (Inr (), snd (release (Connection k) (closeConnection plat)
                  (logf c (''sqlite connection initialization error: '' @ errorText e) s2)))
           | (Inr _, s2) \<Rightarrow>
               (Inr (), s2\<lparr> connections := connections s2 @ [(k, nextConnectionID s2)], nextConnectionID := nextConnectionID s2 + 1 \<rparr>)))"

text \<open>What is logged of the end of a connection: not that the client is gone, nor that a rule has ended it.\<close>

definition endMessage :: "32 word \<Rightarrow> commandEnd \<Rightarrow> string option" where
  "endMessage cid how =
     (case how of
        Breaks e \<Rightarrow> if e \<in> {''EOF'', ''rule disconnect''} then None
          else Some (''connection='' @ itoa (unat cid) @ '' error='' @ e)
      | _ \<Rightarrow> None)"

text \<open>The rest, with all that the client sends; the replies are the result.\<close>

definition serveConnection ::
    "'d platform \<Rightarrow> 'd configured \<Rightarrow> nat \<times> 32 word \<Rightarrow> bytes list \<Rightarrow> ('d running, packet list list) io" where
  "serveConnection plat c conn payloads s =
     (let (k, cid) = conn; srv = configuredServer c in
      case onBackend (runConnection (srv\<lparr> engine := connectionEnv plat k (engine srv) \<rparr>) cid payloads) s of
        (Inl e, s1) \<Rightarrow> (Inl e, s1)
      | (Inr (replies, how), s1) \<Rightarrow>
          let s2 = logQueries c s s1;
              s3 = (case endMessage cid how of None \<Rightarrow> s2 | Some message \<Rightarrow> logf c message s2);
              s4 = snd (release (Connection k) (closeConnection plat) s3)
          in (Inr replies, s4\<lparr> connections := remove1 conn (connections s4) \<rparr>))"

subsection \<open>Runs\<close>

datatype event =
    Started "connError + unit"
  | Accepted
  | Served "32 word" "packet list list"
  | WasReset "connError + unit"
  | CloseCalled
  | CloseReturned "connError + unit"

text \<open>
  What can happen next. Clients are accepted while the listener is open. The first \<open>Close\<close> closes the listener and waits until
  no connection is running; later calls return when it is over.
\<close>

inductive life_step :: "'d platform \<Rightarrow> 'd configured \<Rightarrow> 'd running \<Rightarrow> event \<Rightarrow> 'd running \<Rightarrow> bool"
  for plat c where
  starting: "startServer plat c s = (r, s') \<Longrightarrow> r \<noteq> Inl Panicked \<Longrightarrow> life_step plat c s (Started r) s'"
| accepting: "keptListener s = Some l \<Longrightarrow> Listener l \<in> set (resources s) \<Longrightarrow> acceptConnection plat c s = (Inr (), s') \<Longrightarrow>
    life_step plat c s Accepted s'"
| serving: "conn \<in> set (connections s) \<Longrightarrow> serveConnection plat c conn payloads s = (Inr replies, s') \<Longrightarrow>
    life_step plat c s (Served (snd conn) replies) s'"
| resetting: "resetRunning plat c s = (r, s') \<Longrightarrow> r \<noteq> Inl Panicked \<Longrightarrow> life_step plat c s (WasReset r) s'"
| closing: "closeOnce s = NotClosed \<Longrightarrow> life_step plat c s CloseCalled (beginClose plat s)"
| closed: "closeOnce s = Closing l \<Longrightarrow> connections s = [] \<Longrightarrow> endClose plat l s = (r, s') \<Longrightarrow>
    life_step plat c s (CloseReturned r) s'"
| closed_before: "closeOnce s = Closed \<Longrightarrow> life_step plat c s (CloseReturned (Inr ())) s"

inductive_cases life_stepE: "life_step plat c s ev s'"

inductive life_run :: "'d platform \<Rightarrow> 'd configured \<Rightarrow> 'd running \<Rightarrow> event list \<Rightarrow> 'd running \<Rightarrow> bool"
  for plat c s where
  run_nil: "life_run plat c s [] s"
| run_snoc: "life_run plat c s evs s1 \<Longrightarrow> life_step plat c s1 ev s2 \<Longrightarrow> life_run plat c s (evs @ [ev]) s2"

end
