(* ===== verification/Lifecycle_Properties.thy ===== *)
theory Lifecycle_Properties
  imports Lifecycle Example_Engine
begin

text \<open>
  What a server holds open, whatever happens to it (\<open>pkg/mysqlmock/server.go\<close>): what each operation of \<open>Lifecycle\<close> does to the open
  resources, the invariant of all runs, and its consequences for \<open>Close\<close> and for the ids of connections.
\<close>

subsection \<open>What is held\<close>

fun resourceNumber :: "resource \<Rightarrow> nat" where
  "resourceNumber (Database n) = n"
| "resourceNumber (Connection n) = n"
| "resourceNumber (Listener n) = n"

text \<open>Two states that differ at most in the backend, the log and the counters.\<close>

definition sameHoldings :: "'d running \<Rightarrow> 'd running \<Rightarrow> bool" where
  "sameHoldings s s' = (resources s' = resources s \<and> opened s' = opened s \<and> keptDatabase s' = keptDatabase s \<and>
     keptConnection s' = keptConnection s \<and> keptListener s' = keptListener s \<and> closeOnce s' = closeOnce s \<and>
     connections s' = connections s \<and> nextConnectionID s' = nextConnectionID s)"

lemma sameHoldings_trans: "sameHoldings s t \<Longrightarrow> sameHoldings t u \<Longrightarrow> sameHoldings s u"
  by (simp add: sameHoldings_def)

lemma onBackend_same: "onBackend m s = (r, s') \<Longrightarrow> sameHoldings s s'"
  by (auto simp: onBackend_def sameHoldings_def split: prod.splits)

lemma outside_same: "outside f s = (r, s') \<Longrightarrow> sameHoldings s s'"
  unfolding outside_def by (rule onBackend_same)

lemma logf_same: "sameHoldings s (logf c message s)"
  by (simp add: logf_def sameHoldings_def)

lemma driver_not_panicked [simp]: "map_sum Driver f r \<noteq> Inl Panicked"
  by (cases r) auto

lemma outside_not_panicked: "outside f s = (Inl e, s') \<Longrightarrow> e \<noteq> Panicked"
  by (auto simp: outside_def onBackend_def split: prod.splits sum.splits)

lemma acquired:
  "acquire kind f s = (Inr (n, x), s') \<Longrightarrow>
     n = opened s \<and> sameHoldings (s\<lparr> resources := kind n # resources s, opened := n + 1 \<rparr>) s'"
  by (auto simp: acquire_def andThen_def getState_def putState_def ret_def sameHoldings_def dest!: outside_same split: prod.splits sum.splits)

lemma not_acquired: "acquire kind f s = (Inl e, s') \<Longrightarrow> sameHoldings s s' \<and> e \<noteq> Panicked"
  by (auto simp: acquire_def andThen_def getState_def putState_def ret_def dest: outside_same outside_not_panicked split: prod.splits sum.splits)

lemma released: "release r f s = (x, s') \<Longrightarrow> sameHoldings (s\<lparr> resources := removeAll r (resources s) \<rparr>) s' \<and> x \<noteq> Inl Panicked"
  by (auto simp: release_def andThen_def putState_def dest: outside_same outside_not_panicked)

lemma released_snd: "sameHoldings (s\<lparr> resources := removeAll r (resources s) \<rparr>) (snd (release r f s))"
  using released [of r f s] by (cases "release r f s") auto

definition withoutKept :: "'d running \<Rightarrow> 'd running" where
  "withoutKept s = s\<lparr> keptDatabase := None, keptConnection := None, resources :=
     filter (\<lambda>r. (case r of Database n \<Rightarrow> keptDatabase s \<noteq> Some n | Connection n \<Rightarrow> keptConnection s \<noteq> Some n | Listener _ \<Rightarrow> True)) (resources s) \<rparr>"

lemma dropConnection_drops:
  "dropConnection plat s = (r, s') \<Longrightarrow> r \<noteq> Inl Panicked \<and>
     sameHoldings (s\<lparr> keptConnection := None, resources := filter (\<lambda>x. \<forall>n. x = Connection n \<longrightarrow> keptConnection s \<noteq> Some n) (resources s) \<rparr>) s'"
  by (auto simp: dropConnection_def sameHoldings_def removeAll_filter_not_eq intro!: filter_cong dest!: released split: option.splits)

lemma dropDatabase_drops:
  "dropDatabase plat s = (r, s') \<Longrightarrow> r \<noteq> Inl Panicked \<and>
     sameHoldings (s\<lparr> keptDatabase := None, resources := filter (\<lambda>x. \<forall>n. x = Database n \<longrightarrow> keptDatabase s \<noteq> Some n) (resources s) \<rparr>) s'"
  by (auto simp: dropDatabase_def sameHoldings_def removeAll_filter_not_eq intro!: filter_cong dest!: released split: option.splits)

lemma closeBackend_drops: "closeBackend plat s = (r, s') \<Longrightarrow> r \<noteq> Inl Panicked \<and> sameHoldings (withoutKept s) s'"
proof -
  assume a: "closeBackend plat s = (r, s')"
  obtain r1 s1 where 1: "dropConnection plat s = (r1, s1)" by fastforce
  obtain r2 s2 where 2: "dropDatabase plat s1 = (r2, s2)" by fastforce
  note d = dropConnection_drops [OF 1] dropDatabase_drops [OF 2]
  have e: "r \<noteq> Inl Panicked" "s' = s2"
    using a d by (auto simp: closeBackend_def attempt_def andThen_def 1 2 fail_def ret_def split: sum.splits connError.splits)
  have "sameHoldings (withoutKept s) s2"
    using d by (auto simp: sameHoldings_def withoutKept_def intro!: filter_cong split: resource.splits)
  then show ?thesis using e by simp
qed

lemma onFailure_cases:
  assumes "onFailure m g s = (r, s')"
  obtains (ok) x where "m s = (Inr x, s')" "r = Inr x" | (panicked) "r = Inl Panicked"
    | (failed) e s1 where "m s = (Inl e, s1)" "e \<noteq> Panicked" "r = Inl e" "s' = g s1"
  using assms by (auto simp: onFailure_def split: prod.splits sum.splits connError.splits)

lemma removeAll_new: "\<forall>r \<in> set rs. resourceNumber r < n \<Longrightarrow> resourceNumber x \<ge> n \<Longrightarrow> removeAll x rs = rs"
  by (induction rs) auto

text \<open>The parts of \<open>openBackend\<close>.\<close>

definition openRest :: "'d platform \<Rightarrow> 'd configured \<Rightarrow> nat \<Rightarrow> nat \<Rightarrow> ('d running, unit) io" where
  "openRest plat c h k =
     (let env = connectionEnv plat k (engine (configuredServer c)) in
     andThen (onFailure (onBackend (andThen (execContext env ''PRAGMA foreign_keys = ON'' []) (\<lambda>_. prepareInformationSchema env)))
         (discardBoth plat h k)) (\<lambda>_.
     andThen (putState (\<lambda>s. s\<lparr> keptDatabase := Some h, keptConnection := Some k \<rparr>)) (\<lambda>_.
     andThen (onFailure (onBackend (initialSetup env (configuredSetup c))) (snd \<circ> closeBackend plat)) (\<lambda>_.
       putState (\<lambda>s. s\<lparr> baseSchemaVersion := schemaVersion (backend s) \<rparr>)))))"

lemma openBackend_rest:
  "openBackend plat c =
     andThen (acquire Database (openDatabase plat (sqliteDSN (serverPointer c) (configuration c)))) (\<lambda>(h, _).
     andThen (onFailure (acquire Connection (openConnection plat)) (discard plat h)) (\<lambda>(k, _). openRest plat c h k))"
  unfolding openBackend_def openRest_def ..

definition fresh :: "'d running \<Rightarrow> bool" where
  "fresh s = (\<forall>r \<in> set (resources s). resourceNumber r < opened s)"

text \<open>What remains after a failure: nothing that was not there.\<close>

definition restored :: "'d running \<Rightarrow> 'd running \<Rightarrow> bool" where
  "restored s s' = (\<exists>n \<ge> opened s. sameHoldings (s\<lparr> opened := n \<rparr>) s')"

lemma discard_restores:
  assumes "fresh s" "sameHoldings (s\<lparr> resources := Database h # resources s, opened := n \<rparr>) t" "h = opened s" "n \<ge> opened s"
  shows "restored s (discard plat h t)"
proof -
  have "removeAll (Database h) (resources t) = resources s"
    using assms by (simp add: sameHoldings_def fresh_def removeAll_new [where n = "opened s"])
  then show ?thesis
    using assms(2,4) released_snd [of "Database h" t "closeDatabase plat"]
    unfolding discard_def restored_def sameHoldings_def by auto
qed

lemma discardBoth_restores:
  assumes "fresh s" "sameHoldings (s\<lparr> resources := Connection k # Database h # resources s, opened := n \<rparr>) t"
    and "h = opened s" "k \<ge> opened s" "n \<ge> opened s"
  shows "restored s (discardBoth plat h k t)"
proof -
  have "removeAll (Connection k) (resources t) = Database h # resources s"
    using assms by (simp add: sameHoldings_def fresh_def removeAll_new [where n = "opened s"])
  then have "sameHoldings (s\<lparr> resources := Database h # resources s, opened := n \<rparr>) (snd (release (Connection k) (closeConnection plat) t))"
    using assms(2) released_snd [of "Connection k" t "closeConnection plat"] unfolding sameHoldings_def by simp
  then show ?thesis unfolding discardBoth_def by (rule discard_restores [OF assms(1) _ assms(3,5)])
qed

definition keeping :: "nat \<Rightarrow> nat \<Rightarrow> 'd running \<Rightarrow> 'd running" where
  "keeping h k s = s\<lparr> resources := Connection k # Database h # resources s, opened := k + 1, keptDatabase := Some h, keptConnection := Some k \<rparr>"

definition nothingKept :: "'d running \<Rightarrow> bool" where
  "nothingKept s = (keptDatabase s = None \<and> keptConnection s = None)"

lemma withoutKept_restores:
  assumes "fresh s" "nothingKept s" "h \<ge> opened s" "k \<ge> opened s" "sameHoldings (keeping h k s) t" "sameHoldings (withoutKept t) u"
  shows "restored s u"
proof -
  have "filter (\<lambda>r. case r of Database n \<Rightarrow> h \<noteq> n | Connection n \<Rightarrow> k \<noteq> n | Listener _ \<Rightarrow> True) (resources s) = resources s"
    using assms(1,3,4) by (auto simp: fresh_def intro!: filter_True split: resource.splits)
  then show ?thesis
    using assms by (auto simp: restored_def withoutKept_def keeping_def sameHoldings_def nothingKept_def)
qed

lemma openRest_cases:
  assumes "fresh s" "nothingKept s" "h = opened s" "k \<ge> opened s"
    and t: "sameHoldings (s\<lparr> resources := Connection k # Database h # resources s, opened := k + 1 \<rparr>) t"
    and run: "openRest plat c h k t = (r, s')" "r \<noteq> Inl Panicked"
  shows "if isl r then restored s s' else sameHoldings (keeping h k s) s'"
proof -
  let ?env = "connectionEnv plat k (engine (configuredServer c))"
  obtain r1 s1 where 1: "onFailure (onBackend (andThen (execContext ?env ''PRAGMA foreign_keys = ON'' [])
      (\<lambda>_. prepareInformationSchema ?env))) (discardBoth plat h k) t = (r1, s1)" by fastforce
  define u where "u = s1\<lparr> keptDatabase := Some h, keptConnection := Some k \<rparr>"
  obtain r2 s2 where 2: "onFailure (onBackend (initialSetup ?env (configuredSetup c))) (snd \<circ> closeBackend plat) u = (r2, s2)"
    by fastforce
  from 1 show ?thesis
  proof (cases rule: onFailure_cases)
    case (failed e t1)
    then have "restored s s1"
      using onBackend_same [OF failed(1)] t assms(1,3,4) by (auto intro!: discardBoth_restores dest: sameHoldings_trans)
    then show ?thesis using run failed by (auto simp: openRest_def Let_def andThen_def 1)
  next
    case panicked
    then show ?thesis using run by (auto simp: openRest_def Let_def andThen_def 1)
  next
    case (ok x)
    then have "sameHoldings (keeping h k s) u"
      using onBackend_same [OF ok(1)] t by (simp add: u_def sameHoldings_def keeping_def)
    note kept = this
    have r: "openRest plat c h k t = andThen (\<lambda>_. (r2, s2)) (\<lambda>_. putState (\<lambda>s. s\<lparr> baseSchemaVersion := schemaVersion (backend s) \<rparr>)) u"
      using 2 by (simp add: openRest_def Let_def andThen_def 1 ok putState_def u_def)
    from 2 show ?thesis
    proof (cases rule: onFailure_cases)
      case (failed e u1)
      have "sameHoldings (keeping h k s) u1" using kept onBackend_same [OF failed(1)] by (rule sameHoldings_trans)
      moreover have "sameHoldings (withoutKept u1) s2"
        using closeBackend_drops [of plat u1] failed(4) by (cases "closeBackend plat u1") auto
      ultimately have "restored s s2" using assms(1-4) by (intro withoutKept_restores [of s h k u1]) simp_all
      then show ?thesis using run(1) failed(3) by (auto simp: r andThen_def)
    next
      case panicked
      then show ?thesis using run by (auto simp: r andThen_def)
    next
      case (ok y)
      then show ?thesis
        using run(1) kept onBackend_same [OF ok(1)] by (auto simp: r andThen_def putState_def sameHoldings_def)
    qed
  qed
qed

lemma openBackend_cases:
  assumes "fresh s" "nothingKept s" "openBackend plat c s = (r, s')" "r \<noteq> Inl Panicked"
  shows "if isl r then restored s s' else sameHoldings (keeping (opened s) (opened s + 1) s) s'"
proof -
  obtain r1 s1 where 1: "acquire Database (openDatabase plat (sqliteDSN (serverPointer c) (configuration c))) s = (r1, s1)" by fastforce
  show ?thesis
  proof (cases r1)
    case (Inl e)
    then show ?thesis
      using assms(3) not_acquired [of _ _ s e s1] 1
      by (auto simp: openBackend_rest andThen_def restored_def sameHoldings_def)
  next
    case (Inr x)
    define h where "h = opened s"
    have x: "fst x = h" "sameHoldings (s\<lparr> resources := Database h # resources s, opened := h + 1 \<rparr>) s1"
      using 1 Inr by (cases x; auto simp: h_def dest!: acquired)+
    obtain r2 s2 where 2: "onFailure (acquire Connection (openConnection plat)) (discard plat h) s1 = (r2, s2)" by fastforce
    have r: "openBackend plat c s = andThen (\<lambda>_. (r2, s2)) (\<lambda>(k, _). openRest plat c h k) s1"
      using 2 x(1) by (cases x) (simp add: openBackend_rest andThen_def 1 Inr)
    from 2 show ?thesis
    proof (cases rule: onFailure_cases)
      case (failed e t1)
      have "sameHoldings (s\<lparr> resources := Database h # resources s, opened := h + 1 \<rparr>) t1"
        using x(2) not_acquired [OF failed(1)] by (auto intro: sameHoldings_trans)
      then have "restored s s2" unfolding failed(4) using assms(1) by (intro discard_restores [where n = "h + 1"]) (simp_all add: h_def)
      then show ?thesis using assms(3) failed by (auto simp: r andThen_def)
    next
      case panicked
      then show ?thesis using assms(3,4) by (auto simp: r andThen_def)
    next
      case (ok y)
      have y: "fst y = h + 1" "sameHoldings (s\<lparr> resources := Connection (h + 1) # Database h # resources s, opened := h + 1 + 1 \<rparr>) s2"
        using ok(1) x(2) by (cases y; auto simp: sameHoldings_def dest!: acquired)+
      have "openRest plat c h (h + 1) s2 = (r, s')"
        using assms(3) ok(2) y(1) by (cases y) (simp add: r andThen_def)
      from openRest_cases [OF assms(1,2) h_def _ y(2) this assms(4)] show ?thesis unfolding h_def by simp
    qed
  qed
qed

subsection \<open>The invariant\<close>

text \<open>What is open is what the fields of the server and its connections hold, and without a listener the server holds nothing else.\<close>

definition heldBy :: "'d running \<Rightarrow> resource \<Rightarrow> bool" where
  "heldBy s r = (case r of
     Database n \<Rightarrow> keptDatabase s = Some n
   | Connection n \<Rightarrow> keptConnection s = Some n \<or> n \<in> fst ` set (connections s)
   | Listener n \<Rightarrow> keptListener s = Some n)"

definition wellHeld :: "'d running \<Rightarrow> bool" where
  "wellHeld s = (fresh s \<and> (\<forall>r \<in> set (resources s). heldBy s r) \<and> (keptListener s = None \<longrightarrow> nothingKept s))"

lemma wellHeld_same: "wellHeld s \<Longrightarrow> sameHoldings s s' \<Longrightarrow> wellHeld s'"
  by (simp add: wellHeld_def sameHoldings_def fresh_def heldBy_def nothingKept_def cong: resource.case_cong)

lemma wellHeld_restored:
  assumes "wellHeld s" "restored s s'"
  shows "wellHeld s'"
proof -
  obtain n where n: "n \<ge> opened s" "sameHoldings (s\<lparr> opened := n \<rparr>) s'" using assms(2) by (auto simp: restored_def)
  have "wellHeld (s\<lparr> opened := n \<rparr>)"
    using assms(1) n(1) by (auto simp: wellHeld_def fresh_def heldBy_def nothingKept_def cong: resource.case_cong)
  then show ?thesis using n(2) by (rule wellHeld_same)
qed

text \<open>A started server.\<close>

definition listening :: "'d running \<Rightarrow> 'd running" where
  "listening s = (let n = opened s in (keeping n (n + 1) s)\<lparr> resources := Listener (n + 2) # Connection (n + 1) # Database n # resources s,
     opened := n + 3, keptListener := Some (n + 2) \<rparr>)"

lemma startServer_cases:
  assumes "wellHeld s" "startServer plat c s = (r, s')" "r \<noteq> Inl Panicked"
  shows "if isl r then restored s s' else keptListener s = None \<and> sameHoldings (listening s) s'"
proof (cases "keptListener s")
  case (Some l)
  then show ?thesis using assms(2) by (auto simp: startServer_def fail_def restored_def sameHoldings_def)
next
  case None
  then have w: "fresh s" "nothingKept s" using assms(1) by (simp_all add: wellHeld_def)
  obtain r1 s1 where 1: "openBackend plat c s = (r1, s1)" by fastforce
  show ?thesis
  proof (cases r1)
    case (Inl e)
    then show ?thesis
      using openBackend_cases [OF w 1] assms(2,3) None by (auto simp: startServer_def andThen_def 1)
  next
    case (Inr x)
    then have k: "sameHoldings (keeping (opened s) (opened s + 1) s) s1" using openBackend_cases [OF w 1] by simp
    obtain r2 s2 where 2: "onFailure (acquire Listener (netListen plat (Listen (Server (configuration c))))) (snd \<circ> closeBackend plat) s1 = (r2, s2)"
      by fastforce
    have r: "startServer plat c s = andThen (\<lambda>_. (r2, s2)) (\<lambda>(l, addr). putState (\<lambda>s. s\<lparr> keptListener := Some l, listenAddr := addr \<rparr>)) s1"
      using None 2 by (simp add: startServer_def andThen_def 1 Inr)
    from 2 show ?thesis
    proof (cases rule: onFailure_cases)
      case (failed e t)
      have "sameHoldings (withoutKept t) s2"
        using closeBackend_drops [of plat t] failed(4) by (cases "closeBackend plat t") auto
      then have "restored s s2"
        using k not_acquired [OF failed(1)] w
        by (intro withoutKept_restores [of s "opened s" "opened s + 1" t]) (auto intro: sameHoldings_trans)
      then show ?thesis using assms(2) failed(3) by (auto simp: r andThen_def)
    next
      case panicked
      then show ?thesis using assms(2,3) by (auto simp: r andThen_def)
    next
      case (ok y)
      obtain l addr where y: "y = (l, addr)" by fastforce
      have "l = opened s1" "sameHoldings (s1\<lparr> resources := Listener l # resources s1, opened := l + 1 \<rparr>) s2"
        by (rule conjunct1 [OF acquired [OF ok(1) [unfolded y]]], rule conjunct2 [OF acquired [OF ok(1) [unfolded y]]])
      then show ?thesis
        using assms(2) ok(2) k None y
        by (auto simp: r andThen_def putState_def sameHoldings_def listening_def keeping_def Let_def)
    qed
  qed
qed

lemma wellHeld_listening: "wellHeld s \<Longrightarrow> keptListener s = None \<Longrightarrow> wellHeld (listening s)"
  by (auto simp: wellHeld_def listening_def keeping_def fresh_def heldBy_def nothingKept_def Let_def split: resource.splits)

lemma wellHeld_withoutKept: "wellHeld s \<Longrightarrow> wellHeld (withoutKept s)"
  by (auto simp: wellHeld_def withoutKept_def fresh_def heldBy_def nothingKept_def split: resource.splits)

lemma beginClose_holds: "sameHoldings (s\<lparr> closeOnce := closeOnce (beginClose plat s),
    resources := filter (\<lambda>x. \<forall>n. x = Listener n \<longrightarrow> keptListener s \<noteq> Some n) (resources s) \<rparr>) (beginClose plat s) \<and>
    (\<exists>r. closeOnce (beginClose plat s) = Closing r)"
  by (auto simp: beginClose_def sameHoldings_def removeAll_filter_not_eq intro!: filter_cong dest!: released split: option.splits prod.splits)

lemma endClose_holds: "endClose plat l s = (r, s') \<Longrightarrow> sameHoldings ((withoutKept s)\<lparr> closeOnce := Closed \<rparr>) s'"
proof -
  assume a: "endClose plat l s = (r, s')"
  obtain r1 s1 where 1: "closeBackend plat s = (r1, s1)" by fastforce
  have "s' = s1\<lparr> closeOnce := Closed \<rparr>"
    using a closeBackend_drops [OF 1]
    by (auto simp: endClose_def attempt_def andThen_def putState_def ret_def fail_def 1 split: sum.splits connError.splits if_splits)
  then show ?thesis using closeBackend_drops [OF 1] by (simp add: sameHoldings_def)
qed

lemma resetRunning_same: "resetRunning plat c s = (r, s') \<Longrightarrow> sameHoldings s s'"
  by (auto simp: resetRunning_def andThen_def putState_def fail_def sameHoldings_def dest!: onBackend_same split: option.splits sum.splits prod.splits)

text \<open>A connection that begins is added to the running ones, or leaves nothing behind.\<close>

lemma acceptConnection_cases:
  assumes "fresh s" "acceptConnection plat c s = (Inr (), s')"
  shows "restored s s' \<or> sameHoldings (s\<lparr> resources := Connection (opened s) # resources s, opened := opened s + 1,
     connections := connections s @ [(opened s, nextConnectionID s)], nextConnectionID := nextConnectionID s + 1 \<rparr>) s'"
proof -
  obtain r1 s1 where 1: "acquire Connection (openConnection plat) s = (r1, s1)" by fastforce
  show ?thesis
  proof (cases r1)
    case (Inl e)
    then have "s' = logf c (''sqlite connection error: '' @ errorText e) s1" "sameHoldings s s1"
      using assms(2) not_acquired [of Connection "openConnection plat" s e s1] 1
      by (auto simp: acceptConnection_def split: connError.splits)
    then have "sameHoldings s s'" using logf_same sameHoldings_trans by blast
    then show ?thesis by (auto simp: restored_def sameHoldings_def)
  next
    case (Inr x)
    obtain k where k: "r1 = Inr (k, ())" using Inr by (cases x) auto
    have h: "k = opened s" "sameHoldings (s\<lparr> resources := Connection k # resources s, opened := k + 1 \<rparr>) s1"
      by (rule conjunct1 [OF acquired [OF 1 [unfolded k]]], rule conjunct2 [OF acquired [OF 1 [unfolded k]]])
    define init where "init = andThen (execContext (connectionEnv plat k (engine (configuredServer c))) ''PRAGMA foreign_keys = ON'' []) (\<lambda>_.
        if usesPrivateMemoryDB (configuration c)
        then resetBackendFull (connectionEnv plat k (engine (configuredServer c))) (configuredSetup c) else ret ())"
    obtain r2 s2 where 2: "onBackend init s1 = (r2, s2)" by fastforce
    have h2: "sameHoldings (s\<lparr> resources := Connection k # resources s, opened := k + 1 \<rparr>) s2"
      using h(2) onBackend_same [OF 2] by (rule sameHoldings_trans)
    have r: "acceptConnection plat c s = (case (r2, s2) of
          (Inl Panicked, s2) \<Rightarrow> (Inl Panicked, s2)
        | (Inl e, s2) \<Rightarrow> (Inr (), snd (release (Connection k) (closeConnection plat)
            (logf c (''sqlite connection initialization error: '' @ errorText e) s2)))
        | (Inr _, s2) \<Rightarrow> (Inr (), s2\<lparr> connections := connections s2 @ [(k, nextConnectionID s2)],
            nextConnectionID := nextConnectionID s2 + 1 \<rparr>))"
      unfolding 2 [symmetric] init_def by (simp add: acceptConnection_def 1 k Let_def)
    show ?thesis
    proof (cases r2)
      case (Inl e)
      define t where "t = logf c (''sqlite connection initialization error: '' @ errorText e) s2"
      have s': "s' = snd (release (Connection k) (closeConnection plat) t)"
        using assms(2) Inl by (auto simp: r t_def split: connError.splits)
      have t: "sameHoldings (s\<lparr> resources := Connection k # resources s, opened := k + 1 \<rparr>) t"
        unfolding t_def using h2 logf_same by (rule sameHoldings_trans)
      have "removeAll (Connection k) (resources t) = resources s"
        using t assms(1) h(1) by (simp add: sameHoldings_def fresh_def removeAll_new [where n = "opened s"])
      then have "restored s s'"
        using t h(1) released_snd [of "Connection k" t "closeConnection plat"] unfolding s' restored_def
        by (intro exI [of _ "k + 1"]) (simp add: sameHoldings_def)
      then show ?thesis ..
    next
      case (Inr y)
      then show ?thesis using assms(2) h2 h(1) by (auto simp: r sameHoldings_def)
    qed
  qed
qed

lemma serveConnection_holds:
  "serveConnection plat c conn payloads s = (Inr replies, s') \<Longrightarrow>
     sameHoldings (s\<lparr> resources := removeAll (Connection (fst conn)) (resources s), connections := remove1 conn (connections s) \<rparr>) s'"
proof -
  assume a: "serveConnection plat c conn payloads s = (Inr replies, s')"
  obtain k cid where conn: "conn = (k, cid)" by fastforce
  obtain r1 s1 where 1: "onBackend (runConnection ((configuredServer c)\<lparr> engine := connectionEnv plat k (engine (configuredServer c)) \<rparr>) cid payloads) s = (r1, s1)"
    by fastforce
  obtain reps how where r1: "r1 = Inr (reps, how)"
    using a 1 by (auto simp: serveConnection_def conn Let_def split: sum.splits prod.splits)
  define t where "t = (case endMessage cid how of None \<Rightarrow> logQueries c s s1 | Some message \<Rightarrow> logf c message (logQueries c s s1))"
  have s': "s' = (snd (release (Connection k) (closeConnection plat) t))\<lparr> connections := remove1 conn (connections (snd (release (Connection k) (closeConnection plat) t))) \<rparr>"
    using a 1 by (simp add: serveConnection_def conn Let_def r1 t_def)
  have "sameHoldings s1 t"
    by (auto simp: t_def logQueries_def logf_def sameHoldings_def split: option.splits)
  then have "sameHoldings s t" using onBackend_same [OF 1] by (rule sameHoldings_trans [rotated])
  then show ?thesis
    using released_snd [of "Connection k" t "closeConnection plat"] unfolding s' conn by (simp add: sameHoldings_def)
qed

subsection \<open>Runs\<close>

lemma heldBy_more: "heldBy s r \<Longrightarrow> heldBy (s\<lparr> connections := connections s @ cs \<rparr>) r"
  by (auto simp: heldBy_def split: resource.splits)

lemma still_running: "n \<in> fst ` set cs \<Longrightarrow> n \<noteq> fst x \<Longrightarrow> n \<in> fst ` set (remove1 x cs)"
  by (metis (no_types, lifting) imageE imageI in_set_remove1)

lemma step_wellHeld: "life_step plat c s ev s' \<Longrightarrow> wellHeld s \<Longrightarrow> wellHeld s'"
proof (erule life_stepE)
  fix r assume w: "wellHeld s" and st: "startServer plat c s = (r, s')" "r \<noteq> Inl Panicked"
  show "wellHeld s'"
    using startServer_cases [OF w st] w
    by (auto split: if_splits intro: wellHeld_restored wellHeld_same [OF wellHeld_listening])
next
  assume w: "wellHeld s" and a: "acceptConnection plat c s = (Inr (), s')"
  have "fresh s" using w by (simp add: wellHeld_def)
  from acceptConnection_cases [OF this a] show "wellHeld s'"
  proof
    assume "restored s s'"
    with w show ?thesis by (rule wellHeld_restored)
  next
    assume h: "sameHoldings (s\<lparr> resources := Connection (opened s) # resources s, opened := opened s + 1,
        connections := connections s @ [(opened s, nextConnectionID s)], nextConnectionID := nextConnectionID s + 1 \<rparr>) s'"
    show ?thesis
      by (rule wellHeld_same [OF _ h]) (use w in \<open>auto simp: wellHeld_def fresh_def heldBy_def nothingKept_def split: resource.splits\<close>)
  qed
next
  fix conn payloads replies assume w: "wellHeld s" and a: "serveConnection plat c conn payloads s = (Inr replies, s')"
  have "wellHeld (s\<lparr> resources := removeAll (Connection (fst conn)) (resources s), connections := remove1 conn (connections s) \<rparr>)"
    unfolding wellHeld_def
  proof (intro conjI ballI)
    fix r assume "r \<in> set (resources (s\<lparr> resources := removeAll (Connection (fst conn)) (resources s), connections := remove1 conn (connections s) \<rparr>))"
    then have "heldBy s r" "r \<noteq> Connection (fst conn)" using w by (auto simp: wellHeld_def)
    then show "heldBy (s\<lparr> resources := removeAll (Connection (fst conn)) (resources s), connections := remove1 conn (connections s) \<rparr>) r"
      using still_running [of _ "connections s" conn] by (cases r) (auto simp: heldBy_def)
  qed (use w in \<open>simp_all add: wellHeld_def fresh_def nothingKept_def\<close>)
  then show "wellHeld s'" using serveConnection_holds [OF a] by (rule wellHeld_same)
next
  fix r assume w: "wellHeld s" and "resetRunning plat c s = (r, s')"
  then show "wellHeld s'" using resetRunning_same wellHeld_same by blast
next
  assume w: "wellHeld s" and s': "s' = beginClose plat s"
  have "wellHeld (s\<lparr> closeOnce := closeOnce (beginClose plat s),
      resources := filter (\<lambda>x. \<forall>n. x = Listener n \<longrightarrow> keptListener s \<noteq> Some n) (resources s) \<rparr>)"
    using w by (auto simp: wellHeld_def fresh_def heldBy_def nothingKept_def split: resource.splits)
  then show "wellHeld s'" unfolding s' using beginClose_holds [of s plat] wellHeld_same by blast
next
  fix l r assume w: "wellHeld s" and e: "endClose plat l s = (r, s')"
  have "wellHeld ((withoutKept s)\<lparr> closeOnce := Closed \<rparr>)"
    using wellHeld_withoutKept [OF w] by (auto simp: wellHeld_def fresh_def heldBy_def nothingKept_def split: resource.splits)
  then show "wellHeld s'" using endClose_holds [OF e] by (rule wellHeld_same)
qed simp

lemma run_wellHeld: "life_run plat c s evs s' \<Longrightarrow> wellHeld s \<Longrightarrow> wellHeld s'"
  by (induction rule: life_run.induct) (auto dest: step_wellHeld)

lemma newRunning_wellHeld: "wellHeld (newRunning c w)"
  by (simp add: newRunning_def wellHeld_def fresh_def nothingKept_def)

text \<open>A server with a listener keeps it, and cannot be started.\<close>

lemma step_keepsListener:
  assumes "life_step plat c s ev s'" "wellHeld s" "keptListener s \<noteq> None"
  shows "keptListener s' = keptListener s \<and> ev \<noteq> Started (Inr ())"
  using assms(1)
proof (cases rule: life_step.cases)
  case (starting r)
  then show ?thesis using assms(3) by (auto simp: startServer_def fail_def)
next
  case (accepting l)
  have "fresh s" using assms(2) by (simp add: wellHeld_def)
  from acceptConnection_cases [OF this accepting(4)] show ?thesis using accepting by (auto simp: restored_def sameHoldings_def)
next
  case (serving conn payloads replies)
  show ?thesis using serveConnection_holds [OF serving(3)] serving(1) by (simp add: sameHoldings_def)
next
  case (resetting r)
  show ?thesis using resetRunning_same [OF resetting(2)] resetting(1) by (simp add: sameHoldings_def)
next
  case closing
  show ?thesis using beginClose_holds [of s plat] closing by (simp add: sameHoldings_def)
next
  case (closed l r)
  show ?thesis using endClose_holds [OF closed(4)] closed(1) by (simp add: sameHoldings_def withoutKept_def)
qed auto

lemma run_keepsListener:
  "life_run plat c s evs s' \<Longrightarrow> wellHeld s \<Longrightarrow> keptListener s \<noteq> None \<Longrightarrow> keptListener s' \<noteq> None \<and> Started (Inr ()) \<notin> set evs"
proof (induction rule: life_run.induct)
  case (run_snoc evs s1 ev s2)
  then show ?case using step_keepsListener [OF run_snoc.hyps(2)] run_wellHeld [OF run_snoc.hyps(1)] by auto
qed simp

lemma started_listens: "life_run plat c s evs s' \<Longrightarrow> wellHeld s \<Longrightarrow> Started (Inr ()) \<in> set evs \<Longrightarrow> keptListener s' \<noteq> None"
proof (induction rule: life_run.induct)
  case (run_snoc evs s1 ev s2)
  have w: "wellHeld s1" using run_snoc run_wellHeld by blast
  show ?case
  proof (cases "Started (Inr ()) \<in> set evs")
    case True
    then show ?thesis using run_snoc w step_keepsListener [OF run_snoc.hyps(2) w] by simp
  next
    case False
    then have "ev = Started (Inr ())" using run_snoc.prems(2) by simp
    then have "startServer plat c s1 = (Inr (), s2)" using run_snoc.hyps(2) by (auto elim: life_stepE)
    then have "sameHoldings (listening s1) s2" using startServer_cases [OF w, of plat c "Inr ()" s2] by simp
    then show ?thesis by (simp add: sameHoldings_def listening_def Let_def)
  qed
qed simp

text \<open>After \<open>Close\<close> has been called and while no start succeeds: there is no listener, and nothing at all once it has returned.\<close>

definition shut :: "'d running \<Rightarrow> bool" where
  "shut s = ((\<forall>n. Listener n \<notin> set (resources s)) \<and> closeOnce s \<noteq> NotClosed \<and>
     (closeOnce s = Closed \<longrightarrow> connections s = [] \<and> nothingKept s))"

lemma shut_same: "shut s \<Longrightarrow> sameHoldings s s' \<Longrightarrow> shut s'"
  by (simp add: shut_def sameHoldings_def nothingKept_def)

lemma step_shut:
  assumes "life_step plat c s ev s'" "wellHeld s" "shut s" "ev \<noteq> Started (Inr ())"
  shows "shut s'"
  using assms(1)
proof (cases rule: life_step.cases)
  case (starting r)
  have "isl r" using assms(4) starting(1) by (cases r) auto
  then have "restored s s'" using startServer_cases [OF assms(2) starting(2,3)] by simp
  then show ?thesis using assms(3) by (auto simp: shut_def restored_def sameHoldings_def nothingKept_def)
next
  case (accepting l)
  then show ?thesis using assms(3) by (auto simp: shut_def)
next
  case (serving conn payloads replies)
  then have "shut (s\<lparr> resources := removeAll (Connection (fst conn)) (resources s), connections := remove1 conn (connections s) \<rparr>)"
    using assms(3) by (auto simp: shut_def nothingKept_def)
  then show ?thesis using serveConnection_holds [OF serving(3)] by (rule shut_same)
next
  case (resetting r)
  show ?thesis using assms(3) resetRunning_same [OF resetting(2)] by (rule shut_same)
next
  case closing
  then show ?thesis using assms(3) by (simp add: shut_def)
next
  case (closed l r)
  have "shut ((withoutKept s)\<lparr> closeOnce := Closed \<rparr>)"
    using assms(3) closed(3) by (auto simp: shut_def withoutKept_def nothingKept_def)
  then show ?thesis using endClose_holds [OF closed(4)] by (rule shut_same)
qed (use assms(3) in auto)

lemma step_closed:
  assumes "life_step plat c s ev s'" "wellHeld s" "closeOnce s = Closed \<or> ev = CloseReturned x"
  shows "closeOnce s' = Closed"
  using assms(1)
proof (cases rule: life_step.cases)
  case (starting r)
  then show ?thesis
    using startServer_cases [OF assms(2) starting(2,3)] assms(3)
    by (auto simp: restored_def sameHoldings_def listening_def keeping_def Let_def split: if_splits)
next
  case (accepting l)
  have "fresh s" using assms(2) by (simp add: wellHeld_def)
  from acceptConnection_cases [OF this accepting(4)] show ?thesis
    using accepting(1) assms(3) by (auto simp: restored_def sameHoldings_def)
next
  case (serving conn payloads replies)
  show ?thesis using serveConnection_holds [OF serving(3)] serving(1) assms(3) by (simp add: sameHoldings_def)
next
  case (resetting r)
  show ?thesis using resetRunning_same [OF resetting(2)] resetting(1) assms(3) by (simp add: sameHoldings_def)
next
  case closing
  then show ?thesis using assms(3) by simp
next
  case (closed l r)
  show ?thesis using endClose_holds [OF closed(4)] by (simp add: sameHoldings_def)
qed simp

lemma run_shut:
  "life_run plat c s evs s' \<Longrightarrow> wellHeld s \<Longrightarrow> shut s \<Longrightarrow> Started (Inr ()) \<notin> set evs \<Longrightarrow>
     shut s' \<and> (closeOnce s = Closed \<or> (\<exists>r. CloseReturned r \<in> set evs) \<longrightarrow> closeOnce s' = Closed)"
proof (induction rule: life_run.induct)
  case (run_snoc evs s1 ev s2)
  have 1: "shut s1" "wellHeld s1" "closeOnce s = Closed \<or> (\<exists>r. CloseReturned r \<in> set evs) \<longrightarrow> closeOnce s1 = Closed"
    using run_snoc run_wellHeld [OF run_snoc.hyps(1)] by auto
  have "shut s2" by (rule step_shut [OF run_snoc.hyps(2) 1(2,1)]) (use run_snoc.prems in auto)
  moreover have "closeOnce s2 = Closed" if "closeOnce s1 = Closed \<or> (\<exists>r. ev = CloseReturned r)"
    using step_closed [OF run_snoc.hyps(2) 1(2)] that by auto
  ultimately show ?case using 1(3) by auto
qed simp

lemma beginClose_shut: "wellHeld s \<Longrightarrow> shut (beginClose plat s)"
  using beginClose_holds [of s plat] by (auto simp: shut_def sameHoldings_def wellHeld_def heldBy_def split: resource.splits)

lemma run_append: "life_run plat c s (evs1 @ evs2) s' \<Longrightarrow> \<exists>t. life_run plat c s evs1 t \<and> life_run plat c t evs2 s'"
proof (induction "evs1 @ evs2" s' arbitrary: evs2 rule: life_run.induct)
  case run_nil
  then show ?case by (auto intro: life_run.run_nil)
next
  case (run_snoc evs s1 ev s2)
  show ?case
  proof (cases evs2 rule: rev_cases)
    case Nil
    then show ?thesis using run_snoc life_run.run_snoc life_run.run_nil by fastforce
  next
    case (snoc ys y)
    then have "evs = evs1 @ ys" "ev = y" using run_snoc.hyps(4) by auto
    then show ?thesis using run_snoc snoc life_run.run_snoc by metis
  qed
qed

lemma run_single: "life_run plat c s [ev] t \<Longrightarrow> life_step plat c s ev t"
  by (erule life_run.cases) (auto elim: life_run.cases)

lemma run_Cons: "life_run plat c s (ev # evs) s' \<Longrightarrow> \<exists>t. life_step plat c s ev t \<and> life_run plat c t evs s'"
  using run_append [of plat c s "[ev]" evs s'] run_single [of plat c s ev] by auto

lemma close_called_run:
  assumes "life_run plat c (newRunning c w) (evs1 @ CloseCalled # evs2) s"
    and "Started (Inr ()) \<in> set evs1 \<or> Started (Inr ()) \<notin> set evs2"
  shows "shut s \<and> wellHeld s \<and> ((\<exists>r. CloseReturned r \<in> set evs2) \<longrightarrow> closeOnce s = Closed)"
proof -
  obtain s1 t where r: "life_run plat c (newRunning c w) evs1 s1" "life_step plat c s1 CloseCalled t" "life_run plat c t evs2 s"
    using run_append [OF assms(1)] run_Cons by blast
  have w: "wellHeld s1" using r(1) newRunning_wellHeld by (rule run_wellHeld)
  have t: "t = beginClose plat s1" using r(2) by (auto elim: life_stepE)
  have wt: "wellHeld t" using r(2) w by (rule step_wellHeld)
  have "Started (Inr ()) \<notin> set evs2"
  proof (cases "Started (Inr ()) \<in> set evs1")
    case True
    then have "keptListener s1 \<noteq> None" using started_listens [OF r(1) newRunning_wellHeld] by blast
    then have "keptListener t \<noteq> None" unfolding t using beginClose_holds [of s1 plat] by (simp add: sameHoldings_def)
    then show ?thesis using run_keepsListener [OF r(3) wt] by simp
  qed (use assms(2) in simp)
  then show ?thesis
    using run_shut [OF r(3) wt] beginClose_shut [OF w] run_wellHeld [OF r(3) wt] unfolding t by blast
qed

text \<open>
  C7: a closed server holds nothing open. Whatever a server has been through (starts that fail at any point, clients, resets), once \<open>Close\<close>
  has been called and a call of it has returned, the listener, the databases and all connections to them are closed and no client is
  served, if the server was started before or is not started afterwards. In particular a start that fails leaves nothing open.
\<close>

theorem closed_server_holds_nothing:
  assumes "life_run plat c (newRunning c w) (evs1 @ CloseCalled # evs2) s" "CloseReturned r \<in> set evs2"
    and "Started (Inr ()) \<in> set evs1 \<or> Started (Inr ()) \<notin> set evs2"
  shows "resources s = [] \<and> connections s = []"
proof -
  have s: "shut s" "wellHeld s" "closeOnce s = Closed" using close_called_run [OF assms(1,3)] assms(2) by auto
  have "r \<notin> set (resources s)" for r
    using s by (cases r) (auto simp: shut_def wellHeld_def heldBy_def nothingKept_def)
  then show ?thesis using s by (cases "resources s") (auto simp: shut_def)
qed

text \<open>What stays open when a closed server is started.\<close>

definition leaked :: "nat \<Rightarrow> nat \<Rightarrow> nat \<Rightarrow> 'd running \<Rightarrow> bool" where
  "leaked h k l s = ({Database h, Connection k, Listener l} \<subseteq> set (resources s) \<and> fresh s \<and> keptListener s = Some l \<and>
     closeOnce s = Closed \<and> k \<notin> fst ` set (connections s))"

lemma step_leaked:
  assumes "life_step plat c s ev s'" "leaked h k l s"
  shows "leaked h k l s' \<and> (\<forall>r. ev = CloseReturned r \<longrightarrow> r = Inr ())"
  using assms(1)
proof (cases rule: life_step.cases)
  case (starting r)
  then have "s' = s" using assms(2) by (auto simp: startServer_def fail_def leaked_def)
  then show ?thesis using assms(2) starting(1) by simp
next
  case (accepting l)
  then have f: "fresh s" "k < opened s" using assms(2) by (auto simp: leaked_def fresh_def)
  from acceptConnection_cases [OF f(1) accepting(4)] show ?thesis
    using accepting(1) assms(2) f(2)
    by (auto simp: restored_def sameHoldings_def leaked_def fresh_def less_Suc_eq intro: less_le_trans)
next
  case (serving conn payloads replies)
  have "k \<noteq> fst conn" using serving(2) assms(2) by (auto simp: leaked_def)
  moreover have "k \<notin> fst ` set (remove1 conn (connections s))"
    using assms(2) set_remove1_subset [of conn "connections s"] by (auto simp: leaked_def)
  ultimately show ?thesis using serveConnection_holds [OF serving(3)] serving(1) assms(2) by (auto simp: sameHoldings_def leaked_def fresh_def)
next
  case (resetting r)
  then show ?thesis using resetRunning_same [OF resetting(2)] assms(2) by (simp add: sameHoldings_def leaked_def fresh_def)
next
  case closing
  then show ?thesis using assms(2) by (simp add: leaked_def)
next
  case (closed l r)
  then show ?thesis using assms(2) by (simp add: leaked_def)
next
  case closed_before
  then show ?thesis using assms(2) by simp
qed

lemma run_leaked:
  "life_run plat c s evs s' \<Longrightarrow> leaked h k l s \<Longrightarrow> leaked h k l s' \<and> (\<forall>r. CloseReturned r \<in> set evs \<longrightarrow> r = Inr ())"
  by (induction rule: life_run.induct) (auto dest: step_leaked)

text \<open>An outside world where everything succeeds, and a server with the default configuration in it.\<close>

definition agreeableEnv :: "unit env" where
  "agreeableEnv = refusingEnv\<lparr> Exec := (\<lambda>_ _ d. (Inr (0, 0), d)),
     Query := (\<lambda>_ _ d. (Inr \<lparr> rowNames = [], rowTypes = None, rowValues = [], rowError = None \<rparr>, d)) \<rparr>"

definition agreeablePlatform :: "unit platform" where
  "agreeablePlatform = \<lparr> openDatabase = (\<lambda>_ d. (Inr (), d)), openConnection = (\<lambda>d. (Inr (), d)), netListen = (\<lambda>addr d. (Inr addr, d)),
     closeListener = (\<lambda>d. (Inr (), d)), closeConnection = (\<lambda>d. (Inr (), d)), closeDatabase = (\<lambda>d. (Inr (), d)),
     connectionEnv = (\<lambda>_ env. env) \<rparr>"

definition exampleConfigured :: "unit configured" where
  "exampleConfigured = \<lparr> configuration = DefaultConfig [], configuredServer = exampleServer agreeableEnv,
     configuredSetup = \<lparr> schemaFiles = [], schemaTexts = [], readSchemaFile = (\<lambda>_. Inl []), seedFiles = [], readSeedFile = (\<lambda>_. Inl []),
       seedConfigured = [] \<rparr>, logEnabled = False, logFormat = ''text'', serverPointer = [] \<rparr>"

abbreviation exampleRunning :: "unit running" where
  "exampleRunning \<equiv> newRunning exampleConfigured (newWorld () Map.empty 0)"

lemma agreeable_exec: "execContext agreeableEnv q args = ret (0, 0)"
  by (simp add: fun_eq_iff execContext_def agreeableEnv_def ret_def)

lemma agreeable_query: "queryContext agreeableEnv q args = ret \<lparr> rowNames = [], rowTypes = None, rowValues = [], rowError = None \<rparr>"
  by (simp add: fun_eq_iff queryContext_def agreeableEnv_def ret_def)

lemma ret_simps: "andThen (ret x) f = f x" "wrapError context (ret x) = ret x" "andThen (getState g) (\<lambda>x. ret y) = ret y"
  "onError (ret x) cleanup = ret x" "onBackend (ret x) = ret x" "onFailure (ret x) cl = ret x"
  by (simp_all add: fun_eq_iff andThen_def ret_def wrapError_def getState_def onError_def onBackend_def onFailure_def)

lemma agreeable_execWrapped: "execWrapped agreeableEnv context q args = ret ()"
  by (simp add: execWrapped_def agreeable_exec ret_simps)

lemma forEach_ret: "forEach (\<lambda>_ x. ret ()) () xs = ret ()"
  by (induction xs) (simp_all add: ret_simps)

lemma agreeable_setup: "prepareInformationSchema agreeableEnv = ret ()" "initialSetup agreeableEnv (configuredSetup exampleConfigured) = ret ()"
  by (simp_all add: prepareInformationSchema_def ensureInformationSchemaAttached_def createInformationSchemaTables_def agreeable_query ret_simps
      orScanError_def rowsErr_def agreeable_execWrapped forEach_ret initialSetup_def preparedSchemaStatements_def preparedSeedBlocks_def
      withSQLiteTransaction_def setUp_def applySchema_def applySeed_def exampleConfigured_def)

lemma example_platform:
  "openDatabase agreeablePlatform dsn d = (Inr (), d)" "openConnection agreeablePlatform d = (Inr (), d)"
  "netListen agreeablePlatform addr d = (Inr addr, d)" "closeListener agreeablePlatform d = (Inr (), d)"
  "closeConnection agreeablePlatform d = (Inr (), d)" "closeDatabase agreeablePlatform d = (Inr (), d)"
  "connectionEnv agreeablePlatform k env = env" "engine (configuredServer exampleConfigured) = agreeableEnv"
  by (simp_all add: agreeablePlatform_def exampleConfigured_def exampleServer_def)

lemma example_acquire:
  "acquire kind (\<lambda>d. (Inr x, d)) s = (Inr (opened s, x), s\<lparr> resources := kind (opened s) # resources s, opened := opened s + 1 \<rparr>)"
  by (simp add: acquire_def outside_def onBackend_def andThen_def getState_def putState_def ret_def)

lemma example_starts: "\<exists>s'. startServer agreeablePlatform exampleConfigured s = (Inr (), s')" if "keptListener s = None"
proof -
  have o: "openDatabase agreeablePlatform dsn = (\<lambda>d. (Inr (), d))" "openConnection agreeablePlatform = (\<lambda>d. (Inr (), d))"
    "netListen agreeablePlatform addr = (\<lambda>d. (Inr addr, d))" for dsn addr
    by (simp_all add: fun_eq_iff example_platform)
  show ?thesis
    using that
    by (simp add: startServer_def openBackend_def o andThen_def [of "acquire k f" for k f] example_acquire onFailure_def [of "acquire k f" for k f]
        example_platform agreeable_exec agreeable_setup ret_simps Let_def)
      (simp add: andThen_def putState_def ret_def onFailure_def example_acquire)
qed

lemma run_then: "life_run plat c s evs t \<Longrightarrow> life_step plat c t ev u \<Longrightarrow> evs' = evs @ [ev] \<Longrightarrow> life_run plat c s evs' u"
  by (simp add: life_run.run_snoc)

lemma idle_closes:
  assumes "life_run plat c s0 evs s" "closeOnce s = NotClosed" "connections s = []"
  shows "\<exists>r t. life_run plat c s0 (evs @ [CloseCalled, CloseReturned r]) t \<and> closeOnce t = Closed \<and> keptListener t = keptListener s"
proof -
  obtain l where b: "closeOnce (beginClose plat s) = Closing l" "connections (beginClose plat s) = []" "keptListener (beginClose plat s) = keptListener s"
    using beginClose_holds [of s plat] assms(3) by (auto simp: sameHoldings_def)
  obtain r t where e: "endClose plat l (beginClose plat s) = (r, t)" by fastforce
  have "life_run plat c s0 (evs @ [CloseCalled]) (beginClose plat s)"
    using assms(1) life_step.closing [OF assms(2)] by (rule life_run.run_snoc)
  from run_then [OF this life_step.closed [OF b(1,2) e]]
  have "life_run plat c s0 (evs @ [CloseCalled, CloseReturned r]) t" by simp
  then show ?thesis using endClose_holds [OF e] b(3) by (auto simp: sameHoldings_def withoutKept_def)
qed

lemma example_started:
  assumes "life_run agreeablePlatform exampleConfigured s0 evs s" "wellHeld s" "keptListener s = None"
  shows "\<exists>t. life_run agreeablePlatform exampleConfigured s0 (evs @ [Started (Inr ())]) t \<and> closeOnce t = closeOnce s \<and> connections t = connections s"
proof -
  obtain t where t: "startServer agreeablePlatform exampleConfigured s = (Inr (), t)" using example_starts [OF assms(3)] by blast
  have "life_run agreeablePlatform exampleConfigured s0 (evs @ [Started (Inr ())]) t"
    by (rule life_run.run_snoc [OF assms(1) life_step.starting [OF t]]) simp
  moreover have "sameHoldings (listening s) t" using startServer_cases [OF assms(2) t] by simp
  ultimately show ?thesis by (auto simp: sameHoldings_def listening_def keeping_def Let_def)
qed

theorem closed_server_holds_nothing_witness:
  "\<exists>r s. life_run agreeablePlatform exampleConfigured exampleRunning [Started (Inr ()), CloseCalled, CloseReturned r] s \<and> resources s = []"
proof -
  have e: "closeOnce exampleRunning = NotClosed" "connections exampleRunning = []" "keptListener exampleRunning = None"
    by (simp_all add: newRunning_def)
  obtain s1 where 1: "life_run agreeablePlatform exampleConfigured exampleRunning [Started (Inr ())] s1" "closeOnce s1 = NotClosed" "connections s1 = []"
    using example_started [OF life_run.run_nil newRunning_wellHeld e(3)] e(1,2) by auto
  obtain r t where "life_run agreeablePlatform exampleConfigured exampleRunning ([Started (Inr ())] @ CloseCalled # [CloseReturned r]) t"
    using idle_closes [OF 1] by auto
  then show ?thesis using closed_server_holds_nothing [of agreeablePlatform exampleConfigured _ "[Started (Inr ())]" "[CloseReturned r]" t r] by auto
qed

text \<open>
  C8: starting a server that has been closed without having been started leaks. \<open>Start\<close> then succeeds like the first time, but \<open>Close\<close> has been
  used up: whatever happens afterwards, the database, the connection to it and the listener stay open, and every call of \<open>Close\<close>
  reports success.
\<close>

theorem start_after_close_leaks:
  assumes "life_run plat c (newRunning c w) (evs1 @ CloseCalled # evs2) s" "CloseReturned r \<in> set evs2"
    and "life_step plat c s (Started (Inr ())) s1" "life_run plat c s1 evs3 s2"
  shows "(\<exists>h k l. {Database h, Connection k, Listener l} \<subseteq> set (resources s2)) \<and> (\<forall>r'. CloseReturned r' \<in> set evs3 \<longrightarrow> r' = Inr ())"
proof -
  have w: "wellHeld s" using assms(1) newRunning_wellHeld by (rule run_wellHeld)
  have "startServer plat c s = (Inr (), s1)" using assms(3) by (auto elim: life_stepE)
  then have l: "keptListener s = None" "sameHoldings (listening s) s1" using startServer_cases [OF w, of plat c "Inr ()" s1] by simp_all
  then have "Started (Inr ()) \<notin> set evs2" using started_listens [OF assms(1) newRunning_wellHeld] by auto
  then have "shut s" "closeOnce s = Closed" using close_called_run [OF assms(1)] assms(2) by auto
  then have "leaked (opened s) (opened s + 1) (opened s + 2) s1"
    using l(2) step_wellHeld [OF assms(3) w] by (simp add: leaked_def sameHoldings_def listening_def keeping_def shut_def wellHeld_def Let_def)
  from run_leaked [OF assms(4) this] show ?thesis unfolding leaked_def by blast
qed

theorem start_after_close_leaks_witness:
  "\<exists>r s. life_run agreeablePlatform exampleConfigured exampleRunning
     [CloseCalled, CloseReturned r, Started (Inr ()), CloseReturned (Inr ())] s \<and> resources s \<noteq> []"
proof -
  have e: "closeOnce exampleRunning = NotClosed" "connections exampleRunning = []" "keptListener exampleRunning = None"
    by (simp_all add: newRunning_def)
  obtain r t where t: "life_run agreeablePlatform exampleConfigured exampleRunning ([] @ CloseCalled # [CloseReturned r]) t"
      "closeOnce t = Closed" "keptListener t = None"
    using idle_closes [where plat = agreeablePlatform and c = exampleConfigured, OF life_run.run_nil e(1,2)] e(3) by auto
  obtain s where s: "life_run agreeablePlatform exampleConfigured exampleRunning (([] @ CloseCalled # [CloseReturned r]) @ [Started (Inr ())]) s"
      "closeOnce s = Closed"
    using example_started [OF t(1) run_wellHeld [OF t(1) newRunning_wellHeld] t(3)] t(2) by auto
  obtain t' where t': "life_run agreeablePlatform exampleConfigured exampleRunning ([] @ CloseCalled # [CloseReturned r]) t'"
      "life_step agreeablePlatform exampleConfigured t' (Started (Inr ())) s"
    using run_append [OF s(1)] run_single by blast
  have c: "life_step agreeablePlatform exampleConfigured s (CloseReturned (Inr ())) s" using s(2) by (rule life_step.closed_before)
  have "life_run agreeablePlatform exampleConfigured exampleRunning [CloseCalled, CloseReturned r, Started (Inr ()), CloseReturned (Inr ())] s"
    using run_then [OF s(1) c] by simp
  moreover have "resources s \<noteq> []"
    using start_after_close_leaks [OF t'(1) _ t'(2) run_then [OF life_run.run_nil c], of r] by auto
  ultimately show ?thesis by blast
qed

subsection \<open>Connection ids\<close>

definition servedIDs :: "event list \<Rightarrow> 32 word list" where
  "servedIDs evs = concat (map (\<lambda>ev. case ev of Served cid _ \<Rightarrow> [cid] | _ \<Rightarrow> []) evs)"

definition idsGiven :: "32 word \<Rightarrow> event list \<Rightarrow> 'd running \<Rightarrow> bool" where
  "idsGiven start evs s = (\<exists>n \<le> length (filter ((=) Accepted) evs). nextConnectionID s = start + of_nat n \<and>
     mset (servedIDs evs @ map snd (connections s)) = mset (map (\<lambda>k. start + of_nat k) [0..<n]))"

lemma idsGiven_same: "idsGiven start evs s \<Longrightarrow> sameHoldings s s' \<Longrightarrow> idsGiven start evs s'"
  by (simp add: idsGiven_def sameHoldings_def)

lemma idsGiven_other: "idsGiven start evs s \<Longrightarrow> ev \<noteq> Accepted \<Longrightarrow> (\<forall>cid reps. ev \<noteq> Served cid reps) \<Longrightarrow> idsGiven start (evs @ [ev]) s"
  by (auto simp: idsGiven_def servedIDs_def split: event.splits)

lemma step_idsGiven:
  assumes "life_step plat c s ev s'" "wellHeld s" "idsGiven start evs s"
  shows "idsGiven start (evs @ [ev]) s'"
  using assms(1)
proof (cases rule: life_step.cases)
  case (starting r)
  then have "idsGiven start (evs @ [ev]) s" using assms(3) by (simp add: idsGiven_other)
  then show ?thesis
    using startServer_cases [OF assms(2) starting(2,3)]
    by (auto simp: idsGiven_def restored_def sameHoldings_def listening_def keeping_def Let_def split: if_splits)
next
  case (accepting l)
  obtain n where n: "n \<le> length (filter ((=) Accepted) evs)" "nextConnectionID s = start + of_nat n"
      "mset (servedIDs evs @ map snd (connections s)) = mset (map (\<lambda>k. start + of_nat k) [0..<n])"
    using assms(3) by (auto simp: idsGiven_def)
  have ev: "servedIDs (evs @ [ev]) = servedIDs evs" "length (filter ((=) Accepted) (evs @ [ev])) = Suc (length (filter ((=) Accepted) evs))"
    using accepting(1) by (simp_all add: servedIDs_def)
  have "fresh s" using assms(2) by (simp add: wellHeld_def)
  from acceptConnection_cases [OF this accepting(4)] show ?thesis
  proof
    assume "restored s s'"
    then show ?thesis unfolding idsGiven_def ev using n by (intro exI [of _ n]) (auto simp: restored_def sameHoldings_def)
  next
    assume "sameHoldings (s\<lparr> resources := Connection (opened s) # resources s, opened := opened s + 1,
        connections := connections s @ [(opened s, nextConnectionID s)], nextConnectionID := nextConnectionID s + 1 \<rparr>) s'"
    then have "connections s' = connections s @ [(opened s, nextConnectionID s)]" "nextConnectionID s' = nextConnectionID s + 1"
      by (simp_all add: sameHoldings_def)
    then show ?thesis unfolding idsGiven_def ev using n by (intro exI [of _ "Suc n"]) (simp add: add.assoc)
  qed
next
  case (serving conn payloads replies)
  have m: "mset (connections s) = add_mset conn (mset (remove1 conn (connections s)))" using serving(2) by simp
  have "mset (map snd (connections s)) = add_mset (snd conn) (mset (map snd (remove1 conn (connections s))))"
    using arg_cong [of _ _ "image_mset snd", OF m] by simp
  then show ?thesis
    using assms(3) serveConnection_holds [OF serving(3)] serving(1) by (auto simp: idsGiven_def servedIDs_def sameHoldings_def)
next
  case (resetting r)
  then have "idsGiven start (evs @ [ev]) s" using assms(3) by (simp add: idsGiven_other)
  then show ?thesis using resetRunning_same [OF resetting(2)] by (rule idsGiven_same)
next
  case closing
  then have "idsGiven start (evs @ [ev]) s" using assms(3) by (simp add: idsGiven_other)
  then show ?thesis using beginClose_holds [of s plat] closing(2) by (auto simp: idsGiven_def sameHoldings_def)
next
  case (closed l r)
  then have "idsGiven start (evs @ [ev]) s" using assms(3) by (simp add: idsGiven_other)
  then show ?thesis using endClose_holds [OF closed(4)] by (auto simp: idsGiven_def sameHoldings_def withoutKept_def)
next
  case closed_before
  then show ?thesis using assms(3) by (simp add: idsGiven_other)
qed

lemma run_idsGiven:
  "life_run plat c s0 evs s \<Longrightarrow> wellHeld s0 \<Longrightarrow> idsGiven start [] s0 \<Longrightarrow> idsGiven start evs s"
  by (induction rule: life_run.induct) (auto intro: step_idsGiven run_wellHeld)

text \<open>
  C9: no two connections have the same id. The ids of the connections served and of those still running are all different, however
  connections, failed connections, resets, starts and closes interleave, for the first \<open>2^32\<close> clients accepted; then the counter wraps
  around.
\<close>

theorem connection_ids_distinct:
  assumes "life_run plat c (newRunning c w) evs s" "length (filter ((=) Accepted) evs) \<le> 2 ^ 32"
  shows "distinct (servedIDs evs @ map snd (connections s))"
proof -
  let ?start = "ConnectionIDStart (Server (configuration c))"
  have "idsGiven ?start [] (newRunning c w)" by (simp add: idsGiven_def servedIDs_def newRunning_def)
  from run_idsGiven [OF assms(1) newRunning_wellHeld this]
  obtain n where n': "n \<le> length (filter ((=) Accepted) evs)"
      and n: "mset (servedIDs evs @ map snd (connections s)) = mset (map (\<lambda>k. ?start + of_nat k) [0..<n])"
    unfolding idsGiven_def by blast
  have "inj_on (\<lambda>k. ?start + of_nat k) (set [0..<n])"
  proof (rule inj_onI)
    fix i j assume ij: "i \<in> set [0..<n]" "j \<in> set [0..<n]" "?start + of_nat i = ?start + of_nat j"
    then have "unat (of_nat i :: 32 word) = unat (of_nat j :: 32 word)" by simp
    then show "i = j" using ij(1,2) n' assms(2) by (simp add: unat_of_nat)
  qed
  then have "distinct (map (\<lambda>k. ?start + of_nat k) [0..<n])" by (simp add: distinct_map)
  then show ?thesis using n by (metis mset_eq_imp_distinct_iff)
qed

lemma example_accepts:
  assumes "life_run agreeablePlatform exampleConfigured s0 evs s" "keptListener s = Some l" "Listener l \<in> set (resources s)"
  shows "\<exists>t. life_run agreeablePlatform exampleConfigured s0 (evs @ [Accepted]) t \<and> keptListener t = Some l \<and>
     Listener l \<in> set (resources t) \<and> length (connections t) = Suc (length (connections s))"
proof -
  have o: "openConnection agreeablePlatform = (\<lambda>d. (Inr (), d))" by (simp add: fun_eq_iff example_platform)
  have p: "\<not> usesPrivateMemoryDB (configuration exampleConfigured)"
    by (simp add: usesPrivateMemoryDB_def exampleConfigured_def DefaultConfig_def)
  obtain t where t: "acceptConnection agreeablePlatform exampleConfigured s = (Inr (), t)" "keptListener t = keptListener s"
      "set (resources s) \<subseteq> set (resources t)" "length (connections t) = Suc (length (connections s))"
    by (simp add: acceptConnection_def o example_acquire example_platform agreeable_exec ret_simps p Let_def) (auto simp: ret_def)
  have "life_run agreeablePlatform exampleConfigured s0 (evs @ [Accepted]) t"
    by (rule life_run.run_snoc [OF assms(1) life_step.accepting [OF assms(2,3) t(1)]])
  then show ?thesis using t(2-4) assms(2,3) by auto
qed

theorem connection_ids_distinct_witness:
  "\<exists>s. life_run agreeablePlatform exampleConfigured exampleRunning [Started (Inr ()), Accepted, Accepted] s \<and>
     length (connections s) = 2 \<and> distinct (map snd (connections s))"
proof -
  have e: "keptListener exampleRunning = None" "connections exampleRunning = []" by (simp_all add: newRunning_def)
  obtain t where t: "startServer agreeablePlatform exampleConfigured exampleRunning = (Inr (), t)" using example_starts [OF e(1)] by blast
  have h: "sameHoldings (listening exampleRunning) t" using startServer_cases [OF newRunning_wellHeld t] by simp
  have l: "keptListener t = Some (opened exampleRunning + 2)" "Listener (opened exampleRunning + 2) \<in> set (resources t)" "connections t = []"
    using h e(2) by (simp_all add: sameHoldings_def listening_def keeping_def Let_def)
  have r: "life_run agreeablePlatform exampleConfigured exampleRunning [Started (Inr ())] t"
    using run_then [OF life_run.run_nil life_step.starting [OF t]] by simp
  obtain u where u: "life_run agreeablePlatform exampleConfigured exampleRunning ([Started (Inr ())] @ [Accepted]) u"
      "keptListener u = Some (opened exampleRunning + 2)" "Listener (opened exampleRunning + 2) \<in> set (resources u)" "length (connections u) = 1"
    using example_accepts [OF r l(1,2)] l(3) by auto
  obtain v where v: "life_run agreeablePlatform exampleConfigured exampleRunning (([Started (Inr ())] @ [Accepted]) @ [Accepted]) v"
      "length (connections v) = 2"
    using example_accepts [OF u(1-3)] u(4) by auto
  show ?thesis using connection_ids_distinct [OF v(1)] v by auto
qed

end
