(* ===== verification/Command_Line.thy ===== *)
theory Command_Line
  imports Lifecycle_Properties
begin

text \<open>
  The program \<open>mysqlmock\<close> (\<open>cmd/mysqlmock/main.go\<close>): its commands and flags, what \<open>serve\<close> writes, and the reports on unsupported
  queries and statistics (also of \<open>pkg/mysqlmock/diagnostics.go\<close> and \<open>pkg/mysqlmock/stats.go\<close>). Signals, the clock and the
  clients are a parameter: the states of the server at the times \<open>serve\<close> looks at it. The usage text that the flag
  package writes beside its errors is not modelled.
\<close>

subsection \<open>Statistics\<close>

datatype json = JNumber nat | JObject "(string \<times> json) list"

fun jsonEncode :: "json \<Rightarrow> string" and jsonMembers :: "(string \<times> json) list \<Rightarrow> string list" where
  "jsonEncode (JNumber n) = itoa n"
| "jsonEncode (JObject ms) = CHR ''{'' # Join (jsonMembers ms) '','' @ ''}''"
| "jsonMembers [] = []"
| "jsonMembers ((name, v) # ms) = (jsonText name @ '':'' @ jsonEncode v) # jsonMembers ms"

definition cloneCountMap :: "counts \<Rightarrow> counts" where
  "cloneCountMap m = fold (\<lambda>(key, v) out. AList.update key v out) m []"

definition cloneTimingBucketMap :: "buckets \<Rightarrow> buckets" where
  "cloneTimingBucketMap m = fold (\<lambda>(key, v) out. AList.update key v out) m []"

definition cloneMetadataStats :: "MetadataStats \<Rightarrow> MetadataStats" where
  "cloneMetadataStats m = m\<lparr> BroadInformationSchemaQueryReasons := cloneCountMap (BroadInformationSchemaQueryReasons m) \<rparr>"

definition statsSnapshot :: "statsStore \<Rightarrow> statsStore" where
  "statsSnapshot s = s\<lparr>
     queries := (queries s)\<lparr> ByCommand := cloneCountMap (ByCommand (queries s)), ByRoute := cloneCountMap (ByRoute (queries s)),
       ByKind := cloneCountMap (ByKind (queries s)) \<rparr>,
     metadata := cloneMetadataStats (metadata s),
     queryTimings := (queryTimings s)\<lparr> TimesByCommand := cloneTimingBucketMap (TimesByCommand (queryTimings s)),
       TimesByRoute := cloneTimingBucketMap (TimesByRoute (queryTimings s)), TimesByKind := cloneTimingBucketMap (TimesByKind (queryTimings s)) \<rparr>,
     phaseTimings := (phaseTimings s)\<lparr> ByPhase := cloneTimingBucketMap (ByPhase (phaseTimings s)) \<rparr> \<rparr>"

text \<open>The keys of a map are written in their order.\<close>

definition jsonCounter :: "64 word \<Rightarrow> json" where
  "jsonCounter n = JNumber (unat n)"

definition jsonMap :: "('a \<Rightarrow> json) \<Rightarrow> (string \<times> 'a) list \<Rightarrow> json" where
  "jsonMap f m = JObject (map (\<lambda>key. (key, f (the (map_of m key)))) (sortedKeys m))"

definition bucketMembers :: "TimingBucket \<Rightarrow> (string \<times> json) list" where
  "bucketMembers b = [(''count'', jsonCounter (Count b)), (''total_ns'', jsonCounter (TotalNanos b)), (''max_ns'', jsonCounter (MaxNanos b))]"

definition jsonBuckets :: "buckets \<Rightarrow> json" where
  "jsonBuckets = jsonMap (\<lambda>b. JObject (bucketMembers b))"

definition metadataMembers :: "MetadataStats \<Rightarrow> (string \<times> json) list" where
  "metadataMembers m =
     [(''information_schema_queries'', jsonCounter (InformationSchemaQueries m)),
      (''targeted_information_schema_queries'', jsonCounter (TargetedInformationSchemaQueries m)),
      (''broad_information_schema_queries'', jsonCounter (BroadInformationSchemaQueries m))] @
     (if BroadInformationSchemaQueryReasons m = [] then []
      else [(''broad_information_schema_query_reasons'', jsonMap jsonCounter (BroadInformationSchemaQueryReasons m))]) @
     [(''show_full_fields_queries'', jsonCounter (ShowFullFieldsQueries m)),
      (''show_create_table_queries'', jsonCounter (ShowCreateTableQueries m)), (''show_keys_queries'', jsonCounter (ShowKeysQueries m)),
      (''target_table_refreshes'', jsonCounter (TargetTableRefreshes m)), (''target_table_cache_hits'', jsonCounter (TargetTableCacheHits m)),
      (''target_table_misses'', jsonCounter (TargetTableMisses m)), (''full_refreshes'', jsonCounter (FullRefreshes m)),
      (''full_refresh_cache_hits'', jsonCounter (FullRefreshCacheHits m)), (''tables_loaded'', jsonCounter (TablesLoaded m))]"

definition statsJSON :: "statsStore \<Rightarrow> json" where
  "statsJSON s = JObject
     [(''queries'', JObject [(''total'', jsonCounter (Total (queries s))), (''by_command'', jsonMap jsonCounter (ByCommand (queries s))),
        (''by_route'', jsonMap jsonCounter (ByRoute (queries s))), (''by_kind'', jsonMap jsonCounter (ByKind (queries s)))]),
      (''metadata'', JObject (metadataMembers (metadata s))),
      (''resets'', JObject [(''total'', jsonCounter (ResetTotal (resets s))), (''data_only'', jsonCounter (DataOnly (resets s))),
        (''full'', jsonCounter (Full (resets s)))]),
      (''timings'', JObject
        [(''queries'', JObject (bucketMembers (QueryTimes (queryTimings s)) @
           [(''by_command'', jsonBuckets (TimesByCommand (queryTimings s))), (''by_route'', jsonBuckets (TimesByRoute (queryTimings s))),
            (''by_kind'', jsonBuckets (TimesByKind (queryTimings s)))])),
         (''phases'', JObject (bucketMembers (PhaseTimes (phaseTimings s)) @ [(''by_phase'', jsonBuckets (ByPhase (phaseTimings s)))]))]),
      (''schema_changes'', jsonCounter (schemaChanges s)), (''unsupported'', jsonCounter (unsupported s))]"

definition writeServeStats :: "'d running \<Rightarrow> string" where
  "writeServeStats s = jsonEncode (statsJSON (statsSnapshot (stats (backend s)))) @ [nl]"

subsection \<open>Unsupported queries\<close>

definition unsupportedEntry :: "nat \<Rightarrow> UnsupportedQuery \<Rightarrow> string" where
  "unsupportedEntry i q =
     nl # nl # itoa (i + 1) @ ''. '' @ unSQL q @
     (if unNormalizedSQL q \<noteq> [] then nl # ''normalized: '' @ unNormalizedSQL q else []) @
     (if unConnectionID q \<noteq> 0 then nl # ''connection_id: '' @ itoa (unat (unConnectionID q)) else []) @
     (if unCommand q \<noteq> [] then nl # ''command: '' @ unCommand q else []) @
     (if unCurrentDB q \<noteq> [] then nl # ''database: '' @ unCurrentDB q else []) @
     (if unRouteStage q \<noteq> [] then nl # ''route_stage: '' @ unRouteStage q else []) @
     nl # unSuggestion q"

definition unsupportedQueriesError :: "UnsupportedQuery list \<Rightarrow> string option" where
  "unsupportedQueriesError qs =
     (if qs = [] then None
      else Some (''unsupported queries observed: '' @ itoa (length qs) @ concat (map (\<lambda>(i, q). unsupportedEntry i q) (List.enumerate 0 qs))))"

text \<open>
  The checks until the program is stopped: one at once, one for each tick of the clock, one after the stop. \<open>snapshots\<close> are what
  \<open>server.Unsupported()\<close> returns at them.
\<close>

fun serveChecks :: "UnsupportedQuery list list \<Rightarrow> string option" where
  "serveChecks [] = None"
| "serveChecks (seen # later) = (case unsupportedQueriesError seen of Some e \<Rightarrow> Some e | None \<Rightarrow> serveChecks later)"

definition waitForServeStop :: "bool \<Rightarrow> UnsupportedQuery list list \<Rightarrow> string option" where
  "waitForServeStop failOnUnsupported snapshots = (if failOnUnsupported then serveChecks snapshots else None)"

text \<open>The text a test fails with, if it does.\<close>

definition AssertNoUnsupported :: "UnsupportedQuery list \<Rightarrow> string option" where
  "AssertNoUnsupported qs =
     (if qs = [] then None
      else Some (''mysqlmock observed '' @ itoa (length qs) @ '' unsupported queries:'' @ nl #
        Join (map (\<lambda>q. unCommand q @ '' '' @ unRouteStage q @ '': '' @ unSQL q @
          (if unSuggestion q \<noteq> [] then nl # unSuggestion q else [])) qs) [nl, nl]))"

definition UnsupportedTemplate :: string where
  "UnsupportedTemplate = Join
     [''rules:'', ''  - name: generated unsupported query'', ''    request:'', ''      match: exact'',
      ''      sql: '' @ dq # ''SELECT @@example'' @ [dq], ''    response:'', ''      type: result_set'', ''      columns:'',
      ''        - name: '' @ dq # ''@@example'' @ [dq], ''          type: VARCHAR'', ''      rows:'',
      ''        - ['' @ dq # ''TODO'' @ dq # '']''] [nl]"

subsection \<open>Flags\<close>

text \<open>
  \<open>flag.FlagSet.Parse\<close> for text and boolean flags: each flag with whether it is boolean, the arguments, and the settings in their
  order or the error. An argument that is no flag ends the flags.
\<close>

definition parseBool :: "string \<Rightarrow> bool option" where
  "parseBool v =
     (if v \<in> {''1'', ''t'', ''T'', ''TRUE'', ''true'', ''True''} then Some True
      else if v \<in> {''0'', ''f'', ''F'', ''FALSE'', ''false'', ''False''} then Some False else None)"

definition flagText :: "bool \<Rightarrow> string" where
  "flagText b = (if b then ''true'' else ''false'')"

text \<open>A name with its value behind \<open>=\<close>, if there is one.\<close>

definition splitFlag :: "string \<Rightarrow> string \<times> string option" where
  "splitFlag text =
     (let name = takeWhile (\<lambda>ch. ch \<noteq> CHR ''='') text in
      (name, if length name < length text then Some (drop (length name + 1) text) else None))"

fun parseFlags :: "(string \<times> bool) list \<Rightarrow> (string \<times> string) list \<Rightarrow> string list \<Rightarrow> string + (string \<times> string) list" where
  "parseFlags specs settings [] = Inr settings"
| "parseFlags specs settings (arg # args) =
     (if length arg < 2 \<or> hd arg \<noteq> CHR ''-'' then Inr settings
      else if arg = ''--'' then Inr settings
      else let text = (if HasPrefix arg ''--'' then drop 2 arg else drop 1 arg) in
        if text = [] \<or> hd text = CHR ''-'' \<or> hd text = CHR ''='' then Inl (''bad flag syntax: '' @ arg)
        else (case splitFlag text of (name, v) \<Rightarrow>
          (case map_of specs name of
             None \<Rightarrow> Inl (if name = ''help'' \<or> name = ''h'' then ''flag: help requested'' else ''flag provided but not defined: -'' @ name)
           | Some True \<Rightarrow>
               (case v of
                  None \<Rightarrow> parseFlags specs (settings @ [(name, ''true'')]) args
                | Some given' \<Rightarrow> (case parseBool given' of
                      None \<Rightarrow> Inl (''invalid boolean value '' @ dq # given' @ dq # '' for -'' @ name @ '': parse error'')
                    | Some b \<Rightarrow> parseFlags specs (settings @ [(name, flagText b)]) args))
           | Some False \<Rightarrow>
               (case v of
                  Some given' \<Rightarrow> parseFlags specs (settings @ [(name, given')]) args
                | None \<Rightarrow> (case args of
                      [] \<Rightarrow> Inl (''flag needs an argument: -'' @ name)
                    | given' # args' \<Rightarrow> parseFlags specs (settings @ [(name, given')]) args')))))"

definition flagValue :: "(string \<times> string) list \<Rightarrow> string \<Rightarrow> string \<Rightarrow> string" where
  "flagValue settings name preset = (case map_of (rev settings) name of None \<Rightarrow> preset | Some v \<Rightarrow> v)"

definition flagSet :: "(string \<times> string) list \<Rightarrow> string \<Rightarrow> bool" where
  "flagSet settings name = (flagValue settings name ''false'' = ''true'')"

subsection \<open>Commands\<close>

text \<open>What the commands use beside the server: the texts of errors and of the configuration schema.\<close>

record 'd program =
  progPlatform :: "'d platform"
  progLoaders :: loaders
  progServer :: "'d server"
  progPointer :: string
  progState :: "'d world"
  startErrorText :: "start_error \<Rightarrow> string"
  configSchema :: string

text \<open>The error the process ends with, and what it has written.\<close>

record outcome =
  exitError :: "string option"
  stdoutText :: string
  stderrText :: string

definition failed :: "string \<Rightarrow> outcome" where
  "failed e = \<lparr> exitError = Some e, stdoutText = [], stderrText = [] \<rparr>"

definition printed :: "string \<Rightarrow> outcome" where
  "printed text = \<lparr> exitError = None, stdoutText = text @ [nl], stderrText = [] \<rparr>"

definition usage :: string where
  "usage = ''usage: mysqlmock <serve|check|dump-unsupported-template|dump-config-schema> [options]''"

definition serveSpecs :: "(string \<times> bool) list" where
  "serveSpecs = [(''config'', False), (''listen'', False), (''print-dsn'', True), (''print-stats'', True), (''verbose'', True),
     (''fail-on-unsupported'', True), (''log-format'', False)]"

definition serveOptions :: "(string \<times> string) list \<Rightarrow> (serverOptions \<Rightarrow> serverOptions) list" where
  "serveOptions settings =
     (let listen = flagValue settings ''listen'' [] in
      [ConfigFile (flagValue settings ''config'' [])] @ (if listen \<noteq> [] then [ListenOption listen] else []) @
      (if flagSet settings ''verbose'' then [LogWriter True] else []) @ [LogFormat (flagValue settings ''log-format'' ''given'')])"

definition writeServeReady :: "string \<Rightarrow> string \<Rightarrow> string" where
  "writeServeReady format addr =
     (if format = ''json'' then jsonLine [(''event'', jsonText ''ready''), (''addr'', jsonText addr)]
      else ''mysqlmock ready addr='' @ addr @ [nl])"

text \<open>
  A server that has been started: \<open>checks\<close> are its states at the checks, at least one. Its log goes to standard error as
  well. When \<open>serve\<close> returns the server is closed.
\<close>

definition serveStarted :: "(string \<times> string) list \<Rightarrow> 'd running \<Rightarrow> 'd running list \<Rightarrow> outcome" where
  "serveStarted settings started checks =
     (let stopped = last checks;
          err = waitForServeStop (flagSet settings ''fail-on-unsupported'') (map (\<lambda>s. unsupportedSnapshot (diagnostics (backend s))) checks)
      in \<lparr> exitError = err,
           stdoutText = (if flagSet settings ''print-dsn'' then DSN (listenAddr started) @ [nl] else []),
           stderrText = writeServeReady (flagValue settings ''log-format'' ''given'') (listenAddr started) @ concat (logged stopped) @
             (if flagSet settings ''print-stats'' then writeServeStats stopped else []) \<rparr>)"

definition serveMain :: "'d program \<Rightarrow> ('d configured \<Rightarrow> 'd running \<Rightarrow> 'd running list) \<Rightarrow> string list \<Rightarrow> outcome" where
  "serveMain prog life args =
     (case parseFlags serveSpecs [] args of
        Inl e \<Rightarrow> failed e
      | Inr settings \<Rightarrow>
          if flagValue settings ''config'' [] = [] then failed ''--config is required''
          else (case New (progLoaders prog) (progServer prog) (progPointer prog) (serveOptions settings) of
              Inl e \<Rightarrow> failed (startErrorText prog e)
            | Inr c \<Rightarrow>
                (case startServer (progPlatform prog) c (newRunning c (progState prog)) of
                   (Inl e, _) \<Rightarrow> failed (errorText e)
                 | (Inr _, started) \<Rightarrow> serveStarted settings started (life c started))))"

definition checkMain :: "'d program \<Rightarrow> string list \<Rightarrow> outcome" where
  "checkMain prog args =
     (case parseFlags [(''config'', False)] [] args of
        Inl e \<Rightarrow> failed e
      | Inr settings \<Rightarrow>
          let path = flagValue settings ''config'' [] in
          if path = [] then failed ''--config is required''
          else (case CheckConfigFile (progPlatform prog) (progLoaders prog) (progServer prog) (progPointer prog) path (progState prog) of
              Inl e \<Rightarrow> failed (startErrorText prog e)
            | Inr (Inl e) \<Rightarrow> failed (errorText e)
            | Inr (Inr _) \<Rightarrow> \<lparr> exitError = None, stdoutText = [], stderrText = [] \<rparr>))"

definition runMain :: "'d program \<Rightarrow> ('d configured \<Rightarrow> 'd running \<Rightarrow> 'd running list) \<Rightarrow> string list \<Rightarrow> outcome" where
  "runMain prog life args =
     (case args of
        [] \<Rightarrow> failed usage
      | command # rest \<Rightarrow>
          if command = ''serve'' then serveMain prog life rest
          else if command = ''check'' then checkMain prog rest
          else if command = ''dump-unsupported-template'' then printed UnsupportedTemplate
          else if command = ''dump-config-schema'' then printed (configSchema prog)
          else failed usage)"

text \<open>\<open>main\<close>: an error is written to standard error and the process ends with status 1.\<close>

definition mainProgram :: "'d program \<Rightarrow> ('d configured \<Rightarrow> 'd running \<Rightarrow> 'd running list) \<Rightarrow> string list \<Rightarrow> nat \<times> string \<times> string" where
  "mainProgram prog life args =
     (let out = runMain prog life args in
      case exitError out of
        None \<Rightarrow> (0, stdoutText out, stderrText out)
      | Some e \<Rightarrow> (1, stdoutText out, stderrText out @ e @ [nl]))"

subsection \<open>What the program reports\<close>

lemma serveChecks_None: "serveChecks snapshots = None \<longleftrightarrow> (\<forall>seen \<in> set snapshots. seen = [])"
  by (induction snapshots) (auto simp: unsupportedQueriesError_def)


definition exampleRefused :: UnsupportedQuery where
  "exampleRefused = \<lparr> unSQL = ''GRANT'', unNormalizedSQL = ''GRANT'', unConnectionID = 1, unCommand = ''COM_QUERY'', unCurrentDB = [],
     unRouteStage = ''unsupported'', unSuggestion = [] \<rparr>"


end
