(* ===== verification/Spec2Isabelle.thy ===== *)
theory Spec2Isabelle
  imports Sql_Properties Stmt_Machine Shared_State Stats Info_Cache Seed_Csv Snapshot_Json Auto_Increment_Properties Insert_Properties
    Statement_Properties Transactions Result_Types Sqlite_Functions Command_Line
begin

text \<open>
  Placeholder header.
\<close>

end
